(* ===== verification/Prelude.thy ===== *)
theory Prelude
  imports Main "HOL-Library.Word"
begin

text \<open>
  Shared vocabulary of the development: the scalar types of the program, tables as lists of rows,
  the effect of the SQL verbs on them, and the generic lemmas the component proofs share.

  A table is the list of its rows in insertion order. \<open>upd_where P f\<close> is \<open>UPDATE .. SET f WHERE P\<close>,
  \<open>filter\<close> is the \<open>WHERE\<close> of a query or (negated) of a \<open>DELETE\<close>, and \<open>unique_by k\<close> is the
  uniqueness a \<open>PRIMARY KEY\<close> or \<open>UNIQUE INDEX\<close> on the column expression \<open>k\<close> enforces.
\<close>

section \<open>Scalars\<close>

text \<open>A UUID is the 16-byte array of the Go code; times are nanoseconds since the Unix epoch;
  strings and byte slices are both lists of bytes.\<close>

type_synonym uuid = "128 word"
type_synonym time = int
type_synonym bytes = string

named_theorems table_simps \<open>rewrite rules for the table operations\<close>
named_theorems inv_intros \<open>an operation preserves an invariant\<close>

section \<open>Tables\<close>

definition upd_where :: "('r \<Rightarrow> bool) \<Rightarrow> ('r \<Rightarrow> 'r) \<Rightarrow> 'r list \<Rightarrow> 'r list" where
  "upd_where P f xs = map (\<lambda>r. if P r then f r else r) xs"

definition unique_by :: "('r \<Rightarrow> 'k) \<Rightarrow> 'r list \<Rightarrow> bool" where
  "unique_by k xs \<longleftrightarrow> distinct (map k xs)"

text \<open>How many rows a condition selects: \<open>RowsAffected()\<close> of an update or delete.\<close>

definition count_where :: "('r \<Rightarrow> bool) \<Rightarrow> 'r list \<Rightarrow> nat" where
  "count_where P xs = length (filter P xs)"

text \<open>\<open>ORDER BY k DESC\<close>, stable on ties.\<close>

definition order_desc :: "('r \<Rightarrow> int) \<Rightarrow> 'r list \<Rightarrow> 'r list" where
  "order_desc k xs = sort_key (\<lambda>r. - k r) xs"

lemma length_upd_where [simp]: "length (upd_where P f xs) = length xs"
  by (simp add: upd_where_def)

lemma upd_where_Nil [simp]: "upd_where P f [] = []"
  by (simp add: upd_where_def)

lemma upd_where_Cons [simp]:
  "upd_where P f (x # xs) = (if P x then f x else x) # upd_where P f xs"
  by (simp add: upd_where_def)

lemma upd_where_append [simp]: "upd_where P f (xs @ ys) = upd_where P f xs @ upd_where P f ys"
  by (simp add: upd_where_def)

lemma set_upd_where: "set (upd_where P f xs) = (\<lambda>r. if P r then f r else r) ` set xs"
  by (simp add: upd_where_def)

lemma in_upd_where:
  "r \<in> set (upd_where P f xs) \<longleftrightarrow> (\<exists>x \<in> set xs. r = (if P x then f x else x))"
  by (auto simp: set_upd_where)

text \<open>An update that leaves a column expression alone leaves everything that depends on it alone.\<close>

lemma map_upd_where [table_simps]: "(\<And>r. k (f r) = k r) \<Longrightarrow> map k (upd_where P f xs) = map k xs"
  by (simp add: upd_where_def)

lemma image_upd_where [table_simps]:
  "(\<And>r. k (f r) = k r) \<Longrightarrow> k ` set (upd_where P f xs) = k ` set xs"
  by (metis map_upd_where list.set_map)

lemma upd_where_none: "(\<And>r. r \<in> set xs \<Longrightarrow> \<not> P r) \<Longrightarrow> upd_where P f xs = xs"
  by (induction xs) auto

lemma upd_where_all: "(\<And>r. r \<in> set xs \<Longrightarrow> P r) \<Longrightarrow> upd_where P f xs = map f xs"
  by (induction xs) auto

lemma filter_upd_where:
  "(\<And>r. Q (f r) = Q r) \<Longrightarrow> filter Q (upd_where P f xs) = upd_where P f (filter Q xs)"
  by (induction xs) auto

lemma count_where_0: "count_where P xs = 0 \<longleftrightarrow> (\<forall>r \<in> set xs. \<not> P r)"
  by (auto simp: count_where_def filter_empty_conv)

lemma unique_by_Nil [simp]: "unique_by k []"
  by (simp add: unique_by_def)

lemma unique_by_append_one [simp]:
  "unique_by k (xs @ [x]) \<longleftrightarrow> unique_by k xs \<and> k x \<notin> k ` set xs"
  by (auto simp: unique_by_def)

lemma unique_by_upd_where [table_simps]:
  "(\<And>r. k (f r) = k r) \<Longrightarrow> unique_by k (upd_where P f xs) \<longleftrightarrow> unique_by k xs"
  by (simp add: unique_by_def map_upd_where)

lemma unique_by_filter: "unique_by k xs \<Longrightarrow> unique_by k (filter P xs)"
  by (auto simp: unique_by_def distinct_map inj_on_def)

lemma unique_byD:
  "unique_by k xs \<Longrightarrow> x \<in> set xs \<Longrightarrow> y \<in> set xs \<Longrightarrow> k x = k y \<Longrightarrow> x = y"
  by (auto simp: unique_by_def distinct_map dest: inj_onD)

section \<open>Looking a row up\<close>

lemma find_SomeD: "find P xs = Some r \<Longrightarrow> r \<in> set xs \<and> P r"
  by (induction xs) (auto split: if_splits)

lemma find_NoneD: "find P xs = None \<Longrightarrow> r \<in> set xs \<Longrightarrow> \<not> P r"
  by (induction xs) (auto split: if_splits)

lemma find_append: "find P (xs @ ys) = (case find P xs of None \<Rightarrow> find P ys | Some r \<Rightarrow> Some r)"
  by (induction xs) auto

lemma find_unique:
  "unique_by k xs \<Longrightarrow> r \<in> set xs \<Longrightarrow> find (\<lambda>x. k x = k r) xs = Some r"
proof (induction xs)
  case Nil
  then show ?case by simp
next
  case (Cons y ys)
  then show ?case
    by (cases "k y = k r") (auto simp: unique_by_def image_iff)
qed

lemma find_upd_where:
  "(\<And>r. Q (f r) = Q r) \<Longrightarrow>
   find Q (upd_where P f xs) = map_option (\<lambda>r. if P r then f r else r) (find Q xs)"
  by (induction xs) auto

lemma find_cong_set: "(\<And>r. r \<in> set xs \<Longrightarrow> P r = Q r) \<Longrightarrow> find P xs = find Q xs"
  by (induction xs) auto

section \<open>Ordering\<close>

lemma set_order_desc [simp]: "set (order_desc k xs) = set xs"
  by (simp add: order_desc_def)

lemma length_order_desc [simp]: "length (order_desc k xs) = length xs"
  by (simp add: order_desc_def)

lemma order_desc_Nil [simp]: "order_desc k [] = []"
  by (simp add: order_desc_def)

lemma order_desc_empty [simp]: "order_desc k xs = [] \<longleftrightarrow> xs = []"
  by (metis length_0_conv length_order_desc)

lemma order_desc_single [simp]: "order_desc k [x] = [x]"
  by (simp add: order_desc_def)

lemma order_desc_sorted: "sorted_wrt (\<lambda>a b. k b \<le> k a) (order_desc k xs)"
proof -
  have "sorted (map (\<lambda>r. - k r) (order_desc k xs))"
    by (simp add: order_desc_def)
  then show ?thesis
    by (simp add: sorted_map)
qed

text \<open>\<open>ORDER BY k DESC LIMIT 1\<close> yields a row with the largest key.\<close>

lemma order_desc_hd_max:
  assumes "order_desc k xs = y # ys"
  shows "y \<in> set xs" and "x \<in> set xs \<Longrightarrow> k x \<le> k y"
proof -
  have eq: "set xs = insert y (set ys)"
    using set_order_desc [of k xs] assms by simp
  then show "y \<in> set xs" by simp
  assume "x \<in> set xs"
  then have "x = y \<or> x \<in> set ys" using eq by simp
  with order_desc_sorted [of k xs] assms show "k x \<le> k y" by auto
qed

section \<open>Aggregates and scanning\<close>

text \<open>\<open>COALESCE(MAX(..), 0)\<close>.\<close>

definition max_or_zero :: "int list \<Rightarrow> int" where
  "max_or_zero vs = (case vs of [] \<Rightarrow> 0 | v # vs' \<Rightarrow> fold max vs' v)"

lemma fold_max_Max: "fold max vs v = Max (insert v (set vs))" for v :: int
  by (metis Max.set_eq_fold list.simps(15))

lemma max_or_zero_Max: "vs \<noteq> [] \<Longrightarrow> max_or_zero vs = Max (set vs)"
  by (cases vs) (simp_all add: max_or_zero_def fold_max_Max)

text \<open>Scanning rows in turn: the first row that fails to scan ends the query.\<close>

fun map_res :: "('a \<Rightarrow> 'e + 'b) \<Rightarrow> 'a list \<Rightarrow> 'e + 'b list" where
  "map_res f [] = Inr []"
| "map_res f (x # xs) =
     (case f x of Inl e \<Rightarrow> Inl e
      | Inr y \<Rightarrow> (case map_res f xs of Inl e \<Rightarrow> Inl e | Inr ys \<Rightarrow> Inr (y # ys)))"

lemma map_res_Inr: "(\<And>x. x \<in> set xs \<Longrightarrow> f x = Inr (g x)) \<Longrightarrow> map_res f xs = Inr (map g xs)"
  by (induction xs) auto

lemma map_res_length: "map_res f xs = Inr ys \<Longrightarrow> length ys = length xs"
  by (induction xs arbitrary: ys) (auto split: sum.splits)

definition coalesce :: "string option \<Rightarrow> string" where
  "coalesce x = (case x of None \<Rightarrow> [] | Some s \<Rightarrow> s)"

lemma coalesce_simps [simp]: "coalesce None = []" "coalesce (Some s) = s"
  by (simp_all add: coalesce_def)

end
