(* ===== verification/Metrics.thy ===== *)
theory Metrics
  imports Prelude
begin

text \<open>
  The prometheus counters the services register: \<open>internal/coreapi/metrics.go\<close>, \<open>normalizerMetrics\<close> of
  \<open>internal/normalizer/server.go\<close> and \<open>webhookMetrics\<close> of \<open>internal/webhook/server.go\<close>. A counter vector has one
  count per list of label values, which exists from its first increment on; the code always gives as many
  values as the vector has labels. How a registry is written out is a parameter of the model.
\<close>

record counter_vec =
  cv_name :: string
  cv_help :: string
  cv_labels :: "string list"
  cv_values :: "string list \<rightharpoonup> nat"

definition NewCounterVec :: "string \<Rightarrow> string \<Rightarrow> string \<Rightarrow> string \<Rightarrow> string list \<Rightarrow> counter_vec" where
  "NewCounterVec namespace subsystem name help labels =
     \<lparr>cv_name = namespace @ ''_'' @ subsystem @ ''_'' @ name, cv_help = help, cv_labels = labels, cv_values = (\<lambda>_. None)\<rparr>"

definition count_of :: "counter_vec \<Rightarrow> string list \<Rightarrow> nat" where
  "count_of v vals = (case cv_values v vals of None \<Rightarrow> 0 | Some n \<Rightarrow> n)"

text \<open>\<open>WithLabelValues(vals...).Inc()\<close>\<close>

definition inc_counter :: "string list \<Rightarrow> counter_vec \<Rightarrow> counter_vec" where
  "inc_counter vals v = v\<lparr>cv_values := (cv_values v)(vals \<mapsto> Suc (count_of v vals))\<rparr>"

lemma count_of_new [simp]: "count_of (NewCounterVec ns sub name help labels) vals = 0"
  by (simp add: count_of_def NewCounterVec_def)

lemma count_of_inc [simp]: "count_of (inc_counter vals v) vals' = count_of v vals' + (if vals' = vals then 1 else 0)"
  by (simp add: count_of_def inc_counter_def)

section \<open>The gateway\<close>

record metrics =
  ingestedEvents :: counter_vec
  httpRequests :: counter_vec

definition newMetrics :: metrics where
  "newMetrics =
     \<lparr>ingestedEvents = NewCounterVec ''signalyard'' ''gateway'' ''ingested_events_total''
        ''Events accepted and published to the ingestion stream.'' [''category'', ''kind''],
      httpRequests = NewCounterVec ''signalyard'' ''gateway'' ''http_requests_total''
        ''HTTP requests by route, method and status.'' [''route'', ''method'', ''status'']\<rparr>"

definition registered :: "metrics \<Rightarrow> counter_vec list" where
  "registered m = [ingestedEvents m, httpRequests m]"

section \<open>The normalizer\<close>

record normalizer_metrics =
  nm_routed :: counter_vec

definition newNormalizerMetrics :: normalizer_metrics where
  "newNormalizerMetrics =
     \<lparr>nm_routed = NewCounterVec ''signalyard'' ''normalizer'' ''events_processed_total''
        ''Events processed by outcome.'' [''category'', ''result'']\<rparr>"

section \<open>The webhook adapter\<close>

record webhook_metrics =
  wm_deliveries :: counter_vec

definition newWebhookMetrics :: webhook_metrics where
  "newWebhookMetrics =
     \<lparr>wm_deliveries = NewCounterVec ''signalyard'' ''webhook_adapter'' ''deliveries_total''
        ''Webhook deliveries by tool and outcome.'' [''tool'', ''outcome'']\<rparr>"

end
