(* ===== verification/GoLib.thy ===== *)
theory GoLib
  imports Metrics Complex_Main
begin

text \<open>
  What the program uses of Go's standard library (\<open>strings\<close>, \<open>encoding/hex\<close>, \<open>strconv\<close>,
  \<open>path/filepath\<close>, \<open>encoding/json\<close>, \<open>net/http\<close> headers), and the record \<open>libs\<close> of everything
  outside \<open>src/\<close> that the code calls as a function: cryptographic hashes, UUID and time syntax,
  JWT signing and parsing, JSON-schema validation and YAML decoding. \<open>libs\<close> is a parameter of
  every definition that uses one of these.

  Strings are UTF-8 byte lists. JSON texts are read through \<open>l_json_parse\<close>, and what the code
  marshals is kept as the JSON value; decoding a value
  into a Go struct, with its case-folded keys, repeated keys, \<open>null\<close> and type errors, is defined
  here (ASCII case folding only). A JSON number keeps its literal.
\<close>

section \<open>strings\<close>

text \<open>\<open>strings.CutPrefix\<close>.\<close>

fun cut_prefix :: "string \<Rightarrow> string \<Rightarrow> string option" where
  "cut_prefix s [] = Some s"
| "cut_prefix [] (p # ps) = None"
| "cut_prefix (c # s) (p # ps) = (if c = p then cut_prefix s ps else None)"

lemma cut_prefix_iff: "cut_prefix s p = Some r \<longleftrightarrow> s = p @ r"
  by (induction s p rule: cut_prefix.induct) auto

lemma cut_prefix_append [simp]: "cut_prefix (p @ r) p = Some r"
  by (simp add: cut_prefix_iff)

definition has_prefix :: "string \<Rightarrow> string \<Rightarrow> bool" where
  "has_prefix s p \<longleftrightarrow> cut_prefix s p \<noteq> None"

text \<open>\<open>strings.TrimSpace\<close> on its ASCII white space.\<close>

definition is_space :: "char \<Rightarrow> bool" where
  "is_space c \<longleftrightarrow> of_char c \<in> {9, 10, 11, 12, 13, 32 :: nat}"

definition trim_space :: "string \<Rightarrow> string" where
  "trim_space s = rev (dropWhile is_space (rev (dropWhile is_space s)))"

lemma dropWhile_id: "(\<And>c. c \<in> set s \<Longrightarrow> \<not> P c) \<Longrightarrow> dropWhile P s = s"
  by (cases s) auto

lemma trim_space_id: "(\<And>c. c \<in> set s \<Longrightarrow> \<not> is_space c) \<Longrightarrow> trim_space s = s"
  using dropWhile_id [of s is_space] dropWhile_id [of "rev s" is_space] by (simp add: trim_space_def)

text \<open>\<open>strings.Split\<close> at a one-byte separator, and \<open>strings.Contains\<close>.\<close>

fun split_at :: "char \<Rightarrow> string \<Rightarrow> string list" where
  "split_at d [] = [[]]"
| "split_at d (c # s) =
     (if c = d then [] # split_at d s
      else (case split_at d s of [] \<Rightarrow> [[c]] | w # ws \<Rightarrow> (c # w) # ws))"

lemma split_at_no_sep: "d \<notin> set s \<Longrightarrow> split_at d s = [s]"
  by (induction s) auto

lemma split_at_sep: "d \<notin> set s \<Longrightarrow> split_at d (s @ d # t) = s # split_at d t"
  by (induction s) auto

lemma split_at_parts: "w \<in> set (split_at d s) \<Longrightarrow> set w \<subseteq> set s \<and> d \<notin> set w"
proof (induction s arbitrary: w)
  case Nil
  then show ?case by simp
next
  case (Cons c s)
  then show ?case
    by (cases "split_at d s") (fastforce split: if_splits)+
qed

fun has_sub :: "string \<Rightarrow> string \<Rightarrow> bool" where
  "has_sub sub [] = (sub = [])"
| "has_sub sub (c # s) = (has_prefix (c # s) sub \<or> has_sub sub s)"

lemma has_sub_middle: "has_sub sub (a @ sub @ b)"
proof (induction a)
  case Nil
  show ?case
  proof (cases "sub @ b")
    case Nil
    then show ?thesis by simp
  next
    case (Cons c s)
    have "cut_prefix (c # s) sub = Some b"
      using cut_prefix_append [of sub b] Cons by simp
    with Cons show ?thesis by (simp add: has_prefix_def)
  qed
next
  case (Cons c a)
  then show ?case by simp
qed

section \<open>hex and strconv\<close>

definition hex_digit :: "nat \<Rightarrow> char" where
  "hex_digit n = (if n < 10 then char_of (48 + n) else char_of (87 + n))"

definition hex_encode :: "bytes \<Rightarrow> string" where
  "hex_encode bs = concat (map (\<lambda>c. [hex_digit (of_char c div 16), hex_digit (of_char c mod 16)]) bs)"

lemma length_hex_encode [simp]: "length (hex_encode bs) = 2 * length bs"
  by (induction bs) (auto simp: hex_encode_def)

lemma of_char_less: "(of_char c :: nat) < 256"
  by (rule nat_of_char_less_256)

lemma of_char_nibbles: "(of_char c :: nat) div 16 < 16" "(of_char c :: nat) mod 16 < 16"
  using of_char_less [of c] by (simp_all add: less_mult_imp_div_less)

lemma of_char_hex_digit: "n < 16 \<Longrightarrow> of_char (hex_digit n) = (if n < 10 then 48 + n else 87 + n :: nat)"
  by (simp add: hex_digit_def)

lemma hex_digit_inj: "m < 16 \<Longrightarrow> n < 16 \<Longrightarrow> hex_digit m = hex_digit n \<Longrightarrow> m = n"
proof -
  assume m: "m < 16" and n: "n < 16" and "hex_digit m = hex_digit n"
  then have "(if m < 10 then 48 + m else 87 + m) = (if n < 10 then 48 + n else 87 + n)"
    by (metis of_char_hex_digit)
  with m n show ?thesis by (simp split: if_splits)
qed

lemma hex_encode_inj: "hex_encode a = hex_encode b \<Longrightarrow> a = b"
proof (induction a arbitrary: b)
  case Nil
  then show ?case by (cases b) (auto simp: hex_encode_def)
next
  case (Cons x a)
  then obtain y b' where b: "b = y # b'" by (cases b) (auto simp: hex_encode_def)
  have d: "hex_digit (of_char x div 16) = hex_digit (of_char y div 16)"
    "hex_digit (of_char x mod 16) = hex_digit (of_char y mod 16)" "hex_encode a = hex_encode b'"
    using Cons.prems by (auto simp: b hex_encode_def)
  have "(of_char x :: nat) div 16 = of_char y div 16" "(of_char x :: nat) mod 16 = of_char y mod 16"
    using d(1,2) by (simp_all add: hex_digit_inj of_char_nibbles)
  then have "(of_char x :: nat) = of_char y"
    by (metis div_mult_mod_eq)
  then have "x = y" by simp
  with d(3) Cons.IH b show ?case by simp
qed

lemma hex_encode_no_space: "c \<in> set (hex_encode bs) \<Longrightarrow> \<not> is_space c \<and> c \<noteq> CHR '',''"
proof -
  assume "c \<in> set (hex_encode bs)"
  then obtain n where n: "n < 16" "c = hex_digit n"
    by (auto simp: hex_encode_def intro: of_char_nibbles)
  have "(of_char c :: nat) \<noteq> of_char (CHR '','')"
    unfolding n(2) of_char_hex_digit [OF n(1)] using n(1) by simp
  moreover have "\<not> is_space c"
    unfolding is_space_def n(2) of_char_hex_digit [OF n(1)] using n(1) by auto
  ultimately show ?thesis by auto
qed

text \<open>\<open>strconv.Atoi\<close> (64-bit), and the decimal printing of \<open>fmt\<close>'s \<open>%d\<close>.\<close>

definition digit_val :: "char \<Rightarrow> int option" where
  "digit_val c = (let n = of_char c in if 48 \<le> n \<and> n \<le> (57 :: nat) then Some (int (n - 48)) else None)"

fun digits_val :: "int \<Rightarrow> string \<Rightarrow> int option" where
  "digits_val acc [] = Some acc"
| "digits_val acc (c # s) =
     (case digit_val c of None \<Rightarrow> None | Some d \<Rightarrow> digits_val (10 * acc + d) s)"

definition atoi :: "string \<Rightarrow> int option" where
  "atoi s =
     (let (neg, ds) = (case s of c # r \<Rightarrow> if c = CHR ''-'' then (True, r)
                                          else if c = CHR ''+'' then (False, r) else (False, s)
                               | [] \<Rightarrow> (False, [])) in
      if ds = [] then None
      else case digits_val 0 ds of
             None \<Rightarrow> None
           | Some n \<Rightarrow> (let v = (if neg then - n else n) in
               if - (2 ^ 63) \<le> v \<and> v < 2 ^ 63 then Some v else None))"

fun show_nat :: "nat \<Rightarrow> string" where
  "show_nat n = (if n < 10 then [char_of (48 + n)] else show_nat (n div 10) @ [char_of (48 + n mod 10)])"

declare show_nat.simps [simp del]

definition show_int :: "int \<Rightarrow> string" where
  "show_int i = (if i < 0 then CHR ''-'' # show_nat (nat (- i)) else show_nat (nat i))"

section \<open>path/filepath\<close>

text \<open>\<open>filepath.Base\<close> on a Unix path.\<close>

definition filepath_base :: "string \<Rightarrow> string" where
  "filepath_base p =
     (if p = [] then ''.''
      else let q = dropWhile (\<lambda>c. c = CHR ''/'') (rev p);
               b = rev (takeWhile (\<lambda>c. c \<noteq> CHR ''/'') q)
           in if b = [] then ''/'' else b)"

section \<open>encoding/json\<close>

datatype json =
    JNull
  | JBool bool
  | JNum string
  | JStr string
  | JArr "json list"
  | JObj "(string \<times> json) list"

text \<open>A Go \<open>map[string]any\<close>: an association list in which the last binding of a key counts. A
  missing key reads as \<open>nil\<close>.\<close>

type_synonym jmap = "(string \<times> json) list"

definition jget :: "jmap \<Rightarrow> string \<Rightarrow> json" where
  "jget m k = (case map_of (rev m) k of None \<Rightarrow> JNull | Some v \<Rightarrow> v)"

text \<open>Object keys select a struct field when they agree with its name up to case.\<close>

definition lower :: "char \<Rightarrow> char" where
  "lower c = (let n = of_char c in if 65 \<le> n \<and> n \<le> (90 :: nat) then char_of (n + 32) else c)"

definition field_values :: "jmap \<Rightarrow> string \<Rightarrow> json list" where
  "field_values m name = map snd (filter (\<lambda>(k, v). map lower k = map lower name) m)"

text \<open>Decoding a JSON value over the old value of a Go variable, per Go type. \<open>None\<close> is an
  \<open>UnmarshalTypeError\<close> (or the error of the type's own \<open>UnmarshalJSON\<close>). \<open>null\<close> leaves a string,
  an int or a time alone and sets a map, slice or pointer to \<open>nil\<close> (here \<open>None\<close>).\<close>

fun dec_string :: "string \<Rightarrow> json \<Rightarrow> string option" where
  "dec_string old JNull = Some old"
| "dec_string old (JStr s) = Some s"
| "dec_string old v = None"

fun dec_int :: "int \<Rightarrow> json \<Rightarrow> int option" where
  "dec_int old JNull = Some old"
| "dec_int old (JNum l) = atoi l"
| "dec_int old v = None"

fun dec_map :: "jmap option \<Rightarrow> json \<Rightarrow> jmap option option" where
  "dec_map old JNull = Some None"
| "dec_map None (JObj m) = Some (Some m)"
| "dec_map (Some old) (JObj m) = Some (Some (old @ m))"
| "dec_map old v = None"

fun dec_strings_from :: "json list \<Rightarrow> string list option" where
  "dec_strings_from [] = Some []"
| "dec_strings_from (v # vs) =
     (case (dec_string [] v, dec_strings_from vs) of
        (Some s, Some ss) \<Rightarrow> Some (s # ss)
      | _ \<Rightarrow> None)"

fun dec_strings :: "string list option \<Rightarrow> json \<Rightarrow> string list option option" where
  "dec_strings old JNull = Some None"
| "dec_strings old (JArr vs) = map_option Some (dec_strings_from vs)"
| "dec_strings old v = None"

text \<open>A \<open>*float64\<close>, kept as the literal of the number.\<close>

fun dec_number :: "string option \<Rightarrow> json \<Rightarrow> string option option" where
  "dec_number old JNull = Some None"
| "dec_number old (JNum l) = Some (Some l)"
| "dec_number old v = None"

text \<open>One field of a struct: the values of its keys in turn, each over the result of the last.\<close>

fun dec_values :: "('a \<Rightarrow> json \<Rightarrow> 'a option) \<Rightarrow> 'a \<Rightarrow> json list \<Rightarrow> 'a option" where
  "dec_values dec x [] = Some x"
| "dec_values dec x (v # vs) = (case dec x v of None \<Rightarrow> None | Some y \<Rightarrow> dec_values dec y vs)"

definition dec_field :: "('a \<Rightarrow> json \<Rightarrow> 'a option) \<Rightarrow> 'a \<Rightarrow> jmap \<Rightarrow> string \<Rightarrow> 'a option" where
  "dec_field dec x m name = dec_values dec x (field_values m name)"

text \<open>The top of a struct: \<open>null\<close> decodes into the zero struct, anything else but an object is a
  type error.\<close>

fun dec_object :: "json \<Rightarrow> jmap option" where
  "dec_object JNull = Some []"
| "dec_object (JObj m) = Some m"
| "dec_object v = None"

section \<open>Requests and responses\<close>

record request =
  rq_method :: string
  rq_headers :: "(string \<times> string) list"
  rq_params :: "(string \<times> string) list"
  rq_query :: "(string \<times> string) list"
  rq_body :: bytes

datatype payload = NoBody | JsonBody json | RawBody bytes

record response =
  rs_status :: nat
  rs_headers :: "(string \<times> string) list"
  rs_body :: payload

section \<open>Everything else the code calls as a function\<close>

text \<open>The Go zero \<open>time.Time\<close>: the first of January of the year 1, UTC.\<close>

definition zero_time :: time where
  "zero_time = - 62135596800 * 10 ^ 9"

text \<open>\<open>routingConfig\<close> of the normalizer as YAML decoding fills it.\<close>

record routing_yaml =
  ry_target :: string
  ry_targets :: "string list"

text \<open>
  Fields of \<open>libs\<close>: HMAC-SHA256 and HMAC-SHA1 of key and message, SHA-256;
  \<open>uuid.Parse\<close> and \<open>UUID.String\<close>; JSON text to value (\<open>None\<close> for a syntax error),
  the first JSON value of a stream, and the text of a value where a string needs it;
  RFC 3339 time syntax; \<open>jwt.ParseWithClaims\<close> restricted to HMAC methods, given the secret, the
  current time and the token, and \<open>SignedString\<close> with HS256; \<open>gojsonschema.Validate\<close> (\<open>None\<close> when
  the schema does not load, else the list of violations); \<open>yaml.Unmarshal\<close> into \<open>routingConfig\<close>
  (whether it succeeded, and what it filled in); OIDC provider discovery and ID-token verification, given
  issuer, client, time and token (email, subject, name);
  the hash go-git gives the \<open>n\<close>-th commit; and \<open>strconv.ParseFloat\<close> and the JSON form of a number;
  the text of a time with \<open>Format(time.RFC3339)\<close>, the text of the error of a failed publish, and what
  \<open>promhttp.HandlerFor\<close> a registry of these counters answers.
\<close>

record libs =
  l_hmac_sha256 :: "bytes \<Rightarrow> bytes \<Rightarrow> bytes"
  l_hmac_sha1 :: "bytes \<Rightarrow> bytes \<Rightarrow> bytes"
  l_sha256 :: "bytes \<Rightarrow> bytes"
  l_uuid_parse :: "string \<Rightarrow> uuid option"
  l_uuid_string :: "uuid \<Rightarrow> string"
  l_json_parse :: "bytes \<Rightarrow> json option"
  l_json_first :: "bytes \<Rightarrow> json option"
  l_json_print :: "json \<Rightarrow> string"
  l_time_parse :: "string \<Rightarrow> time option"
  l_time_format :: "time \<Rightarrow> string"
  l_jwt_parse :: "bytes \<Rightarrow> time \<Rightarrow> string \<Rightarrow> jmap option"
  l_jwt_sign :: "bytes \<Rightarrow> jmap \<Rightarrow> string"
  l_schema_validate :: "json \<Rightarrow> json \<Rightarrow> string list option"
  l_yaml_routing :: "string \<Rightarrow> bool \<times> routing_yaml"
  l_oidc_verify :: "string \<Rightarrow> string \<Rightarrow> time \<Rightarrow> string \<Rightarrow> (string \<times> string \<times> string) option"
  l_git_hash :: "nat \<Rightarrow> string"
  l_float_parse :: "string \<Rightarrow> rat option"
  l_float_print :: "rat \<Rightarrow> string"
  l_time_rfc3339 :: "time \<Rightarrow> string"
  l_publish_error :: string
  l_promhttp :: "counter_vec list \<Rightarrow> request \<Rightarrow> response"

text \<open>The documented laws of these libraries that some theorems assume, by name.\<close>

definition uuid_laws :: "libs \<Rightarrow> bool" where
  "uuid_laws L \<longleftrightarrow> (\<forall>u. l_uuid_parse L (l_uuid_string L u) = Some u)"

text \<open>Times whose year has four digits, the ones RFC 3339 can write.\<close>

definition rfc3339_time :: "time \<Rightarrow> bool" where
  "rfc3339_time t \<longleftrightarrow> - 62167219200 * 10 ^ 9 \<le> t \<and> t < 253402300800 * 10 ^ 9"

definition time_laws :: "libs \<Rightarrow> bool" where
  "time_laws L \<longleftrightarrow> (\<forall>t. rfc3339_time t \<longrightarrow> l_time_parse L (l_time_format L t) = Some t)"

text \<open>\<open>time.Time\<close> decodes from a JSON string in RFC 3339 form, \<open>null\<close> leaves it alone.\<close>

fun dec_time :: "libs \<Rightarrow> time \<Rightarrow> json \<Rightarrow> time option" where
  "dec_time L old JNull = Some old"
| "dec_time L old (JStr s) = l_time_parse L s"
| "dec_time L old v = None"

text \<open>\<open>claims[k].(string)\<close> with the zero string when the type assertion fails.\<close>

definition claim_string :: "jmap \<Rightarrow> string \<Rightarrow> string" where
  "claim_string claims k = (case jget claims k of JStr s \<Rightarrow> s | _ \<Rightarrow> [])"

section \<open>net/http\<close>

text \<open>\<open>Header.Get\<close>, \<open>chi.URLParam\<close> and \<open>Query().Get\<close> all read the empty string when absent.\<close>

definition sget :: "(string \<times> string) list \<Rightarrow> string \<Rightarrow> string" where
  "sget kvs k = (case map_of kvs k of None \<Rightarrow> [] | Some v \<Rightarrow> v)"

abbreviation header :: "request \<Rightarrow> string \<Rightarrow> string" where
  "header r k \<equiv> sget (rq_headers r) k"

abbreviation url_param :: "request \<Rightarrow> string \<Rightarrow> string" where
  "url_param r k \<equiv> sget (rq_params r) k"

abbreviation query_param :: "request \<Rightarrow> string \<Rightarrow> string" where
  "query_param r k \<equiv> sget (rq_query r) k"

text \<open>\<open>json.NewDecoder(r.Body).Decode\<close> up to the parsed value: end of input, a syntax error, or a
  value.\<close>

datatype decoded = AtEOF | SyntaxError | Decoded json

definition decode_body :: "libs \<Rightarrow> bytes \<Rightarrow> decoded" where
  "decode_body L b =
     (if list_all is_space b then AtEOF
      else case l_json_first L b of None \<Rightarrow> SyntaxError | Some v \<Rightarrow> Decoded v)"

text \<open>Decoding into a struct whose fields \<open>f\<close> fills from the object; \<open>None\<close> is any error.\<close>

definition decode_struct :: "libs \<Rightarrow> (jmap \<Rightarrow> 'a option) \<Rightarrow> bytes \<Rightarrow> 'a option" where
  "decode_struct L f b =
     (case decode_body L b of
        Decoded v \<Rightarrow> (case dec_object v of None \<Rightarrow> None | Some m \<Rightarrow> f m)
      | _ \<Rightarrow> None)"

text \<open>Marshalling of UUIDs, times and integers, and of a string field tagged \<open>omitempty\<close>.\<close>

definition j_uuid :: "libs \<Rightarrow> uuid \<Rightarrow> json" where
  "j_uuid L u = JStr (l_uuid_string L u)"

definition j_time :: "libs \<Rightarrow> time \<Rightarrow> json" where
  "j_time L t = JStr (l_time_format L t)"

definition j_int :: "int \<Rightarrow> json" where
  "j_int i = JNum (show_int i)"

definition omit_empty :: "string \<Rightarrow> string \<Rightarrow> jmap" where
  "omit_empty k s = (if s = [] then [] else [(k, JStr s)])"

text \<open>A \<open>map[string]any\<close> marshals as an object, \<open>nil\<close> as \<open>null\<close>. The order of an object's members is
  not significant.\<close>

definition j_map :: "jmap option \<Rightarrow> json" where
  "j_map m = (case m of None \<Rightarrow> JNull | Some kvs \<Rightarrow> JObj kvs)"

text \<open>A \<open>[]string\<close>, \<open>nil\<close> as \<open>null\<close>.\<close>

definition j_strings :: "string list option \<Rightarrow> json" where
  "j_strings xs = (case xs of None \<Rightarrow> JNull | Some ys \<Rightarrow> JArr (map JStr ys))"

lemma dec_map_j_map [simp]: "dec_map None (j_map m) = Some m"
  by (cases m) (simp_all add: j_map_def)

end
