(* ===== verification/Tables.thy ===== *)
theory Tables
  imports GoLib
begin

text \<open>
  The Postgres database the services share, as \<open>migrations/0001_init.sql\<close>, \<open>0002\<close> and \<open>0003\<close>
  declare it: one record type per table with the columns the code reads or writes, nullable columns
  as options, and one record of tables. \<open>INTEGER\<close> columns are unbounded.

  The second half states what the declared keys and references guarantee: primary keys, unique
  indexes and foreign keys, as predicates on the tables.
\<close>

section \<open>Rows\<close>

record agent_row =
  a_id :: uuid
  a_name :: string
  a_slug :: string
  a_description :: "string option"
  a_type :: string
  a_status :: string
  a_email :: "string option"
  a_metadata :: "json option"
  a_created :: time
  a_updated :: time

record key_row =
  k_id :: uuid
  k_agent :: uuid
  k_hash :: string
  k_prefix :: string
  k_label :: "string option"
  k_scopes :: "string list option"
  k_revoked :: "time option"
  k_last_used :: "time option"
  k_expires :: "time option"
  k_created :: time
  k_updated :: time

record user_row =
  u_id :: uuid
  u_email :: string
  u_display :: "string option"
  u_subject :: string
  u_role :: string
  u_last_login :: "time option"

record category_row =
  c_id :: uuid
  c_name :: string
  c_description :: "string option"
  c_created :: time
  c_updated :: time

record schema_row =
  s_id :: uuid
  s_category :: uuid
  s_version :: int
  s_json :: jmap
  s_routing :: "string option"
  s_sha :: "string option"
  s_active :: bool
  s_created_by :: "string option"
  s_created :: time
  s_updated :: time

record quarantine_row =
  q_id :: uuid
  q_agent :: "uuid option"
  q_source :: "string option"
  q_raw :: json
  q_reason :: "string option"
  q_status :: string
  q_replayed_at :: "time option"
  q_attempts :: int
  q_created :: time
  q_updated :: time

record event_row =
  e_id :: uuid
  e_agent :: "uuid option"
  e_category :: uuid
  e_schema :: "uuid option"
  e_source :: "string option"
  e_payload :: jmap
  e_occurred :: time
  e_created :: time

record proposal_row =
  p_id :: uuid
  p_quarantine :: "uuid option"
  p_category :: "string option"
  p_json :: jmap
  p_routing :: "string option"
  p_diff :: "string option"
  p_agent_name :: "string option"
  p_confidence :: "string option"
  p_status :: string
  p_reviewed_by :: "string option"
  p_reviewed_at :: "time option"
  p_schema :: "uuid option"
  p_created :: time
  p_updated :: time

record audit_row =
  l_id :: uuid
  l_proposal :: uuid
  l_user :: "uuid option"
  l_action :: string
  l_notes :: "string option"
  l_created :: time

record source_row =
  ws_id :: uuid
  ws_name :: string
  ws_secret_hash :: "string option"
  ws_path :: string

record delivery_row =
  d_id :: uuid
  d_source :: uuid
  d_status :: "int option"
  d_headers :: "(string \<times> string) list"
  d_body :: json
  d_sig_valid :: "bool option"
  d_error :: "string option"
  d_created :: time

record idem_row =
  i_key :: string
  i_agent :: uuid
  i_event :: uuid
  i_response :: json

section \<open>The database\<close>

record db =
  agents :: "agent_row list"
  api_keys :: "key_row list"
  users :: "user_row list"
  categories :: "category_row list"
  schemas :: "schema_row list"
  quarantine_events :: "quarantine_row list"
  events :: "event_row list"
  proposals :: "proposal_row list"
  audit_log :: "audit_row list"
  webhook_sources :: "source_row list"
  deliveries :: "delivery_row list"
  idempotency_keys :: "idem_row list"
  migrations :: "string list"

definition empty_db :: db where
  "empty_db = \<lparr>agents = [], api_keys = [], users = [], categories = [], schemas = [],
     quarantine_events = [], events = [], proposals = [], audit_log = [], webhook_sources = [],
     deliveries = [], idempotency_keys = [], migrations = []\<rparr>"

text \<open>Why a statement fails. \<open>ErrNotFound\<close> and \<open>ErrConflict\<close> are the stores' sentinel errors, the
  others stand for the driver errors the code passes on.\<close>

datatype db_error =
    ErrNotFound
  | ErrConflict
  | Unavailable
  | UniqueViolation
  | ForeignKeyViolation
  | NotNullViolation
  | ScanNull

type_synonym 'a res = "db_error + 'a"

text \<open>A statement: given a fresh UUID (\<open>gen_random_uuid()\<close>) and the time (\<open>NOW()\<close>), a result and
  the new database.\<close>

type_synonym 'a stmt = "uuid \<Rightarrow> time \<Rightarrow> db \<Rightarrow> 'a res \<times> db"

section \<open>What the declared constraints guarantee\<close>

definition wf_agents :: "db \<Rightarrow> bool" where
  "wf_agents d \<longleftrightarrow>
     unique_by a_id (agents d) \<and> unique_by a_slug (agents d) \<and>
     unique_by k_id (api_keys d) \<and> unique_by k_hash (api_keys d) \<and>
     k_agent ` set (api_keys d) \<subseteq> a_id ` set (agents d) \<and>
     unique_by u_id (users d) \<and> unique_by u_email (users d) \<and> unique_by u_subject (users d)"

definition wf_schemas :: "db \<Rightarrow> bool" where
  "wf_schemas d \<longleftrightarrow>
     unique_by c_id (categories d) \<and> unique_by c_name (categories d) \<and>
     unique_by s_id (schemas d) \<and>
     unique_by (\<lambda>s. (s_category s, s_version s)) (schemas d) \<and>
     s_category ` set (schemas d) \<subseteq> c_id ` set (categories d)"

definition wf_proposals :: "db \<Rightarrow> bool" where
  "wf_proposals d \<longleftrightarrow>
     unique_by p_id (proposals d) \<and> unique_by l_id (audit_log d) \<and>
     l_proposal ` set (audit_log d) \<subseteq> p_id ` set (proposals d)"

definition wf_quarantine :: "db \<Rightarrow> bool" where
  "wf_quarantine d \<longleftrightarrow> unique_by q_id (quarantine_events d)"

definition wf_events :: "db \<Rightarrow> bool" where
  "wf_events d \<longleftrightarrow>
     unique_by e_id (events d) \<and> e_category ` set (events d) \<subseteq> c_id ` set (categories d)"

definition wf_webhooks :: "db \<Rightarrow> bool" where
  "wf_webhooks d \<longleftrightarrow>
     unique_by ws_id (webhook_sources d) \<and> unique_by ws_path (webhook_sources d) \<and>
     unique_by d_id (deliveries d) \<and> d_source ` set (deliveries d) \<subseteq> ws_id ` set (webhook_sources d)"

definition wf_idem :: "db \<Rightarrow> bool" where
  "wf_idem d \<longleftrightarrow>
     unique_by (\<lambda>i. (i_key i, i_agent i)) (idempotency_keys d) \<and>
     i_agent ` set (idempotency_keys d) \<subseteq> a_id ` set (agents d)"

definition wf_db :: "db \<Rightarrow> bool" where
  "wf_db d \<longleftrightarrow> wf_agents d \<and> wf_schemas d \<and> wf_proposals d \<and> wf_quarantine d \<and> wf_events d \<and>
     wf_webhooks d \<and> wf_idem d"

lemma wf_empty_db: "wf_db empty_db"
  by (simp add: wf_db_def wf_agents_def wf_schemas_def wf_proposals_def wf_quarantine_def
      wf_events_def wf_webhooks_def wf_idem_def empty_db_def)

end
