(* ===== verification/Memory.thy ===== *)
theory Memory
  imports Tables
begin

text \<open>
  What the services keep in their own memory: the schema cache and the counters of the normalizer
  (\<open>internal/normalizer/registry_client.go\<close>, \<open>worker.go\<close>), the token buckets of the gateway
  (\<open>internal/coreapi/rate.go\<close>) and the prometheus counters. Go's \<open>float64\<close> token counts are rational numbers here, and the 64-bit
  counters are unbounded.
\<close>

record registry_schema =
  sch_category :: string
  sch_version :: int
  sch_json :: "jmap option"
  sch_routing :: string

record cached_schema =
  cs_schema :: registry_schema
  cs_fetched :: time

record counters =
  ct_processed :: int
  ct_routed :: int
  ct_failed :: int
  ct_quarantined :: int
  ct_replayed :: int
  ct_started :: time

record bucket =
  bk_tokens :: rat
  bk_last :: time

record memory =
  m_cache :: "string \<rightharpoonup> cached_schema"
  m_counts :: counters
  m_buckets :: "uuid \<rightharpoonup> bucket"
  m_metrics :: metrics
  m_norm_metrics :: normalizer_metrics
  m_hook_metrics :: webhook_metrics

definition fresh_memory :: memory where
  "fresh_memory = \<lparr>m_cache = (\<lambda>_. None),
     m_counts = \<lparr>ct_processed = 0, ct_routed = 0, ct_failed = 0, ct_quarantined = 0, ct_replayed = 0,
                 ct_started = 0\<rparr>,
     m_buckets = (\<lambda>_. None), m_metrics = newMetrics, m_norm_metrics = newNormalizerMetrics,
     m_hook_metrics = newWebhookMetrics\<rparr>"

end
