(* ===== verification/Effects.thy ===== *)
theory Effects
  imports Memory "HOL-Library.State_Monad" "HOL-Library.Sublist"
begin

text \<open>
  The world a service acts on, and its effects: SQL statements and transactions on the shared
  database, publishing to JetStream, calls of git and of HTTP peers, the clock, fresh UUIDs and the
  services' own memory.
  Programs are computations of the state monad over the world, written in the order of the source.

  Every interaction takes one tick. What the outside does at tick \<open>n\<close> is read from the world: whether
  the interaction succeeds (\<open>w_fault\<close>), the fresh UUID, the random bytes, the time and the HTTP reply. A failing
  interaction either has no effect (\<open>Refused\<close>) or takes effect and loses its acknowledgement
  (\<open>Unacked\<close>); the caller sees the same error. Theorems quantify over all these choices unless they
  assume a \<open>healthy\<close> world.
\<close>

section \<open>The world\<close>

datatype outcome = Done | Refused | Unacked

datatype reply = NoReply | Reply nat payload

datatype git_action =
    MkdirAll string
  | WriteFile string payload
  | GitAdd string
  | GitCommit string
  | GitPush

text \<open>What a process does to its surroundings besides serving: the resources it acquires and gives back.\<close>

datatype process_act =
    OpenPool string
  | PingPool
  | ClosePool
  | DialNats string string
  | NewJetStream
  | CloseNats
  | DrainNats
  | EnsureStream string "string list"
  | EnsureConsumer string string string
  | Subscribe string
  | StopConsumer string
  | NewExporter string
  | MergeResource string
  | InstallTracer
  | ShutdownTracer
  | MakeTempDir
  | LoadKey string
  | ParseKey
  | OpenRepo string
  | CloneRepo string string
  | Listen int
  | ShutdownHttp

record world =
  w_db :: db
  w_mem :: memory
  w_streams :: "(string \<times> payload) list"
  w_sent :: "(string \<times> payload) list"
  w_git :: "git_action list"
  w_acts :: "process_act list"
  w_tick :: nat
  w_fault :: "nat \<Rightarrow> outcome"
  w_uuid :: "nat \<Rightarrow> uuid"
  w_random :: "nat \<Rightarrow> bytes"
  w_clock :: "nat \<Rightarrow> time"
  w_reply :: "nat \<Rightarrow> reply"

type_synonym 'a io = "(world, 'a) state"

abbreviation ret :: "'a \<Rightarrow> 'a io" where
  "ret \<equiv> State_Monad.return"

definition tick :: "world \<Rightarrow> world" where
  "tick w = w\<lparr>w_tick := Suc (w_tick w)\<rparr>"

definition outcome_of :: "world \<Rightarrow> outcome" where
  "outcome_of w = w_fault w (w_tick w)"

lemma tick_simps [simp]:
  "w_db (tick w) = w_db w" "w_mem (tick w) = w_mem w" "w_streams (tick w) = w_streams w" "w_sent (tick w) = w_sent w"
  "w_git (tick w) = w_git w" "w_acts (tick w) = w_acts w" "w_tick (tick w) = Suc (w_tick w)" "w_fault (tick w) = w_fault w"
  "w_uuid (tick w) = w_uuid w" "w_random (tick w) = w_random w" "w_clock (tick w) = w_clock w" "w_reply (tick w) = w_reply w"
  by (simp_all add: tick_def)

section \<open>Effects\<close>

text \<open>One SQL statement outside a transaction.\<close>

definition sql :: "'a stmt \<Rightarrow> 'a res io" where
  "sql f = State (\<lambda>w.
     let (r, d) = f (w_uuid w (w_tick w)) (w_clock w (w_tick w)) (w_db w) in
     case outcome_of w of
       Done \<Rightarrow> (r, tick (w\<lparr>w_db := d\<rparr>))
     | Refused \<Rightarrow> (Inl Unavailable, tick w)
     | Unacked \<Rightarrow> (Inl Unavailable, tick (w\<lparr>w_db := d\<rparr>)))"

text \<open>A transaction works on a private copy; only its commit writes the database.\<close>

definition tx_begin :: "db res io" where
  "tx_begin = State (\<lambda>w.
     (case outcome_of w of Done \<Rightarrow> Inr (w_db w) | _ \<Rightarrow> Inl Unavailable, tick w))"

definition tx_sql :: "'a stmt \<Rightarrow> db \<Rightarrow> ('a res \<times> db) io" where
  "tx_sql f d = State (\<lambda>w.
     (case outcome_of w of
        Done \<Rightarrow> f (w_uuid w (w_tick w)) (w_clock w (w_tick w)) d
      | _ \<Rightarrow> (Inl Unavailable, d), tick w))"

definition tx_commit :: "db \<Rightarrow> unit res io" where
  "tx_commit d = State (\<lambda>w.
     case outcome_of w of
       Done \<Rightarrow> (Inr (), tick (w\<lparr>w_db := d\<rparr>))
     | Refused \<Rightarrow> (Inl Unavailable, tick w)
     | Unacked \<Rightarrow> (Inl Unavailable, tick (w\<lparr>w_db := d\<rparr>)))"

text \<open>Publishing a message on a JetStream subject.\<close>

definition publish :: "string \<Rightarrow> payload \<Rightarrow> unit res io" where
  "publish subject data = State (\<lambda>w.
     let w' = w\<lparr>w_streams := w_streams w @ [(subject, data)]\<rparr> in
     case outcome_of w of
       Done \<Rightarrow> (Inr (), tick w')
     | Refused \<Rightarrow> (Inl Unavailable, tick w)
     | Unacked \<Rightarrow> (Inl Unavailable, tick w'))"

definition git_call :: "git_action \<Rightarrow> unit res io" where
  "git_call a = State (\<lambda>w.
     let w' = w\<lparr>w_git := w_git w @ [a]\<rparr> in
     case outcome_of w of
       Done \<Rightarrow> (Inr (), tick w')
     | Refused \<Rightarrow> (Inl Unavailable, tick w)
     | Unacked \<Rightarrow> (Inl Unavailable, tick w'))"

text \<open>An act of the process. The log has the acts that succeeded; \<open>logged\<close> is for those that cannot fail or
  whose error the code drops.\<close>

definition perform :: "process_act \<Rightarrow> unit res io" where
  "perform a = State (\<lambda>w.
     case outcome_of w of
       Done \<Rightarrow> (Inr (), tick (w\<lparr>w_acts := w_acts w @ [a]\<rparr>))
     | _ \<Rightarrow> (Inl Unavailable, tick w))"

definition logged :: "process_act \<Rightarrow> unit io" where
  "logged a = State (\<lambda>w. ((), w\<lparr>w_acts := w_acts w @ [a]\<rparr>))"

text \<open>An HTTP exchange with a service outside: the request is logged, the reply is the world's.\<close>

definition http_call :: "string \<Rightarrow> payload \<Rightarrow> reply io" where
  "http_call url data = State (\<lambda>w.
     (w_reply w (w_tick w), tick (w\<lparr>w_sent := w_sent w @ [(url, data)]\<rparr>)))"

definition now :: "time io" where
  "now = State (\<lambda>w. (w_clock w (w_tick w), tick w))"

text \<open>\<open>rand.Read\<close> of \<open>n\<close> bytes.\<close>

definition random_bytes :: "nat \<Rightarrow> bytes io" where
  "random_bytes n = State (\<lambda>w. (take n (w_random w (w_tick w) @ replicate n (CHR 0x00)), tick w))"

definition new_uuid :: "uuid io" where
  "new_uuid = State (\<lambda>w. (w_uuid w (w_tick w), tick w))"

text \<open>Reading and writing the memory of the service takes no tick and cannot fail.\<close>

definition recall :: "(memory \<Rightarrow> 'a) \<Rightarrow> 'a io" where
  "recall f = State (\<lambda>w. (f (w_mem w), w))"

definition remember :: "(memory \<Rightarrow> memory) \<Rightarrow> unit io" where
  "remember f = State (\<lambda>w. ((), w\<lparr>w_mem := f (w_mem w)\<rparr>))"

section \<open>Relations every run obeys\<close>

text \<open>\<open>obeys R m\<close>: whatever the world does, running \<open>m\<close> relates the worlds before and after by
  \<open>R\<close>. The locale collects what holds for every reflexive and transitive \<open>R\<close>; it is interpreted
  below for the relations the component proofs use.\<close>

definition obeys :: "(world \<Rightarrow> world \<Rightarrow> bool) \<Rightarrow> 'a io \<Rightarrow> bool" where
  "obeys R m \<longleftrightarrow> (\<forall>w. R w (snd (run_state m w)))"

lemma obeysI: "(\<And>w. R w (snd (run_state m w))) \<Longrightarrow> obeys R m"
  by (simp add: obeys_def)

lemma obeysD: "obeys R m \<Longrightarrow> R w (snd (run_state m w))"
  by (simp add: obeys_def)

lemma obeys_run: "obeys R m \<Longrightarrow> run_state m w = (x, w') \<Longrightarrow> R w w'"
  by (metis obeysD snd_conv)

locale run_relation =
  fixes R :: "world \<Rightarrow> world \<Rightarrow> bool"
  assumes refl_R: "R w w"
    and trans_R: "R u v \<Longrightarrow> R v w \<Longrightarrow> R u w"
begin

lemma obeys_ret: "obeys R (State_Monad.return x)"
  by (simp add: obeys_def refl_R)

lemma obeys_bind:
  assumes "obeys R m" and "\<And>x. obeys R (f x)"
  shows "obeys R (State_Monad.bind m f)"
proof (rule obeysI)
  fix w
  obtain x v where m: "run_state m w = (x, v)" by force
  have "R w v" using assms(1) m by (rule obeys_run)
  moreover have "R v (snd (run_state (f x) v))" using assms(2) by (rule obeysD)
  ultimately show "R w (snd (run_state (State_Monad.bind m f) w))"
    using m by (auto intro: trans_R)
qed

lemma obeys_if: "(b \<Longrightarrow> obeys R m) \<Longrightarrow> (\<not> b \<Longrightarrow> obeys R n) \<Longrightarrow> obeys R (if b then m else n)"
  by simp

lemma obeys_sum:
  "(\<And>e. obeys R (f e)) \<Longrightarrow> (\<And>x. obeys R (g x)) \<Longrightarrow> obeys R (case r of Inl e \<Rightarrow> f e | Inr x \<Rightarrow> g x)"
  by (cases r) auto

lemma obeys_option:
  "obeys R m \<Longrightarrow> (\<And>x. obeys R (g x)) \<Longrightarrow> obeys R (case r of None \<Rightarrow> m | Some x \<Rightarrow> g x)"
  by (cases r) auto

lemma obeys_prod:
  "(\<And>a b. obeys R (f a b)) \<Longrightarrow> obeys R (case p of (a, b) \<Rightarrow> f a b)"
  by (cases p) auto

lemma obeys_error:
  "obeys R a \<Longrightarrow> obeys R b \<Longrightarrow> obeys R c \<Longrightarrow> obeys R d \<Longrightarrow> obeys R e \<Longrightarrow> obeys R f \<Longrightarrow> obeys R g \<Longrightarrow>
   obeys R (case r of ErrNotFound \<Rightarrow> a | ErrConflict \<Rightarrow> b | Unavailable \<Rightarrow> c
     | UniqueViolation \<Rightarrow> d | ForeignKeyViolation \<Rightarrow> e | NotNullViolation \<Rightarrow> g | ScanNull \<Rightarrow> f)"
  by (cases r) auto

lemma obeys_decoded:
  "obeys R a \<Longrightarrow> obeys R b \<Longrightarrow> (\<And>v. obeys R (c v)) \<Longrightarrow>
   obeys R (case x of AtEOF \<Rightarrow> a | SyntaxError \<Rightarrow> b | Decoded v \<Rightarrow> c v)"
  by (cases x) auto

lemma obeys_reply:
  "obeys R a \<Longrightarrow> (\<And>s b. obeys R (c s b)) \<Longrightarrow>
   obeys R (case x of NoReply \<Rightarrow> a | Reply s b \<Rightarrow> c s b)"
  by (cases x) auto

lemma obeys_recall: "obeys R (recall r)"
  by (simp add: obeys_def recall_def refl_R)

lemmas obeys_control =
  obeys_ret obeys_recall obeys_bind obeys_if obeys_sum obeys_option obeys_prod
  obeys_error obeys_decoded obeys_reply

end

text \<open>Invariants of the database.\<close>

definition inv_rel :: "(db \<Rightarrow> bool) \<Rightarrow> world \<Rightarrow> world \<Rightarrow> bool" where
  "inv_rel I w w' \<longleftrightarrow> I (w_db w) \<longrightarrow> I (w_db w')"

abbreviation keeps :: "(db \<Rightarrow> bool) \<Rightarrow> 'a io \<Rightarrow> bool" where
  "keeps I m \<equiv> obeys (inv_rel I) m"

interpretation inv: run_relation "inv_rel I" for I
  by unfold_locales (auto simp: inv_rel_def)

text \<open>The log of published messages only grows.\<close>

definition grows :: "world \<Rightarrow> world \<Rightarrow> bool" where
  "grows w w' \<longleftrightarrow> prefix (w_streams w) (w_streams w')"

interpretation grow: run_relation grows
  by unfold_locales (auto simp: grows_def)

text \<open>The outside is the same, only time has passed.\<close>

definition same_env :: "world \<Rightarrow> world \<Rightarrow> bool" where
  "same_env w w' \<longleftrightarrow> w_fault w' = w_fault w \<and> w_uuid w' = w_uuid w \<and> w_random w' = w_random w \<and> w_clock w' = w_clock w \<and>
     w_reply w' = w_reply w \<and> w_tick w \<le> w_tick w'"

interpretation env: run_relation same_env
  by unfold_locales (auto simp: same_env_def)

text \<open>A read-only run: neither database nor streams nor git change.\<close>

definition unchanged :: "world \<Rightarrow> world \<Rightarrow> bool" where
  "unchanged w w' \<longleftrightarrow> w_db w' = w_db w \<and> w_streams w' = w_streams w \<and> w_git w' = w_git w \<and>
     w_sent w' = w_sent w"

interpretation ro: run_relation unchanged
  by unfold_locales (auto simp: unchanged_def)

section \<open>The effects and these relations\<close>

lemma keepsI: "(\<And>w. I (w_db w) \<Longrightarrow> I (w_db (snd (run_state m w)))) \<Longrightarrow> keeps I m"
  by (simp add: obeys_def inv_rel_def)

lemma keepsD: "keeps I m \<Longrightarrow> I (w_db w) \<Longrightarrow> I (w_db (snd (run_state m w)))"
  by (simp add: obeys_def inv_rel_def)

lemma keeps_run: "keeps I m \<Longrightarrow> run_state m w = (x, w') \<Longrightarrow> I (w_db w) \<Longrightarrow> I (w_db w')"
  by (metis keepsD snd_conv)

lemma keeps_sql: "(\<And>u t d. I d \<Longrightarrow> I (snd (f u t d))) \<Longrightarrow> keeps I (sql f)"
  by (rule keepsI) (simp add: sql_def split: prod.splits outcome.splits; metis snd_conv)

lemma keeps_no_sql:
  "keeps I tx_begin" "keeps I (tx_sql g d)" "keeps I (publish s p)" "keeps I (git_call a)" "keeps I (perform pa)" "keeps I (logged pa)"
  "keeps I (http_call s p)" "keeps I now" "keeps I new_uuid" "keeps I (random_bytes n)" "keeps I (recall r)" "keeps I (remember m)"
  by (auto intro!: keepsI split: outcome.splits
      simp: tx_begin_def tx_sql_def publish_def git_call_def http_call_def now_def new_uuid_def Let_def
        random_bytes_def recall_def remember_def perform_def logged_def)

lemmas keeps_intros = inv.obeys_control keeps_no_sql

text \<open>A statement that only reads leaves the database as it is on every branch.\<close>

definition reads :: "'a stmt \<Rightarrow> bool" where
  "reads f \<longleftrightarrow> (\<forall>u t d. snd (f u t d) = d)"

lemma unchanged_sql: "reads f \<Longrightarrow> obeys unchanged (sql f)"
  by (rule obeysI)
    (simp add: sql_def unchanged_def reads_def split: prod.splits outcome.splits; metis snd_conv)

lemma unchanged_effects:
  "obeys unchanged tx_begin" "obeys unchanged (tx_sql g d)" "obeys unchanged now"
  "obeys unchanged new_uuid" "obeys unchanged (random_bytes n)" "obeys unchanged (recall r)" "obeys unchanged (remember m)"
  "obeys unchanged (perform pa)" "obeys unchanged (logged pa)"
  by (auto intro!: obeysI split: outcome.splits
      simp: tx_begin_def tx_sql_def now_def new_uuid_def random_bytes_def unchanged_def recall_def remember_def
        perform_def logged_def)

lemmas unchanged_intros = ro.obeys_control unchanged_sql unchanged_effects

lemma grows_effects:
  "obeys grows (sql f)" "obeys grows tx_begin" "obeys grows (tx_sql g d)" "obeys grows (tx_commit d)"
  "obeys grows (publish s p)" "obeys grows (git_call a)" "obeys grows (http_call s p)"
  "obeys grows (perform pa)" "obeys grows (logged pa)"
  "obeys grows now" "obeys grows new_uuid" "obeys grows (random_bytes n)" "obeys grows (recall r)" "obeys grows (remember m)"
  by (auto intro!: obeysI split: prod.splits outcome.splits
      simp: sql_def tx_begin_def tx_sql_def tx_commit_def publish_def git_call_def http_call_def
        now_def new_uuid_def random_bytes_def grows_def Let_def recall_def remember_def perform_def logged_def)

lemmas grows_intros = grow.obeys_control grows_effects

lemma same_env_effects:
  "obeys same_env (sql f)" "obeys same_env tx_begin" "obeys same_env (tx_sql g d)"
  "obeys same_env (tx_commit d)" "obeys same_env (publish s p)" "obeys same_env (git_call a)"
  "obeys same_env (http_call s p)" "obeys same_env now" "obeys same_env new_uuid"
  "obeys same_env (random_bytes n)" "obeys same_env (perform pa)" "obeys same_env (logged pa)"
  "obeys same_env (recall r)" "obeys same_env (remember m)"
  by (auto intro!: obeysI split: prod.splits outcome.splits
      simp: sql_def tx_begin_def tx_sql_def tx_commit_def publish_def git_call_def http_call_def
        now_def new_uuid_def random_bytes_def same_env_def Let_def recall_def remember_def perform_def logged_def)

lemmas same_env_intros = env.obeys_control same_env_effects

section \<open>The memory\<close>

text \<open>Only \<open>remember\<close> writes the memory.\<close>

definition same_memory :: "world \<Rightarrow> world \<Rightarrow> bool" where
  "same_memory w w' \<longleftrightarrow> w_mem w' = w_mem w"

interpretation sm: run_relation same_memory
  by unfold_locales (auto simp: same_memory_def)

lemma same_memory_effects:
  "obeys same_memory (sql f)" "obeys same_memory (publish s p)" "obeys same_memory (http_call s p)"
  "obeys same_memory now" "obeys same_memory new_uuid" "obeys same_memory (random_bytes n)" "obeys same_memory (recall r)"
  "obeys same_memory (perform pa)" "obeys same_memory (logged pa)"
  by (auto intro!: obeysI split: prod.splits outcome.splits
      simp: sql_def publish_def http_call_def now_def new_uuid_def random_bytes_def same_memory_def Let_def recall_def perform_def logged_def)

lemmas same_memory_intros = sm.obeys_control same_memory_effects

section \<open>Runs in a healthy world\<close>

text \<open>From now on no interaction fails. The equations below run a program symbolically.\<close>

definition healthy :: "world \<Rightarrow> bool" where
  "healthy w \<longleftrightarrow> (\<forall>n \<ge> w_tick w. w_fault w n = Done)"

lemma healthy_outcome: "healthy w \<Longrightarrow> outcome_of w = Done"
  by (simp add: healthy_def outcome_of_def)

lemma healthy_tick [simp]: "healthy w \<Longrightarrow> healthy (tick w)"
  by (simp add: healthy_def)

lemma healthy_simps [simp]:
  "healthy (w\<lparr>w_acts := as\<rparr>) = healthy w" "healthy (w\<lparr>w_db := d\<rparr>) = healthy w"
  "healthy (w\<lparr>w_streams := ss\<rparr>) = healthy w" "healthy (w\<lparr>w_git := g\<rparr>) = healthy w"
  "healthy (w\<lparr>w_sent := ss\<rparr>) = healthy w" "healthy (w\<lparr>w_mem := m\<rparr>) = healthy w"
  by (simp_all add: healthy_def)

lemma healthy_same_env: "same_env w w' \<Longrightarrow> healthy w \<Longrightarrow> healthy w'"
  by (auto simp: same_env_def healthy_def)

named_theorems run_simps \<open>running effects in a healthy world\<close>

lemma run_sql [run_simps]: "healthy w \<Longrightarrow>
  run_state (sql f) w =
    (fst (f (w_uuid w (w_tick w)) (w_clock w (w_tick w)) (w_db w)),
     tick (w\<lparr>w_db := snd (f (w_uuid w (w_tick w)) (w_clock w (w_tick w)) (w_db w))\<rparr>))"
  by (simp add: sql_def healthy_outcome split: prod.splits)

lemma run_tx_begin [run_simps]: "healthy w \<Longrightarrow> run_state tx_begin w = (Inr (w_db w), tick w)"
  by (simp add: tx_begin_def healthy_outcome)

lemma run_tx_sql [run_simps]: "healthy w \<Longrightarrow>
  run_state (tx_sql f d) w = (f (w_uuid w (w_tick w)) (w_clock w (w_tick w)) d, tick w)"
  by (simp add: tx_sql_def healthy_outcome)

lemma run_tx_commit [run_simps]: "healthy w \<Longrightarrow>
  run_state (tx_commit d) w = (Inr (), tick (w\<lparr>w_db := d\<rparr>))"
  by (simp add: tx_commit_def healthy_outcome)

lemma run_publish [run_simps]: "healthy w \<Longrightarrow>
  run_state (publish s p) w = (Inr (), tick (w\<lparr>w_streams := w_streams w @ [(s, p)]\<rparr>))"
  by (simp add: publish_def healthy_outcome Let_def)

lemma run_git_call [run_simps]: "healthy w \<Longrightarrow>
  run_state (git_call a) w = (Inr (), tick (w\<lparr>w_git := w_git w @ [a]\<rparr>))"
  by (simp add: git_call_def healthy_outcome Let_def)

lemma run_perform [run_simps]: "healthy w \<Longrightarrow>
  run_state (perform pa) w = (Inr (), tick (w\<lparr>w_acts := w_acts w @ [pa]\<rparr>))"
  by (simp add: perform_def healthy_outcome)

lemma run_logged [run_simps]: "run_state (logged pa) w = ((), w\<lparr>w_acts := w_acts w @ [pa]\<rparr>)"
  by (simp add: logged_def)

lemma run_memory [run_simps]:
  "run_state (recall f) w = (f (w_mem w), w)"
  "run_state (remember g) w = ((), w\<lparr>w_mem := g (w_mem w)\<rparr>)"
  by (simp_all add: recall_def remember_def)

lemma run_pure_effects [run_simps]:
  "run_state now w = (w_clock w (w_tick w), tick w)"
  "run_state new_uuid w = (w_uuid w (w_tick w), tick w)"
  "run_state (random_bytes n) w = (take n (w_random w (w_tick w) @ replicate n (CHR 0x00)), tick w)"
  "run_state (http_call s p) w =
     (w_reply w (w_tick w), tick (w\<lparr>w_sent := w_sent w @ [(s, p)]\<rparr>))"
  by (simp_all add: now_def new_uuid_def random_bytes_def http_call_def)

text \<open>Whatever goes wrong, a statement either returns what its function returns, having written what
  it writes, or returns \<open>Unavailable\<close>.\<close>

lemma sql_cases:
  obtains (ok) "run_state (sql f) w =
      (fst (f (w_uuid w (w_tick w)) (w_clock w (w_tick w)) (w_db w)),
       tick (w\<lparr>w_db := snd (f (w_uuid w (w_tick w)) (w_clock w (w_tick w)) (w_db w))\<rparr>))"
  | (refused) "run_state (sql f) w = (Inl Unavailable, tick w)"
  | (unacked) "run_state (sql f) w = (Inl Unavailable,
       tick (w\<lparr>w_db := snd (f (w_uuid w (w_tick w)) (w_clock w (w_tick w)) (w_db w))\<rparr>))"
  by (cases "outcome_of w") (auto simp: sql_def split: prod.splits)

lemma sql_Inr:
  "run_state (sql f) w = (Inr x, w') \<Longrightarrow>
   f (w_uuid w (w_tick w)) (w_clock w (w_tick w)) (w_db w) = (Inr x, w_db w') \<and>
   w' = tick (w\<lparr>w_db := w_db w'\<rparr>)"
  by (cases rule: sql_cases [of f w]) (auto simp: prod_eq_iff)

lemma sql_streams: "run_state (sql f) w = (x, w') \<Longrightarrow> w_streams w' = w_streams w"
  by (cases rule: sql_cases [of f w]) auto

end
