(* ===== verification/Platform.thy ===== *)
theory Platform
  imports Effects
begin

text \<open>
  \<open>internal/platform\<close>: the identity a token resolves to, token extraction, resolution against the
  shared \<open>api_keys\<close> table and the session secret, the role guard, the authentication middleware, CORS
  and the JSON response helpers. A handler is a computation \<open>request \<Rightarrow> response io\<close>, one that runs
  behind \<open>Middleware\<close> takes the resolved identity first. Tracing of requests is not modelled.
\<close>

section \<open>Responses (httpx.go, cors.go)\<close>

definition WriteJSON :: "nat \<Rightarrow> json \<Rightarrow> response" where
  "WriteJSON status v =
     \<lparr>rs_status = status, rs_headers = [(''Content-Type'', ''application/json'')], rs_body = JsonBody v\<rparr>"

definition WriteError :: "nat \<Rightarrow> string \<Rightarrow> response" where
  "WriteError status msg = WriteJSON status (JObj [(''error'', JStr msg)])"

definition cors_headers :: "(string \<times> string) list" where
  "cors_headers =
     [(''Access-Control-Allow-Origin'', ''*''),
      (''Access-Control-Allow-Methods'', ''GET, POST, PUT, DELETE, OPTIONS''),
      (''Access-Control-Allow-Headers'', ''Authorization, Content-Type, X-SignalYard-Token'')]"

definition CORS :: "(request \<Rightarrow> response io) \<Rightarrow> request \<Rightarrow> response io" where
  "CORS next r =
     (if rq_method r = ''OPTIONS''
      then ret \<lparr>rs_status = 204, rs_headers = cors_headers, rs_body = NoBody\<rparr>
      else do {
        rs \<leftarrow> next r;
        ret (rs\<lparr>rs_headers := cors_headers @ rs_headers rs\<rparr>)
      })"

lemma status_simps [simp]:
  "rs_status (WriteJSON s v) = s" "rs_status (WriteError s m) = s"
  "rs_body (WriteJSON s v) = JsonBody v" "rs_body (WriteError s m) = JsonBody (JObj [(''error'', JStr m)])"
  by (simp_all add: WriteJSON_def WriteError_def)

section \<open>Identities (auth.go)\<close>

record identity =
  id_kind :: string
  id_agent :: uuid
  id_user :: uuid
  id_email :: string
  id_role :: string

definition zero_identity :: identity where
  "zero_identity = \<lparr>id_kind = [], id_agent = 0, id_user = 0, id_email = [], id_role = []\<rparr>"

definition identity_name :: "libs \<Rightarrow> identity \<Rightarrow> string" where
  "identity_name L i =
     (if id_kind i = ''agent'' then ''agent:'' @ l_uuid_string L (id_agent i)
      else if id_email i \<noteq> [] then id_email i
      else id_kind i)"

type_synonym handler = "identity \<Rightarrow> request \<Rightarrow> response io"

record token_auth =
  ta_hec_salt :: bytes
  ta_jwt_secret :: bytes
  ta_dev_admin_token :: string

definition HashToken :: "libs \<Rightarrow> bytes \<Rightarrow> string \<Rightarrow> string" where
  "HashToken L salt token = hex_encode (l_hmac_sha256 L salt token)"

text \<open>The loop over the accepted schemes, then the fallback header.\<close>

fun cut_scheme :: "string list \<Rightarrow> string \<Rightarrow> string option" where
  "cut_scheme [] h = None"
| "cut_scheme (s # ss) h =
     (case cut_prefix h (s @ '' '') of Some rest \<Rightarrow> Some (trim_space rest) | None \<Rightarrow> cut_scheme ss h)"

definition extractToken :: "request \<Rightarrow> string" where
  "extractToken r =
     (case cut_scheme [''SignalYard'', ''Splunk'', ''Bearer''] (header r ''Authorization'') of
        Some token \<Rightarrow> token
      | None \<Rightarrow> header r ''X-SignalYard-Token'')"

text \<open>\<open>SELECT agent_id FROM api_keys WHERE key_hash = $1 AND revoked_at IS NULL AND (expires_at IS NULL
  OR expires_at > NOW())\<close>.\<close>

definition live_key :: "string \<Rightarrow> time \<Rightarrow> key_row \<Rightarrow> bool" where
  "live_key h t k \<longleftrightarrow> k_hash k = h \<and> k_revoked k = None \<and>
     (case k_expires k of None \<Rightarrow> True | Some e \<Rightarrow> e > t)"

definition select_live_key :: "string \<Rightarrow> uuid stmt" where
  "select_live_key h u t d =
     (case find (live_key h t) (api_keys d) of
        None \<Rightarrow> Inl ErrNotFound
      | Some k \<Rightarrow> Inr (k_agent k), d)"

text \<open>The identity of a verified session JWT; a \<open>sub\<close> that is not a UUID leaves the nil UUID.\<close>

definition user_identity :: "libs \<Rightarrow> jmap \<Rightarrow> identity" where
  "user_identity L claims =
     zero_identity\<lparr>id_kind := ''user'', id_email := claim_string claims ''email'',
       id_role := claim_string claims ''role'',
       id_user := (case l_uuid_parse L (claim_string claims ''sub'') of
                     Some u \<Rightarrow> if claim_string claims ''sub'' = [] then 0 else u
                   | None \<Rightarrow> 0)\<rparr>"

datatype auth_error = LookupFailed db_error | InvalidToken

definition Resolve :: "libs \<Rightarrow> token_auth \<Rightarrow> string \<Rightarrow> (auth_error + identity) io" where
  "Resolve L a token =
     (if ta_dev_admin_token a \<noteq> [] \<and> token = ta_dev_admin_token a
      then ret (Inr (zero_identity\<lparr>id_kind := ''dev-admin'', id_role := ''admin'',
                       id_email := ''dev-admin@local''\<rparr>))
      else do {
        r \<leftarrow> sql (select_live_key (HashToken L (ta_hec_salt a) token));
        (case r of
           Inr agent \<Rightarrow> ret (Inr (zero_identity\<lparr>id_kind := ''agent'', id_agent := agent\<rparr>))
         | Inl e \<Rightarrow>
             if e \<noteq> ErrNotFound then ret (Inl (LookupFailed e))
             else if ta_jwt_secret a = [] then ret (Inl InvalidToken)
             else do {
               t \<leftarrow> now;
               (case l_jwt_parse L (ta_jwt_secret a) t token of
                  None \<Rightarrow> ret (Inl InvalidToken)
                | Some claims \<Rightarrow> ret (Inr (user_identity L claims)))
             })
      })"

definition RequireRole ::
  "string list \<Rightarrow> (identity \<Rightarrow> request \<Rightarrow> response io) \<Rightarrow> identity \<Rightarrow> request \<Rightarrow> response io" where
  "RequireRole roles next i r =
     (if id_kind i = ''dev-admin'' \<or> id_role i \<in> set roles then next i r
      else ret (WriteError 403 ''forbidden''))"

definition Middleware ::
  "libs \<Rightarrow> token_auth \<Rightarrow> (identity \<Rightarrow> request \<Rightarrow> response io) \<Rightarrow> request \<Rightarrow> response io" where
  "Middleware L a next r =
     (let token = extractToken r in
      if token = [] then ret (WriteError 401 ''missing token'')
      else do {
        x \<leftarrow> Resolve L a token;
        (case x of
           Inl e \<Rightarrow> ret (WriteError 401 ''invalid token'')
         | Inr i \<Rightarrow> next i r)
      })"

section \<open>What a token can resolve to\<close>

lemma reads_select_live_key: "reads (select_live_key h)"
  by (simp add: reads_def select_live_key_def)

lemma Resolve_unchanged: "obeys unchanged (Resolve L a token)"
  unfolding Resolve_def by (intro unchanged_intros reads_select_live_key)

lemma select_live_key_sound:
  "select_live_key h u t d = (Inr g, d') \<Longrightarrow> \<exists>k \<in> set (api_keys d). live_key h t k \<and> k_agent k = g"
  by (auto simp: select_live_key_def split: option.splits dest!: find_SomeD)

text \<open>The three ways a token resolves.\<close>

lemma Resolve_cases:
  assumes "run_state (Resolve L a token) w = (Inr i, w')"
  obtains (dev) "ta_dev_admin_token a \<noteq> []" "token = ta_dev_admin_token a"
      "i = zero_identity\<lparr>id_kind := ''dev-admin'', id_role := ''admin'', id_email := ''dev-admin@local''\<rparr>"
  | (agent) k where "k \<in> set (api_keys (w_db w))"
      "live_key (HashToken L (ta_hec_salt a) token) (w_clock w (w_tick w)) k"
      "i = zero_identity\<lparr>id_kind := ''agent'', id_agent := k_agent k\<rparr>"
  | (user) t claims where "ta_jwt_secret a \<noteq> []"
      "l_jwt_parse L (ta_jwt_secret a) t token = Some claims" "i = user_identity L claims"
proof (cases "ta_dev_admin_token a \<noteq> [] \<and> token = ta_dev_admin_token a")
  case True
  then show ?thesis using assms by (intro dev) (simp_all add: Resolve_def)
next
  case notdev: False
  let ?q = "select_live_key (HashToken L (ta_hec_salt a) token)"
  obtain x v where q: "run_state (sql ?q) w = (x, v)" by force
  show ?thesis
  proof (cases x)
    case (Inr g)
    then have i: "i = zero_identity\<lparr>id_kind := ''agent'', id_agent := g\<rparr>"
      using assms notdev q by (auto simp: Resolve_def)
    have "?q (w_uuid w (w_tick w)) (w_clock w (w_tick w)) (w_db w) = (Inr g, w_db v)"
      using sql_Inr [OF q [unfolded Inr]] by simp
    from select_live_key_sound [OF this] i show ?thesis by (auto intro: agent)
  next
    case (Inl e)
    then have r: "run_state (if e \<noteq> ErrNotFound then ret (Inl (LookupFailed e))
        else if ta_jwt_secret a = [] then ret (Inl InvalidToken)
        else do {
          t \<leftarrow> now;
          (case l_jwt_parse L (ta_jwt_secret a) t token of
             None \<Rightarrow> ret (Inl InvalidToken)
           | Some claims \<Rightarrow> ret (Inr (user_identity L claims)))
        }) v = (Inr i, w')"
      using assms notdev q by (auto simp: Resolve_def)
    then show ?thesis
      by (auto intro: user simp: run_simps split: if_splits option.splits)
  qed
qed

text \<open>A token resolves to an agent only through a live key of that agent stored under its hash, and
  such an identity has no role.\<close>

lemma user_identity_simps [simp]:
  "id_kind (user_identity L c) = ''user''" "id_role (user_identity L c) = claim_string c ''role''"
  by (simp_all add: user_identity_def zero_identity_def)

lemma zero_identity_simps [simp]:
  "id_kind zero_identity = []" "id_role zero_identity = []" "id_email zero_identity = []"
  by (simp_all add: zero_identity_def)

lemma Resolve_agent_key:
  assumes "run_state (Resolve L a token) w = (Inr i, w')" and "id_kind i = ''agent''"
  shows "\<exists>k \<in> set (api_keys (w_db w)). k_agent k = id_agent i \<and>
           live_key (HashToken L (ta_hec_salt a) token) (w_clock w (w_tick w)) k"
  using assms(1) by (cases rule: Resolve_cases) (use assms(2) in auto)

text \<open>A role comes only from verified session claims or from the development token.\<close>

lemma Resolve_role:
  assumes "run_state (Resolve L a token) w = (Inr i, w')"
    and "id_kind i = ''dev-admin'' \<or> id_role i \<noteq> []"
  shows "(ta_dev_admin_token a \<noteq> [] \<and> token = ta_dev_admin_token a) \<or>
         (\<exists>t claims. l_jwt_parse L (ta_jwt_secret a) t token = Some claims \<and>
            id_role i = claim_string claims ''role'')"
  using assms(1) by (cases rule: Resolve_cases) (use assms(2) in auto)

section \<open>The guards\<close>

lemma RequireRole_obeys:
  "\<lbrakk>\<And>i r. obeys R (next i r); \<And>s m. obeys R (ret (WriteError s m))\<rbrakk> \<Longrightarrow>
   obeys R (RequireRole roles next i r)"
  by (simp add: RequireRole_def)

lemma RequireRole_reject:
  "id_kind i \<noteq> ''dev-admin'' \<Longrightarrow> id_role i \<notin> set roles \<Longrightarrow>
   RequireRole roles next i r = ret (WriteError 403 ''forbidden'')"
  by (simp add: RequireRole_def)

context run_relation begin

lemma obeys_Middleware:
  "(\<And>h. obeys R (sql (select_live_key h))) \<Longrightarrow> obeys R now \<Longrightarrow> (\<And>i r. obeys R (next i r)) \<Longrightarrow>
   obeys R (Middleware L a next r)"
  unfolding Middleware_def Let_def Resolve_def by (intro obeys_control)

lemma obeys_CORS: "(\<And>r. obeys R (next r)) \<Longrightarrow> obeys R (CORS next r)"
  unfolding CORS_def by (intro obeys_control)

end

text \<open>What a guarded route does: either it answers 401 or 403 and changes nothing, or it ran the
  handler for an identity that holds the role.\<close>

lemma guarded_cases:
  assumes "run_state (Middleware L a (RequireRole roles next) r) w = (rs, w')"
  obtains (denied) "unchanged w w'" "rs_status rs = 401 \<or> rs_status rs = 403"
  | (ran) i v where "run_state (Resolve L a (extractToken r)) w = (Inr i, v)" "unchanged w v"
      "id_kind i = ''dev-admin'' \<or> id_role i \<in> set roles" "run_state (next i r) v = (rs, w')"
proof -
  obtain x v where x: "run_state (Resolve L a (extractToken r)) w = (x, v)" by force
  have un: "unchanged w v" using Resolve_unchanged x by (rule obeys_run)
  show ?thesis
  proof (cases "extractToken r = []")
    case True
    then show ?thesis
      using assms by (auto intro!: denied simp: Middleware_def ro.refl_R)
  next
    case False
    then show ?thesis
      using assms x un
      by (cases x; cases "id_kind (projr x) = ''dev-admin'' \<or> id_role (projr x) \<in> set roles")
        (auto simp: Middleware_def RequireRole_def intro: denied ran)
  qed
qed

end
