(* ===== verification/RegistryStore.thy ===== *)
theory RegistryStore
  imports Platform "HOL-Library.List_Lexorder" "HOL-Library.Char_ord"
begin

text \<open>
  \<open>internal/registry/store.go\<close>: the schema registry's statements, one definition per query, and the
  store functions that combine them. A statement that violates a key or reference fails and writes
  nothing. \<open>CreateSchemaVersion\<close> is the one transaction.

  The lemmas are about the version transaction. \<open>versions_ok\<close> is the version discipline: the rows of
  a category carry the versions 1, 2, .., n in order and only the last is active. \<open>history\<close>, the
  list of schema bodies of a category, is the abstract view the transaction appends to.
\<close>

section \<open>Structs\<close>

record category =
  cat_id :: uuid
  cat_name :: string
  cat_description :: string
  cat_version :: int
  cat_created :: time

record schema =
  sc_id :: uuid
  sc_category :: string
  sc_version :: int
  sc_json :: jmap
  sc_routing :: string
  sc_git :: string
  sc_active :: bool
  sc_created_by :: string
  sc_created :: time

record proposal =
  pr_id :: uuid
  pr_category :: string
  pr_status :: string
  pr_generated_by :: string
  pr_patch :: jmap
  pr_routing_diff :: string
  pr_confidence :: "string option"
  pr_reviewed_by :: string
  pr_notes :: string
  pr_created :: time

record agent_record =
  ar_id :: uuid
  ar_name :: string
  ar_slug :: string
  ar_description :: string
  ar_type :: string
  ar_status :: string
  ar_email :: string
  ar_capabilities :: "string list option"
  ar_created :: time

record key_meta =
  km_id :: uuid
  km_prefix :: string
  km_label :: string
  km_scopes :: "string list"
  km_revoked :: bool
  km_created :: time

record audit_entry =
  au_id :: uuid
  au_proposal :: uuid
  au_category :: string
  au_user :: "uuid option"
  au_action :: string
  au_notes :: string
  au_created :: time

definition nullStr :: "string \<Rightarrow> string option" where
  "nullStr s = (if s = [] then None else Some s)"

section \<open>Categories\<close>

definition ListCategories :: "category list stmt" where
  "ListCategories u t d =
     (Inr (map (\<lambda>c. \<lparr>cat_id = c_id c, cat_name = c_name c, cat_description = coalesce (c_description c),
              cat_version = max_or_zero (map s_version
                (filter (\<lambda>s. s_category s = c_id c \<and> s_active s) (schemas d))),
              cat_created = c_created c\<rparr>)
        (sort_key c_name (categories d))), d)"

definition upsertCategory :: "string \<Rightarrow> uuid stmt" where
  "upsertCategory name u t d =
     (case find (\<lambda>c. c_name c = name) (categories d) of
        Some c \<Rightarrow>
          (Inr (c_id c),
           d\<lparr>categories := upd_where (\<lambda>x. c_name x = name) (\<lambda>x. x\<lparr>c_updated := t\<rparr>) (categories d)\<rparr>)
      | None \<Rightarrow>
          if u \<in> c_id ` set (categories d) then (Inl UniqueViolation, d)
          else (Inr u, d\<lparr>categories := categories d @
                  [\<lparr>c_id = u, c_name = name, c_description = None, c_created = t, c_updated = t\<rparr>]\<rparr>))"

section \<open>Schemas\<close>

definition deactivateSchemas :: "uuid \<Rightarrow> unit stmt" where
  "deactivateSchemas cat u t d =
     (Inr (), d\<lparr>schemas := upd_where (\<lambda>s. s_category s = cat)
        (\<lambda>s. s\<lparr>s_active := False, s_updated := t\<rparr>) (schemas d)\<rparr>)"

definition next_version :: "uuid \<Rightarrow> db \<Rightarrow> int" where
  "next_version cat d = max_or_zero (map s_version (filter (\<lambda>s. s_category s = cat) (schemas d))) + 1"

definition insertSchema ::
  "uuid \<Rightarrow> jmap \<Rightarrow> string \<Rightarrow> string option \<Rightarrow> string \<Rightarrow> schema stmt" where
  "insertSchema cat body routing sha by u t d =
     (let v = next_version cat d;
          row = \<lparr>s_id = u, s_category = cat, s_version = v, s_json = body, s_routing = Some routing,
                 s_sha = sha, s_active = True, s_created_by = Some by, s_created = t, s_updated = t\<rparr> in
      if u \<in> s_id ` set (schemas d) \<or> (cat, v) \<in> (\<lambda>s. (s_category s, s_version s)) ` set (schemas d)
      then (Inl UniqueViolation, d)
      else if cat \<notin> c_id ` set (categories d) then (Inl ForeignKeyViolation, d)
      else (Inr \<lparr>sc_id = u, sc_category = [], sc_version = v, sc_json = body, sc_routing = routing,
                 sc_git = [], sc_active = True, sc_created_by = by, sc_created = t\<rparr>,
            d\<lparr>schemas := schemas d @ [row]\<rparr>))"

text \<open>A new active version; prior versions are deactivated in the same transaction.\<close>

definition CreateSchemaVersion ::
  "string \<Rightarrow> jmap \<Rightarrow> string \<Rightarrow> string \<Rightarrow> string \<Rightarrow> schema res io" where
  "CreateSchemaVersion name body routing by sha = do {
     b \<leftarrow> tx_begin;
     (case b of Inl e \<Rightarrow> ret (Inl e) | Inr d0 \<Rightarrow> do {
       (r1, d1) \<leftarrow> tx_sql (upsertCategory name) d0;
       (case r1 of Inl e \<Rightarrow> ret (Inl e) | Inr cat \<Rightarrow> do {
         (r2, d2) \<leftarrow> tx_sql (deactivateSchemas cat) d1;
         (case r2 of Inl e \<Rightarrow> ret (Inl e) | Inr _ \<Rightarrow> do {
           (r3, d3) \<leftarrow> tx_sql (insertSchema cat body routing (nullStr sha) by) d2;
           (case r3 of Inl e \<Rightarrow> ret (Inl e) | Inr sc \<Rightarrow> do {
             c \<leftarrow> tx_commit d3;
             (case c of Inl e \<Rightarrow> ret (Inl e)
              | Inr _ \<Rightarrow> ret (Inr (sc\<lparr>sc_category := name, sc_git := sha\<rparr>)))
           })
         })
       })
     })
   }"

definition SetSchemaGitSHA :: "uuid \<Rightarrow> string \<Rightarrow> unit stmt" where
  "SetSchemaGitSHA sid sha u t d =
     (Inr (), d\<lparr>schemas := upd_where (\<lambda>s. s_id s = sid) (\<lambda>s. s\<lparr>s_sha := Some sha\<rparr>) (schemas d)\<rparr>)"

text \<open>\<open>schemas sc JOIN categories c ON c.id = sc.category_id\<close>, and the scan of one joined row;
  \<open>routing_yaml\<close> is scanned into a string as it is.\<close>

definition schema_join :: "db \<Rightarrow> (schema_row \<times> category_row) list" where
  "schema_join d = [(s, c). s \<leftarrow> schemas d, c \<leftarrow> categories d, c_id c = s_category s]"

definition scanSchema :: "schema_row \<times> category_row \<Rightarrow> schema res" where
  "scanSchema = (\<lambda>(s, c).
     case s_routing s of
       None \<Rightarrow> Inl ScanNull
     | Some routing \<Rightarrow>
         Inr \<lparr>sc_id = s_id s, sc_category = c_name c, sc_version = s_version s, sc_json = s_json s,
              sc_routing = routing, sc_git = coalesce (s_sha s), sc_active = s_active s,
              sc_created_by = coalesce (s_created_by s), sc_created = s_created s\<rparr>)"

definition GetActiveSchema :: "string \<Rightarrow> schema stmt" where
  "GetActiveSchema name u t d =
     (case order_desc (\<lambda>(s, c). s_version s)
             (filter (\<lambda>(s, c). c_name c = name \<and> s_active s) (schema_join d)) of
        [] \<Rightarrow> Inl ErrNotFound
      | row # _ \<Rightarrow> scanSchema row, d)"

definition ListActiveSchemas :: "schema list stmt" where
  "ListActiveSchemas u t d =
     (map_res scanSchema
        (sort_key (\<lambda>(s, c). c_name c) (filter (\<lambda>(s, c). s_active s) (schema_join d))), d)"

definition ListSchemaVersions :: "string \<Rightarrow> schema list stmt" where
  "ListSchemaVersions name u t d =
     (case map_res scanSchema (order_desc (\<lambda>(s, c). s_version s)
             (filter (\<lambda>(s, c). c_name c = name) (schema_join d))) of
        Inl e \<Rightarrow> Inl e
      | Inr out \<Rightarrow> if out = [] then Inl ErrNotFound else Inr out, d)"

text \<open>Deleting a category cascades to its schemas and clears references to them; an event of the
  category restricts the deletion.\<close>

definition DeleteCategory :: "string \<Rightarrow> unit stmt" where
  "DeleteCategory name u t d =
     (let gone = c_id ` {c \<in> set (categories d). c_name c = name};
          lost = s_id ` {s \<in> set (schemas d). s_category s \<in> gone} in
      if count_where (\<lambda>c. c_name c = name) (categories d) = 0 then (Inl ErrNotFound, d)
      else if \<exists>e \<in> set (events d). e_category e \<in> gone then (Inl ForeignKeyViolation, d)
      else (Inr (),
        d\<lparr>categories := filter (\<lambda>c. c_name c \<noteq> name) (categories d),
          schemas := filter (\<lambda>s. s_category s \<notin> gone) (schemas d),
          events := upd_where (\<lambda>e. \<exists>s \<in> lost. e_schema e = Some s) (\<lambda>e. e\<lparr>e_schema := None\<rparr>) (events d),
          proposals := upd_where (\<lambda>p. \<exists>s \<in> lost. p_schema p = Some s)
            (\<lambda>p. p\<lparr>p_schema := None\<rparr>) (proposals d)\<rparr>))"

section \<open>Proposals\<close>

text \<open>The first sample id that parses.\<close>

fun first_uuid :: "libs \<Rightarrow> string list \<Rightarrow> uuid option" where
  "first_uuid L [] = None"
| "first_uuid L (x # xs) = (case l_uuid_parse L x of Some u \<Rightarrow> Some u | None \<Rightarrow> first_uuid L xs)"

definition insertProposal ::
  "uuid option \<Rightarrow> string \<Rightarrow> string \<Rightarrow> jmap \<Rightarrow> string \<Rightarrow> string option \<Rightarrow> proposal stmt" where
  "insertProposal quarantine name by patch routing conf u t d =
     (if u \<in> p_id ` set (proposals d) then (Inl UniqueViolation, d)
      else if (case quarantine of None \<Rightarrow> False | Some q \<Rightarrow> q \<notin> q_id ` set (quarantine_events d))
      then (Inl ForeignKeyViolation, d)
      else (Inr \<lparr>pr_id = u, pr_category = name, pr_status = ''pending'', pr_generated_by = by,
                 pr_patch = [], pr_routing_diff = [], pr_confidence = conf, pr_reviewed_by = [],
                 pr_notes = [], pr_created = t\<rparr>,
            d\<lparr>proposals := proposals d @
                [\<lparr>p_id = u, p_quarantine = quarantine, p_category = Some name, p_json = patch,
                  p_routing = Some routing, p_diff = None, p_agent_name = Some by, p_confidence = conf,
                  p_status = ''pending'', p_reviewed_by = None, p_reviewed_at = None, p_schema = None,
                  p_created = t, p_updated = t\<rparr>]\<rparr>))"

definition CreateProposal ::
  "libs \<Rightarrow> string \<Rightarrow> string \<Rightarrow> jmap \<Rightarrow> string \<Rightarrow> string list \<Rightarrow> string option \<Rightarrow> proposal res io" where
  "CreateProposal L name by patch routing samples conf =
     sql (insertProposal (first_uuid L samples) name by patch routing conf)"

definition scanProposal :: "proposal_row \<Rightarrow> proposal res" where
  "scanProposal p =
     (case p_category p of
        None \<Rightarrow> Inl ScanNull
      | Some name \<Rightarrow>
          Inr \<lparr>pr_id = p_id p, pr_category = name, pr_status = p_status p,
               pr_generated_by = coalesce (p_agent_name p), pr_patch = p_json p,
               pr_routing_diff = coalesce (p_routing p), pr_confidence = p_confidence p,
               pr_reviewed_by = coalesce (p_reviewed_by p), pr_notes = coalesce (p_diff p),
               pr_created = p_created p\<rparr>)"

definition ListProposals :: "string \<Rightarrow> proposal list stmt" where
  "ListProposals status u t d =
     (map_res scanProposal (order_desc p_created
        (filter (\<lambda>p. status = [] \<or> p_status p = status) (proposals d))), d)"

definition GetProposal :: "uuid \<Rightarrow> proposal stmt" where
  "GetProposal pid u t d =
     (case find (\<lambda>p. p_id p = pid) (proposals d) of
        None \<Rightarrow> Inl ErrNotFound
      | Some p \<Rightarrow> scanProposal p, d)"

definition FinalizeProposal ::
  "uuid \<Rightarrow> string \<Rightarrow> string \<Rightarrow> string \<Rightarrow> uuid option \<Rightarrow> unit stmt" where
  "FinalizeProposal pid status reviewer notes sid u t d =
     (let P = (\<lambda>p. p_id p = pid \<and> p_status p = ''pending'') in
      if count_where P (proposals d) = 0 then (Inl ErrConflict, d)
      else if (case sid of None \<Rightarrow> False | Some s \<Rightarrow> s \<notin> s_id ` set (schemas d))
      then (Inl ForeignKeyViolation, d)
      else (Inr (), d\<lparr>proposals := upd_where P
             (\<lambda>p. p\<lparr>p_status := status, p_reviewed_by := Some reviewer, p_diff := Some notes,
                    p_reviewed_at := Some t, p_schema := sid, p_updated := t\<rparr>) (proposals d)\<rparr>))"

definition ListAuditLog :: "uuid option \<Rightarrow> audit_entry list stmt" where
  "ListAuditLog pid u t d =
     (Inr (map (\<lambda>l. \<lparr>au_id = l_id l, au_proposal = l_proposal l,
              au_category = (case find (\<lambda>p. p_id p = l_proposal l) (proposals d) of
                               None \<Rightarrow> [] | Some p \<Rightarrow> coalesce (p_category p)),
              au_user = l_user l, au_action = l_action l, au_notes = coalesce (l_notes l),
              au_created = l_created l\<rparr>)
        (take 200 (order_desc l_created
           (filter (\<lambda>l. case pid of None \<Rightarrow> True | Some p \<Rightarrow> l_proposal l = p) (audit_log d))))), d)"

definition AuditLog :: "uuid \<Rightarrow> uuid option \<Rightarrow> string \<Rightarrow> string \<Rightarrow> unit stmt" where
  "AuditLog pid user action notes u t d =
     (if u \<in> l_id ` set (audit_log d) then (Inl UniqueViolation, d)
      else if pid \<notin> p_id ` set (proposals d) \<or>
        (case user of None \<Rightarrow> False | Some x \<Rightarrow> x \<notin> u_id ` set (users d))
      then (Inl ForeignKeyViolation, d)
      else (Inr (), d\<lparr>audit_log := audit_log d @
              [\<lparr>l_id = u, l_proposal = pid, l_user = user, l_action = action, l_notes = Some notes,
                l_created = t\<rparr>]\<rparr>))"

section \<open>Agents\<close>

definition agent_view :: "agent_row \<Rightarrow> agent_record" where
  "agent_view a =
     \<lparr>ar_id = a_id a, ar_name = a_name a, ar_slug = a_slug a,
      ar_description = coalesce (a_description a), ar_type = a_type a, ar_status = a_status a,
      ar_email = coalesce (a_email a), ar_capabilities = None, ar_created = a_created a\<rparr>"

definition reg_ListAgents :: "agent_record list stmt" where
  "reg_ListAgents u t d = (Inr (map agent_view (order_desc a_created (agents d))), d)"

text \<open>\<open>{"capabilities": ..}\<close>, a nil slice marshalling to \<open>null\<close>, and reading it back.\<close>

definition capabilities_meta :: "string list option \<Rightarrow> json" where
  "capabilities_meta caps =
     JObj [(''capabilities'', case caps of None \<Rightarrow> JNull | Some xs \<Rightarrow> JArr (map JStr xs))]"

definition capabilities_of :: "json \<Rightarrow> string list option" where
  "capabilities_of meta =
     (case dec_object meta of
        None \<Rightarrow> None
      | Some m \<Rightarrow> (case dec_field dec_strings None m ''capabilities'' of None \<Rightarrow> None | Some c \<Rightarrow> c))"

definition insertAgent :: "string \<Rightarrow> string \<Rightarrow> string \<Rightarrow> string list option \<Rightarrow> agent_record stmt" where
  "insertAgent name slug description caps u t d =
     (if u \<in> a_id ` set (agents d) \<or> slug \<in> a_slug ` set (agents d) then (Inl UniqueViolation, d)
      else (let row = \<lparr>a_id = u, a_name = name, a_slug = slug, a_description = Some description,
                  a_type = ''custom'', a_status = ''active'', a_email = None,
                  a_metadata = Some (capabilities_meta caps), a_created = t, a_updated = t\<rparr> in
            (Inr ((agent_view row)\<lparr>ar_capabilities := caps\<rparr>), d\<lparr>agents := agents d @ [row]\<rparr>)))"

definition reg_CreateAgent ::
  "libs \<Rightarrow> string \<Rightarrow> string \<Rightarrow> string list option \<Rightarrow> agent_record res io" where
  "reg_CreateAgent L name description caps = do {
     u \<leftarrow> new_uuid;
     sql (insertAgent name (name @ ''-'' @ take 8 (l_uuid_string L u)) description caps)
   }"

definition reg_GetAgent :: "uuid \<Rightarrow> agent_record stmt" where
  "reg_GetAgent aid u t d =
     (case find (\<lambda>a. a_id a = aid) (agents d) of
        None \<Rightarrow> Inl ErrNotFound
      | Some a \<Rightarrow> Inr ((agent_view a)\<lparr>ar_capabilities :=
          capabilities_of (case a_metadata a of None \<Rightarrow> JObj [] | Some m \<Rightarrow> m)\<rparr>), d)"

definition UpdateAgent :: "uuid \<Rightarrow> string \<Rightarrow> string \<Rightarrow> string list option \<Rightarrow> unit stmt" where
  "UpdateAgent aid name status caps u t d =
     (if count_where (\<lambda>a. a_id a = aid) (agents d) = 0 then (Inl ErrNotFound, d)
      else (Inr (), d\<lparr>agents := upd_where (\<lambda>a. a_id a = aid)
             (\<lambda>a. a\<lparr>a_name := (if name = [] then a_name a else name),
                    a_status := (if status = [] then a_status a else status),
                    a_metadata := Some (capabilities_meta caps), a_updated := t\<rparr>) (agents d)\<rparr>))"

text \<open>Deleting an agent cascades to its keys and idempotency records and detaches its events.\<close>

definition DeleteAgent :: "uuid \<Rightarrow> unit stmt" where
  "DeleteAgent aid u t d =
     (if count_where (\<lambda>a. a_id a = aid) (agents d) = 0 then (Inl ErrNotFound, d)
      else (Inr (),
        d\<lparr>agents := filter (\<lambda>a. a_id a \<noteq> aid) (agents d),
          api_keys := filter (\<lambda>k. k_agent k \<noteq> aid) (api_keys d),
          idempotency_keys := filter (\<lambda>i. i_agent i \<noteq> aid) (idempotency_keys d),
          quarantine_events := upd_where (\<lambda>q. q_agent q = Some aid)
            (\<lambda>q. q\<lparr>q_agent := None\<rparr>) (quarantine_events d),
          events := upd_where (\<lambda>e. e_agent e = Some aid) (\<lambda>e. e\<lparr>e_agent := None\<rparr>) (events d)\<rparr>))"

definition ListAPIKeysForAgent :: "uuid \<Rightarrow> key_meta list stmt" where
  "ListAPIKeysForAgent aid u t d =
     (Inr (map (\<lambda>k. \<lparr>km_id = k_id k, km_prefix = k_prefix k, km_label = coalesce (k_label k),
              km_scopes = (case k_scopes k of None \<Rightarrow> [] | Some s \<Rightarrow> s),
              km_revoked = (k_revoked k \<noteq> None), km_created = k_created k\<rparr>)
        (order_desc k_created (filter (\<lambda>k. k_agent k = aid) (api_keys d)))), d)"

section \<open>Reading statements\<close>

lemma reads_registry:
  "reads ListCategories" "reads (GetActiveSchema n)" "reads ListActiveSchemas"
  "reads (ListSchemaVersions n)" "reads (ListProposals s)" "reads (GetProposal p)"
  "reads (ListAuditLog q)" "reads reg_ListAgents" "reads (reg_GetAgent a)"
  "reads (ListAPIKeysForAgent a)"
  by (simp_all add: reads_def ListCategories_def GetActiveSchema_def ListActiveSchemas_def
      ListSchemaVersions_def ListProposals_def GetProposal_def ListAuditLog_def reg_ListAgents_def
      reg_GetAgent_def ListAPIKeysForAgent_def)

lemma keeps_reads: "reads f \<Longrightarrow> keeps I (sql f)"
  by (rule keeps_sql) (simp add: reads_def)

section \<open>Versions of a category\<close>

definition cat_rows :: "db \<Rightarrow> uuid \<Rightarrow> schema_row list" where
  "cat_rows d c = filter (\<lambda>s. s_category s = c) (schemas d)"

definition chain_ok :: "schema_row list \<Rightarrow> bool" where
  "chain_ok xs \<longleftrightarrow> (\<forall>i < length xs. s_version (xs ! i) = int (Suc i) \<and> s_active (xs ! i) = (Suc i = length xs))"

definition versions_ok :: "db \<Rightarrow> bool" where
  "versions_ok d \<longleftrightarrow> (\<forall>c. chain_ok (cat_rows d c))"

definition cat_of :: "db \<Rightarrow> string \<Rightarrow> uuid option" where
  "cat_of d name = map_option c_id (find (\<lambda>c. c_name c = name) (categories d))"

definition body_of :: "schema_row \<Rightarrow> jmap \<times> string option" where
  "body_of s = (s_json s, s_routing s)"

text \<open>The abstract view: the bodies of a category's versions, oldest first.\<close>

definition history :: "db \<Rightarrow> string \<Rightarrow> (jmap \<times> string option) list" where
  "history d name = (case cat_of d name of None \<Rightarrow> [] | Some c \<Rightarrow> map body_of (cat_rows d c))"

lemma chain_ok_Nil [simp]: "chain_ok []"
  by (simp add: chain_ok_def)

lemma chain_ok_snoc:
  assumes "chain_ok xs" and "s_version r = int (Suc (length xs))" and "s_active r"
    and "\<And>s. s_version (f s) = s_version s" and "\<And>s. \<not> s_active (f s)"
  shows "chain_ok (map f xs @ [r])"
  using assms by (auto simp: chain_ok_def nth_append less_Suc_eq)

lemma chain_ok_versions: "chain_ok xs \<Longrightarrow> map s_version xs = map int [1..<Suc (length xs)]"
  by (rule nth_equalityI) (auto simp: chain_ok_def simp del: upt_Suc)

lemma chain_ok_distinct: "chain_ok xs \<Longrightarrow> distinct (map s_version xs)"
  by (simp add: chain_ok_versions distinct_map del: upt_Suc)

lemma chain_ok_max: "chain_ok xs \<Longrightarrow> max_or_zero (map s_version xs) = int (length xs)"
proof (cases xs rule: rev_cases)
  case Nil
  then show ?thesis by (simp add: max_or_zero_def)
next
  case (snoc ys y)
  assume ok: "chain_ok xs"
  then have eq: "set (map s_version xs) = int ` {1..<Suc (length xs)}"
    by (simp only: chain_ok_versions set_map set_upt)
  have "Max (set (map s_version xs)) = int (length xs)"
    unfolding eq using snoc by (intro Max_eqI) (auto intro: image_eqI [where x = "length xs"])
  with snoc show ?thesis by (simp add: max_or_zero_Max)
qed

lemma cat_rows_simps [simp]:
  "cat_rows (d\<lparr>proposals := x\<rparr>) c = cat_rows d c"
  "cat_rows (d\<lparr>audit_log := y\<rparr>) c = cat_rows d c"
  "cat_rows (d\<lparr>agents := z\<rparr>) c = cat_rows d c"
  "cat_rows (d\<lparr>categories := v\<rparr>) c = cat_rows d c"
  by (simp_all add: cat_rows_def)

lemma cat_rows_deactivate:
  "cat_rows (snd (deactivateSchemas cat u t d)) c =
     (if c = cat then map (\<lambda>s. s\<lparr>s_active := False, s_updated := t\<rparr>) (cat_rows d c) else cat_rows d c)"
proof -
  let ?f = "\<lambda>s. s\<lparr>s_active := False, s_updated := t\<rparr>"
  have "cat_rows (snd (deactivateSchemas cat u t d)) c =
      upd_where (\<lambda>s. s_category s = cat) ?f (cat_rows d c)"
    by (simp add: cat_rows_def deactivateSchemas_def filter_upd_where)
  also have "\<dots> = (if c = cat then map ?f (cat_rows d c) else cat_rows d c)"
    by (auto simp: cat_rows_def intro!: upd_where_all upd_where_none)
  finally show ?thesis .
qed

section \<open>Upserting a category\<close>

lemma cat_of_append:
  "cat_of (d\<lparr>categories := categories d @ [c]\<rparr>) n =
     (case cat_of d n of Some x \<Rightarrow> Some x | None \<Rightarrow> if c_name c = n then Some (c_id c) else None)"
  by (auto simp: cat_of_def find_append split: option.splits)

lemma cat_of_touch:
  "cat_of (d\<lparr>categories := upd_where P (\<lambda>x. x\<lparr>c_updated := t\<rparr>) (categories d)\<rparr>) n = cat_of d n"
  by (simp add: cat_of_def find_upd_where option.map_comp o_def if_distrib cong: if_cong)

lemma cat_of_Some_in: "cat_of d n = Some c \<Longrightarrow> c \<in> c_id ` set (categories d)"
  by (auto simp: cat_of_def dest: find_SomeD)

lemma cat_of_inj: "wf_schemas d \<Longrightarrow> cat_of d n = Some c \<Longrightarrow> cat_of d m = Some c \<Longrightarrow> n = m"
  by (auto simp: cat_of_def wf_schemas_def dest!: find_SomeD dest: unique_byD)

lemma upsertCategory_ok:
  assumes "upsertCategory name u t d = (Inr cat, d')" and "wf_schemas d"
  shows "wf_schemas d'" and "schemas d' = schemas d" and "cat \<in> c_id ` set (categories d')"
    and "cat_of d' n = (if n = name then Some cat else cat_of d n)"
    and "cat_of d name = Some cat \<or> (cat_of d name = None \<and> cat_rows d cat = [])"
proof -
  have "wf_schemas d' \<and> schemas d' = schemas d \<and> cat \<in> c_id ` set (categories d') \<and>
     cat_of d' n = (if n = name then Some cat else cat_of d n) \<and>
     (cat_of d name = Some cat \<or> (cat_of d name = None \<and> cat_rows d cat = []))"
  proof (cases "find (\<lambda>c. c_name c = name) (categories d)")
    case None
    then have d': "d' = d\<lparr>categories := categories d @ [\<lparr>c_id = u, c_name = name, c_description = None,
        c_created = t, c_updated = t\<rparr>]\<rparr>" and u: "cat = u" "u \<notin> c_id ` set (categories d)"
      using assms(1) by (auto simp: upsertCategory_def split: if_splits)
    have no: "cat_of d name = None" using None by (simp add: cat_of_def)
    have new: "name \<notin> c_name ` set (categories d)"
      using None find_NoneD by fastforce
    have "cat_rows d cat = []"
      using u assms(2) by (auto simp: cat_rows_def wf_schemas_def filter_empty_conv)
    then show ?thesis
      using assms(2) u no new unfolding d' cat_of_append
      by (auto simp: wf_schemas_def split: option.split)
  next
    case (Some c)
    then have d': "d' = d\<lparr>categories := upd_where (\<lambda>x. c_name x = name) (\<lambda>x. x\<lparr>c_updated := t\<rparr>)
        (categories d)\<rparr>" and c: "cat = c_id c"
      using assms(1) by (auto simp: upsertCategory_def)
    have cur: "cat_of d name = Some cat" using Some c by (simp add: cat_of_def)
    then show ?thesis
      using assms(2) cat_of_Some_in [OF cur] unfolding d' cat_of_touch
      by (auto simp: wf_schemas_def unique_by_upd_where image_upd_where)
  qed
  then show "wf_schemas d'" "schemas d' = schemas d" "cat \<in> c_id ` set (categories d')"
    "cat_of d' n = (if n = name then Some cat else cat_of d n)"
    "cat_of d name = Some cat \<or> (cat_of d name = None \<and> cat_rows d cat = [])" by auto
qed

section \<open>The version transaction\<close>

text \<open>What the transaction computes when no interaction fails, over the UUIDs and times of its three
  statements.\<close>

definition schema_tx ::
  "string \<Rightarrow> jmap \<Rightarrow> string \<Rightarrow> string \<Rightarrow> string \<Rightarrow> (nat \<Rightarrow> uuid) \<Rightarrow> (nat \<Rightarrow> time) \<Rightarrow> db \<Rightarrow> schema res \<times> db" where
  "schema_tx name body routing by sha us ts d0 =
     (case upsertCategory name (us 0) (ts 0) d0 of
        (Inl e, _) \<Rightarrow> (Inl e, d0)
      | (Inr cat, d1) \<Rightarrow>
          (case insertSchema cat body routing (nullStr sha) by (us 2) (ts 2)
                  (snd (deactivateSchemas cat (us 1) (ts 1) d1)) of
             (Inl e, _) \<Rightarrow> (Inl e, d0)
           | (Inr sc, d3) \<Rightarrow> (Inr (sc\<lparr>sc_category := name, sc_git := sha\<rparr>), d3)))"

text \<open>All or nothing: the database is as before and the caller sees an error, or it is the full result
  of the transaction and the caller sees the new schema, or \<open>Unavailable\<close> when the acknowledgement
  of the commit is lost.\<close>

lemma CreateSchemaVersion_outcomes:
  assumes "run_state (CreateSchemaVersion name body routing by sha) w = (r, w')"
  defines "q \<equiv> schema_tx name body routing by sha
      (\<lambda>i. w_uuid w (w_tick w + 1 + i)) (\<lambda>i. w_clock w (w_tick w + 1 + i)) (w_db w)"
  shows "(isl r \<and> w_db w' = w_db w) \<or>
         (\<not> isl (fst q) \<and> w_db w' = snd q \<and> (r = fst q \<or> r = Inl Unavailable))"
  using assms(1) unfolding q_def schema_tx_def CreateSchemaVersion_def
  by (simp add: tx_begin_def tx_sql_def tx_commit_def deactivateSchemas_def numeral_2_eq_2
      split: outcome.splits prod.splits sum.splits) auto

lemma insertSchema_ok:
  assumes "insertSchema cat body routing sha by u t d = (Inr sc, d')"
  obtains row where "d' = d\<lparr>schemas := schemas d @ [row]\<rparr>"
    "s_id row = u" "s_category row = cat" "s_version row = next_version cat d" "s_active row"
    "body_of row = (body, Some routing)" "u \<notin> s_id ` set (schemas d)"
    "(cat, next_version cat d) \<notin> (\<lambda>s. (s_category s, s_version s)) ` set (schemas d)"
    "cat \<in> c_id ` set (categories d)" "sc_version sc = next_version cat d" "sc_id sc = u"
proof -
  have g: "u \<notin> s_id ` set (schemas d)"
    "(cat, next_version cat d) \<notin> (\<lambda>s. (s_category s, s_version s)) ` set (schemas d)"
    "cat \<in> c_id ` set (categories d)"
    using assms by (simp_all add: insertSchema_def Let_def split: if_splits)
  define row where "row = \<lparr>s_id = u, s_category = cat, s_version = next_version cat d, s_json = body,
     s_routing = Some routing, s_sha = sha, s_active = True, s_created_by = Some by, s_created = t,
     s_updated = t\<rparr>"
  have eq: "d' = d\<lparr>schemas := schemas d @ [row]\<rparr>" "sc_version sc = next_version cat d" "sc_id sc = u"
    using assms g by (auto simp: insertSchema_def Let_def row_def)
  show ?thesis
    by (rule that [OF eq(1)]) (use g eq in \<open>simp_all add: row_def body_of_def\<close>)
qed

lemma schema_tx_ok:
  assumes "schema_tx name body routing by sha us ts d = (Inr sc, d')"
    and wf: "wf_schemas d" and ver: "versions_ok d"
  shows "wf_schemas d'" and "versions_ok d'"
    and "history d' n = (if n = name then history d n @ [(body, Some routing)] else history d n)"
    and "sc_version sc = int (length (history d' name))" and "sc_category sc = name"
    and "sc_id sc \<in> s_id ` set (schemas d')"
proof -
  obtain cat d1 where up: "upsertCategory name (us 0) (ts 0) d = (Inr cat, d1)"
    using assms(1) by (auto simp: schema_tx_def split: prod.splits sum.splits)
  note up' = upsertCategory_ok [OF up wf]
  define f where "f = (\<lambda>s :: schema_row. s\<lparr>s_active := False, s_updated := ts 1\<rparr>)"
  define d2 where "d2 = snd (deactivateSchemas cat (us 1) (ts 1) d1)"
  have d2: "d2 = d1\<lparr>schemas := upd_where (\<lambda>s. s_category s = cat) f (schemas d1)\<rparr>"
    by (simp add: d2_def deactivateSchemas_def f_def)
  have rows2: "cat_rows d2 c = (if c = cat then map f (cat_rows d c) else cat_rows d c)" for c
    unfolding d2_def cat_rows_deactivate f_def using up'(2) by (simp add: cat_rows_def)
  have ok: "chain_ok (cat_rows d c)" for c using ver by (simp add: versions_ok_def)
  have nv: "next_version cat d2 = int (Suc (length (cat_rows d cat)))"
  proof -
    have "map s_version (cat_rows d2 cat) = map s_version (cat_rows d cat)"
      by (simp add: rows2 f_def)
    then show ?thesis
      using chain_ok_max [OF ok [of cat]] by (simp add: next_version_def cat_rows_def [symmetric])
  qed
  obtain sc0 where ins: "insertSchema cat body routing (nullStr sha) by (us 2) (ts 2) d2 = (Inr sc0, d')"
    and sc0: "sc = sc0\<lparr>sc_category := name, sc_git := sha\<rparr>"
    using assms(1) up by (auto simp: schema_tx_def d2_def split: prod.splits sum.splits)
  from ins obtain row where d': "d' = d2\<lparr>schemas := schemas d2 @ [row]\<rparr>"
    and row: "s_id row = us 2" "s_category row = cat" "s_version row = next_version cat d2"
      "s_active row" "body_of row = (body, Some routing)"
    and new: "us 2 \<notin> s_id ` set (schemas d2)"
      "(cat, next_version cat d2) \<notin> (\<lambda>s. (s_category s, s_version s)) ` set (schemas d2)"
    and sc: "sc_version sc0 = next_version cat d2" "sc_id sc0 = us 2"
    by (rule insertSchema_ok)
  have rows': "cat_rows d' c = (if c = cat then map f (cat_rows d c) @ [row] else cat_rows d c)" for c
    using rows2 [of c] row(2) by (simp add: d' cat_rows_def)
  have wf2: "wf_schemas d2"
    using up'(1) unfolding d2 wf_schemas_def
    by (simp add: unique_by_upd_where image_upd_where f_def)
  then show "wf_schemas d'"
    using new row up'(3) unfolding d' wf_schemas_def by (simp add: d2)
  show "versions_ok d'"
    unfolding versions_ok_def
  proof
    fix c
    show "chain_ok (cat_rows d' c)"
      using ok [of c] row(3,4) nv by (auto simp: rows' f_def intro: chain_ok_snoc)
  qed
  have cats: "cat_of d' m = (if m = name then Some cat else cat_of d m)" for m
    using upsertCategory_ok(4) [OF up wf, of m] unfolding d' d2 cat_of_def by simp
  have bodies: "map body_of (map f xs) = map body_of xs" for xs
    by (simp add: f_def body_of_def)
  have hist: "history d' m = (if m = name then history d m @ [(body, Some routing)] else history d m)" for m
  proof (cases "m = name")
    case True
    have "history d m = map body_of (cat_rows d cat)"
      using up'(5) True by (auto simp: history_def)
    moreover have "history d' m = map body_of (map f (cat_rows d cat) @ [row])"
      using cats [of m] rows' [of cat] True by (simp add: history_def)
    ultimately show ?thesis using True row(5) bodies [of "cat_rows d cat"] by (simp del: map_map)
  next
    case False
    have "c \<noteq> cat" if "cat_of d m = Some c" for c
    proof -
      have "cat_of d' m = Some c" "cat_of d' name = Some cat" using False that cats by simp_all
      with False show ?thesis using cat_of_inj [OF \<open>wf_schemas d'\<close>] by metis
    qed
    moreover have "cat_of d' m = cat_of d m" using False cats [of m] by simp
    ultimately have "history d' m = history d m"
      unfolding history_def by (auto simp: rows' split: option.split)
    then show ?thesis using False by simp
  qed
  show "history d' n = (if n = name then history d n @ [(body, Some routing)] else history d n)"
    by (rule hist)
  show "sc_version sc = int (length (history d' name))"
    using cats [of name] rows' [of cat] nv sc(1) unfolding sc0 history_def by simp
  show "sc_category sc = name" by (simp add: sc0)
  show "sc_id sc \<in> s_id ` set (schemas d')" using sc(2) row(1) by (simp add: d' sc0)
qed

end
