(* ===== verification/RegistryLaws.thy ===== *)
theory RegistryLaws
  imports RegistryStore
begin

text \<open>
  What the registry's statements keep and promise. \<open>db_inv\<close> joins the declared constraints of all
  tables with the version discipline; \<open>decided\<close> says that a proposal that was approved or rejected
  stays as it was decided. The locale \<open>schema_store\<close> is the contract the registry API relies on, a log
  of schema bodies per category; its interpretation is the store's \<open>CreateSchemaVersion\<close> and
  \<open>GetActiveSchema\<close>.
\<close>

section \<open>The invariant of the database\<close>

definition db_inv :: "db \<Rightarrow> bool" where
  "db_inv d \<longleftrightarrow> wf_db d \<and> versions_ok d"

lemma db_inv_empty: "db_inv empty_db"
  by (simp add: db_inv_def wf_empty_db versions_ok_def cat_rows_def) (simp add: empty_db_def)

lemmas db_inv_defs =
  db_inv_def wf_db_def wf_agents_def wf_schemas_def wf_proposals_def wf_quarantine_def wf_events_def
  wf_webhooks_def wf_idem_def

lemma chain_ok_upd:
  "(\<And>s. s_version (f s) = s_version s) \<Longrightarrow> (\<And>s. s_active (f s) = s_active s) \<Longrightarrow>
   chain_ok (upd_where P f xs) = chain_ok xs"
  by (simp add: chain_ok_def upd_where_def)

text \<open>A change outside the schema tables leaves the version discipline alone.\<close>

lemma versions_ok_simps [simp]:
  "versions_ok (d\<lparr>proposals := ps\<rparr>) = versions_ok d" "versions_ok (d\<lparr>audit_log := ls\<rparr>) = versions_ok d"
  "versions_ok (d\<lparr>agents := as\<rparr>) = versions_ok d" "versions_ok (d\<lparr>api_keys := ks\<rparr>) = versions_ok d"
  "versions_ok (d\<lparr>users := us\<rparr>) = versions_ok d" "versions_ok (d\<lparr>events := es\<rparr>) = versions_ok d"
  "versions_ok (d\<lparr>quarantine_events := qs\<rparr>) = versions_ok d"
  "versions_ok (d\<lparr>idempotency_keys := xs\<rparr>) = versions_ok d"
  "versions_ok (d\<lparr>webhook_sources := ss\<rparr>) = versions_ok d"
  "versions_ok (d\<lparr>deliveries := ds\<rparr>) = versions_ok d"
  "versions_ok (d\<lparr>migrations := ms\<rparr>) = versions_ok d"
  by (simp_all add: versions_ok_def cat_rows_def)

lemma db_inv_SetSchemaGitSHA: "db_inv d \<Longrightarrow> db_inv (snd (SetSchemaGitSHA s sha u t d))"
proof -
  let ?f = "\<lambda>r :: schema_row. r\<lparr>s_sha := Some sha\<rparr>"
  have "cat_rows (d\<lparr>schemas := upd_where P ?f (schemas d)\<rparr>) c = upd_where P ?f (cat_rows d c)" for P c
    by (simp add: cat_rows_def filter_upd_where)
  then have "versions_ok d \<Longrightarrow> versions_ok (d\<lparr>schemas := upd_where P ?f (schemas d)\<rparr>)" for P
    by (simp add: versions_ok_def chain_ok_upd)
  then show "db_inv d \<Longrightarrow> ?thesis"
    by (simp add: SetSchemaGitSHA_def db_inv_defs unique_by_upd_where image_upd_where)
qed

lemma db_inv_DeleteCategory: "db_inv d \<Longrightarrow> db_inv (snd (DeleteCategory n u t d))"
proof (cases "snd (DeleteCategory n u t d) = d")
  case False
  assume inv: "db_inv d"
  define gone where "gone = c_id ` {c \<in> set (categories d). c_name c = n}"
  let ?d' = "snd (DeleteCategory n u t d)"
  have tabs: "categories ?d' = filter (\<lambda>c. c_name c \<noteq> n) (categories d)"
    "schemas ?d' = filter (\<lambda>s. s_category s \<notin> gone) (schemas d)"
    "map e_id (events ?d') = map e_id (events d)" "map e_category (events ?d') = map e_category (events d)"
    "map p_id (proposals ?d') = map p_id (proposals d)" "audit_log ?d' = audit_log d"
    "agents ?d' = agents d" "api_keys ?d' = api_keys d" "users ?d' = users d"
    "quarantine_events ?d' = quarantine_events d" "webhook_sources ?d' = webhook_sources d"
    "deliveries ?d' = deliveries d" "idempotency_keys ?d' = idempotency_keys d" "\<forall>e \<in> set (events d). e_category e \<notin> gone"
    using False by (auto simp: DeleteCategory_def Let_def gone_def map_upd_where split: if_splits)
  have rows: "cat_rows ?d' c = (if c \<in> gone then [] else cat_rows d c)" for c
    unfolding cat_rows_def tabs(2) by (auto simp: filter_empty_conv intro!: filter_cong)
  have left: "c \<in> c_id ` set (categories d) \<Longrightarrow> c \<notin> gone \<Longrightarrow> c \<in> c_id ` set (categories ?d')" for c
    by (auto simp: tabs(1) gone_def)
  have "wf_schemas ?d'"
    using inv left by (auto simp: db_inv_defs tabs(1,2) unique_by_filter)
  moreover have "versions_ok ?d'"
    using inv by (simp add: db_inv_def versions_ok_def rows)
  moreover have "wf_events ?d'"
  proof -
    have "e_category ` set (events ?d') = e_category ` set (events d)"
      using tabs(4) by (metis list.set_map)
    moreover have "e_category ` set (events d) \<subseteq> c_id ` set (categories ?d')"
    proof (rule image_subsetI)
      fix e assume e: "e \<in> set (events d)"
      have "wf_events d" using inv by (simp add: db_inv_def wf_db_def)
      then have "e_category e \<in> c_id ` set (categories d)" using e by (auto simp: wf_events_def)
      then show "e_category e \<in> c_id ` set (categories ?d')" using left tabs(14) e by blast
    qed
    ultimately show ?thesis
      using inv tabs(3) by (simp add: db_inv_defs unique_by_def)
  qed
  moreover have "wf_proposals ?d'"
  proof -
    have "p_id ` set (proposals ?d') = p_id ` set (proposals d)"
      using tabs(5) by (metis list.set_map)
    then show ?thesis using inv tabs(5,6) by (simp add: db_inv_defs unique_by_def)
  qed
  moreover have "wf_agents ?d'" "wf_quarantine ?d'" "wf_webhooks ?d'" "wf_idem ?d'" using inv by (simp_all add: db_inv_defs tabs)
  ultimately show ?thesis by (simp add: db_inv_def wf_db_def)
qed simp

text \<open>Appending a row whose key is new.\<close>

lemma db_inv_add_proposal:
  "db_inv d \<Longrightarrow> p_id p \<notin> p_id ` set (proposals d) \<Longrightarrow> db_inv (d\<lparr>proposals := proposals d @ [p]\<rparr>)"
  unfolding db_inv_defs by (elim conjE, intro conjI; simp add: subset_insertI2)

lemma db_inv_add_audit:
  "db_inv d \<Longrightarrow> l_id l \<notin> l_id ` set (audit_log d) \<Longrightarrow> l_proposal l \<in> p_id ` set (proposals d) \<Longrightarrow>
   db_inv (d\<lparr>audit_log := audit_log d @ [l]\<rparr>)"
  unfolding db_inv_defs by (elim conjE, intro conjI; simp)

lemma db_inv_add_agent:
  "db_inv d \<Longrightarrow> a_id a \<notin> a_id ` set (agents d) \<Longrightarrow> a_slug a \<notin> a_slug ` set (agents d) \<Longrightarrow>
   db_inv (d\<lparr>agents := agents d @ [a]\<rparr>)"
  unfolding db_inv_defs by (elim conjE, intro conjI; simp add: subset_insertI2)

lemmas db_inv_append = db_inv_add_proposal db_inv_add_audit db_inv_add_agent

lemma db_inv_insertProposal:
  "db_inv d \<Longrightarrow> db_inv (snd (insertProposal q n by patch routing conf u t d))"
  by (simp add: insertProposal_def db_inv_append)

lemma db_inv_FinalizeProposal:
  "db_inv d \<Longrightarrow> db_inv (snd (FinalizeProposal p st by notes s u t d))"
  by (simp add: FinalizeProposal_def Let_def db_inv_defs unique_by_upd_where image_upd_where)

lemma db_inv_AuditLog: "db_inv d \<Longrightarrow> db_inv (snd (AuditLog p usr act notes u t d))"
  by (simp add: AuditLog_def db_inv_append)

lemma db_inv_insertAgent: "db_inv d \<Longrightarrow> db_inv (snd (insertAgent n slug desc caps u t d))"
  by (simp add: insertAgent_def Let_def db_inv_append)

lemma db_inv_UpdateAgent: "db_inv d \<Longrightarrow> db_inv (snd (UpdateAgent a n st caps u t d))"
  by (simp add: UpdateAgent_def db_inv_defs unique_by_upd_where image_upd_where)

lemma db_inv_DeleteAgent: "db_inv d \<Longrightarrow> db_inv (snd (DeleteAgent a u t d))"
proof -
  assume inv: "db_inv d"
  have "k_agent ` set (api_keys d) \<subseteq> a_id ` set (agents d)" "i_agent ` set (idempotency_keys d) \<subseteq> a_id ` set (agents d)"
    using inv by (simp_all add: db_inv_def wf_db_def wf_agents_def wf_idem_def)
  then have "k_agent ` {x \<in> set (api_keys d). k_agent x \<noteq> a} \<subseteq> a_id ` {x \<in> set (agents d). a_id x \<noteq> a}"
    "i_agent ` {x \<in> set (idempotency_keys d). i_agent x \<noteq> a} \<subseteq> a_id ` {x \<in> set (agents d). a_id x \<noteq> a}"
    by fastforce+
  then show ?thesis
    using inv by (simp add: DeleteAgent_def db_inv_defs unique_by_upd_where image_upd_where
        unique_by_filter)
qed

definition same_other_tables :: "db \<Rightarrow> db \<Rightarrow> bool" where
  "same_other_tables d d' \<longleftrightarrow>
     agents d' = agents d \<and> api_keys d' = api_keys d \<and> users d' = users d \<and> events d' = events d \<and>
     proposals d' = proposals d \<and> audit_log d' = audit_log d \<and>
     quarantine_events d' = quarantine_events d \<and> webhook_sources d' = webhook_sources d \<and>
     deliveries d' = deliveries d \<and> idempotency_keys d' = idempotency_keys d \<and>
     c_id ` set (categories d) \<subseteq> c_id ` set (categories d')"

lemma same_other_tables_trans:
  "same_other_tables d e \<Longrightarrow> same_other_tables e f \<Longrightarrow> same_other_tables d f"
  unfolding same_other_tables_def by (elim conjE, intro conjI; (simp | erule order_trans, assumption))

lemma same_other_tables_wf:
  assumes "same_other_tables d d'"
  shows "wf_agents d \<Longrightarrow> wf_agents d'" "wf_proposals d \<Longrightarrow> wf_proposals d'"
    "wf_quarantine d \<Longrightarrow> wf_quarantine d'" "wf_events d \<Longrightarrow> wf_events d'"
    "wf_webhooks d \<Longrightarrow> wf_webhooks d'" "wf_idem d \<Longrightarrow> wf_idem d'"
proof -
  from assms have eq: "agents d' = agents d" "api_keys d' = api_keys d" "users d' = users d"
    "events d' = events d" "proposals d' = proposals d" "audit_log d' = audit_log d"
    "quarantine_events d' = quarantine_events d" "webhook_sources d' = webhook_sources d"
    "deliveries d' = deliveries d" "idempotency_keys d' = idempotency_keys d"
    "c_id ` set (categories d) \<subseteq> c_id ` set (categories d')"
    by (simp_all add: same_other_tables_def)
  show "wf_agents d \<Longrightarrow> wf_agents d'" "wf_proposals d \<Longrightarrow> wf_proposals d'"
    "wf_quarantine d \<Longrightarrow> wf_quarantine d'" "wf_webhooks d \<Longrightarrow> wf_webhooks d'" "wf_idem d \<Longrightarrow> wf_idem d'"
    unfolding wf_agents_def wf_proposals_def wf_quarantine_def wf_webhooks_def wf_idem_def eq(1-10) .
  show "wf_events d \<Longrightarrow> wf_events d'"
    unfolding wf_events_def eq(4) using eq(11) by blast
qed

lemma same_other_tables_steps:
  "same_other_tables d (snd (upsertCategory name u t d))"
  "same_other_tables d (snd (deactivateSchemas cat u t d))"
  "same_other_tables d (snd (insertSchema cat body routing sha by u t d))"
  by (simp_all add: same_other_tables_def upsertCategory_def insertSchema_def deactivateSchemas_def
      Let_def image_upd_where subset_insertI split: option.split)

lemma schema_tx_other_tables: "same_other_tables d (snd (schema_tx name body routing by sha us ts d))"
proof -
  obtain x d1 where up: "upsertCategory name (us 0) (ts 0) d = (x, d1)" by force
  show ?thesis
  proof (cases x)
    case (Inl e)
    then show ?thesis by (simp add: schema_tx_def up same_other_tables_def)
  next
    case (Inr cat)
    obtain y d3 where ins: "insertSchema cat body routing (nullStr sha) by (us 2) (ts 2)
        (snd (deactivateSchemas cat (us 1) (ts 1) d1)) = (y, d3)" by force
    have "same_other_tables d d3"
      using same_other_tables_steps(1) [of d name "us 0" "ts 0"]
        same_other_tables_steps(2) [of d1 cat "us 1" "ts 1"]
        same_other_tables_steps(3) [of "snd (deactivateSchemas cat (us 1) (ts 1) d1)" cat body routing
          "nullStr sha" "by" "us 2" "ts 2"] up ins
      by (auto intro: same_other_tables_trans)
    then show ?thesis
      using Inr up ins by (cases y) (simp_all add: schema_tx_def same_other_tables_def)
  qed
qed

lemma keeps_CreateSchemaVersion: "keeps db_inv (CreateSchemaVersion name body routing by sha)"
proof (rule keepsI)
  fix w :: world
  assume inv: "db_inv (w_db w)"
  obtain r w' where run: "run_state (CreateSchemaVersion name body routing by sha) w = (r, w')" by force
  define q where "q = schema_tx name body routing by sha (\<lambda>i. w_uuid w (w_tick w + 1 + i))
    (\<lambda>i. w_clock w (w_tick w + 1 + i)) (w_db w)"
  have "db_inv (snd q)" if ok: "\<not> isl (fst q)"
  proof -
    obtain sc d' where q: "q = (Inr sc, d')"
      using ok by (cases q, cases "fst q") auto
    note tx = q [unfolded q_def]
    have "wf_schemas d'" "versions_ok d'"
      using schema_tx_ok(1,2) [OF tx] inv by (simp_all add: db_inv_def wf_db_def)
    moreover have same: "same_other_tables (w_db w) d'"
      using schema_tx_other_tables [of "w_db w" name body routing "by" sha] tx by (metis snd_conv)
    moreover have "wf_agents d'" "wf_proposals d'" "wf_quarantine d'" "wf_events d'"
      "wf_webhooks d'" "wf_idem d'"
      using same_other_tables_wf [OF same] inv by (simp_all add: db_inv_def wf_db_def)
    ultimately show ?thesis by (simp add: q db_inv_def wf_db_def)
  qed
  then show "db_inv (w_db (snd (run_state (CreateSchemaVersion name body routing by sha) w)))"
    using CreateSchemaVersion_outcomes [OF run] inv run by (auto simp: q_def)
qed

lemma keeps_reg_CreateAgent: "keeps db_inv (reg_CreateAgent L n desc caps)"
  unfolding reg_CreateAgent_def by (intro keeps_intros keeps_sql db_inv_insertAgent)

lemma keeps_CreateProposal: "keeps db_inv (CreateProposal L n by patch routing samples conf)"
  unfolding CreateProposal_def by (intro keeps_sql db_inv_insertProposal)

lemma registry_keeps:
  "keeps db_inv (sql (SetSchemaGitSHA sid sha))" "keeps db_inv (sql (DeleteCategory n))"
  "keeps db_inv (sql (FinalizeProposal p st by notes s))" "keeps db_inv (sql (AuditLog p usr act notes))"
  "keeps db_inv (sql (UpdateAgent a name st' caps))" "keeps db_inv (sql (DeleteAgent a))"
  by (intro keeps_sql; simp add: db_inv_SetSchemaGitSHA db_inv_DeleteCategory db_inv_FinalizeProposal
      db_inv_AuditLog db_inv_UpdateAgent db_inv_DeleteAgent)+

lemmas registry_writes =
  registry_keeps keeps_CreateSchemaVersion keeps_reg_CreateAgent keeps_CreateProposal

lemmas registry_reads = reads_registry [THEN keeps_reads]

section \<open>The review trail\<close>

text \<open>A decided proposal keeps its decision and its content (a deleted schema may drop out of it), and the
  audit log is append-only.\<close>

definition same_decision :: "proposal_row \<Rightarrow> proposal_row \<Rightarrow> bool" where
  "same_decision p p' \<longleftrightarrow> p_id p' = p_id p \<and> p_status p' = p_status p \<and> p_json p' = p_json p \<and>
     p_category p' = p_category p \<and> p_reviewed_by p' = p_reviewed_by p \<and> p_diff p' = p_diff p \<and>
     p_reviewed_at p' = p_reviewed_at p"

definition trail :: "db \<Rightarrow> db \<Rightarrow> bool" where
  "trail d d' \<longleftrightarrow> prefix (audit_log d) (audit_log d') \<and>
     (\<forall>p \<in> set (proposals d). p_status p \<noteq> ''pending'' \<longrightarrow>
        (\<exists>p' \<in> set (proposals d'). same_decision p p'))"

lemma same_decision_refl [simp]: "same_decision p p"
  by (simp add: same_decision_def)

lemma same_decision_trans: "same_decision p q \<Longrightarrow> same_decision q r \<Longrightarrow> same_decision p r"
  by (simp add: same_decision_def)

lemma trail_superset:
  "prefix (audit_log d) (audit_log d') \<Longrightarrow> set (proposals d) \<subseteq> set (proposals d') \<Longrightarrow> trail d d'"
  unfolding trail_def using same_decision_refl by blast

lemma trail_refl [simp]: "trail d d"
  by (simp add: trail_superset)

lemma trail_trans:
  assumes "trail d e" and "trail e f"
  shows "trail d f"
  unfolding trail_def
proof (intro conjI ballI impI)
  show "prefix (audit_log d) (audit_log f)"
    using assms by (auto simp: trail_def intro: prefix_order.trans)
  fix p assume p: "p \<in> set (proposals d)" "p_status p \<noteq> ''pending''"
  then obtain q where q: "q \<in> set (proposals e)" "same_decision p q"
    using assms(1) by (auto simp: trail_def)
  then have "p_status q \<noteq> ''pending''" using p by (simp add: same_decision_def)
  then obtain r where "r \<in> set (proposals f)" "same_decision q r"
    using assms(2) q by (auto simp: trail_def)
  then show "\<exists>p' \<in> set (proposals f). same_decision p p'"
    using q by (auto intro: same_decision_trans)
qed

lemma trail_same: "proposals d' = proposals d \<Longrightarrow> audit_log d' = audit_log d \<Longrightarrow> trail d d'"
  by (simp add: trail_superset)

lemma trail_upd_where:
  assumes "\<And>p. p \<in> set (proposals d) \<Longrightarrow> P p \<Longrightarrow> p_status p \<noteq> ''pending'' \<Longrightarrow> same_decision p (f p)"
    and "proposals d' = upd_where P f (proposals d)" and "audit_log d' = audit_log d"
  shows "trail d d'"
  unfolding trail_def
proof (intro conjI ballI impI)
  show "prefix (audit_log d) (audit_log d')" by (simp add: assms(3))
  fix p assume p: "p \<in> set (proposals d)" "p_status p \<noteq> ''pending''"
  let ?g = "\<lambda>r. if P r then f r else r"
  have "same_decision p (?g p)" using assms(1) p by simp
  moreover have "?g p \<in> set (proposals d')" using p(1) unfolding assms(2) set_upd_where by (rule imageI)
  ultimately show "\<exists>p' \<in> set (proposals d'). same_decision p p'" ..
qed

lemma trail_registry:
  "trail d (snd (SetSchemaGitSHA sid sha u t d))" "trail d (snd (insertProposal q n by patch routing conf u t d))"
  "trail d (snd (AuditLog p usr act notes u t d))" "trail d (snd (insertAgent n slug desc caps u t d))"
  "trail d (snd (UpdateAgent a name st' caps u t d))" "trail d (snd (DeleteAgent a u t d))"
  by (simp_all add: SetSchemaGitSHA_def insertProposal_def AuditLog_def insertAgent_def UpdateAgent_def
      DeleteAgent_def Let_def) (auto intro!: trail_superset)

lemma trail_DeleteCategory: "trail d (snd (DeleteCategory n u t d))"
proof (cases "snd (DeleteCategory n u t d) = d")
  case False
  let ?lost = "s_id ` {s \<in> set (schemas d). s_category s \<in> c_id ` {c \<in> set (categories d). c_name c = n}}"
  have "proposals (snd (DeleteCategory n u t d)) =
      upd_where (\<lambda>p. \<exists>s \<in> ?lost. p_schema p = Some s) (\<lambda>p. p\<lparr>p_schema := None\<rparr>) (proposals d)"
    "audit_log (snd (DeleteCategory n u t d)) = audit_log d"
    using False unfolding DeleteCategory_def Let_def by (simp_all split: if_splits)
  then show ?thesis by (rule trail_upd_where [rotated]) (simp add: same_decision_def)
qed simp

text \<open>Only a pending proposal can be finalised.\<close>

lemma trail_FinalizeProposal: "trail d (snd (FinalizeProposal p st by notes s u t d))"
proof (cases "snd (FinalizeProposal p st by notes s u t d) = d")
  case False
  then have "proposals (snd (FinalizeProposal p st by notes s u t d)) =
      upd_where (\<lambda>q. p_id q = p \<and> p_status q = ''pending'')
        (\<lambda>q. q\<lparr>p_status := st, p_reviewed_by := Some by, p_diff := Some notes, p_reviewed_at := Some t,
              p_schema := s, p_updated := t\<rparr>) (proposals d)"
    "audit_log (snd (FinalizeProposal p st by notes s u t d)) = audit_log d"
    by (auto simp: FinalizeProposal_def Let_def split: if_splits)
  then show ?thesis by (rule trail_upd_where [rotated]) simp
qed simp

definition trail_rel :: "world \<Rightarrow> world \<Rightarrow> bool" where
  "trail_rel w w' \<longleftrightarrow> trail (w_db w) (w_db w')"

interpretation tr: run_relation trail_rel
  by unfold_locales (auto simp: trail_rel_def intro: trail_trans)

lemma trail_sql: "(\<And>u t d. trail d (snd (f u t d))) \<Longrightarrow> obeys trail_rel (sql f)"
  by (rule obeysI)
    (auto simp: sql_def trail_rel_def split: prod.splits outcome.splits, (metis snd_conv)+)

lemma trail_reads: "reads f \<Longrightarrow> obeys trail_rel (sql f)"
  by (rule trail_sql) (simp add: reads_def)

lemma trail_CreateSchemaVersion: "obeys trail_rel (CreateSchemaVersion name body routing by sha)"
proof (rule obeysI)
  fix w
  obtain r w' where run: "run_state (CreateSchemaVersion name body routing by sha) w = (r, w')" by force
  have "proposals (w_db w') = proposals (w_db w) \<and> audit_log (w_db w') = audit_log (w_db w)"
    using CreateSchemaVersion_outcomes [OF run] schema_tx_other_tables
    unfolding same_other_tables_def by metis
  then show "trail_rel w (snd (run_state (CreateSchemaVersion name body routing by sha) w))"
    using run by (simp add: trail_rel_def trail_same)
qed

lemma trail_effects:
  "obeys trail_rel (git_call a)" "obeys trail_rel (publish sj p)" "obeys trail_rel now"
  "obeys trail_rel new_uuid" "obeys trail_rel (http_call sj p)"
  by (auto intro!: obeysI split: outcome.splits
      simp: trail_rel_def publish_def git_call_def http_call_def now_def new_uuid_def Let_def)

lemma trail_reg_CreateAgent: "obeys trail_rel (reg_CreateAgent L n desc caps)"
  unfolding reg_CreateAgent_def by (intro tr.obeys_control trail_effects trail_sql trail_registry)

lemma trail_CreateProposal: "obeys trail_rel (CreateProposal L n by patch routing samples conf)"
  unfolding CreateProposal_def by (intro trail_sql trail_registry)

lemmas trail_writes =
  trail_registry [THEN trail_sql] trail_DeleteCategory [THEN trail_sql]
  trail_FinalizeProposal [THEN trail_sql] trail_CreateSchemaVersion trail_reg_CreateAgent
  trail_CreateProposal

lemmas trail_queries = reads_registry [THEN trail_reads]

section \<open>The schema log as an interface\<close>

text \<open>What the API of the registry needs of its store: a log of bodies per category, to which \<open>create\<close>
  appends, whose last entry \<open>active\<close> reads, and which \<open>delete\<close> clears.\<close>

locale schema_store =
  fixes create :: "string \<Rightarrow> jmap \<Rightarrow> string \<Rightarrow> string \<Rightarrow> string \<Rightarrow> schema res io"
    and active :: "string \<Rightarrow> schema stmt"
    and delete :: "string \<Rightarrow> unit stmt"
    and ok :: "db \<Rightarrow> bool"
    and log :: "db \<Rightarrow> string \<Rightarrow> (jmap \<times> string option) list"
  assumes create_ok: "keeps ok (create name body routing by sha)"
    and create_log: "run_state (create name body routing by sha) w = (Inr sc, w') \<Longrightarrow> ok (w_db w) \<Longrightarrow>
      log (w_db w') n = (if n = name then log (w_db w) n @ [(body, Some routing)] else log (w_db w) n)"
    and create_schema: "run_state (create name body routing by sha) w = (Inr sc, w') \<Longrightarrow> ok (w_db w) \<Longrightarrow>
      sc_version sc = int (length (log (w_db w') name)) \<and> sc_category sc = name"
    and create_error: "run_state (create name body routing by sha) w = (Inl e, w') \<Longrightarrow> ok (w_db w) \<Longrightarrow>
      log (w_db w') n = log (w_db w) n \<or>
      log (w_db w') n = (if n = name then log (w_db w) n @ [(body, Some routing)] else log (w_db w) n)"
    and active_last: "ok d \<Longrightarrow> log d n = hs @ [(body, Some routing)] \<Longrightarrow>
      \<exists>sc. active n u t d = (Inr sc, d) \<and> sc_json sc = body \<and> sc_routing sc = routing \<and>
        sc_version sc = int (Suc (length hs)) \<and> sc_category sc = n"
    and active_none: "ok d \<Longrightarrow> log d n = [] \<Longrightarrow> active n u t d = (Inl ErrNotFound, d)"
    and delete_log: "delete name u t d = (Inr (), d') \<Longrightarrow> ok d \<Longrightarrow>
      log d' n = (if n = name then [] else log d n)"
    and delete_ok: "ok d \<Longrightarrow> ok (snd (delete name u t d))"
begin

text \<open>Whatever fails, creating a version never loses an older one.\<close>

lemma create_grows:
  "run_state (create name body routing by sha) w = (r, w') \<Longrightarrow> ok (w_db w) \<Longrightarrow>
   prefix (log (w_db w) n) (log (w_db w') n)"
  using create_log [of name body routing "by" sha w _ w' n] create_error [of name body routing "by" sha w _ w' n]
  by (cases r) (metis prefixI prefix_order.refl)+

text \<open>A version that was created is the one that is read afterwards.\<close>

lemma create_active:
  assumes "run_state (create name body routing by sha) w = (Inr sc, w')" and "ok (w_db w)"
  shows "\<exists>sc'. active name u t (w_db w') = (Inr sc', w_db w') \<and> sc_json sc' = body \<and>
           sc_routing sc' = routing \<and> sc_version sc' = sc_version sc \<and> sc_category sc' = name"
proof -
  have "ok (w_db w')" using create_ok assms by (rule keeps_run)
  moreover have "log (w_db w') name = log (w_db w) name @ [(body, Some routing)]"
    using create_log [OF assms, of name] by simp
  moreover have "sc_version sc = int (length (log (w_db w') name))"
    using create_schema [OF assms] by simp
  ultimately show ?thesis using active_last [of "w_db w'" name] by fastforce
qed

text \<open>A deleted category has no schema until one is created.\<close>

lemma delete_active:
  assumes "delete name u t d = (Inr (), d')" and "ok d"
  shows "active name u' t' d' = (Inl ErrNotFound, d')"
proof -
  have "ok d'" using delete_ok [OF assms(2), of name u t] assms(1) by simp
  moreover have "log d' name = []" using delete_log [OF assms, of name] by simp
  ultimately show ?thesis by (rule active_none)
qed

end

lemma schema_join_iff:
  "(s, c) \<in> set (schema_join d) \<longleftrightarrow> s \<in> set (schemas d) \<and> c \<in> set (categories d) \<and> c_id c = s_category s"
  by (auto simp: schema_join_def)

lemma active_rows:
  assumes "wf_schemas d" and "cat_of d n = Some cat"
  shows "(\<exists>c. (s, c) \<in> set (schema_join d) \<and> c_name c = n) \<longleftrightarrow> s \<in> set (cat_rows d cat)"
proof -
  obtain c0 where c0: "c0 \<in> set (categories d)" "c_name c0 = n" "c_id c0 = cat"
    using assms(2) by (auto simp: cat_of_def dest: find_SomeD)
  have un: "c = c0" if "c \<in> set (categories d)" "c_name c = n" for c
  proof -
    have "unique_by c_name (categories d)" using assms(1) by (simp add: wf_schemas_def)
    then show ?thesis by (rule unique_byD) (simp_all add: that c0)
  qed
  show ?thesis
  proof
    assume "\<exists>c. (s, c) \<in> set (schema_join d) \<and> c_name c = n"
    then obtain c where c: "s \<in> set (schemas d)" "c \<in> set (categories d)" "c_id c = s_category s" "c_name c = n"
      by (auto simp: schema_join_iff)
    from un [OF c(2,4)] c(1,3) c0(3) show "s \<in> set (cat_rows d cat)" by (simp add: cat_rows_def)
  next
    assume "s \<in> set (cat_rows d cat)"
    then have "(s, c0) \<in> set (schema_join d)" using c0 by (simp add: schema_join_iff cat_rows_def)
    then show "\<exists>c. (s, c) \<in> set (schema_join d) \<and> c_name c = n" using c0(2) by blast
  qed
qed

lemma chain_ok_active: "chain_ok (xs @ [r]) \<Longrightarrow> s \<in> set (xs @ [r]) \<Longrightarrow> s_active s \<Longrightarrow> s = r"
  by (auto simp: chain_ok_def in_set_conv_nth nth_append split: if_splits)

lemma chain_ok_last: "chain_ok (xs @ [r]) \<Longrightarrow> s_active r \<and> s_version r = int (Suc (length xs))"
  unfolding chain_ok_def by (drule spec [where x = "length xs"]) simp

lemma GetActiveSchema_last:
  assumes inv: "db_inv d" and hist: "history d n = hs @ [(body, Some routing)]"
  shows "\<exists>sc. GetActiveSchema n u t d = (Inr sc, d) \<and> sc_json sc = body \<and> sc_routing sc = routing \<and>
           sc_version sc = int (Suc (length hs)) \<and> sc_category sc = n"
proof -
  have wf: "wf_schemas d" using inv by (simp add: db_inv_def wf_db_def)
  obtain cat where cat: "cat_of d n = Some cat"
    using hist by (auto simp: history_def split: option.splits)
  then obtain xs row where rows: "cat_rows d cat = xs @ [row]" "body_of row = (body, Some routing)"
    "length xs = length hs"
    using hist by (auto simp: history_def map_eq_append_conv)
  have chain: "chain_ok (xs @ [row])"
    using inv rows(1) by (metis db_inv_def versions_ok_def)
  let ?sel = "filter (\<lambda>(s, c). c_name c = n \<and> s_active s) (schema_join d)"
  have only: "s = row \<and> c_name c = n" if "(s, c) \<in> set ?sel" for s c
    using that active_rows [OF wf cat, of s] chain_ok_active [OF chain, of s] rows(1) by auto
  have "\<exists>c. (row, c) \<in> set ?sel"
    using active_rows [OF wf cat, of row] chain_ok_last [OF chain] rows(1) by auto
  then have "?sel \<noteq> []" by force
  then obtain p rest where "order_desc (\<lambda>(s, c). s_version s) ?sel = p # rest"
    by (metis order_desc_empty neq_Nil_conv)
  then obtain s c where sel: "order_desc (\<lambda>(s, c). s_version s) ?sel = (s, c) # rest"
    by (cases p) simp
  then have "(s, c) \<in> set ?sel" by (rule order_desc_hd_max)
  with only have "s = row" "c_name c = n" by blast+
  then show ?thesis
    using rows(2,3) chain_ok_last [OF chain] sel
    by (simp add: GetActiveSchema_def scanSchema_def body_of_def)
qed

lemma GetActiveSchema_none:
  assumes inv: "db_inv d" and hist: "history d n = []"
  shows "GetActiveSchema n u t d = (Inl ErrNotFound, d)"
proof -
  have wf: "wf_schemas d" using inv by (simp add: db_inv_def wf_db_def)
  have "c_name c \<noteq> n" if "(s, c) \<in> set (schema_join d)" for s c
  proof
    assume n: "c_name c = n"
    have "c \<in> set (categories d)" using that by (simp add: schema_join_iff)
    then have "find (\<lambda>c. c_name c = n) (categories d) \<noteq> None"
      using n find_NoneD by fastforce
    then obtain cat where cat: "cat_of d n = Some cat" by (auto simp: cat_of_def)
    then have "s \<in> set (cat_rows d cat)" using active_rows [OF wf cat] that n by blast
    then show False using hist cat by (simp add: history_def)
  qed
  then have "filter (\<lambda>(s, c). c_name c = n \<and> s_active s) (schema_join d) = []"
    by (auto simp: filter_empty_conv)
  then show ?thesis unfolding GetActiveSchema_def by simp
qed

lemma DeleteCategory_history:
  assumes del: "DeleteCategory name u t d = (Inr (), d')" and inv: "db_inv d"
  shows "history d' n = (if n = name then [] else history d n)"
proof -
  define gone where "gone = c_id ` {c \<in> set (categories d). c_name c = name}"
  have tabs: "categories d' = filter (\<lambda>c. c_name c \<noteq> name) (categories d)"
    "schemas d' = filter (\<lambda>s. s_category s \<notin> gone) (schemas d)"
    using del by (auto simp: DeleteCategory_def Let_def gone_def split: if_splits)
  have wf: "wf_schemas d" using inv by (simp add: db_inv_def wf_db_def)
  show ?thesis
  proof (cases "n = name")
    case True
    have "find (\<lambda>c. c_name c = name) (categories d') = None"
      unfolding tabs by (auto simp: find_None_iff)
    then show ?thesis using True by (simp add: history_def cat_of_def)
  next
    case False
    have "find (\<lambda>c. c_name c = n) (filter (\<lambda>c. c_name c \<noteq> name) xs) = find (\<lambda>c. c_name c = n) xs"
      for xs :: "category_row list"
      using False by (induction xs) auto
    then have cat: "cat_of d' n = cat_of d n" by (simp only: cat_of_def tabs)
    have "cat_rows d' c = cat_rows d c" if hit: "cat_of d n = Some c" for c
    proof -
      have "c \<notin> gone"
      proof
        assume "c \<in> gone"
        then obtain x where "x \<in> set (categories d)" "c_name x = name" "c_id x = c"
          by (auto simp: gone_def)
        moreover obtain y where y: "find (\<lambda>c. c_name c = n) (categories d) = Some y" "c_id y = c"
          using hit by (auto simp: cat_of_def)
        moreover have "y \<in> set (categories d)" "c_name y = n" using find_SomeD [OF y(1)] by auto
        ultimately have "x = y"
          using wf unfolding wf_schemas_def by (metis unique_byD)
        then show False using \<open>c_name x = name\<close> \<open>c_name y = n\<close> False by simp
      qed
      then show ?thesis unfolding cat_rows_def tabs(2) by (auto intro!: filter_cong)
    qed
    then have "history d' n = history d n"
      unfolding history_def cat by (cases "cat_of d n") simp_all
    then show ?thesis using False by simp
  qed
qed

lemma CreateSchemaVersion_tx:
  assumes "run_state (CreateSchemaVersion name body routing by sha) w = (Inr sc, w')"
  obtains us ts where "schema_tx name body routing by sha us ts (w_db w) = (Inr sc, w_db w')"
  using CreateSchemaVersion_outcomes [OF assms] by (metis Inr_not_Inl isl_def prod.collapse)

lemma CreateSchemaVersion_error:
  assumes "run_state (CreateSchemaVersion name body routing by sha) w = (Inl e, w')"
  shows "w_db w' = w_db w \<or>
    (\<exists>us ts sc. schema_tx name body routing by sha us ts (w_db w) = (Inr sc, w_db w'))"
  using CreateSchemaVersion_outcomes [OF assms] by (metis isl_def prod.collapse sum.collapse(2))

interpretation log: schema_store CreateSchemaVersion GetActiveSchema DeleteCategory db_inv history
proof
  fix name body routing "by" sha n u t w w' sc e d d' hs
  show "keeps db_inv (CreateSchemaVersion name body routing by sha)"
    by (rule keeps_CreateSchemaVersion)
  show "GetActiveSchema n u t d = (Inl ErrNotFound, d)" if "db_inv d" "history d n = []"
    using that by (rule GetActiveSchema_none)
  show "\<exists>sc. GetActiveSchema n u t d = (Inr sc, d) \<and> sc_json sc = body \<and> sc_routing sc = routing \<and>
      sc_version sc = int (Suc (length hs)) \<and> sc_category sc = n"
    if "db_inv d" "history d n = hs @ [(body, Some routing)]"
    using that by (rule GetActiveSchema_last)
  show "history d' n = (if n = name then [] else history d n)"
    if "DeleteCategory name u t d = (Inr (), d')" "db_inv d"
    using that by (rule DeleteCategory_history)
  show "db_inv (snd (DeleteCategory name u t d))" if "db_inv d"
    using that by (rule db_inv_DeleteCategory)
  have tx: "history d' n = (if n = name then history d n @ [(body, Some routing)] else history d n) \<and>
      sc_version sc = int (length (history d' name)) \<and> sc_category sc = name"
    if "schema_tx name body routing by sha us ts d = (Inr sc, d')" "db_inv d" for us ts sc d d'
    using schema_tx_ok [OF that(1)] that(2) by (simp add: db_inv_def wf_db_def)
  show "history (w_db w') n =
      (if n = name then history (w_db w) n @ [(body, Some routing)] else history (w_db w) n)"
    "sc_version sc = int (length (history (w_db w') name)) \<and> sc_category sc = name"
    if "run_state (CreateSchemaVersion name body routing by sha) w = (Inr sc, w')" "db_inv (w_db w)"
    by (rule CreateSchemaVersion_tx [OF that(1)], use tx that(2) in blast)+
  show "history (w_db w') n = history (w_db w) n \<or>
      history (w_db w') n =
        (if n = name then history (w_db w) n @ [(body, Some routing)] else history (w_db w) n)"
    if "run_state (CreateSchemaVersion name body routing by sha) w = (Inl e, w')" "db_inv (w_db w)"
    using CreateSchemaVersion_error [OF that(1)] tx that(2) by metis
qed

end
