(* ===== verification/RegistryGit.thy ===== *)
theory RegistryGit
  imports Effects
begin

text \<open>
  \<open>internal/registry/git.go\<close>: the git mirror of schema changes. \<open>safeCategory\<close> guards the file names,
  \<open>CommitSchema\<close> writes the two files of a category, stages and commits them and pushes to a remote.
  \<open>filepath.Join\<close> is modelled on Unix paths. A \<open>go_git\<close> is an opened repository; \<open>Connect\<close> opens it.

  The locale \<open>confined_git\<close> is the interface \<open>GitCommitter\<close> with the law the deployment relies on: a
  commit touches only the two files of its category inside \<open>schemas/\<close>.
\<close>

section \<open>filepath.Join\<close>

definition is_rooted :: "string \<Rightarrow> bool" where
  "is_rooted p = (case p of [] \<Rightarrow> False | c # _ \<Rightarrow> c = CHR ''/'')"

text \<open>One element of \<open>filepath.Clean\<close>; the elements kept so far are in reverse.\<close>

definition clean_step :: "bool \<Rightarrow> string list \<Rightarrow> string \<Rightarrow> string list" where
  "clean_step rooted st e =
     (if e = [] \<or> e = ''.'' then st
      else if e = ''..'' then
        (case st of [] \<Rightarrow> if rooted then [] else [e] | x # xs \<Rightarrow> if x = ''..'' then e # st else xs)
      else e # st)"

definition path_parts :: "string \<Rightarrow> string list" where
  "path_parts p = rev (foldl (clean_step (is_rooted p)) [] (split_at (CHR ''/'') p))"

fun joined :: "string list \<Rightarrow> string" where
  "joined [] = []"
| "joined [w] = w"
| "joined (w # ws) = w @ CHR ''/'' # joined ws"

definition filepath_clean :: "string \<Rightarrow> string" where
  "filepath_clean p =
     (let b = joined (path_parts p) in
      if is_rooted p then CHR ''/'' # b else if b = [] then ''.'' else b)"

definition filepath_join :: "string list \<Rightarrow> string" where
  "filepath_join ps =
     (let qs = filter (\<lambda>p. p \<noteq> []) ps in if qs = [] then [] else filepath_clean (joined qs))"

text \<open>The name of a directory entry, and the absolute path through such names.\<close>

definition plain :: "string \<Rightarrow> bool" where
  "plain n \<longleftrightarrow> n \<noteq> [] \<and> n \<noteq> ''.'' \<and> n \<noteq> ''..'' \<and> CHR ''/'' \<notin> set n"

definition abs_path :: "string list \<Rightarrow> string" where
  "abs_path ws = CHR ''/'' # joined ws"

lemma joined_Cons: "ws \<noteq> [] \<Longrightarrow> joined (w # ws) = w @ CHR ''/'' # joined ws"
  by (cases ws) auto

lemma split_at_joined:
  "ws \<noteq> [] \<Longrightarrow> (\<And>w. w \<in> set ws \<Longrightarrow> CHR ''/'' \<notin> set w) \<Longrightarrow> split_at (CHR ''/'') (joined ws) = ws"
proof (induction ws)
  case (Cons w ws)
  then show ?case
    by (cases "ws = []") (simp_all add: split_at_no_sep joined_Cons split_at_sep)
qed simp

lemma foldl_clean: "(\<And>w. w \<in> set ws \<Longrightarrow> plain w) \<Longrightarrow> foldl (clean_step r) st ws = rev ws @ st"
  by (induction ws arbitrary: st) (auto simp: clean_step_def plain_def)

lemma joined_snoc: "ws \<noteq> [] \<Longrightarrow> joined (ws @ [n]) = joined ws @ CHR ''/'' # n"
proof (induction ws)
  case (Cons w ws)
  then show ?case by (cases "ws = []") (simp_all add: joined_Cons)
qed simp

lemma clean_abs: "(\<And>w. w \<in> set ws \<Longrightarrow> plain w) \<Longrightarrow> filepath_clean (abs_path ws) = abs_path ws"
proof (cases "ws = []")
  case False
  assume ws: "\<And>w. w \<in> set ws \<Longrightarrow> plain w"
  then have "split_at (CHR ''/'') (joined ws) = ws"
    using False by (intro split_at_joined) (auto simp: plain_def)
  then have "path_parts (abs_path ws) = ws"
    using foldl_clean [OF ws, where st = "[]"] by (simp add: path_parts_def abs_path_def clean_step_def)
  then show ?thesis by (simp add: filepath_clean_def abs_path_def is_rooted_def)
qed (simp add: filepath_clean_def abs_path_def is_rooted_def path_parts_def clean_step_def)

text \<open>Joining an entry name onto an absolute path stays below it.\<close>

lemma join_abs:
  assumes ws: "\<And>w. w \<in> set ws \<Longrightarrow> plain w" and n: "plain n"
  shows "filepath_join [abs_path ws, n] = abs_path (ws @ [n])"
proof (cases "ws = []")
  case True
  have "split_at (CHR ''/'') n = [n]" using n by (simp add: plain_def split_at_no_sep)
  with True n show ?thesis
    by (simp add: filepath_join_def abs_path_def filepath_clean_def path_parts_def is_rooted_def
        clean_step_def plain_def)
next
  case False
  have "joined [abs_path ws, n] = abs_path (ws @ [n])"
    using False by (simp add: abs_path_def joined_snoc)
  moreover have "n \<noteq> []" "abs_path ws \<noteq> []" using n by (simp_all add: plain_def abs_path_def)
  moreover have "filepath_clean (abs_path (ws @ [n])) = abs_path (ws @ [n])"
    using ws n by (intro clean_abs) auto
  ultimately show ?thesis by (simp add: filepath_join_def)
qed

lemma join_relative:
  assumes "plain m" and "plain n"
  shows "filepath_join [m, n] = joined [m, n]"
proof -
  have "split_at (CHR ''/'') (joined [m, n]) = [m, n]"
    using assms by (intro split_at_joined) (auto simp: plain_def)
  moreover have "\<not> is_rooted (joined [m, n])"
    using assms by (cases m) (auto simp: plain_def is_rooted_def)
  ultimately have "path_parts (joined [m, n]) = [m, n]"
    using assms by (simp add: path_parts_def clean_step_def plain_def del: joined.simps)
  with assms \<open>\<not> is_rooted (joined [m, n])\<close> show ?thesis
    by (simp add: filepath_join_def filepath_clean_def plain_def)
qed

section \<open>CommitSchema\<close>

datatype git_error = InvalidCategory | GitFailed db_error

definition safeCategory :: "string \<Rightarrow> git_error + string" where
  "safeCategory category =
     (if category = [] \<or> category \<noteq> filepath_base category \<or>
         (\<exists>c \<in> set category. c \<in> {CHR ''/'', CHR 0x5C}) \<or> has_sub ''..'' category
      then Inl InvalidCategory else Inr category)"

text \<open>An opened repository; a bare one has no worktree.\<close>

record go_git =
  gg_root :: string
  gg_bare :: bool
  gg_remote :: bool

datatype git_committer = NoopGit | GoGit go_git

definition repoWorkDir :: "go_git \<Rightarrow> string" where
  "repoWorkDir g = (if gg_bare g then [] else gg_root g)"

text \<open>The hash of the newest commit.\<close>

definition commit_hash :: "libs \<Rightarrow> string io" where
  "commit_hash L = State (\<lambda>w.
     (l_git_hash L (length (filter (\<lambda>a. case a of GitCommit _ \<Rightarrow> True | _ \<Rightarrow> False) (w_git w))), w))"

definition schema_commit_message :: "string \<Rightarrow> string \<Rightarrow> int \<Rightarrow> string" where
  "schema_commit_message message category version =
     (if message = [] then ''schema('' @ category @ ''): version '' @ show_int version else message)"

text \<open>The calls up to the commit, each returning early when it fails.\<close>

fun git_calls :: "git_action list \<Rightarrow> unit res io" where
  "git_calls [] = ret (Inr ())"
| "git_calls (a # as) = do {
     r \<leftarrow> git_call a;
     (case r of Inl e \<Rightarrow> ret (Inl e) | Inr _ \<Rightarrow> git_calls as)
   }"

definition GoGit_CommitSchema ::
  "libs \<Rightarrow> go_git \<Rightarrow> string \<Rightarrow> int \<Rightarrow> payload \<Rightarrow> string \<Rightarrow> string \<Rightarrow> (git_error + string) io" where
  "GoGit_CommitSchema L g cat version body routing message =
     (case safeCategory cat of
        Inl e \<Rightarrow> ret (Inl e)
      | Inr category \<Rightarrow>
          (let dir = filepath_join [repoWorkDir g, ''schemas''];
               schemaName = category @ ''.schema.json'';
               routingName = category @ ''.routing.yaml'' in
           do {
             r1 \<leftarrow> git_calls [MkdirAll dir,
               WriteFile (filepath_join [dir, schemaName]) body,
               WriteFile (filepath_join [dir, routingName]) (RawBody routing)];
             (case r1 of Inl e \<Rightarrow> ret (Inl (GitFailed e)) | Inr _ \<Rightarrow>
               if gg_bare g then ret (Inl (GitFailed Unavailable))
               else do {
                 r2 \<leftarrow> git_calls [GitAdd (filepath_join [''schemas'', schemaName]),
                   GitAdd (filepath_join [''schemas'', routingName]),
                   GitCommit (schema_commit_message message category version)];
                 (case r2 of Inl e \<Rightarrow> ret (Inl (GitFailed e)) | Inr _ \<Rightarrow> do {
                   sha \<leftarrow> commit_hash L;
                   r3 \<leftarrow> git_calls (if gg_remote g then [GitPush] else []);
                   (case r3 of Inl e \<Rightarrow> ret (Inl (GitFailed e)) | Inr _ \<Rightarrow> ret (Inr sha))
                 })
               })
           }))"

definition CommitSchema ::
  "libs \<Rightarrow> git_committer \<Rightarrow> string \<Rightarrow> int \<Rightarrow> payload \<Rightarrow> string \<Rightarrow> string \<Rightarrow> (git_error + string) io" where
  "CommitSchema L g cat version body routing message =
     (case g of NoopGit \<Rightarrow> ret (Inr [])
      | GoGit gg \<Rightarrow> GoGit_CommitSchema L gg cat version body routing message)"

section \<open>What an accepted category is\<close>

lemma safeCategory_Inr:
  assumes "safeCategory c = Inr n"
  shows "n = c" and "c \<noteq> []" and "CHR ''/'' \<notin> set c" and "CHR 0x5C \<notin> set c"
    and "\<And>a b. c \<noteq> a @ ''..'' @ b"
  using assms has_sub_middle [of "''..''"] by (auto simp: safeCategory_def split: if_splits)

lemma safeCategory_plain:
  assumes "safeCategory c = Inr n" and "CHR ''/'' \<notin> set e" and "2 < length e"
  shows "plain (n @ e)"
proof -
  have "2 < length (n @ e)" using assms(3) by simp
  then have "n @ e \<noteq> []" "n @ e \<noteq> ''.''" "n @ e \<noteq> ''..''" by fastforce+
  then show ?thesis using safeCategory_Inr [OF assms(1)] assms(2) by (simp add: plain_def)
qed

section \<open>What a commit touches\<close>

text \<open>The git actions of a run satisfy \<open>Q\<close>; nothing else but time changes.\<close>

definition git_only :: "(git_action \<Rightarrow> bool) \<Rightarrow> world \<Rightarrow> world \<Rightarrow> bool" where
  "git_only Q w w' \<longleftrightarrow> w_db w' = w_db w \<and> w_streams w' = w_streams w \<and> w_sent w' = w_sent w \<and>
     (\<exists>as. w_git w' = w_git w @ as \<and> list_all Q as)"

interpretation go: run_relation "git_only Q" for Q
proof
  show "git_only Q w w" for w by (simp add: git_only_def)
  fix u v w assume "git_only Q u v" "git_only Q v w"
  then obtain as bs where "w_git v = w_git u @ as" "list_all Q as" "w_git w = w_git v @ bs" "list_all Q bs"
    "w_db w = w_db u" "w_streams w = w_streams u" "w_sent w = w_sent u"
    by (auto simp: git_only_def)
  then show "git_only Q u w" by (auto simp: git_only_def intro: exI [where x = "as @ bs"])
qed

lemma git_only_call: "Q a \<Longrightarrow> obeys (git_only Q) (git_call a)"
  by (rule obeysI) (auto simp: git_call_def git_only_def Let_def split: outcome.split)

lemma git_only_calls: "list_all Q as \<Longrightarrow> obeys (git_only Q) (git_calls as)"
  by (induction as) (auto intro!: go.obeys_control git_only_call)

lemma git_only_hash: "obeys (git_only Q) (commit_hash L)"
  by (rule obeysI) (simp add: commit_hash_def go.refl_R)

definition category_files :: "string list \<Rightarrow> string \<Rightarrow> git_action \<Rightarrow> bool" where
  "category_files ws c a =
     (case a of
        MkdirAll p \<Rightarrow> p = abs_path (ws @ [''schemas''])
      | WriteFile p _ \<Rightarrow> p \<in> {abs_path (ws @ [''schemas'', c @ ''.schema.json'']),
                              abs_path (ws @ [''schemas'', c @ ''.routing.yaml''])}
      | GitAdd p \<Rightarrow> p \<in> {''schemas/'' @ c @ ''.schema.json'', ''schemas/'' @ c @ ''.routing.yaml''}
      | _ \<Rightarrow> True)"

text \<open>The interface \<open>GitCommitter\<close> and its law, for a repository at the absolute path of \<open>ws\<close>.\<close>

locale confined_git =
  fixes commit :: "string \<Rightarrow> int \<Rightarrow> payload \<Rightarrow> string \<Rightarrow> string \<Rightarrow> (git_error + string) io"
    and ws :: "string list"
  assumes confined: "obeys (git_only (category_files ws c)) (commit c v body routing m)"
    and guarded: "\<not> plain (c @ ''.schema.json'') \<Longrightarrow> git_only (\<lambda>_. False) w (snd (run_state (commit c v body routing m) w))"
begin

lemma commit_db: "run_state (commit c v body routing m) w = (r, w') \<Longrightarrow> w_db w' = w_db w \<and> w_streams w' = w_streams w"
  using obeys_run [OF confined] by (fastforce simp: git_only_def)

text \<open>Nothing outside the directory is written.\<close>

lemma commit_writes:
  assumes "run_state (commit c v body routing m) w = (r, w')"
  shows "\<exists>as. w_git w' = w_git w @ as \<and>
    (\<forall>p b. WriteFile p b \<in> set as \<longrightarrow> (\<exists>n. plain n \<and> p = abs_path (ws @ [''schemas'', n])))"
proof (cases "plain (c @ ''.schema.json'')")
  case True
  then have n: "plain (c @ ''.schema.json'')" "plain (c @ ''.routing.yaml'')"
    by (auto simp: plain_def)
  obtain as where "w_git w' = w_git w @ as" "list_all (category_files ws c) as"
    using obeys_run [OF confined assms] by (auto simp: git_only_def)
  with n show ?thesis
    by (intro exI [where x = as]) (auto simp: list_all_iff category_files_def dest!: bspec)
next
  case False
  then show ?thesis using guarded [OF False, of w v body routing m] assms by (auto simp: git_only_def list_all_iff)
qed

end

lemma GoGit_confined:
  assumes ws: "\<And>x. x \<in> set ws \<Longrightarrow> plain x" and g: "gg_root g = abs_path ws" "\<not> gg_bare g"
  shows "obeys (git_only (category_files ws c)) (GoGit_CommitSchema L g c v body routing m)"
proof (cases "safeCategory c")
  case (Inl e)
  then show ?thesis by (simp add: GoGit_CommitSchema_def go.obeys_ret)
next
  case (Inr n)
  note s = safeCategory_Inr [OF Inr]
  have p: "plain (c @ ''.schema.json'')" "plain (c @ ''.routing.yaml'')"
    using safeCategory_plain [OF Inr] s(1) by simp_all
  have pl: "plain ''schemas''" by (simp add: plain_def)
  have dir: "filepath_join [repoWorkDir g, ''schemas''] = abs_path (ws @ [''schemas''])"
    using join_abs [OF ws pl] g by (simp add: repoWorkDir_def)
  have ws': "x \<in> set (ws @ [''schemas'']) \<Longrightarrow> plain x" for x using ws pl by auto
  have files: "filepath_join [abs_path (ws @ [''schemas'']), c @ e] = abs_path (ws @ [''schemas'', c @ e])"
    if "plain (c @ e)" for e
    using join_abs [of "ws @ [''schemas'']" "c @ e", OF ws' that] by simp
  have adds: "filepath_join [''schemas'', c @ e] = ''schemas/'' @ c @ e" if "plain (c @ e)" for e
    using join_relative [OF pl that] by simp
  have Q: "list_all (category_files ws c) [MkdirAll (abs_path (ws @ [''schemas''])),
       WriteFile (abs_path (ws @ [''schemas'', c @ ''.schema.json''])) body,
       WriteFile (abs_path (ws @ [''schemas'', c @ ''.routing.yaml''])) (RawBody routing)]"
    "list_all (category_files ws c) [GitAdd (''schemas/'' @ c @ ''.schema.json''),
       GitAdd (''schemas/'' @ c @ ''.routing.yaml''), GitCommit msg]" for msg
    by (simp_all add: category_files_def)
  show ?thesis
    unfolding GoGit_CommitSchema_def Inr sum.case Let_def s(1) dir files [OF p(1)] files [OF p(2)]
      adds [OF p(1)] adds [OF p(2)]
    by (intro go.obeys_control git_only_calls git_only_hash Q) (simp add: category_files_def)
qed

lemma GoGit_guarded:
  assumes "\<not> plain (c @ ''.schema.json'')"
  shows "GoGit_CommitSchema L g c v body routing m = ret (Inl InvalidCategory)"
proof (cases "safeCategory c")
  case (Inl e)
  then have "e = InvalidCategory" by (simp add: safeCategory_def split: if_splits)
  with Inl show ?thesis by (simp add: GoGit_CommitSchema_def)
next
  case (Inr n)
  then show ?thesis using safeCategory_plain [OF Inr] safeCategory_Inr(1) [OF Inr] assms by simp
qed

text \<open>An opened worktree: go-git roots it at the cleaned absolute path of its directory.\<close>

definition worktree_at :: "string list \<Rightarrow> bool \<Rightarrow> go_git" where
  "worktree_at ws remote =
     \<lparr>gg_root = abs_path (filter plain ws), gg_bare = False, gg_remote = remote\<rparr>"

interpretation repo: confined_git "CommitSchema L (GoGit (worktree_at ws remote))" "filter plain ws"
  for L ws remote
proof
  fix c v body routing m w
  show "obeys (git_only (category_files (filter plain ws) c))
      (CommitSchema L (GoGit (worktree_at ws remote)) c v body routing m)"
    unfolding CommitSchema_def git_committer.case by (rule GoGit_confined) (auto simp: worktree_at_def)
  show "git_only (\<lambda>_. False) w
      (snd (run_state (CommitSchema L (GoGit (worktree_at ws remote)) c v body routing m) w))"
    if "\<not> plain (c @ ''.schema.json'')"
    using that by (simp add: CommitSchema_def GoGit_guarded go.refl_R)
qed

interpretation noop: confined_git "CommitSchema L NoopGit" ws for L ws
  by unfold_locales (simp_all add: CommitSchema_def go.obeys_ret go.refl_R)

section \<open>Effects on the database\<close>

lemma CommitSchema_git_only: "obeys (git_only (\<lambda>_. True)) (CommitSchema L g c v body routing m)"
  unfolding CommitSchema_def GoGit_CommitSchema_def Let_def
  by (cases g; cases "safeCategory c")
    (auto intro!: go.obeys_control git_only_calls git_only_call git_only_hash simp: list_all_iff)

lemma CommitSchema_db:
  "run_state (CommitSchema L g c v body routing m) w = (r, w') \<Longrightarrow>
   w_db w' = w_db w \<and> w_streams w' = w_streams w"
  using obeys_run [OF CommitSchema_git_only] by (fastforce simp: git_only_def)

lemma CommitSchema_keeps: "keeps I (CommitSchema L g c v body routing m)"
  by (rule keepsI) (use CommitSchema_db in \<open>metis surjective_pairing\<close>)

text \<open>In a healthy world with a worktree, the commit succeeds for every safe category.\<close>

lemma run_git_calls: "healthy w \<Longrightarrow> \<exists>n. run_state (git_calls as) w =
    (Inr (), w\<lparr>w_git := w_git w @ as, w_tick := n\<rparr>)"
proof (induction as arbitrary: w)
  case Nil
  then show ?case by (auto intro: exI [where x = "w_tick w"])
next
  case (Cons a as)
  let ?v = "tick (w\<lparr>w_git := w_git w @ [a]\<rparr>)"
  obtain n where "run_state (git_calls as) ?v = (Inr (), ?v\<lparr>w_git := w_git ?v @ as, w_tick := n\<rparr>)"
    using Cons.IH [of ?v] Cons.prems by auto
  then show ?case
    using Cons.prems by (auto simp: run_simps tick_def intro: exI [where x = n])
qed

end
