(* ===== verification/RegistryApi.thy ===== *)
theory RegistryApi
  imports RegistryLaws RegistryGit
begin

text \<open>
  \<open>internal/registry/handlers.go\<close>, \<open>server.go\<close> and \<open>events.go\<close>: every handler of the schema registry as
  a computation from the resolved identity and the request to the response, and the router as a
  function of the route. Response bodies are the JSON values the code marshals.
\<close>

section \<open>The server\<close>

record reg_server =
  rg_git :: git_committer
  rg_auth :: token_auth

section \<open>Marshalling (struct tags of store.go and events.go)\<close>

definition j_category :: "libs \<Rightarrow> category \<Rightarrow> json" where
  "j_category L c = JObj
     [(''name'', JStr (cat_name c)), (''description'', JStr (cat_description c)),
      (''current_version'', j_int (cat_version c)), (''created_at'', j_time L (cat_created c))]"

definition j_schema :: "libs \<Rightarrow> schema \<Rightarrow> json" where
  "j_schema L s = JObj
     ([(''schema_id'', j_uuid L (sc_id s)), (''category'', JStr (sc_category s)),
       (''version'', j_int (sc_version s)), (''json_schema'', JObj (sc_json s)),
       (''routing_yaml'', JStr (sc_routing s))] @
      omit_empty ''git_commit_sha'' (sc_git s) @ [(''is_active'', JBool (sc_active s))] @
      omit_empty ''created_by'' (sc_created_by s) @ [(''created_at'', j_time L (sc_created s))])"

definition j_proposal :: "libs \<Rightarrow> proposal \<Rightarrow> json" where
  "j_proposal L p = JObj
     ([(''proposal_id'', j_uuid L (pr_id p)), (''category'', JStr (pr_category p)),
       (''status'', JStr (pr_status p))] @ omit_empty ''generated_by'' (pr_generated_by p) @
      (if pr_patch p = [] then [] else [(''json_schema_patch'', JObj (pr_patch p))]) @
      omit_empty ''routing_yaml_diff'' (pr_routing_diff p) @
      (case pr_confidence p of None \<Rightarrow> [] | Some c \<Rightarrow> [(''confidence'', JNum c)]) @
      omit_empty ''reviewed_by'' (pr_reviewed_by p) @ omit_empty ''reviewer_notes'' (pr_notes p) @
      [(''created_at'', j_time L (pr_created p))])"

definition j_agent :: "libs \<Rightarrow> agent_record \<Rightarrow> json" where
  "j_agent L a = JObj
     ([(''agent_id'', j_uuid L (ar_id a)), (''agent_name'', JStr (ar_name a)), (''slug'', JStr (ar_slug a)),
       (''description'', JStr (ar_description a)), (''agent_type'', JStr (ar_type a)),
       (''status'', JStr (ar_status a))] @ omit_empty ''contact_email'' (ar_email a) @
      [(''capabilities'', j_strings (ar_capabilities a)), (''created_at'', j_time L (ar_created a))])"

definition j_key_meta :: "libs \<Rightarrow> key_meta \<Rightarrow> json" where
  "j_key_meta L k = JObj
     ([(''key_id'', j_uuid L (km_id k)), (''key_prefix'', JStr (km_prefix k))] @
      omit_empty ''label'' (km_label k) @
      [(''scopes'', JArr (map JStr (km_scopes k))), (''revoked'', JBool (km_revoked k)),
       (''created_at'', j_time L (km_created k))])"

definition j_audit :: "libs \<Rightarrow> audit_entry \<Rightarrow> json" where
  "j_audit L a = JObj
     [(''id'', j_uuid L (au_id a)), (''proposal_id'', j_uuid L (au_proposal a)),
      (''category'', JStr (au_category a)),
      (''user_id'', case au_user a of None \<Rightarrow> JNull | Some u \<Rightarrow> j_uuid L u),
      (''action'', JStr (au_action a)), (''notes'', JStr (au_notes a)),
      (''created_at'', j_time L (au_created a))]"

record schema_approved =
  ev_category :: string
  ev_version :: int
  ev_schema :: uuid
  ev_proposal :: uuid
  ev_by :: string
  ev_emitted :: time

definition j_schema_approved :: "libs \<Rightarrow> schema_approved \<Rightarrow> json" where
  "j_schema_approved L e = JObj
     [(''category'', JStr (ev_category e)), (''version'', j_int (ev_version e)),
      (''schema_id'', j_uuid L (ev_schema e)), (''proposal_id'', j_uuid L (ev_proposal e)),
      (''approved_by'', JStr (ev_by e)), (''emitted_at'', j_time L (ev_emitted e))]"

definition PublishSchemaApproved :: "libs \<Rightarrow> schema_approved \<Rightarrow> unit res io" where
  "PublishSchemaApproved L e = publish ''schema.approved'' (JsonBody (j_schema_approved L e))"

section \<open>Schemas\<close>

definition handleHealth :: "request \<Rightarrow> response io" where
  "handleHealth r = ret (WriteJSON 200 (JObj [(''status'', JStr ''ok'')]))"

definition handleListSchemas :: "libs \<Rightarrow> handler" where
  "handleListSchemas L i r = do {
     x \<leftarrow> sql ListActiveSchemas;
     ret (case x of
        Inl e \<Rightarrow> WriteError 500 ''list failed''
      | Inr xs \<Rightarrow> WriteJSON 200 (JObj [(''schemas'', JArr (map (j_schema L) xs))]))
   }"

record upsert_schema_request =
  us_category :: string
  us_json :: "jmap option"
  us_routing :: string

definition upsert_fields :: "jmap \<Rightarrow> upsert_schema_request option" where
  "upsert_fields m =
     (case (dec_field dec_string [] m ''category'', dec_field dec_map None m ''json_schema'',
            dec_field dec_string [] m ''routing_yaml'') of
        (Some c, Some j, Some y) \<Rightarrow> Some \<lparr>us_category = c, us_json = j, us_routing = y\<rparr>
      | _ \<Rightarrow> None)"

text \<open>\<open>commitNewSchemaVersion\<close>: the schema row, then the git mirror, whose failure is not fatal.\<close>

definition commitNewSchemaVersion ::
  "libs \<Rightarrow> reg_server \<Rightarrow> string \<Rightarrow> jmap \<Rightarrow> string \<Rightarrow> string \<Rightarrow> schema res io" where
  "commitNewSchemaVersion L s category body routing actor = do {
     x \<leftarrow> CreateSchemaVersion category body routing actor [];
     (case x of
        Inl e \<Rightarrow> ret (Inl e)
      | Inr sc \<Rightarrow> do {
          g \<leftarrow> CommitSchema L (rg_git s) category (sc_version sc) (JsonBody (JObj body)) routing [];
          (case g of
             Inl e \<Rightarrow> ret (Inr sc)
           | Inr sha \<Rightarrow>
               if sha \<noteq> [] then do {
                 _ \<leftarrow> sql (SetSchemaGitSHA (sc_id sc) sha);
                 ret (Inr (sc\<lparr>sc_git := sha\<rparr>))
               }
               else ret (Inr sc))
        })
   }"

definition version_body :: "schema \<Rightarrow> json" where
  "version_body sc = JObj [(''category'', JStr (sc_category sc)), (''version'', j_int (sc_version sc))]"

definition handleCreateSchema :: "libs \<Rightarrow> reg_server \<Rightarrow> handler" where
  "handleCreateSchema L s i r =
     (case decode_struct L upsert_fields (rq_body r) of
        None \<Rightarrow> ret (WriteError 400 ''invalid JSON body'')
      | Some q \<Rightarrow>
          (case us_json q of
             None \<Rightarrow> ret (WriteError 400 ''category, json_schema and routing_yaml are required'')
           | Some body \<Rightarrow>
               if us_category q = [] \<or> us_routing q = []
               then ret (WriteError 400 ''category, json_schema and routing_yaml are required'')
               else do {
                 x \<leftarrow> commitNewSchemaVersion L s (us_category q) body (us_routing q) (identity_name L i);
                 ret (case x of
                    Inl e \<Rightarrow> WriteError 500 ''failed to create schema''
                  | Inr sc \<Rightarrow> WriteJSON 201 (version_body sc))
               }))"

definition handleGetSchema :: "libs \<Rightarrow> handler" where
  "handleGetSchema L i r = do {
     x \<leftarrow> sql (GetActiveSchema (url_param r ''category''));
     ret (case x of
        Inl ErrNotFound \<Rightarrow> WriteError 404 ''schema not found''
      | Inl _ \<Rightarrow> WriteError 500 ''lookup failed''
      | Inr sc \<Rightarrow> WriteJSON 200 (JObj
          [(''category'', JStr (sc_category sc)), (''json_schema'', JObj (sc_json sc)),
           (''routing_yaml'', JStr (sc_routing sc)), (''version'', j_int (sc_version sc))]))
   }"

text \<open>Only \<open>ErrNotFound\<close> stops the update: any other lookup error is ignored.\<close>

definition handleUpdateSchema :: "libs \<Rightarrow> reg_server \<Rightarrow> handler" where
  "handleUpdateSchema L s i r = do {
     x \<leftarrow> sql (GetActiveSchema (url_param r ''category''));
     (if x = Inl ErrNotFound then ret (WriteError 404 ''schema not found'')
      else case decode_struct L upsert_fields (rq_body r) of
        None \<Rightarrow> ret (WriteError 400 ''invalid JSON body'')
      | Some q \<Rightarrow>
          (case us_json q of
             None \<Rightarrow> ret (WriteError 400 ''json_schema and routing_yaml are required'')
           | Some body \<Rightarrow>
               if us_routing q = [] then ret (WriteError 400 ''json_schema and routing_yaml are required'')
               else do {
                 y \<leftarrow> commitNewSchemaVersion L s (url_param r ''category'') body (us_routing q)
                        (identity_name L i);
                 ret (case y of
                    Inl e \<Rightarrow> WriteError 500 ''failed to update schema''
                  | Inr sc \<Rightarrow> WriteJSON 200 (version_body sc))
               }))
   }"

definition handleDeleteSchema :: "libs \<Rightarrow> handler" where
  "handleDeleteSchema L i r = do {
     x \<leftarrow> sql (DeleteCategory (url_param r ''category''));
     ret (case x of
        Inl ErrNotFound \<Rightarrow> WriteError 404 ''schema not found''
      | Inl _ \<Rightarrow> WriteError 500 ''delete failed''
      | Inr _ \<Rightarrow> WriteJSON 200 (JObj
          [(''category'', JStr (url_param r ''category'')), (''deleted'', JBool True)]))
   }"

definition handleListVersions :: "libs \<Rightarrow> handler" where
  "handleListVersions L i r = do {
     x \<leftarrow> sql (ListSchemaVersions (url_param r ''category''));
     ret (case x of
        Inl ErrNotFound \<Rightarrow> WriteError 404 ''schema not found''
      | Inl _ \<Rightarrow> WriteError 500 ''list failed''
      | Inr xs \<Rightarrow> WriteJSON 200 (JObj [(''versions'', JArr (map (j_schema L) xs))]))
   }"

definition handleListCategories :: "libs \<Rightarrow> handler" where
  "handleListCategories L i r = do {
     x \<leftarrow> sql ListCategories;
     ret (case x of
        Inl e \<Rightarrow> WriteError 500 ''list failed''
      | Inr xs \<Rightarrow> WriteJSON 200 (JObj [(''categories'', JArr (map (j_category L) xs))]))
   }"

section \<open>Proposals\<close>

definition handleListProposals :: "libs \<Rightarrow> handler" where
  "handleListProposals L i r = do {
     x \<leftarrow> sql (ListProposals (query_param r ''status''));
     ret (case x of
        Inl e \<Rightarrow> WriteError 500 ''list failed''
      | Inr xs \<Rightarrow> WriteJSON 200 (JObj [(''proposals'', JArr (map (j_proposal L) xs))]))
   }"

record create_proposal_request =
  cp_category :: string
  cp_generated_by :: string
  cp_patch :: "jmap option"
  cp_routing :: string
  cp_samples :: "string list option"
  cp_confidence :: "string option"

definition proposal_fields :: "jmap \<Rightarrow> create_proposal_request option" where
  "proposal_fields m =
     (case (dec_field dec_string [] m ''category'', dec_field dec_string [] m ''generated_by'',
            dec_field dec_map None m ''json_schema_patch'', dec_field dec_string [] m ''routing_yaml_diff'',
            dec_field dec_strings None m ''sample_event_ids'', dec_field dec_number None m ''confidence'') of
        (Some c, Some g, Some p, Some y, Some ss, Some f) \<Rightarrow>
          Some \<lparr>cp_category = c, cp_generated_by = g, cp_patch = p, cp_routing = y, cp_samples = ss,
                cp_confidence = f\<rparr>
      | _ \<Rightarrow> None)"

definition handleCreateProposal :: "libs \<Rightarrow> handler" where
  "handleCreateProposal L i r =
     (case decode_struct L proposal_fields (rq_body r) of
        None \<Rightarrow> ret (WriteError 400 ''invalid JSON body'')
      | Some q \<Rightarrow>
          (case cp_patch q of
             None \<Rightarrow> ret (WriteError 400 ''category, generated_by and json_schema_patch are required'')
           | Some patch \<Rightarrow>
               if cp_category q = [] \<or> cp_generated_by q = []
               then ret (WriteError 400 ''category, generated_by and json_schema_patch are required'')
               else do {
                 x \<leftarrow> CreateProposal L (cp_category q) (cp_generated_by q) patch (cp_routing q)
                        (case cp_samples q of None \<Rightarrow> [] | Some ss \<Rightarrow> ss) (cp_confidence q);
                 ret (case x of
                    Inl e \<Rightarrow> WriteError 500 ''failed to store proposal''
                  | Inr p \<Rightarrow> WriteJSON 201 (JObj
                      [(''proposal_id'', j_uuid L (pr_id p)), (''status'', JStr (pr_status p))]))
               }))"

definition handleGetProposal :: "libs \<Rightarrow> handler" where
  "handleGetProposal L i r =
     (case l_uuid_parse L (url_param r ''proposal_id'') of
        None \<Rightarrow> ret (WriteError 400 ''invalid proposal_id'')
      | Some pid \<Rightarrow> do {
          x \<leftarrow> sql (GetProposal pid);
          ret (case x of
             Inl ErrNotFound \<Rightarrow> WriteError 404 ''proposal not found''
           | Inl _ \<Rightarrow> WriteError 500 ''lookup failed''
           | Inr p \<Rightarrow> WriteJSON 200 (JObj
               [(''proposal_id'', j_uuid L (pr_id p)), (''category'', JStr (pr_category p)),
                (''status'', JStr (pr_status p)), (''json_schema_patch'', JObj (pr_patch p)),
                (''routing_yaml_diff'', JStr (pr_routing_diff p)), (''generated_by'', JStr (pr_generated_by p)),
                (''reviewed_by'', JStr (pr_reviewed_by p)), (''created_at'', j_time L (pr_created p))]))
        })"

definition review_notes :: "jmap \<Rightarrow> string option" where
  "review_notes m = dec_field dec_string [] m ''reviewer_notes''"

datatype decision = Approved | Rejected

definition review_body :: "libs \<Rightarrow> uuid \<Rightarrow> string \<Rightarrow> jmap" where
  "review_body L pid status = [(''proposal_id'', j_uuid L pid), (''status'', JStr status)]"

text \<open>The user recorded in the audit log.\<close>

definition review_user :: "identity \<Rightarrow> uuid option" where
  "review_user i = (if id_kind i = ''user'' then Some (id_user i) else None)"

definition rejectProposal :: "libs \<Rightarrow> identity \<Rightarrow> uuid \<Rightarrow> string \<Rightarrow> response io" where
  "rejectProposal L i pid notes = do {
     y \<leftarrow> sql (FinalizeProposal pid ''rejected'' (identity_name L i) notes None);
     (case y of
        Inl e \<Rightarrow> ret (WriteError 500 ''failed to reject proposal'')
      | Inr _ \<Rightarrow> do {
          _ \<leftarrow> sql (AuditLog pid (review_user i) ''reject'' notes);
          ret (WriteJSON 200 (JObj (review_body L pid ''rejected'')))
        })
   }"

text \<open>Approval creates the schema version first and finalises the proposal afterwards.\<close>

definition approveProposal ::
  "libs \<Rightarrow> reg_server \<Rightarrow> identity \<Rightarrow> uuid \<Rightarrow> proposal \<Rightarrow> string \<Rightarrow> response io" where
  "approveProposal L s i pid p notes = do {
     x \<leftarrow> commitNewSchemaVersion L s (pr_category p) (pr_patch p) (pr_routing_diff p) (identity_name L i);
     (case x of
        Inl e \<Rightarrow> ret (WriteError 500 ''failed to create schema version'')
      | Inr sc \<Rightarrow> do {
          y \<leftarrow> sql (FinalizeProposal pid ''approved'' (identity_name L i) notes (Some (sc_id sc)));
          (case y of
             Inl e \<Rightarrow> ret (WriteError 500 ''failed to finalize proposal'')
           | Inr _ \<Rightarrow> do {
               _ \<leftarrow> sql (AuditLog pid (review_user i) ''approve'' notes);
               t \<leftarrow> now;
               _ \<leftarrow> PublishSchemaApproved L
                      \<lparr>ev_category = pr_category p, ev_version = sc_version sc, ev_schema = sc_id sc,
                       ev_proposal = pid, ev_by = identity_name L i, ev_emitted = t\<rparr>;
               ret (WriteJSON 200 (JObj (review_body L pid ''approved'' @
                 [(''new_version'', j_int (sc_version sc))])))
             })
        })
   }"

definition handleReview :: "libs \<Rightarrow> reg_server \<Rightarrow> decision \<Rightarrow> handler" where
  "handleReview L s dec i r =
     (case l_uuid_parse L (url_param r ''proposal_id'') of
        None \<Rightarrow> ret (WriteError 400 ''invalid proposal_id'')
      | Some pid \<Rightarrow>
          (case decode_struct L review_notes (rq_body r) of
             None \<Rightarrow> ret (WriteError 400 ''reviewer_notes is required'')
           | Some notes \<Rightarrow> do {
               x \<leftarrow> sql (GetProposal pid);
               (case x of
                  Inl e \<Rightarrow> ret (if e = ErrNotFound then WriteError 404 ''proposal not found''
                               else WriteError 500 ''lookup failed'')
                | Inr p \<Rightarrow>
                    if pr_status p \<noteq> ''pending''
                    then ret (WriteError 400 (''proposal already '' @ pr_status p))
                    else (case dec of
                        Rejected \<Rightarrow> rejectProposal L i pid notes
                      | Approved \<Rightarrow> approveProposal L s i pid p notes))
             }))"

section \<open>Agents and the audit log\<close>

definition handleListAgents :: "libs \<Rightarrow> handler" where
  "handleListAgents L i r = do {
     x \<leftarrow> sql reg_ListAgents;
     ret (case x of
        Inl e \<Rightarrow> WriteError 500 ''list failed''
      | Inr xs \<Rightarrow> WriteJSON 200 (JObj [(''agents'', JArr (map (j_agent L) xs))]))
   }"

record create_agent_request =
  ca_name :: string
  ca_description :: string
  ca_capabilities :: "string list option"

definition create_agent_fields :: "jmap \<Rightarrow> create_agent_request option" where
  "create_agent_fields m =
     (case (dec_field dec_string [] m ''agent_name'', dec_field dec_string [] m ''description'',
            dec_field dec_strings None m ''capabilities'') of
        (Some n, Some d, Some c) \<Rightarrow> Some \<lparr>ca_name = n, ca_description = d, ca_capabilities = c\<rparr>
      | _ \<Rightarrow> None)"

definition reg_handleCreateAgent :: "libs \<Rightarrow> handler" where
  "reg_handleCreateAgent L i r =
     (case decode_struct L create_agent_fields (rq_body r) of
        None \<Rightarrow> ret (WriteError 400 ''invalid JSON body'')
      | Some q \<Rightarrow>
          if ca_name q = [] \<or> ca_capabilities q = None
          then ret (WriteError 400 ''agent_name and capabilities are required'')
          else do {
            x \<leftarrow> reg_CreateAgent L (ca_name q) (ca_description q) (ca_capabilities q);
            ret (case x of
               Inl e \<Rightarrow> WriteError 500 ''failed to register agent''
             | Inr a \<Rightarrow> WriteJSON 201 (JObj [(''agent_id'', j_uuid L (ar_id a))]))
          })"

definition reg_handleGetAgent :: "libs \<Rightarrow> handler" where
  "reg_handleGetAgent L i r =
     (case l_uuid_parse L (url_param r ''agent_id'') of
        None \<Rightarrow> ret (WriteError 400 ''invalid agent_id'')
      | Some aid \<Rightarrow> do {
          x \<leftarrow> sql (reg_GetAgent aid);
          (case x of
             Inl e \<Rightarrow> ret (if e = ErrNotFound then WriteError 404 ''agent not found''
                          else WriteError 500 ''lookup failed'')
           | Inr a \<Rightarrow> do {
               y \<leftarrow> sql (ListAPIKeysForAgent aid);
               ret (case y of
                  Inl e \<Rightarrow> WriteError 500 ''key lookup failed''
                | Inr ks \<Rightarrow> WriteJSON 200 (JObj
                    [(''agent_id'', j_uuid L (ar_id a)), (''agent_name'', JStr (ar_name a)),
                     (''status'', JStr (ar_status a)), (''capabilities'', j_strings (ar_capabilities a)),
                     (''api_key_metadata'', JArr (map (j_key_meta L) ks))]))
             })
        })"

record update_agent_request =
  ua_name :: string
  ua_status :: string
  ua_capabilities :: "string list option"

definition update_agent_fields :: "jmap \<Rightarrow> update_agent_request option" where
  "update_agent_fields m =
     (case (dec_field dec_string [] m ''agent_name'', dec_field dec_string [] m ''status'',
            dec_field dec_strings None m ''capabilities'') of
        (Some n, Some s, Some c) \<Rightarrow> Some \<lparr>ua_name = n, ua_status = s, ua_capabilities = c\<rparr>
      | _ \<Rightarrow> None)"

definition handleUpdateAgent :: "libs \<Rightarrow> handler" where
  "handleUpdateAgent L i r =
     (case l_uuid_parse L (url_param r ''agent_id'') of
        None \<Rightarrow> ret (WriteError 400 ''invalid agent_id'')
      | Some aid \<Rightarrow>
          (case decode_struct L update_agent_fields (rq_body r) of
             None \<Rightarrow> ret (WriteError 400 ''invalid JSON body'')
           | Some q \<Rightarrow> do {
               x \<leftarrow> sql (UpdateAgent aid (ua_name q) (ua_status q) (ua_capabilities q));
               ret (case x of
                  Inl ErrNotFound \<Rightarrow> WriteError 404 ''agent not found''
                | Inl _ \<Rightarrow> WriteError 500 ''update failed''
                | Inr _ \<Rightarrow> WriteJSON 200 (JObj [(''agent_id'', j_uuid L aid)]))
             }))"

definition handleDeleteAgent :: "libs \<Rightarrow> handler" where
  "handleDeleteAgent L i r =
     (case l_uuid_parse L (url_param r ''agent_id'') of
        None \<Rightarrow> ret (WriteError 400 ''invalid agent_id'')
      | Some aid \<Rightarrow> do {
          x \<leftarrow> sql (DeleteAgent aid);
          ret (case x of
             Inl ErrNotFound \<Rightarrow> WriteError 404 ''agent not found''
           | Inl _ \<Rightarrow> WriteError 500 ''delete failed''
           | Inr _ \<Rightarrow> WriteJSON 200 (JObj [(''agent_id'', j_uuid L aid), (''deleted'', JBool True)]))
        })"

definition listAuditLog :: "libs \<Rightarrow> uuid option \<Rightarrow> response io" where
  "listAuditLog L pid = do {
     x \<leftarrow> sql (ListAuditLog pid);
     ret (case x of
        Inl e \<Rightarrow> WriteError 500 ''list failed''
      | Inr xs \<Rightarrow> WriteJSON 200 (JObj [(''entries'', JArr (map (j_audit L) xs))]))
   }"

definition handleListAuditLog :: "libs \<Rightarrow> handler" where
  "handleListAuditLog L i r =
     (let v = query_param r ''proposal_id'' in
      if v = [] then listAuditLog L None
      else case l_uuid_parse L v of
        None \<Rightarrow> ret (WriteError 400 ''invalid proposal_id'')
      | Some pid \<Rightarrow> listAuditLog L (Some pid))"

section \<open>The router (server.go)\<close>

datatype reg_route =
    GetHealth
  | GetSchemas | GetSchemaOf | GetVersionsOf | GetCategories | GetProposals | PostProposals
  | GetProposalOf | GetAuditLog | GetAgents | GetAgentOf
  | PostSchemas | PutSchemaOf | DeleteSchemaOf | PostApprove | PostReject | PostAgents | PutAgentOf
  | DeleteAgentOf

text \<open>The routes of the inner group, behind \<open>RequireRole("admin", "approver")\<close>.\<close>

definition admin_handler :: "libs \<Rightarrow> reg_server \<Rightarrow> reg_route \<Rightarrow> handler option" where
  "admin_handler L s route =
     (case route of
        PostSchemas \<Rightarrow> Some (handleCreateSchema L s)
      | PutSchemaOf \<Rightarrow> Some (handleUpdateSchema L s)
      | DeleteSchemaOf \<Rightarrow> Some (handleDeleteSchema L)
      | PostApprove \<Rightarrow> Some (handleReview L s Approved)
      | PostReject \<Rightarrow> Some (handleReview L s Rejected)
      | PostAgents \<Rightarrow> Some (reg_handleCreateAgent L)
      | PutAgentOf \<Rightarrow> Some (handleUpdateAgent L)
      | DeleteAgentOf \<Rightarrow> Some (handleDeleteAgent L)
      | _ \<Rightarrow> None)"

text \<open>The routes any valid token reaches.\<close>

definition token_handler :: "libs \<Rightarrow> reg_route \<Rightarrow> handler option" where
  "token_handler L route =
     (case route of
        GetSchemas \<Rightarrow> Some (handleListSchemas L)
      | GetSchemaOf \<Rightarrow> Some (handleGetSchema L)
      | GetVersionsOf \<Rightarrow> Some (handleListVersions L)
      | GetCategories \<Rightarrow> Some (handleListCategories L)
      | GetProposals \<Rightarrow> Some (handleListProposals L)
      | PostProposals \<Rightarrow> Some (handleCreateProposal L)
      | GetProposalOf \<Rightarrow> Some (handleGetProposal L)
      | GetAuditLog \<Rightarrow> Some (handleListAuditLog L)
      | GetAgents \<Rightarrow> Some (handleListAgents L)
      | GetAgentOf \<Rightarrow> Some (reg_handleGetAgent L)
      | _ \<Rightarrow> None)"

definition reg_Router :: "libs \<Rightarrow> reg_server \<Rightarrow> reg_route \<Rightarrow> request \<Rightarrow> response io" where
  "reg_Router L s route =
     CORS (case admin_handler L s route of
        Some h \<Rightarrow> Middleware L (rg_auth s) (RequireRole [''admin'', ''approver''] h)
      | None \<Rightarrow>
          (case token_handler L route of
             Some h \<Rightarrow> Middleware L (rg_auth s) h
           | None \<Rightarrow> handleHealth))"

lemmas handler_defs =
  handleListSchemas_def handleCreateSchema_def handleGetSchema_def handleUpdateSchema_def
  handleDeleteSchema_def handleListVersions_def handleListCategories_def handleListProposals_def
  handleCreateProposal_def handleGetProposal_def handleReview_def rejectProposal_def approveProposal_def
  handleListAgents_def reg_handleCreateAgent_def reg_handleGetAgent_def handleUpdateAgent_def
  handleDeleteAgent_def handleListAuditLog_def listAuditLog_def

section \<open>Runs of several requests\<close>

text \<open>The registry serves one request after the other.\<close>

fun reg_serve :: "libs \<Rightarrow> reg_server \<Rightarrow> (reg_route \<times> request) list \<Rightarrow> response list io" where
  "reg_serve L s [] = ret []"
| "reg_serve L s ((route, r) # qs) = do {
     rs \<leftarrow> reg_Router L s route r;
     rss \<leftarrow> reg_serve L s qs;
     ret (rs # rss)
   }"

section \<open>Relations every run of the registry obeys\<close>

locale registry_relation = run_relation R for R +
  assumes obeys_queries: "obeys R (sql ListCategories)" "obeys R (sql (GetActiveSchema n))" "obeys R (sql ListActiveSchemas)"
      "obeys R (sql (ListSchemaVersions n))" "obeys R (sql (ListProposals st))" "obeys R (sql (GetProposal pid))"
      "obeys R (sql (ListAuditLog of_p))" "obeys R (sql reg_ListAgents)" "obeys R (sql (reg_GetAgent a))"
      "obeys R (sql (ListAPIKeysForAgent a))" "obeys R (sql (select_live_key h))"
    and obeys_writes: "obeys R (sql (SetSchemaGitSHA sid sha))" "obeys R (sql (DeleteCategory n))"
      "obeys R (sql (insertProposal q n by patch routing conf))" "obeys R (sql (FinalizeProposal p st by nts rs))"
      "obeys R (sql (AuditLog p usr act nts))" "obeys R (sql (insertAgent n slug desc caps))"
      "obeys R (sql (UpdateAgent a n st caps'))" "obeys R (sql (DeleteAgent a))"
    and obeys_version: "obeys R (CreateSchemaVersion n body routing by sha)"
    and obeys_commit: "obeys R (CommitSchema L g n v raw routing msg)"
    and obeys_effects: "obeys R (publish sj data)" "obeys R now" "obeys R new_uuid"
begin

lemmas reg_intros = obeys_control obeys_queries obeys_writes obeys_version obeys_commit obeys_effects

lemma commitNewSchemaVersion: "obeys R (commitNewSchemaVersion L s c b y a)"
  unfolding commitNewSchemaVersion_def by (intro reg_intros)

lemma creations: "obeys R (reg_CreateAgent L n desc caps)" "obeys R (CreateProposal L n by patch routing samples conf)"
  unfolding reg_CreateAgent_def CreateProposal_def by (intro reg_intros)+

lemma admin_handlers: "admin_handler L s route = Some h \<Longrightarrow> obeys R (h i r)"
  by (cases route)
    (auto simp: admin_handler_def handler_defs PublishSchemaApproved_def intro!: reg_intros commitNewSchemaVersion
      creations split: decision.split)

lemma token_handlers: "token_handler L route = Some h \<Longrightarrow> obeys R (h i r)"
  by (cases route) (auto simp: token_handler_def handler_defs Let_def intro!: reg_intros creations)

lemma RequireRole: "(\<And>i r. obeys R (h i r)) \<Longrightarrow> obeys R (RequireRole rs h i r)"
  unfolding RequireRole_def by (intro obeys_control)

lemma reg_Router: "obeys R (reg_Router L s route r)"
proof -
  have "obeys R (handleHealth q)" for q by (simp add: handleHealth_def obeys_ret)
  then show ?thesis
    unfolding reg_Router_def
    by (intro obeys_CORS)
      (auto split: option.split intro!: obeys_Middleware obeys_queries obeys_effects RequireRole
        intro: admin_handlers token_handlers)
qed

lemma reg_serve: "obeys R (reg_serve L s qs)"
  by (induction qs) (auto intro!: obeys_ret obeys_bind reg_Router)

end

interpretation rinv: registry_relation "inv_rel db_inv"
  by unfold_locales
    (rule keeps_reads reads_registry reads_select_live_key registry_writes CommitSchema_keeps keeps_no_sql
      keeps_sql db_inv_insertProposal db_inv_insertAgent | assumption)+

end
