(* ===== verification/RegistryReview.thy ===== *)
theory RegistryReview
  imports RegistryApi
begin

text \<open>
  What the registry's handlers achieve: the review trail survives every route, a successful approval
  appends exactly the proposed body to the log of its category and decides the proposal, a rejection
  touches no schema, and what remains when an approval loses a race.
\<close>

section \<open>The review trail\<close>

lemma trail_git: "obeys trail_rel (CommitSchema L g c v body routing m)"
proof (rule obeysI)
  fix w
  obtain r w' where run: "run_state (CommitSchema L g c v body routing m) w = (r, w')" by force
  then show "trail_rel w (snd (run_state (CommitSchema L g c v body routing m) w))"
    using CommitSchema_db [OF run] by (simp add: trail_rel_def)
qed

interpretation rtrail: registry_relation trail_rel
  by unfold_locales (rule trail_queries trail_reads reads_select_live_key trail_writes trail_git trail_effects)+

section \<open>Committing a version\<close>

text \<open>Recording a git hash changes no body.\<close>

definition sha_update :: "db \<Rightarrow> db \<Rightarrow> bool" where
  "sha_update d d' \<longleftrightarrow> (\<exists>P sha. d' = d\<lparr>schemas := upd_where P (\<lambda>r. r\<lparr>s_sha := Some sha\<rparr>) (schemas d)\<rparr>)"

lemma upd_where_False [simp]: "upd_where (\<lambda>_. False) f xs = xs"
  by (simp add: upd_where_none)

lemma sha_update_refl [simp]: "sha_update d d"
  unfolding sha_update_def by (rule exI [where x = "\<lambda>_. False"]) simp

lemma sha_update_SetSchemaGitSHA: "sha_update d (snd (SetSchemaGitSHA sid sha u t d))"
  unfolding sha_update_def SetSchemaGitSHA_def snd_conv by blast

lemma sha_update_facts:
  assumes "sha_update d d'"
  shows "history d' n = history d n" "proposals d' = proposals d" "audit_log d' = audit_log d"
    "s_id ` set (schemas d') = s_id ` set (schemas d)" "users d' = users d"
    "cat_of d' n = cat_of d n"
proof -
  obtain P sha where d': "d' = d\<lparr>schemas := upd_where P (\<lambda>r. r\<lparr>s_sha := Some sha\<rparr>) (schemas d)\<rparr>"
    using assms by (auto simp: sha_update_def)
  have "cat_rows d' c = upd_where P (\<lambda>r. r\<lparr>s_sha := Some sha\<rparr>) (cat_rows d c)" for c
    by (simp add: d' cat_rows_def filter_upd_where)
  then have "map body_of (cat_rows d' c) = map body_of (cat_rows d c)" for c
    by (simp add: map_upd_where body_of_def)
  moreover show "cat_of d' n = cat_of d n" by (simp add: d' cat_of_def)
  ultimately show "history d' n = history d n" by (cases "cat_of d n") (simp_all add: history_def)
  show "proposals d' = proposals d" "audit_log d' = audit_log d" "users d' = users d" by (simp_all add: d')
  show "s_id ` set (schemas d') = s_id ` set (schemas d)" by (simp add: d' image_upd_where)
qed

lemma CreateSchemaVersion_streams:
  "run_state (CreateSchemaVersion c b y a sha) w = (x, w') \<Longrightarrow> w_streams w' = w_streams w"
  unfolding CreateSchemaVersion_def tx_begin_def tx_sql_def tx_commit_def
  by (auto split: outcome.splits sum.splits prod.splits)

lemma commitNew_cases:
  assumes run: "run_state (commitNewSchemaVersion L s c b y a) w = (x, w')"
  obtains (err) e where "x = Inl e" "run_state (CreateSchemaVersion c b y a []) w = (Inl e, w')"
  | (ok) sc v sha where "run_state (CreateSchemaVersion c b y a []) w = (Inr sc, v)"
      "x = Inr (sc\<lparr>sc_git := sha\<rparr>)" "sha_update (w_db v) (w_db w')" "w_streams w' = w_streams w"
proof -
  obtain q v where q: "run_state (CreateSchemaVersion c b y a []) w = (q, v)" by force
  show ?thesis
  proof (cases q)
    case (Inl e)
    then show ?thesis using run q by (intro err [of e]) (simp_all add: commitNewSchemaVersion_def)
  next
    case (Inr sc)
    obtain g v1 where g: "run_state (CommitSchema L (rg_git s) c (sc_version sc) (JsonBody (JObj b)) y []) v
        = (g, v1)" by force
    note db1 = CommitSchema_db [OF g]
    have st: "w_streams v1 = w_streams w" using db1 CreateSchemaVersion_streams [OF q] by simp
    have same: "sc = sc\<lparr>sc_git := sc_git sc\<rparr>" by simp
    show ?thesis
    proof (cases "\<exists>sha. g = Inr sha \<and> sha \<noteq> []")
      case False
      then have "x = Inr (sc\<lparr>sc_git := sc_git sc\<rparr>)" "w' = v1"
        using run q g Inr by (auto simp: commitNewSchemaVersion_def split: sum.splits if_splits)
      then show ?thesis
        by (intro ok [OF q [unfolded Inr], of "sc_git sc"]) (use db1 CreateSchemaVersion_streams [OF q] in simp_all)
    next
      case True
      then obtain sha where sha: "g = Inr sha" "sha \<noteq> []" by blast
      obtain z v2 where z: "run_state (sql (SetSchemaGitSHA (sc_id sc) sha)) v1 = (z, v2)" by force
      have "x = Inr (sc\<lparr>sc_git := sha\<rparr>)" "w' = v2"
        using run q g Inr sha z by (auto simp: commitNewSchemaVersion_def)
      moreover have "sha_update (w_db v) (w_db v2)"
        by (cases rule: sql_cases [of "SetSchemaGitSHA (sc_id sc) sha" v1])
          (use z db1 sha_update_SetSchemaGitSHA in auto)
      ultimately show ?thesis
        using sql_streams [OF z] st by (intro ok [OF q [unfolded Inr], of sha]) simp_all
    qed
  qed
qed

text \<open>A committed version is the newest entry of its category's log, in whatever world.\<close>

lemma commitNew_ok:
  assumes run: "run_state (commitNewSchemaVersion L s c b y a) w = (Inr sc, w')" and inv: "db_inv (w_db w)"
  shows "history (w_db w') n = (if n = c then history (w_db w) n @ [(b, Some y)] else history (w_db w) n)"
    and "sc_version sc = int (length (history (w_db w') c))" and "sc_category sc = c"
    and "proposals (w_db w') = proposals (w_db w)" and "audit_log (w_db w') = audit_log (w_db w)"
    and "w_streams w' = w_streams w" and "sc_id sc \<in> s_id ` set (schemas (w_db w'))"
    and "users (w_db w') = users (w_db w)"
proof -
  obtain sc0 v sha where v: "run_state (CreateSchemaVersion c b y a []) w = (Inr sc0, v)"
    "sc = sc0\<lparr>sc_git := sha\<rparr>" "sha_update (w_db v) (w_db w')" "w_streams w' = w_streams w"
    using run by (cases rule: commitNew_cases) auto
  note facts = sha_update_facts [OF v(3)]
  show "history (w_db w') n = (if n = c then history (w_db w) n @ [(b, Some y)] else history (w_db w) n)"
    using log.create_log [OF v(1) inv, of n] by (simp add: facts)
  show "sc_version sc = int (length (history (w_db w') c))" "sc_category sc = c"
    using log.create_schema [OF v(1) inv] by (simp_all add: facts v(2))
  obtain us ts where tx: "schema_tx c b y a [] us ts (w_db w) = (Inr sc0, w_db v)"
    using CreateSchemaVersion_tx [OF v(1)] by blast
  have other: "same_other_tables (w_db w) (w_db v)"
    using schema_tx_other_tables [of "w_db w" c b y a "[]" us ts] tx by simp
  show "proposals (w_db w') = proposals (w_db w)" "audit_log (w_db w') = audit_log (w_db w)"
    "users (w_db w') = users (w_db w)"
    using other by (simp_all add: facts same_other_tables_def)
  show "w_streams w' = w_streams w" by (rule v(4))
  have "sc_id sc0 \<in> s_id ` set (schemas (w_db v))"
    using schema_tx_ok(6) [OF tx] inv by (simp add: db_inv_def wf_db_def)
  then show "sc_id sc \<in> s_id ` set (schemas (w_db w'))" by (simp add: facts v(2))
qed

section \<open>Finalising a proposal\<close>

definition decided_as :: "db \<Rightarrow> uuid \<Rightarrow> string \<Rightarrow> string \<Rightarrow> string \<Rightarrow> uuid option \<Rightarrow> bool" where
  "decided_as d pid status reviewer notes sid \<longleftrightarrow>
     (\<exists>p \<in> set (proposals d). p_id p = pid \<and> p_status p = status \<and> p_reviewed_by p = Some reviewer \<and>
        p_diff p = Some notes \<and> p_schema p = sid)"

lemma history_cong:
  "categories d' = categories d \<Longrightarrow> schemas d' = schemas d \<Longrightarrow> history d' n = history d n"
proof -
  assume eq: "categories d' = categories d" "schemas d' = schemas d"
  then have rows: "cat_rows d' = cat_rows d" by (simp add: cat_rows_def fun_eq_iff)
  show ?thesis unfolding history_def cat_of_def eq(1) rows ..
qed

lemma FinalizeProposal_ok:
  assumes "FinalizeProposal pid st by notes sid u t d = (Inr (), d')"
  shows "decided_as d' pid st by notes sid" and "history d' n = history d n"
    and "\<exists>p \<in> set (proposals d). p_id p = pid \<and> p_status p = ''pending''"
    and "schemas d' = schemas d" and "audit_log d' = audit_log d"
proof -
  let ?P = "\<lambda>p. p_id p = pid \<and> p_status p = ''pending''"
  have n: "count_where ?P (proposals d) \<noteq> 0" and d': "d' = d\<lparr>proposals := upd_where ?P
      (\<lambda>p. p\<lparr>p_status := st, p_reviewed_by := Some by, p_diff := Some notes, p_reviewed_at := Some t,
             p_schema := sid, p_updated := t\<rparr>) (proposals d)\<rparr>"
    using assms by (auto simp: FinalizeProposal_def Let_def split: if_splits)
  then show ex: "\<exists>p \<in> set (proposals d). p_id p = pid \<and> p_status p = ''pending''"
    by (simp add: count_where_0)
  then obtain p where p: "p \<in> set (proposals d)" "?P p" by blast
  let ?f = "\<lambda>p :: proposal_row. p\<lparr>p_status := st, p_reviewed_by := Some by, p_diff := Some notes,
      p_reviewed_at := Some t, p_schema := sid, p_updated := t\<rparr>"
  have "?f p \<in> set (proposals d')"
    unfolding d' using p by (auto simp: in_upd_where intro!: bexI [of _ p])
  then show "decided_as d' pid st by notes sid"
    unfolding decided_as_def using p(2) by (intro bexI [of _ "?f p"]) simp_all
  show "history d' n = history d n"
    by (rule history_cong) (simp_all add: d')
  show "schemas d' = schemas d" "audit_log d' = audit_log d" by (simp_all add: d')
qed

lemma AuditLog_history: "history (snd (AuditLog pid usr act notes u t d)) n = history d n"
  by (rule history_cong) (simp_all add: AuditLog_def)

lemma AuditLog_proposals: "proposals (snd (AuditLog pid usr act notes u t d)) = proposals d"
  by (simp add: AuditLog_def)

lemma decided_as_cong: "proposals d' = proposals d \<Longrightarrow> decided_as d' = decided_as d"
  by (simp add: decided_as_def fun_eq_iff)

lemma sql_AuditLog_frame:
  assumes "run_state (sql (AuditLog pid usr act notes)) w = (x, w')"
  shows "history (w_db w') n = history (w_db w) n" "proposals (w_db w') = proposals (w_db w)"
    "w_streams w' = w_streams w"
  by (cases rule: sql_cases [of "AuditLog pid usr act notes" w];
      use assms in \<open>auto simp: AuditLog_history AuditLog_proposals\<close>)+

section \<open>The outcome of a review\<close>

lemma rejectProposal_ok:
  assumes run: "run_state (rejectProposal L i pid notes) w = (rs, w')" and "rs_status rs = 200"
  shows "decided_as (w_db w') pid ''rejected'' (identity_name L i) notes None"
    and "history (w_db w') n = history (w_db w) n" and "w_streams w' = w_streams w"
proof -
  let ?f = "FinalizeProposal pid ''rejected'' (identity_name L i) notes None"
  obtain y v where y: "run_state (sql ?f) w = (y, v)" by force
  obtain z v' where z: "run_state (sql (AuditLog pid (review_user i) ''reject'' notes)) v = (z, v')" by force
  have y': "y = Inr ()" "w' = v'"
    using run assms(2) y z by (cases y; auto simp: rejectProposal_def)+
  note fin = FinalizeProposal_ok [OF sql_Inr [OF y [unfolded y'(1)], THEN conjunct1]]
  note fr = sql_AuditLog_frame [OF z]
  show "decided_as (w_db w') pid ''rejected'' (identity_name L i) notes None"
    using fin(1) decided_as_cong [OF fr(2)] by (simp add: y'(2))
  show "history (w_db w') n = history (w_db w) n" using fr(1) fin(2) by (simp add: y'(2))
  show "w_streams w' = w_streams w" using fr(3) sql_streams [OF y] by (simp add: y'(2))
qed

lemma publish_db: "run_state (publish s p) w = (x, w') \<Longrightarrow> w_db w' = w_db w"
  by (auto simp: publish_def Let_def split: outcome.splits)

lemma publish_appends: "run_state (publish s p) w = (x, w') \<Longrightarrow>
  w_streams w' = w_streams w \<or> w_streams w' = w_streams w @ [(s, p)]"
  by (auto simp: publish_def Let_def split: outcome.splits)

lemma approveProposal_ok:
  assumes run: "run_state (approveProposal L s i pid p notes) w = (rs, w')" and st: "rs_status rs = 200"
    and inv: "db_inv (w_db w)"
  shows "\<exists>sid. decided_as (w_db w') pid ''approved'' (identity_name L i) notes (Some sid) \<and>
      (\<forall>n. history (w_db w') n =
        (if n = pr_category p then history (w_db w) n @ [(pr_patch p, Some (pr_routing_diff p))]
         else history (w_db w) n)) \<and>
      (\<exists>t. w_streams w' \<in> {w_streams w, w_streams w @ [(''schema.approved'', JsonBody (j_schema_approved L
         \<lparr>ev_category = pr_category p, ev_version = int (length (history (w_db w') (pr_category p))),
          ev_schema = sid, ev_proposal = pid, ev_by = identity_name L i, ev_emitted = t\<rparr>))]})"
proof -
  let ?c = "commitNewSchemaVersion L s (pr_category p) (pr_patch p) (pr_routing_diff p) (identity_name L i)"
  obtain x v where x: "run_state ?c w = (x, v)" by force
  then obtain sc where sc: "x = Inr sc"
    using run st by (cases x) (auto simp: approveProposal_def)
  note new = commitNew_ok [OF x [unfolded sc] inv]
  let ?f = "FinalizeProposal pid ''approved'' (identity_name L i) notes (Some (sc_id sc))"
  obtain y v2 where y: "run_state (sql ?f) v = (y, v2)" by force
  then have y': "y = Inr ()"
    using run st x sc by (cases y) (auto simp: approveProposal_def)
  note fin = FinalizeProposal_ok [OF sql_Inr [OF y [unfolded y'], THEN conjunct1]]
  obtain z v3 where z: "run_state (sql (AuditLog pid (review_user i) ''approve'' notes)) v2 = (z, v3)" by force
  note fr = sql_AuditLog_frame [OF z]
  define e where "e = \<lparr>ev_category = pr_category p, ev_version = sc_version sc, ev_schema = sc_id sc,
      ev_proposal = pid, ev_by = identity_name L i, ev_emitted = w_clock v3 (w_tick v3)\<rparr>"
  obtain u v4 where u: "run_state (PublishSchemaApproved L e) (tick v3) = (u, v4)" by force
  note pub = publish_db [OF u [unfolded PublishSchemaApproved_def]]
    publish_appends [OF u [unfolded PublishSchemaApproved_def]]
  have w': "w' = v4"
    using run x sc y y' z u by (auto simp: approveProposal_def run_simps e_def)
  have "decided_as (w_db w') pid ''approved'' (identity_name L i) notes (Some (sc_id sc))"
    using fin(1) decided_as_cong [OF fr(2)] pub(1) by (simp add: w')
  moreover have hist: "history (w_db w') n = history (w_db v) n" for n
    using fin(2) [of n] fr(1) [of n] pub(1) by (simp add: w')
  moreover have "w_streams w' \<in> {w_streams w, w_streams w @ [(''schema.approved'', JsonBody (j_schema_approved L e))]}"
    using pub(2) fr(3) sql_streams [OF y] new(6) by (auto simp: w')
  moreover have "e = e\<lparr>ev_version := int (length (history (w_db w') (pr_category p)))\<rparr>"
    using new(2) hist by (simp add: e_def)
  ultimately show ?thesis
    using new(1) by (intro exI [of _ "sc_id sc"]) (auto simp: e_def)
qed

section \<open>Over HTTP\<close>

lemma CORS_run:
  assumes "run_state (CORS h r) w = (rs, w')" and "rq_method r \<noteq> ''OPTIONS''"
  obtains rs0 where "run_state (h r) w = (rs0, w')" "rs_status rs = rs_status rs0" "rs_body rs = rs_body rs0"
  using assms by (cases "run_state (h r) w") (auto simp: CORS_def)

lemma scanProposal_Inr:
  "scanProposal row = Inr p \<Longrightarrow> p_id row = pr_id p \<and> p_status row = pr_status p \<and>
     p_category row = Some (pr_category p) \<and> p_json row = pr_patch p \<and>
     coalesce (p_routing row) = pr_routing_diff p"
  by (auto simp: scanProposal_def split: option.splits)

text \<open>A review that answers 200 read a pending proposal and ran the decision on it.\<close>

lemma handleReview_200:
  assumes run: "run_state (handleReview L s dec i r) w = (rs, w')" and st: "rs_status rs = 200"
  obtains pid nts p row v where
    "l_uuid_parse L (url_param r ''proposal_id'') = Some pid"
    "decode_struct L review_notes (rq_body r) = Some nts"
    "row \<in> set (proposals (w_db w))" "p_id row = pid" "p_status row = ''pending''"
    "p_category row = Some (pr_category p)" "p_json row = pr_patch p"
    "coalesce (p_routing row) = pr_routing_diff p" "w_db v = w_db w" "w_streams v = w_streams w"
    "run_state (case dec of Rejected \<Rightarrow> rejectProposal L i pid nts
                 | Approved \<Rightarrow> approveProposal L s i pid p nts) v = (rs, w')"
proof -
  obtain pid where pid: "l_uuid_parse L (url_param r ''proposal_id'') = Some pid"
    using run st by (cases "l_uuid_parse L (url_param r ''proposal_id'')") (auto simp: handleReview_def)
  obtain nts where nts: "decode_struct L review_notes (rq_body r) = Some nts"
    using run st pid by (cases "decode_struct L review_notes (rq_body r)") (auto simp: handleReview_def)
  obtain x v where x: "run_state (sql (GetProposal pid)) w = (x, v)" by force
  obtain p where p: "x = Inr p" "pr_status p = ''pending''"
    and rest: "run_state (case dec of Rejected \<Rightarrow> rejectProposal L i pid nts
                 | Approved \<Rightarrow> approveProposal L s i pid p nts) v = (rs, w')"
    using run st pid nts x by (cases x) (auto simp: handleReview_def split: if_splits)
  have g: "GetProposal pid (w_uuid w (w_tick w)) (w_clock w (w_tick w)) (w_db w) = (Inr p, w_db v)"
    using sql_Inr [OF x [unfolded p(1)]] by simp
  then have db: "w_db v = w_db w" by (simp add: GetProposal_def)
  obtain row where row: "find (\<lambda>p. p_id p = pid) (proposals (w_db w)) = Some row" "scanProposal row = Inr p"
    using g by (auto simp: GetProposal_def split: option.splits)
  show ?thesis
    by (rule that [OF pid nts _ _ _ _ _ _ db sql_streams [OF x] rest])
      (use find_SomeD [OF row(1)] scanProposal_Inr [OF row(2)] p(2) in auto)
qed

lemma Router_admin_cases:
  assumes run: "run_state (reg_Router L s route r) w = (rs, w')" and opt: "rq_method r \<noteq> ''OPTIONS''"
    and h: "admin_handler L s route = Some h"
  obtains (denied) "unchanged w w'" "rs_status rs = 401 \<or> rs_status rs = 403"
  | (ran) i v rs0 where "run_state (Resolve L (rg_auth s) (extractToken r)) w = (Inr i, v)" "unchanged w v"
      "id_kind i = ''dev-admin'' \<or> id_role i \<in> {''admin'', ''approver''}" "run_state (h i r) v = (rs0, w')"
      "rs_status rs = rs_status rs0"
proof -
  have eq: "reg_Router L s route =
      CORS (Middleware L (rg_auth s) (RequireRole [''admin'', ''approver''] h))"
    by (simp add: reg_Router_def h)
  obtain rs0 where rs0: "run_state (Middleware L (rg_auth s) (RequireRole [''admin'', ''approver''] h) r) w = (rs0, w')"
    "rs_status rs = rs_status rs0"
    using run opt unfolding eq by (rule CORS_run)
  from rs0(1) show ?thesis
    by (cases rule: guarded_cases) (use rs0(2) in \<open>auto intro: denied ran\<close>)
qed

section \<open>Liveness of an approval\<close>

text \<open>The UUIDs still to come are new to the schema tables.\<close>

definition fresh_ids :: "world \<Rightarrow> bool" where
  "fresh_ids w \<longleftrightarrow> (\<forall>n \<ge> w_tick w. w_uuid w n \<notin> c_id ` set (categories (w_db w)) \<and>
     w_uuid w n \<notin> s_id ` set (schemas (w_db w)))"

lemma next_version_new:
  assumes "versions_ok d"
  shows "(cat, next_version cat d) \<notin> (\<lambda>s. (s_category s, s_version s)) ` set (schemas d)"
proof
  assume "(cat, next_version cat d) \<in> (\<lambda>s. (s_category s, s_version s)) ` set (schemas d)"
  then obtain s where s: "s \<in> set (cat_rows d cat)" "s_version s = next_version cat d"
    by (auto simp: cat_rows_def)
  have ok: "chain_ok (cat_rows d cat)" using assms by (simp add: versions_ok_def)
  have "s_version s \<in> set (map s_version (cat_rows d cat))" using s(1) by simp
  then have "s_version s \<le> int (length (cat_rows d cat))"
    unfolding chain_ok_versions [OF ok] by auto
  moreover have "next_version cat d = int (length (cat_rows d cat)) + 1"
    using chain_ok_max [OF ok] by (simp add: next_version_def cat_rows_def)
  ultimately show False using s(2) by simp
qed

lemma next_version_deactivate: "next_version cat (snd (deactivateSchemas c u t d)) = next_version cat d"
proof -
  have "map s_version (cat_rows (snd (deactivateSchemas c u t d)) cat) = map s_version (cat_rows d cat)"
    unfolding cat_rows_deactivate by simp
  then show ?thesis by (simp add: next_version_def cat_rows_def)
qed

lemma versions_image_deactivate:
  "(\<lambda>s. (s_category s, s_version s)) ` set (schemas (snd (deactivateSchemas c u t d))) =
   (\<lambda>s. (s_category s, s_version s)) ` set (schemas d)"
  by (simp add: deactivateSchemas_def image_upd_where)

lemma schema_tx_succeeds:
  assumes inv: "db_inv d" and new: "us 0 \<notin> c_id ` set (categories d)" "us 2 \<notin> s_id ` set (schemas d)"
  shows "\<exists>sc d'. schema_tx name body routing by sha us ts d = (Inr sc, d')"
proof -
  have wf: "wf_schemas d" using inv by (simp add: db_inv_def wf_db_def)
  obtain cat d1 where up: "upsertCategory name (us 0) (ts 0) d = (Inr cat, d1)"
    using new(1) by (cases "find (\<lambda>c. c_name c = name) (categories d)") (simp_all add: upsertCategory_def)
  note up' = upsertCategory_ok [OF up wf]
  have ver: "versions_ok d1"
    using inv up'(2) by (simp add: db_inv_def versions_ok_def cat_rows_def)
  let ?d2 = "snd (deactivateSchemas cat (us 1) (ts 1) d1)"
  have "(cat, next_version cat ?d2) \<notin> (\<lambda>s. (s_category s, s_version s)) ` set (schemas ?d2)"
    unfolding next_version_deactivate versions_image_deactivate by (rule next_version_new [OF ver])
  moreover have "us 2 \<notin> s_id ` set (schemas ?d2)"
    using new(2) up'(2) by (simp add: deactivateSchemas_def image_upd_where)
  moreover have "cat \<in> c_id ` set (categories ?d2)"
    using up'(3) by (simp add: deactivateSchemas_def)
  ultimately obtain sc d3 where
    "insertSchema cat body routing (nullStr sha) by (us 2) (ts 2) ?d2 = (Inr sc, d3)"
    by (simp add: insertSchema_def Let_def)
  with up show ?thesis by (auto simp: schema_tx_def)
qed

lemma same_env_CreateSchemaVersion: "obeys same_env (CreateSchemaVersion n b y a sha)"
  unfolding CreateSchemaVersion_def by (intro same_env_intros)

lemma same_env_Resolve: "obeys same_env (Resolve L a token)"
  unfolding Resolve_def by (intro same_env_intros)

lemma same_env_git_calls: "obeys same_env (git_calls as)"
  by (induction as) (auto intro!: same_env_intros)

lemma same_env_CommitSchema: "obeys same_env (CommitSchema L g c v body routing m)"
proof -
  have "obeys same_env (commit_hash L)"
    by (rule obeysI) (simp add: commit_hash_def env.refl_R)
  then show ?thesis
    unfolding CommitSchema_def GoGit_CommitSchema_def Let_def
    by (cases g; cases "safeCategory c")
      (auto intro!: same_env_intros same_env_git_calls simp del: git_calls.simps)
qed

lemma same_env_commitNew: "obeys same_env (commitNewSchemaVersion L s c b y a)"
  unfolding commitNewSchemaVersion_def
  by (intro same_env_intros same_env_CreateSchemaVersion same_env_CommitSchema)

lemma run_CreateSchemaVersion:
  assumes h: "healthy w" and inv: "db_inv (w_db w)" and fresh: "fresh_ids w"
  shows "\<exists>sc w'. run_state (CreateSchemaVersion name body routing by sha) w = (Inr sc, w')"
proof -
  let ?us = "\<lambda>i. w_uuid w (w_tick w + 1 + i)" and ?ts = "\<lambda>i. w_clock w (w_tick w + 1 + i)"
  have new: "?us 0 \<notin> c_id ` set (categories (w_db w))" "?us 2 \<notin> s_id ` set (schemas (w_db w))"
    using fresh by (simp_all add: fresh_ids_def)
  obtain sc d' where tx: "schema_tx name body routing by sha ?us ?ts (w_db w) = (Inr sc, d')"
    using schema_tx_succeeds [where us = ?us and ts = ?ts, OF inv new] by blast
  then show ?thesis
    using h by (auto simp: schema_tx_def CreateSchemaVersion_def run_simps deactivateSchemas_def
        numeral_2_eq_2 split: prod.splits sum.splits)
qed

lemma run_commitNew:
  assumes h: "healthy w" and inv: "db_inv (w_db w)" and fresh: "fresh_ids w"
  shows "\<exists>sc w'. run_state (commitNewSchemaVersion L s c b y a) w = (Inr sc, w') \<and> healthy w'"
proof -
  obtain x w' where run: "run_state (commitNewSchemaVersion L s c b y a) w = (x, w')" by force
  then have "healthy w'" using obeys_run [OF same_env_commitNew run] h by (simp add: healthy_same_env)
  moreover from run have "\<exists>sc. x = Inr sc"
    by (cases rule: commitNew_cases) (use run_CreateSchemaVersion [OF h inv fresh, of c b y a "[]"] in auto)
  ultimately show ?thesis using run by blast
qed

text \<open>In a healthy world the approval of a pending proposal goes through and is published.\<close>

lemma run_approveProposal:
  assumes h: "healthy w" and inv: "db_inv (w_db w)" and fresh: "fresh_ids w"
    and pend: "\<exists>row \<in> set (proposals (w_db w)). p_id row = pid \<and> p_status row = ''pending''"
  shows "\<exists>rs w' (sc :: schema) t. run_state (approveProposal L s i pid p nts) w = (rs, w') \<and> rs_status rs = 200 \<and>
    w_streams w' = w_streams w @ [(''schema.approved'', JsonBody (j_schema_approved L
         \<lparr>ev_category = pr_category p, ev_version = sc_version sc, ev_schema = sc_id sc,
          ev_proposal = pid, ev_by = identity_name L i, ev_emitted = t\<rparr>))]"
proof -
  let ?c = "commitNewSchemaVersion L s (pr_category p) (pr_patch p) (pr_routing_diff p) (identity_name L i)"
  obtain sc v where v: "run_state ?c w = (Inr sc, v)" "healthy v"
    using run_commitNew [OF h inv fresh] by blast
  note new = commitNew_ok [OF v(1) inv]
  let ?f = "FinalizeProposal pid ''approved'' (identity_name L i) nts (Some (sc_id sc))"
  have "fst (?f u t (w_db v)) = Inr ()" for u t
    using pend new(4,7) by (simp add: FinalizeProposal_def Let_def count_where_0)
  then obtain v2 where y: "run_state (sql ?f) v = (Inr (), v2)" "healthy v2"
    using v(2) by (simp add: run_simps)
  obtain z v3 where z: "run_state (sql (AuditLog pid (review_user i) ''approve'' nts)) v2 = (z, v3)" "healthy v3"
    using y(2) by (simp add: run_simps)
  have "w_streams v3 = w_streams w"
    using sql_streams [OF z(1)] sql_streams [OF y(1)] new(6) by simp
  with v(1) y(1) z show ?thesis
    by (simp add: approveProposal_def PublishSchemaApproved_def run_simps)
      (rule exI [of _ sc], rule exI, rule refl)
qed

section \<open>A rejection and what it leaves alone\<close>

lemma keeps_rejectProposal: "keeps db_inv (rejectProposal L i pid nts)"
  unfolding rejectProposal_def by (intro keeps_intros registry_writes)

lemma same_env_rejectProposal: "obeys same_env (rejectProposal L i pid nts)"
  unfolding rejectProposal_def by (intro same_env_intros)

definition same_schema_tables :: "world \<Rightarrow> world \<Rightarrow> bool" where
  "same_schema_tables w w' \<longleftrightarrow> categories (w_db w') = categories (w_db w) \<and>
     schemas (w_db w') = schemas (w_db w)"

interpretation sst: run_relation same_schema_tables
  by unfold_locales (auto simp: same_schema_tables_def)

lemma sst_sql:
  "(\<And>u t d. categories (snd (f u t d)) = categories d \<and> schemas (snd (f u t d)) = schemas d) \<Longrightarrow>
   obeys same_schema_tables (sql f)"
  by (rule obeysI) (simp add: sql_def same_schema_tables_def split: prod.splits outcome.splits; metis snd_conv)

lemma sst_rejectProposal: "obeys same_schema_tables (rejectProposal L i pid nts)"
  unfolding rejectProposal_def
  by (intro sst.obeys_control sst_sql; simp add: FinalizeProposal_def AuditLog_def Let_def)

lemma fresh_ids_rejectProposal:
  "run_state (rejectProposal L i pid nts) w = (rs, w') \<Longrightarrow> fresh_ids w \<Longrightarrow> fresh_ids w'"
  using obeys_run [OF sst_rejectProposal, of L i pid nts w rs w']
    obeys_run [OF same_env_rejectProposal, of L i pid nts w rs w']
  by (simp add: fresh_ids_def same_schema_tables_def same_env_def)

end
