(* ===== verification/DemoLibs.thy ===== *)
theory DemoLibs
  imports GoLib
begin

text \<open>
  A concrete instance of \<open>libs\<close>, with which the witnesses evaluate the program. Its UUID and time
  syntax satisfy \<open>uuid_laws\<close> and \<open>time_laws\<close>; the hash functions are injective stand-ins, and JSON texts
  and tokens are looked up in small tables.
\<close>

section \<open>Decimal digits read back\<close>

lemma digit_val_digit: "n < 10 \<Longrightarrow> digit_val (char_of (48 + n)) = Some (int n)"
  by (simp add: digit_val_def)

lemma digits_val_append:
  "digits_val acc (s @ t) = (case digits_val acc s of None \<Rightarrow> None | Some a \<Rightarrow> digits_val a t)"
  by (induction s arbitrary: acc) (auto split: option.split)

lemma digits_val_show_nat: "digits_val 0 (show_nat n) = Some (int n)"
proof (induction n rule: show_nat.induct)
  case (1 n)
  show ?case
  proof (cases "n < 10")
    case True
    then show ?thesis by (subst show_nat.simps) (simp add: digit_val_digit)
  next
    case False
    then have "digits_val 0 (show_nat (n div 10)) = Some (int (n div 10))" using 1 by simp
    moreover have "10 * int (n div 10) + int (n mod 10) = int n" by presburger
    ultimately show ?thesis using False
      by (subst show_nat.simps) (simp add: digits_val_append digit_val_digit)
  qed
qed

lemma show_nat_hd: "\<exists>c s. show_nat n = c # s \<and> c \<noteq> CHR ''-''"
proof (induction n rule: show_nat.induct)
  case (1 n)
  show ?case
  proof (cases "n < 10")
    case True
    have "(char_of (48 + n) :: char) \<noteq> CHR ''-''"
    proof
      assume "(char_of (48 + n) :: char) = CHR ''-''"
      then have "of_char (char_of (48 + n) :: char) = (45 :: nat)" by simp
      with True show False by simp
    qed
    then show ?thesis using True by (subst show_nat.simps) simp
  next
    case False
    then show ?thesis using 1 by (subst show_nat.simps) auto
  qed
qed

section \<open>UUID and time syntax\<close>

definition demo_uuid_string :: "uuid \<Rightarrow> string" where
  "demo_uuid_string u = map (\<lambda>i. if bit u i then CHR ''1'' else CHR ''0'') [0..<128]"

definition demo_uuid_parse :: "string \<Rightarrow> uuid option" where
  "demo_uuid_parse s =
     (if length s = 128 \<and> list_all (\<lambda>c. c = CHR ''0'' \<or> c = CHR ''1'') s
      then Some (horner_sum of_bool 2 (map (\<lambda>c. c = CHR ''1'') s)) else None)"

lemma demo_uuid: "demo_uuid_parse (demo_uuid_string u) = Some u"
proof -
  have "map (\<lambda>c. c = CHR ''1'') (demo_uuid_string u) = map (bit u) [0..<128]"
    by (simp add: demo_uuid_string_def)
  then have "horner_sum of_bool 2 (map (\<lambda>c. c = CHR ''1'') (demo_uuid_string u)) = take_bit 128 u"
    by (simp only: horner_sum_bit_eq_take_bit)
  also have "\<dots> = u" using take_bit_length_eq [of u] by simp
  finally show ?thesis
    by (simp add: demo_uuid_parse_def list_all_iff) (auto simp: demo_uuid_string_def)
qed

definition demo_time_format :: "time \<Rightarrow> string" where
  "demo_time_format t = show_int t"

definition demo_time_parse :: "string \<Rightarrow> time option" where
  "demo_time_parse s =
     (case s of [] \<Rightarrow> None
      | c # r \<Rightarrow> if c = CHR ''-'' then map_option uminus (digits_val 0 r) else digits_val 0 s)"

lemma demo_time: "demo_time_parse (demo_time_format t) = Some t"
proof (cases "t < 0")
  case True
  then show ?thesis
    by (simp add: demo_time_parse_def demo_time_format_def show_int_def digits_val_show_nat)
next
  case False
  obtain c s where cs: "show_nat (nat t) = c # s" "c \<noteq> CHR ''-''" using show_nat_hd by blast
  with False digits_val_show_nat [of "nat t"] show ?thesis
    by (simp add: demo_time_parse_def demo_time_format_def show_int_def)
qed

section \<open>The instance\<close>

definition demo_texts :: "(string \<times> json) list" where
  "demo_texts =
     [(''review'', JObj [(''reviewer_notes'', JStr ''looks right'')]),
      (''schema'', JObj [(''category'', JStr ''orders''), (''json_schema'', JObj [(''type'', JStr ''object'')]),
                         (''routing_yaml'', JStr ''target: both'')]),
      (''{}'', JObj []),
      (''collect'', JObj [(''category'', JStr ''orders''), (''timestamp'', JStr ''5''),
                          (''payload'', JObj [(''k'', JStr ''v'')])]),
      (''newkey'', JObj [(''agent_id'', JStr (demo_uuid_string 1)), (''label'', JStr ''ci'')]),
      (''login'', JObj [(''oidc_token'', JStr ''id-token'')]),
      (''event'', JObj [(''source'', JStr ''api''), (''event'', JObj [(''k'', JStr ''v'')])])]"

text \<open>Tokens of the form \<open>jwt:<secret>:<role>\<close> verify under their secret.\<close>

definition demo_jwt_parse :: "bytes \<Rightarrow> time \<Rightarrow> string \<Rightarrow> jmap option" where
  "demo_jwt_parse secret t token =
     (case cut_prefix token (''jwt:'' @ secret @ '':'') of
        None \<Rightarrow> None
      | Some role \<Rightarrow> Some [(''sub'', JStr ''u''), (''email'', JStr ''ann@example.org''), (''role'', JStr role)])"

definition demo_libs :: libs where
  "demo_libs =
     \<lparr>l_hmac_sha256 = (\<lambda>k m. k @ ''.'' @ m), l_hmac_sha1 = (\<lambda>k m. k @ '','' @ m), l_sha256 = (\<lambda>m. m),
      l_uuid_parse = demo_uuid_parse, l_uuid_string = demo_uuid_string,
      l_json_parse = map_of demo_texts, l_json_first = map_of demo_texts, l_json_print = (\<lambda>_. ''json''),
      l_time_parse = demo_time_parse, l_time_format = demo_time_format,
      l_jwt_parse = demo_jwt_parse, l_jwt_sign = (\<lambda>secret claims. ''jwt:'' @ secret @ '':'' @ claim_string claims ''role''),
      l_schema_validate = (\<lambda>schema doc. Some []),
      l_yaml_routing = (\<lambda>s. (True, \<lparr>ry_target = [], ry_targets = []\<rparr>)),
      l_oidc_verify = (\<lambda>issuer client t token.
        if issuer \<noteq> [] \<and> token = ''id-token'' then Some (''bob@example.org'', ''sub-1'', ''Bob'') else None), l_git_hash = show_nat,
      l_float_parse = (\<lambda>s. None), l_float_print = (\<lambda>_. ''0''), l_time_rfc3339 = demo_time_format,
      l_publish_error = ''nats: no response'',
      l_promhttp = (\<lambda>vs r. \<lparr>rs_status = 200, rs_headers = [], rs_body = RawBody (concat (map cv_name vs))\<rparr>)\<rparr>"

lemma demo_laws: "uuid_laws demo_libs" "time_laws demo_libs"
  by (simp_all add: uuid_laws_def time_laws_def demo_libs_def demo_uuid demo_time)

end
