(* ===== verification/Demo.thy ===== *)
theory Demo
  imports RegistryApi DemoLibs
begin

text \<open>The worlds the witnesses run in: a database with one agent, one live key, one user and one pending
  proposal, and an outside in which nothing fails and UUIDs and times count up.\<close>

definition demo_salt :: bytes where "demo_salt = ''salt''"
definition demo_secret :: bytes where "demo_secret = ''s3cret''"

definition demo_auth :: token_auth where
  "demo_auth = \<lparr>ta_hec_salt = demo_salt, ta_jwt_secret = demo_secret, ta_dev_admin_token = ''dev''\<rparr>"

definition demo_agent :: agent_row where
  "demo_agent = \<lparr>a_id = 1, a_name = ''crawler'', a_slug = ''crawler-0'', a_description = Some ''d'',
     a_type = ''custom'', a_status = ''active'', a_email = Some ''c@example.org'', a_metadata = None,
     a_created = 0, a_updated = 0\<rparr>"

definition demo_key :: key_row where
  "demo_key = \<lparr>k_id = 2, k_agent = 1, k_hash = HashToken demo_libs demo_salt ''key'', k_prefix = ''key'',
     k_label = None, k_scopes = None, k_revoked = None, k_last_used = None, k_expires = None,
     k_created = 0, k_updated = 0\<rparr>"

definition demo_proposal :: proposal_row where
  "demo_proposal = \<lparr>p_id = 7, p_quarantine = None, p_category = Some ''orders'', p_json = [(''type'', JStr ''object'')],
     p_routing = Some ''target: both'', p_diff = None, p_agent_name = Some ''classifier'', p_confidence = None,
     p_status = ''pending'', p_reviewed_by = None, p_reviewed_at = None, p_schema = None,
     p_created = 0, p_updated = 0\<rparr>"

definition demo_db :: db where
  "demo_db = empty_db\<lparr>agents := [demo_agent], api_keys := [demo_key], proposals := [demo_proposal]\<rparr>"

definition demo_world :: world where
  "demo_world = \<lparr>w_db = demo_db, w_mem = fresh_memory, w_streams = [], w_sent = [], w_git = [], w_acts = [], w_tick = 100,
     w_fault = (\<lambda>_. Done), w_uuid = (\<lambda>n. word_of_nat n),
     w_random = (\<lambda>n. show_nat n), w_clock = (\<lambda>n. int n), w_reply = (\<lambda>_. NoReply)\<rparr>"

lemma demo_inv: "db_inv (w_db demo_world)"
  by (simp add: demo_world_def demo_db_def empty_db_def db_inv_defs versions_ok_def cat_rows_def
      demo_agent_def demo_key_def demo_proposal_def unique_by_def)

definition demo_server :: reg_server where
  "demo_server = \<lparr>rg_git = GoGit (worktree_at [''repo''] False), rg_auth = demo_auth\<rparr>"

definition demo_review :: request where
  "demo_review = \<lparr>rq_method = ''POST'',
     rq_headers = [(''Authorization'', ''Bearer jwt:s3cret:approver'')],
     rq_params = [(''proposal_id'', demo_uuid_string 7)], rq_query = [], rq_body = ''review''\<rparr>"

end
