(* ===== verification/RegistryProps.thy ===== *)
theory RegistryProps
  imports RegistryReview Demo
begin

text \<open>The properties of the schema registry, each with its witness.\<close>

section \<open>Approval\<close>

text \<open>C1. Approval over HTTP: if \<open>POST /v1/proposals/{id}/approve\<close> answers 200, then the caller held an
  admin or approver role (or the development token), the proposal was pending, it is now recorded as
  approved by the caller with the schema row it resulted in, the log of its category has grown by
  exactly the proposed body, no other category's log has changed, and what was published, if anything,
  is one \<open>schema.approved\<close> event carrying the number of the new version.\<close>

theorem approve_publishes_version:
  assumes "run_state (reg_Router L s PostApprove r) w = (rs, w')" and "rq_method r \<noteq> ''OPTIONS''"
    and "rs_status rs = 200" and "db_inv (w_db w)"
  shows "\<exists>i v pid nts row c sid t.
      run_state (Resolve L (rg_auth s) (extractToken r)) w = (Inr i, v) \<and>
      (id_kind i = ''dev-admin'' \<or> id_role i \<in> {''admin'', ''approver''}) \<and>
      l_uuid_parse L (url_param r ''proposal_id'') = Some pid \<and>
      row \<in> set (proposals (w_db w)) \<and> p_id row = pid \<and> p_status row = ''pending'' \<and> p_category row = Some c \<and>
      decided_as (w_db w') pid ''approved'' (identity_name L i) nts (Some sid) \<and>
      history (w_db w') c = history (w_db w) c @ [(p_json row, Some (coalesce (p_routing row)))] \<and>
      (\<forall>n. n \<noteq> c \<longrightarrow> history (w_db w') n = history (w_db w) n) \<and>
      w_streams w' \<in> {w_streams w, w_streams w @ [(''schema.approved'', JsonBody (j_schema_approved L
         \<lparr>ev_category = c, ev_version = int (length (history (w_db w') c)), ev_schema = sid,
          ev_proposal = pid, ev_by = identity_name L i, ev_emitted = t\<rparr>))]}"
proof -
  have h: "admin_handler L s PostApprove = Some (handleReview L s Approved)"
    by (simp add: admin_handler_def)
  from assms(1,2) h show ?thesis
  proof (cases rule: Router_admin_cases)
  case denied
  then show ?thesis using assms(3) by auto
next
  case (ran i v rs0)
  have st: "rs_status rs0 = 200" using ran(5) assms(3) by simp
  from ran(4) st show ?thesis
  proof (cases rule: handleReview_200)
    case (1 pid nts p row v')
    have db: "w_db v' = w_db w" "w_streams v' = w_streams w" using 1(9,10) ran(2) by (simp_all add: unchanged_def)
    obtain sid t where "decided_as (w_db w') pid ''approved'' (identity_name L i) nts (Some sid)"
      "\<And>n. history (w_db w') n = (if n = pr_category p then history (w_db w) n @ [(pr_patch p, Some (pr_routing_diff p))]
         else history (w_db w) n)"
      "w_streams w' \<in> {w_streams w, w_streams w @ [(''schema.approved'', JsonBody (j_schema_approved L
         \<lparr>ev_category = pr_category p, ev_version = int (length (history (w_db w') (pr_category p))),
          ev_schema = sid, ev_proposal = pid, ev_by = identity_name L i, ev_emitted = t\<rparr>))]}"
      using approveProposal_ok [of L s i pid p nts v' rs0 w'] 1(11) st assms(4) db by auto
    with 1 ran db show ?thesis
      by (intro exI [of _ i] exI [of _ v] exI [of _ pid] exI [of _ nts] exI [of _ row]
          exI [of _ "pr_category p"] exI [of _ sid] exI [of _ t]) (auto simp: unchanged_def)
  qed
qed
qed


lemma demo_approve_status:
  "rs_status (fst (run_state (reg_Router demo_libs demo_server PostApprove demo_review) demo_world)) = 200"
  by code_simp

theorem approve_publishes_version_witness:
  "\<exists>rs w'. run_state (reg_Router demo_libs demo_server PostApprove demo_review) demo_world = (rs, w') \<and>
     rs_status rs = 200 \<and> (\<exists>c. history (w_db w') c \<noteq> [])"
proof -
  obtain rs w' where run: "run_state (reg_Router demo_libs demo_server PostApprove demo_review) demo_world = (rs, w')"
    by force
  have st: "rs_status rs = 200" using demo_approve_status run by simp
  have "rq_method demo_review \<noteq> ''OPTIONS''" by (simp add: demo_review_def)
  from approve_publishes_version [OF run this st demo_inv]
  obtain c b where "history (w_db w') c = history (w_db demo_world) c @ [b]" by (elim exE conjE)
  then have "\<exists>c. history (w_db w') c \<noteq> []" by (intro exI [of _ c]) simp
  with run st show ?thesis by blast
qed

text \<open>C24. An approval goes through: in a world where nothing fails and fresh UUIDs are new, a reviewer with
  an approving role who approves a pending proposal that names a category gets 200, and the
  \<open>schema.approved\<close> event of the new version is published.\<close>

theorem approve_succeeds:
  assumes "healthy w" and "db_inv (w_db w)" and "fresh_ids w" and "rq_method r \<noteq> ''OPTIONS''"
    and "extractToken r \<noteq> []" and "run_state (Resolve L (rg_auth s) (extractToken r)) w = (Inr i, v)"
    and "id_role i \<in> {''admin'', ''approver''}"
    and "l_uuid_parse L (url_param r ''proposal_id'') = Some pid"
    and "decode_struct L review_notes (rq_body r) = Some nts"
    and "row \<in> set (proposals (w_db w))" and "p_id row = pid" and "p_status row = ''pending''"
    and "p_category row = Some c"
  shows "\<exists>rs w' (sc :: schema) t. run_state (reg_Router L s PostApprove r) w = (rs, w') \<and> rs_status rs = 200 \<and>
    w_streams w' = w_streams w @ [(''schema.approved'', JsonBody (j_schema_approved L
         \<lparr>ev_category = c, ev_version = sc_version sc, ev_schema = sc_id sc,
          ev_proposal = pid, ev_by = identity_name L i, ev_emitted = t\<rparr>))]"
proof -
  have v: "unchanged w v" "same_env w v" "healthy v"
    using obeys_run [OF Resolve_unchanged assms(6)] obeys_run [OF same_env_Resolve assms(6)] assms(1)
    by (simp_all add: healthy_same_env)
  define v2 where "v2 = tick v"
  have un: "unique_by p_id (proposals (w_db w))" using assms(2) by (simp add: db_inv_defs)
  obtain p where p: "scanProposal row = Inr p" "pr_category p = c" "pr_status p = ''pending''"
    using assms(12,13) by (simp add: scanProposal_def)
  have get: "run_state (sql (GetProposal pid)) v = (Inr p, v2)"
    using find_unique [OF un assms(10)] v p(1) assms(11)
    by (simp add: run_simps GetProposal_def unchanged_def v2_def)
  have v2: "healthy v2" "w_db v2 = w_db w" "w_streams v2 = w_streams w" "fresh_ids v2"
    using v assms(3) by (auto simp: v2_def unchanged_def fresh_ids_def same_env_def)
  obtain rs w' and sc :: schema and t where ap: "run_state (approveProposal L s i pid p nts) v2 = (rs, w')"
    "rs_status rs = 200" "w_streams w' = w_streams v2 @ [(''schema.approved'', JsonBody (j_schema_approved L
         \<lparr>ev_category = pr_category p, ev_version = sc_version sc, ev_schema = sc_id sc,
          ev_proposal = pid, ev_by = identity_name L i, ev_emitted = t\<rparr>))]"
    using run_approveProposal [of v2 pid L s i p nts] v2 assms(2,10,11,12) by fastforce
  have "run_state (handleReview L s Approved i r) v = (rs, w')"
    using assms(8,9) get p(3) ap(1) by (simp add: handleReview_def)
  then have "run_state (Middleware L (rg_auth s) (RequireRole [''admin'', ''approver''] (handleReview L s Approved)) r) w = (rs, w')"
    using assms(5,6,7) by (simp add: Middleware_def RequireRole_def Let_def)
  then have "run_state (reg_Router L s PostApprove r) w = (rs\<lparr>rs_headers := cors_headers @ rs_headers rs\<rparr>, w')"
    using assms(4) by (simp add: reg_Router_def admin_handler_def CORS_def)
  with ap(2,3) v2(3) p(2) show ?thesis by auto
qed

lemma demo_world_healthy: "healthy demo_world"
  by (simp add: healthy_def demo_world_def)

lemma demo_world_fresh: "fresh_ids demo_world"
  by (simp add: fresh_ids_def demo_world_def demo_db_def empty_db_def)

lemma demo_review_role:
  "(case fst (run_state (Resolve demo_libs demo_auth (extractToken demo_review)) demo_world) of
      Inr i \<Rightarrow> id_role i = ''approver'' | Inl _ \<Rightarrow> False) \<and> extractToken demo_review \<noteq> [] \<and>
   decode_struct demo_libs review_notes (rq_body demo_review) = Some ''looks right''"
  by code_simp

theorem approve_succeeds_witness:
  "\<exists>rs w'. run_state (reg_Router demo_libs demo_server PostApprove demo_review) demo_world = (rs, w') \<and>
     rs_status rs = 200 \<and> length (w_streams w') = 1"
proof -
  obtain i v where i: "run_state (Resolve demo_libs (rg_auth demo_server) (extractToken demo_review)) demo_world = (Inr i, v)"
    "id_role i \<in> {''admin'', ''approver''}"
    using demo_review_role
    by (cases "run_state (Resolve demo_libs demo_auth (extractToken demo_review)) demo_world")
      (auto simp: demo_server_def split: sum.splits)
  have pid: "l_uuid_parse demo_libs (url_param demo_review ''proposal_id'') = Some 7"
    by (simp add: demo_libs_def demo_review_def sget_def demo_uuid)
  have row: "demo_proposal \<in> set (proposals (w_db demo_world))" "p_id demo_proposal = 7"
    "p_status demo_proposal = ''pending''" "p_category demo_proposal = Some ''orders''"
    by (simp_all add: demo_world_def demo_db_def demo_proposal_def)
  have "rq_method demo_review \<noteq> ''OPTIONS''" by (simp add: demo_review_def)
  from approve_succeeds [OF demo_world_healthy demo_inv demo_world_fresh this _ i pid _ row]
  show ?thesis using demo_review_role by (fastforce simp: demo_world_def)
qed

text \<open>A rejection touches no schema: if \<open>POST /v1/proposals/{id}/reject\<close> answers 200, the proposal was
  pending and is now recorded as rejected by the caller with no resulting schema, every category's log
  is as before and nothing was published.\<close>

theorem reject_leaves_schemas:
  assumes "run_state (reg_Router L s PostReject r) w = (rs, w')" and "rq_method r \<noteq> ''OPTIONS''"
    and "rs_status rs = 200"
  shows "\<exists>i pid nts. l_uuid_parse L (url_param r ''proposal_id'') = Some pid \<and>
      (\<exists>p \<in> set (proposals (w_db w)). p_id p = pid \<and> p_status p = ''pending'') \<and>
      decided_as (w_db w') pid ''rejected'' (identity_name L i) nts None \<and>
      history (w_db w') = history (w_db w) \<and> w_streams w' = w_streams w"
proof -
  have h: "admin_handler L s PostReject = Some (handleReview L s Rejected)"
    by (simp add: admin_handler_def)
  from assms(1,2) h show ?thesis
  proof (cases rule: Router_admin_cases)
    case denied
    then show ?thesis using assms(3) by auto
  next
    case (ran i v rs0)
    have st: "rs_status rs0 = 200" using ran(5) assms(3) by simp
    from ran(4) st show ?thesis
    proof (cases rule: handleReview_200)
      case (1 pid nts p row v')
      have run: "run_state (rejectProposal L i pid nts) v' = (rs0, w')" using 1(11) by simp
      have same: "history (w_db w') = history (w_db w)"
        using rejectProposal_ok(2) [OF run st] 1(9) ran(2) by (simp add: unchanged_def fun_eq_iff)
      have str: "w_streams w' = w_streams w"
        using rejectProposal_ok(3) [OF run st] 1(10) ran(2) by (simp add: unchanged_def)
      have pend: "\<exists>p \<in> set (proposals (w_db w)). p_id p = pid \<and> p_status p = ''pending''"
        using 1(3,4,5) ran(2) by (auto simp: unchanged_def)
      show ?thesis
        using 1(1) pend rejectProposal_ok(1) [OF run st] same str by blast
    qed
  qed
qed

lemma demo_reject_status:
  "rs_status (fst (run_state (reg_Router demo_libs demo_server PostReject demo_review) demo_world)) = 200"
  by code_simp

theorem reject_leaves_schemas_witness:
  "history (w_db (snd (run_state (reg_Router demo_libs demo_server PostReject demo_review) demo_world))) =
   history (w_db demo_world)"
proof -
  have "rq_method demo_review \<noteq> ''OPTIONS''" by (simp add: demo_review_def)
  from reject_leaves_schemas [OF surjective_pairing this demo_reject_status] show ?thesis by blast
qed






text \<open>Decisions are final: across any sequence of requests, in any world, a proposal that was decided
  keeps its status, reviewer, notes, time, category and body, and the audit log only grows at its end.\<close>

theorem decisions_are_final:
  "let d = w_db w; d' = w_db (snd (run_state (reg_serve L s qs) w)) in
   prefix (audit_log d) (audit_log d') \<and>
   {p \<in> set (proposals d). p_status p \<noteq> ''pending'' \<and> \<not> (\<exists>p' \<in> set (proposals d'). same_decision p p')} = {}"
proof -
  have "trail_rel w (snd (run_state (reg_serve L s qs) w))" using rtrail.reg_serve by (rule obeysD)
  then show ?thesis by (auto simp: Let_def trail_rel_def trail_def)
qed

text \<open>C27. What is created is what is read: if \<open>POST /v1/schemas\<close> answers 201, the active schema of the
  requested category is the requested one, under the version number the response gives.\<close>

theorem created_schema_is_read:
  assumes "run_state (reg_Router L s PostSchemas r) w = (rs, w')" and "rq_method r \<noteq> ''OPTIONS''"
    and "rs_status rs = 201" and "db_inv (w_db w)"
  shows "\<exists>q sc. decode_struct L upsert_fields (rq_body r) = Some q \<and>
      GetActiveSchema (us_category q) u t (w_db w') = (Inr sc, w_db w') \<and>
      us_json q = Some (sc_json sc) \<and> sc_routing sc = us_routing q \<and> rs_body rs = JsonBody (version_body sc)"
proof -
  have h: "admin_handler L s PostSchemas = Some (handleCreateSchema L s)"
    by (simp add: admin_handler_def)
  have eq: "reg_Router L s PostSchemas =
      CORS (Middleware L (rg_auth s) (RequireRole [''admin'', ''approver''] (handleCreateSchema L s)))"
    by (simp add: reg_Router_def h)
  obtain rs0 where rs0: "run_state (Middleware L (rg_auth s) (RequireRole [''admin'', ''approver'']
        (handleCreateSchema L s)) r) w = (rs0, w')" "rs_status rs = rs_status rs0" "rs_body rs = rs_body rs0"
    using assms(1,2) unfolding eq by (rule CORS_run)
  from rs0(1) show ?thesis
  proof (cases rule: guarded_cases)
    case denied
    then show ?thesis using rs0(2) assms(3) by auto
  next
    case (ran i v)
    obtain q where q: "decode_struct L upsert_fields (rq_body r) = Some q"
      using ran(4) rs0(2) assms(3) by (cases "decode_struct L upsert_fields (rq_body r)") (auto simp: handleCreateSchema_def)
    obtain body where body: "us_json q = Some body"
      using ran(4) rs0(2) assms(3) q by (cases "us_json q") (auto simp: handleCreateSchema_def)
    obtain x v1 where x: "run_state (commitNewSchemaVersion L s (us_category q) body (us_routing q) (identity_name L i)) v = (x, v1)"
      by force
    obtain sc where sc: "x = Inr sc" "rs0 = WriteJSON 201 (version_body sc)" "v1 = w'"
      using ran(4) rs0(2) assms(3) q body x
      by (cases x) (auto simp: handleCreateSchema_def split: if_splits)
    have inv: "db_inv (w_db v)" using ran(2) assms(4) by (simp add: unchanged_def)
    note new = commitNew_ok [OF x [unfolded sc(1,3)] inv]
    have inv': "db_inv (w_db w')"
      using keeps_run [OF rinv.commitNewSchemaVersion x inv] by (simp add: sc(3))
    have hist: "history (w_db w') (us_category q) = history (w_db v) (us_category q) @ [(body, Some (us_routing q))]"
      using new(1) by simp
    obtain sc' where "GetActiveSchema (us_category q) u t (w_db w') = (Inr sc', w_db w')"
      "sc_json sc' = body" "sc_routing sc' = us_routing q" "sc_category sc' = us_category q"
      "sc_version sc' = int (Suc (length (history (w_db v) (us_category q))))"
      using log.active_last [OF inv' hist, of u t] by blast
    moreover have "version_body sc' = version_body sc"
      using calculation(4,5) new(1) [of "us_category q"] new(2,3) by (simp add: version_body_def)
    ultimately show ?thesis using q body sc(2) rs0(3) by auto
  qed
qed

definition demo_create :: request where
  "demo_create = demo_review\<lparr>rq_body := ''schema''\<rparr>"

lemma demo_create_status:
  "rs_status (fst (run_state (reg_Router demo_libs demo_server PostSchemas demo_create) demo_world)) = 201"
  by code_simp

theorem created_schema_is_read_witness:
  "\<exists>sc. fst (GetActiveSchema ''orders'' 0 0
     (w_db (snd (run_state (reg_Router demo_libs demo_server PostSchemas demo_create) demo_world)))) = Inr sc"
proof -
  have q: "us_category (the (decode_struct demo_libs upsert_fields (rq_body demo_create))) = ''orders''"
    by code_simp
  have "rq_method demo_create \<noteq> ''OPTIONS''" by (simp add: demo_create_def demo_review_def)
  from created_schema_is_read [OF surjective_pairing this demo_create_status demo_inv, of 0 0] q
  show ?thesis by force
qed

text \<open>C35. Category names cannot escape the repository: whatever the category, a commit writes files only
  directly inside \<open>schemas/\<close> of the worktree, under a plain entry name.\<close>

theorem git_writes_confined:
  assumes "run_state (CommitSchema L (GoGit (worktree_at ws remote)) c v body routing m) w = (r, w')"
  shows "\<exists>as. w_git w' = w_git w @ as \<and>
    (\<forall>p b. WriteFile p b \<in> set as \<longrightarrow> (\<exists>n. plain n \<and> p = abs_path (filter plain ws @ [''schemas'', n])))"
  using assms by (rule repo.commit_writes)

theorem git_writes_confined_witness:
  "\<exists>as. w_git (snd (run_state (CommitSchema demo_libs (GoGit (worktree_at [''repo''] False)) ''../x'' 1 NoBody [] []) demo_world)) =
      w_git demo_world @ as \<and> (\<forall>b. WriteFile ''/etc/passwd'' b \<notin> set as)"
proof -
  have "''/etc/passwd'' \<noteq> abs_path (filter plain [''repo''] @ [''schemas'', n])" for n
    by (simp add: plain_def abs_path_def)
  then show ?thesis
    using git_writes_confined [OF surjective_pairing, of demo_libs "[''repo'']" False "''../x''" 1 NoBody "[]" "[]" demo_world]
    by blast
qed

text \<open>C36. An approval that loses its race leaves an orphan version: when another reviewer rejects the
  proposal after the approving request has read it as pending, the approval is answered 500 and the
  proposal stays rejected, yet the proposed body has become the active schema of its category.\<close>

theorem approve_race_orphan:
  assumes "healthy w" and "db_inv (w_db w)" and "fresh_ids w" and "rs_status rs1 = 200"
    and "run_state (rejectProposal L j pid nts) w = (rs1, w1)"
    and "run_state (approveProposal L s i pid p nts') w1 = (rs2, w2)"
  shows "rs_status rs2 = 500 \<and> decided_as (w_db w2) pid ''rejected'' (identity_name L j) nts None \<and>
    history (w_db w2) (pr_category p) = history (w_db w) (pr_category p) @ [(pr_patch p, Some (pr_routing_diff p))]"
proof -
  note rej = rejectProposal_ok [OF assms(5,4)]
  have w1: "healthy w1" "db_inv (w_db w1)"
    using obeys_run [OF same_env_rejectProposal assms(5)] keeps_run [OF keeps_rejectProposal assms(5,2)] assms(1)
    by (simp_all add: healthy_same_env)
  have fresh: "fresh_ids w1"
    using fresh_ids_rejectProposal [OF assms(5)] assms(3) by blast
  let ?c = "commitNewSchemaVersion L s (pr_category p) (pr_patch p) (pr_routing_diff p) (identity_name L i)"
  obtain sc v where v: "run_state ?c w1 = (Inr sc, v)" "healthy v"
    using run_commitNew [OF w1 fresh] by blast
  note new = commitNew_ok [OF v(1) w1(2)]
  let ?f = "FinalizeProposal pid ''approved'' (identity_name L i) nts' (Some (sc_id sc))"
  have dec: "decided_as (w_db v) pid ''rejected'' (identity_name L j) nts None"
    using rej(1) decided_as_cong [OF new(4)] by simp
  have un: "unique_by p_id (proposals (w_db v))"
    using w1(2) new(4) by (simp add: db_inv_defs)
  have "count_where (\<lambda>q. p_id q = pid \<and> p_status q = ''pending'') (proposals (w_db v)) = 0"
    unfolding count_where_0
  proof (intro ballI notI)
    fix q assume q: "q \<in> set (proposals (w_db v))" "p_id q = pid \<and> p_status q = ''pending''"
    obtain d where d: "d \<in> set (proposals (w_db v))" "p_id d = pid" "p_status d = ''rejected''"
      using dec by (auto simp: decided_as_def)
    then have "q = d" using unique_byD [OF un q(1) d(1)] q(2) by simp
    then show False using d(3) q(2) by simp
  qed
  then have fin: "?f u t (w_db v) = (Inl ErrConflict, w_db v)" for u t
    by (simp add: FinalizeProposal_def Let_def)
  have "run_state (approveProposal L s i pid p nts') w1 = (WriteError 500 ''failed to finalize proposal'', tick v)"
    using v fin by (simp add: approveProposal_def run_simps)
  with assms(6) have "rs2 = WriteError 500 ''failed to finalize proposal''" "w_db w2 = w_db v" by auto
  then show ?thesis using dec new(1) [of "pr_category p"] rej(2) by simp
qed

definition demo_view :: proposal where
  "demo_view = \<lparr>pr_id = 7, pr_category = ''orders'', pr_status = ''pending'', pr_generated_by = [], pr_patch = [],
     pr_routing_diff = [], pr_confidence = None, pr_reviewed_by = [], pr_notes = [], pr_created = 0\<rparr>"

theorem approve_race_orphan_witness:
  "history (w_db (snd (run_state (approveProposal demo_libs demo_server zero_identity 7 demo_view [])
     (snd (run_state (rejectProposal demo_libs zero_identity 7 ''no'') demo_world))))) ''orders'' \<noteq> []"
proof -
  have "rs_status (fst (run_state (rejectProposal demo_libs zero_identity 7 ''no'') demo_world)) = 200"
    by code_simp
  from approve_race_orphan [where s = demo_server and i = zero_identity and p = demo_view and nts' = "[]",
      OF demo_world_healthy demo_inv demo_world_fresh this surjective_pairing surjective_pairing]
  show ?thesis by (simp add: demo_view_def)
qed

end
