(* ===== verification/PlatformProps.thy ===== *)
theory PlatformProps
  imports Demo
begin

text \<open>The properties of token resolution, each with its witness.\<close>

text \<open>An agent identity needs a live key: if a token resolves to an agent, the key table holds a key of
  that agent whose hash is the token's keyed hash, that is not revoked and has not expired at the time
  of the query.\<close>

theorem agent_identity_needs_live_key:
  assumes "run_state (Resolve L a token) w = (Inr i, w')" and "id_kind i = ''agent''"
  shows "\<exists>k \<in> set (api_keys (w_db w)). k_agent k = id_agent i \<and>
    k_hash k = HashToken L (ta_hec_salt a) token \<and> k_revoked k = None \<and>
    (case k_expires k of None \<Rightarrow> True | Some e \<Rightarrow> w_clock w (w_tick w) < e)"
  using Resolve_agent_key [OF assms] by (auto simp: live_key_def)

theorem agent_identity_needs_live_key_witness:
  "\<exists>k \<in> set (api_keys (w_db demo_world)). k_agent k = 1 \<and> k_revoked k = None"
proof -
  obtain x w' where x: "run_state (Resolve demo_libs demo_auth ''key'') demo_world = (x, w')" by force
  have "case fst (run_state (Resolve demo_libs demo_auth ''key'') demo_world) of
      Inr i \<Rightarrow> id_kind i = ''agent'' \<and> id_agent i = 1 | Inl _ \<Rightarrow> False" by code_simp
  then obtain i where i: "x = Inr i" "id_kind i = ''agent''" "id_agent i = 1"
    by (cases x) (auto simp: x)
  from agent_identity_needs_live_key [OF x [unfolded i(1)] i(2)] i(3) show ?thesis by auto
qed

text \<open>A role needs a session: an identity with a role, or of kind \<open>dev-admin\<close>, comes from the configured
  development token or from a session token that verifies under the configured secret, and then the
  role is the one the token's claims carry. API keys never give a role.\<close>

theorem role_needs_session:
  assumes "run_state (Resolve L a token) w = (Inr i, w')"
    and "id_kind i = ''dev-admin'' \<or> id_role i \<noteq> []"
  shows "(ta_dev_admin_token a \<noteq> [] \<and> token = ta_dev_admin_token a) \<or>
    (ta_jwt_secret a \<noteq> [] \<and> (\<exists>t claims. l_jwt_parse L (ta_jwt_secret a) t token = Some claims \<and>
       id_role i = claim_string claims ''role''))"
  using assms(1) by (cases rule: Resolve_cases) (use assms(2) in auto)

theorem role_needs_session_witness:
  "\<exists>t claims. l_jwt_parse demo_libs demo_secret t ''jwt:s3cret:admin'' = Some claims"
proof -
  let ?r = "run_state (Resolve demo_libs demo_auth ''jwt:s3cret:admin'') demo_world"
  obtain x w' where x: "?r = (x, w')" by force
  have "case fst ?r of Inr i \<Rightarrow> id_role i = ''admin'' | Inl _ \<Rightarrow> False" by code_simp
  then obtain i where i: "x = Inr i" "id_role i \<noteq> []"
    by (cases x) (auto simp: x)
  have "id_kind i = ''dev-admin'' \<or> id_role i \<noteq> []" using i(2) by simp
  from role_needs_session [OF x [unfolded i(1)] this] show ?thesis
    by (auto simp: demo_auth_def)
qed

end
