(* ===== verification/NormStore.thy ===== *)
theory NormStore
  imports RegistryLaws
begin

text \<open>
  \<open>internal/normalizer/store.go\<close>: the envelope of an event, its JSON form, the events table and the
  quarantine. The lemmas say what each statement does to the quarantine: no statement removes a row,
  \<open>Quarantine\<close> leaves a row with the event's id and the envelope it was first quarantined with.
\<close>

section \<open>Envelopes\<close>

record envelope =
  en_event :: string
  en_agent :: string
  en_slug :: string
  en_category :: string
  en_source :: string
  en_timestamp :: time
  en_payload :: "jmap option"
  en_received :: time

definition j_envelope :: "libs \<Rightarrow> envelope \<Rightarrow> json" where
  "j_envelope L e = JObj
     [(''event_id'', JStr (en_event e)), (''agent_id'', JStr (en_agent e)), (''agent_slug'', JStr (en_slug e)),
      (''category'', JStr (en_category e)), (''source'', JStr (en_source e)),
      (''timestamp'', j_time L (en_timestamp e)), (''payload'', j_map (en_payload e)),
      (''received_at'', j_time L (en_received e))]"

definition envelope_fields :: "libs \<Rightarrow> jmap \<Rightarrow> envelope option" where
  "envelope_fields L m =
     (case (dec_field dec_string [] m ''event_id'', dec_field dec_string [] m ''agent_id'',
            dec_field dec_string [] m ''agent_slug'', dec_field dec_string [] m ''category'',
            dec_field dec_string [] m ''source'', dec_field (dec_time L) zero_time m ''timestamp'',
            dec_field dec_map None m ''payload'', dec_field (dec_time L) zero_time m ''received_at'') of
        (Some i, Some a, Some g, Some c, Some s, Some t, Some p, Some r) \<Rightarrow>
          Some \<lparr>en_event = i, en_agent = a, en_slug = g, en_category = c, en_source = s, en_timestamp = t,
                en_payload = p, en_received = r\<rparr>
      | _ \<Rightarrow> None)"

text \<open>\<open>json.Unmarshal\<close> of an already parsed value into an \<open>Envelope\<close>.\<close>

definition dec_envelope :: "libs \<Rightarrow> json \<Rightarrow> envelope option" where
  "dec_envelope L v = (case dec_object v of None \<Rightarrow> None | Some m \<Rightarrow> envelope_fields L m)"

record quarantine_event =
  qe_id :: uuid
  qe_agent :: "uuid option"
  qe_source :: string
  qe_raw :: "jmap option"
  qe_reason :: string
  qe_status :: string
  qe_attempts :: int
  qe_received :: time

section \<open>Events\<close>

text \<open>The category of that name with its newest active schema.\<close>

definition resolveCategory :: "string \<Rightarrow> (uuid \<times> uuid) stmt" where
  "resolveCategory name u t d =
     (case order_desc (\<lambda>(c, s). s_version s)
             [(c, s). c \<leftarrow> categories d, s \<leftarrow> schemas d, s_category s = c_id c \<and> s_active s \<and> c_name c = name] of
        [] \<Rightarrow> Inl ErrNotFound
      | (c, s) # _ \<Rightarrow> Inr (c_id c, s_id s), d)"

definition insertEventRow :: "uuid option \<Rightarrow> uuid \<Rightarrow> uuid \<Rightarrow> envelope \<Rightarrow> unit stmt" where
  "insertEventRow agent cat sid e u t d =
     (case en_payload e of
        None \<Rightarrow> (Inl NotNullViolation, d)
      | Some payload \<Rightarrow>
          if u \<in> e_id ` set (events d) then (Inl UniqueViolation, d)
          else if (case agent of None \<Rightarrow> False | Some a \<Rightarrow> a \<notin> a_id ` set (agents d)) \<or>
             cat \<notin> c_id ` set (categories d) \<or> sid \<notin> s_id ` set (schemas d)
          then (Inl ForeignKeyViolation, d)
          else (Inr (), d\<lparr>events := events d @
            [\<lparr>e_id = u, e_agent = agent, e_category = cat, e_schema = Some sid,
              e_source = Some (en_source e), e_payload = payload, e_occurred = en_timestamp e,
              e_created = t\<rparr>]\<rparr>))"

definition InsertEvent :: "libs \<Rightarrow> envelope \<Rightarrow> unit res io" where
  "InsertEvent L e = do {
     x \<leftarrow> sql (resolveCategory (en_category e));
     (case x of
        Inl err \<Rightarrow> ret (Inl err)
      | Inr (cat, sid) \<Rightarrow> sql (insertEventRow (l_uuid_parse L (en_agent e)) cat sid e))
   }"

section \<open>The quarantine\<close>

definition upsertQuarantine :: "uuid \<Rightarrow> uuid option \<Rightarrow> string \<Rightarrow> json \<Rightarrow> string \<Rightarrow> unit stmt" where
  "upsertQuarantine qid agent source raw reason u t d =
     (if qid \<in> q_id ` set (quarantine_events d)
      then (Inr (), d\<lparr>quarantine_events := upd_where (\<lambda>q. q_id q = qid)
             (\<lambda>q. q\<lparr>q_attempts := q_attempts q + 1, q_reason := Some reason, q_updated := t\<rparr>)
             (quarantine_events d)\<rparr>)
      else if (case agent of None \<Rightarrow> False | Some a \<Rightarrow> a \<notin> a_id ` set (agents d))
      then (Inl ForeignKeyViolation, d)
      else (Inr (), d\<lparr>quarantine_events := quarantine_events d @
             [\<lparr>q_id = qid, q_agent = agent, q_source = Some source, q_raw = raw, q_reason = Some reason,
               q_status = ''pending'', q_replayed_at = None, q_attempts = 0, q_created = t,
               q_updated = t\<rparr>]\<rparr>))"

definition Quarantine :: "libs \<Rightarrow> envelope \<Rightarrow> string \<Rightarrow> unit res io" where
  "Quarantine L e reason = do {
     qid \<leftarrow> (case l_uuid_parse L (en_event e) of Some u \<Rightarrow> ret u | None \<Rightarrow> new_uuid);
     sql (upsertQuarantine qid (l_uuid_parse L (en_agent e)) (en_source e) (j_envelope L e) reason)
   }"

text \<open>A row as the queries scan it: a JSON payload that is no object does not scan into the map.\<close>

definition scanQuarantine :: "quarantine_row \<Rightarrow> quarantine_event res" where
  "scanQuarantine q =
     (case dec_map None (q_raw q) of
        None \<Rightarrow> Inl ScanNull
      | Some raw \<Rightarrow>
          Inr \<lparr>qe_id = q_id q, qe_agent = q_agent q, qe_source = coalesce (q_source q), qe_raw = raw,
               qe_reason = coalesce (q_reason q), qe_status = q_status q, qe_attempts = q_attempts q,
               qe_received = q_created q\<rparr>)"

definition countQuarantined :: "string \<Rightarrow> int stmt" where
  "countQuarantined status u t d =
     (Inr (int (count_where (\<lambda>q. q_status q = status) (quarantine_events d))), d)"

definition selectQuarantined :: "string \<Rightarrow> quarantine_event list stmt" where
  "selectQuarantined status u t d =
     (map_res scanQuarantine (take 500 (order_desc q_created
        (filter (\<lambda>q. q_status q = status) (quarantine_events d)))), d)"

definition ListQuarantined :: "string \<Rightarrow> (quarantine_event list \<times> int) res io" where
  "ListQuarantined status0 = (let status = (if status0 = [] then ''pending'' else status0) in do {
     x \<leftarrow> sql (selectQuarantined status);
     (case x of
        Inl e \<Rightarrow> ret (Inl e)
      | Inr out \<Rightarrow> do {
          y \<leftarrow> sql (countQuarantined status);
          (case y of Inl e \<Rightarrow> ret (Inl e) | Inr n \<Rightarrow> ret (Inr (out, n)))
        })
   })"

definition GetQuarantined :: "uuid \<Rightarrow> quarantine_event stmt" where
  "GetQuarantined qid u t d =
     (case find (\<lambda>q. q_id q = qid) (quarantine_events d) of
        None \<Rightarrow> Inl ErrNotFound
      | Some q \<Rightarrow> scanQuarantine q, d)"

text \<open>\<open>raw_payload->>'category'\<close> for scalar values.\<close>

definition json_category :: "json \<Rightarrow> string option" where
  "json_category v =
     (case v of
        JObj m \<Rightarrow> (case jget m ''category'' of
            JStr s \<Rightarrow> Some s | JNum l \<Rightarrow> Some l | JBool b \<Rightarrow> Some (if b then ''true'' else ''false'')
          | _ \<Rightarrow> None)
      | _ \<Rightarrow> None)"

definition QuarantinedByCategory :: "string \<Rightarrow> quarantine_event list stmt" where
  "QuarantinedByCategory name u t d =
     (map_res scanQuarantine (sort_key q_created
        (filter (\<lambda>q. q_status q = ''pending'' \<and> json_category (q_raw q) = Some name)
           (quarantine_events d))), d)"

definition MarkReplayed :: "uuid \<Rightarrow> unit stmt" where
  "MarkReplayed qid u t d =
     (Inr (), d\<lparr>quarantine_events := upd_where (\<lambda>q. q_id q = qid)
        (\<lambda>q. q\<lparr>q_status := ''replayed'', q_replayed_at := Some t, q_updated := t\<rparr>) (quarantine_events d)\<rparr>)"

definition BumpAttempts :: "uuid \<Rightarrow> string \<Rightarrow> unit stmt" where
  "BumpAttempts qid reason u t d =
     (Inr (), d\<lparr>quarantine_events := upd_where (\<lambda>q. q_id q = qid)
        (\<lambda>q. q\<lparr>q_attempts := q_attempts q + 1, q_reason := Some reason, q_updated := t\<rparr>)
        (quarantine_events d)\<rparr>)"

section \<open>The JSON form of an envelope reads back\<close>

definition env_object :: "json \<Rightarrow> json \<Rightarrow> json \<Rightarrow> json \<Rightarrow> json \<Rightarrow> json \<Rightarrow> json \<Rightarrow> json \<Rightarrow> jmap" where
  "env_object a b c e f g h i =
    [(''event_id'', a), (''agent_id'', b), (''agent_slug'', c), (''category'', e), (''source'', f),
     (''timestamp'', g), (''payload'', h), (''received_at'', i)]"

lemma field_values_env:
  "field_values (env_object a b c e f g h i) ''event_id'' = [a]"
  "field_values (env_object a b c e f g h i) ''agent_id'' = [b]"
  "field_values (env_object a b c e f g h i) ''agent_slug'' = [c]"
  "field_values (env_object a b c e f g h i) ''category'' = [e]"
  "field_values (env_object a b c e f g h i) ''source'' = [f]"
  "field_values (env_object a b c e f g h i) ''timestamp'' = [g]"
  "field_values (env_object a b c e f g h i) ''payload'' = [h]"
  "field_values (env_object a b c e f g h i) ''received_at'' = [i]"
  by code_simp+

lemma dec_envelope_j_envelope:
  assumes "time_laws L" and "rfc3339_time (en_timestamp e)" and "rfc3339_time (en_received e)"
  shows "dec_envelope L (j_envelope L e) = Some e"
proof -
  have t: "l_time_parse L (l_time_format L (en_timestamp e)) = Some (en_timestamp e)"
    "l_time_parse L (l_time_format L (en_received e)) = Some (en_received e)"
    using assms by (simp_all add: time_laws_def)
  show ?thesis
    unfolding dec_envelope_def j_envelope_def env_object_def [symmetric] dec_object.simps option.case
      envelope_fields_def dec_field_def field_values_env
    by (simp add: j_time_def t)
qed

lemma json_category_j_envelope [simp]: "json_category (j_envelope L e) = Some (en_category e)"
  by (simp add: json_category_def j_envelope_def jget_def)

section \<open>What the statements keep\<close>

lemma reads_norm:
  "reads (resolveCategory n)" "reads (countQuarantined st)" "reads (selectQuarantined st)"
  "reads (GetQuarantined q)" "reads (QuarantinedByCategory n)"
  by (simp_all add: reads_def resolveCategory_def countQuarantined_def selectQuarantined_def
      GetQuarantined_def QuarantinedByCategory_def)

lemma db_inv_insertEventRow: "db_inv d \<Longrightarrow> db_inv (snd (insertEventRow a c sid e u t d))"
proof -
  assume inv: "db_inv d"
  have add: "db_inv (d\<lparr>events := events d @ [r]\<rparr>)"
    if "e_id r \<notin> e_id ` set (events d)" "e_category r \<in> c_id ` set (categories d)" for r
    using inv that unfolding db_inv_defs by (elim conjE, intro conjI; simp)
  show ?thesis
    by (simp add: insertEventRow_def inv add split: option.split)
qed

lemma db_inv_upsertQuarantine: "db_inv d \<Longrightarrow> db_inv (snd (upsertQuarantine q a s raw rs u t d))"
proof -
  assume inv: "db_inv d"
  have add: "db_inv (d\<lparr>quarantine_events := quarantine_events d @ [r]\<rparr>)"
    if "q_id r \<notin> q_id ` set (quarantine_events d)" for r
    using inv that unfolding db_inv_defs by (elim conjE, intro conjI; simp)
  have upd: "db_inv (d\<lparr>quarantine_events := upd_where P f (quarantine_events d)\<rparr>)"
    if "\<And>r. q_id (f r) = q_id r" for P f
    using inv that unfolding db_inv_defs by (elim conjE, intro conjI; simp add: unique_by_upd_where)
  show ?thesis
    by (simp add: upsertQuarantine_def inv add upd split: option.split)
qed

lemma db_inv_quarantine_updates:
  "db_inv d \<Longrightarrow> db_inv (snd (MarkReplayed q u t d))" "db_inv d \<Longrightarrow> db_inv (snd (BumpAttempts q r u t d))"
  by (simp_all add: MarkReplayed_def BumpAttempts_def db_inv_defs unique_by_upd_where)

text \<open>A quarantined event is never dropped: its row stays, with the envelope, source and time it was first
  recorded with, and its attempts only grow.\<close>

definition quarantine_kept :: "db \<Rightarrow> db \<Rightarrow> bool" where
  "quarantine_kept d d' \<longleftrightarrow>
     (\<forall>q \<in> set (quarantine_events d). \<exists>q' \<in> set (quarantine_events d').
        q_id q' = q_id q \<and> q_raw q' = q_raw q \<and> q_created q' = q_created q \<and> q_attempts q \<le> q_attempts q' \<and>
        (q_status q' = q_status q \<or> q_status q' = ''replayed''))"

lemma quarantine_kept_refl [simp]: "quarantine_kept d d"
  by (auto simp: quarantine_kept_def)

lemma quarantine_kept_same: "quarantine_events d' = quarantine_events d \<Longrightarrow> quarantine_kept d d'"
  by (auto simp: quarantine_kept_def)

lemma quarantine_kept_trans:
  assumes "quarantine_kept d e" and "quarantine_kept e f"
  shows "quarantine_kept d f"
  unfolding quarantine_kept_def
proof
  fix q assume "q \<in> set (quarantine_events d)"
  then obtain r where r: "r \<in> set (quarantine_events e)" "q_id r = q_id q" "q_raw r = q_raw q"
    "q_created r = q_created q" "q_attempts q \<le> q_attempts r" "q_status r = q_status q \<or> q_status r = ''replayed''"
    using assms(1) unfolding quarantine_kept_def by blast
  then obtain x where x: "x \<in> set (quarantine_events f)" "q_id x = q_id r" "q_raw x = q_raw r"
    "q_created x = q_created r" "q_attempts r \<le> q_attempts x" "q_status x = q_status r \<or> q_status x = ''replayed''"
    using assms(2) unfolding quarantine_kept_def by blast
  show "\<exists>q' \<in> set (quarantine_events f). q_id q' = q_id q \<and> q_raw q' = q_raw q \<and>
      q_created q' = q_created q \<and> q_attempts q \<le> q_attempts q' \<and>
      (q_status q' = q_status q \<or> q_status q' = ''replayed'')"
    using r x by (intro bexI [OF _ x(1)]) auto
qed

lemma quarantine_kept_upd:
  assumes "\<And>r. q_id (f r) = q_id r \<and> q_raw (f r) = q_raw r \<and> q_created (f r) = q_created r \<and>
      q_attempts r \<le> q_attempts (f r) \<and> (q_status (f r) = q_status r \<or> q_status (f r) = ''replayed'')"
  shows "quarantine_kept d (d\<lparr>quarantine_events := upd_where P f (quarantine_events d)\<rparr>)"
  unfolding quarantine_kept_def
proof
  fix q assume q: "q \<in> set (quarantine_events d)"
  let ?q = "if P q then f q else q"
  have "?q \<in> set (quarantine_events (d\<lparr>quarantine_events := upd_where P f (quarantine_events d)\<rparr>))"
    using q by (auto simp: in_upd_where)
  then show "\<exists>q' \<in> set (quarantine_events (d\<lparr>quarantine_events := upd_where P f (quarantine_events d)\<rparr>)).
      q_id q' = q_id q \<and> q_raw q' = q_raw q \<and> q_created q' = q_created q \<and> q_attempts q \<le> q_attempts q' \<and>
      (q_status q' = q_status q \<or> q_status q' = ''replayed'')"
    using assms [of q] by (intro bexI [of _ ?q]) auto
qed

lemma quarantine_kept_statements:
  "quarantine_kept d (snd (insertEventRow a c sid e u t d))"
  "quarantine_kept d (snd (upsertQuarantine q ag s raw rs u t d))"
  "quarantine_kept d (snd (MarkReplayed q u t d))" "quarantine_kept d (snd (BumpAttempts q r u t d))"
proof -
  show "quarantine_kept d (snd (insertEventRow a c sid e u t d))"
    by (rule quarantine_kept_same) (simp add: insertEventRow_def split: option.split)
  have app: "quarantine_kept d (d\<lparr>quarantine_events := quarantine_events d @ [r]\<rparr>)" for r
    by (auto simp: quarantine_kept_def)
  show "quarantine_kept d (snd (upsertQuarantine q ag s raw rs u t d))"
    by (simp add: upsertQuarantine_def app quarantine_kept_upd)
  show "quarantine_kept d (snd (MarkReplayed q u t d))" "quarantine_kept d (snd (BumpAttempts q r u t d))"
    by (simp_all add: MarkReplayed_def BumpAttempts_def quarantine_kept_upd)
qed

end
