(* ===== verification/SchemaCache.thy ===== *)
theory SchemaCache
  imports Effects
begin

text \<open>
  \<open>internal/normalizer/registry_client.go\<close>: the normalizer's schema lookups over HTTP, with a cache of
  30 seconds per category that also serves as the last-known schema while the registry cannot be
  reached. The cache is part of the service's memory. The locale \<open>schema_source\<close> is what the worker
  relies on: a lookup within the lifetime of an entry is answered from the cache, without a request,
  and after \<open>Invalidate\<close> the next lookup asks the registry.
\<close>

section \<open>url.PathEscape\<close>

definition path_safe :: "char \<Rightarrow> bool" where
  "path_safe c \<longleftrightarrow> (let n = of_char c :: nat in
     (48 \<le> n \<and> n \<le> 57) \<or> (65 \<le> n \<and> n \<le> 90) \<or> (97 \<le> n \<and> n \<le> 122) \<or> c \<in> set ''-_.~$&+:=@'')"

definition upper_hex :: "nat \<Rightarrow> char" where
  "upper_hex n = (if n < 10 then char_of (48 + n) else char_of (55 + n))"

definition path_escape :: "string \<Rightarrow> string" where
  "path_escape s = concat (map (\<lambda>c. if path_safe c then [c]
     else [CHR ''%'', upper_hex (of_char c div 16), upper_hex (of_char c mod 16)]) s)"

section \<open>The client\<close>

record registry_client =
  rc_url :: string
  rc_token :: string

definition rc_ttl :: int where
  "rc_ttl = 30 * 10 ^ 9"

datatype lookup_error =
    ErrSchemaNotFound
  | Unreachable
  | BadStatus nat
  | BadBody

definition schema_fields :: "jmap \<Rightarrow> registry_schema option" where
  "schema_fields m =
     (case (dec_field dec_string [] m ''category'', dec_field dec_int 0 m ''version'',
            dec_field dec_map None m ''json_schema'', dec_field dec_string [] m ''routing_yaml'') of
        (Some c, Some v, Some j, Some y) \<Rightarrow>
          Some \<lparr>sch_category = c, sch_version = v, sch_json = j, sch_routing = y\<rparr>
      | _ \<Rightarrow> None)"

text \<open>Decoding the body of a reply.\<close>

definition decode_reply :: "libs \<Rightarrow> (jmap \<Rightarrow> 'a option) \<Rightarrow> payload \<Rightarrow> 'a option" where
  "decode_reply L f p =
     (case p of
        NoBody \<Rightarrow> None
      | JsonBody v \<Rightarrow> (case dec_object v of None \<Rightarrow> None | Some m \<Rightarrow> f m)
      | RawBody b \<Rightarrow> decode_struct L f b)"

text \<open>The request on a miss; an unreachable registry falls back to whatever the cache still holds.\<close>

definition fetchSchema ::
  "libs \<Rightarrow> registry_client \<Rightarrow> string \<Rightarrow> (lookup_error + registry_schema) io" where
  "fetchSchema L c category = do {
     reply \<leftarrow> http_call (rc_url c @ ''/v1/schemas/'' @ path_escape category) NoBody;
     (case reply of
        NoReply \<Rightarrow> do {
          known \<leftarrow> recall (\<lambda>m. m_cache m category);
          ret (case known of Some e \<Rightarrow> Inr (cs_schema e) | None \<Rightarrow> Inl Unreachable)
        }
      | Reply status body \<Rightarrow>
          if status = 404 then ret (Inl ErrSchemaNotFound)
          else if status \<noteq> 200 then ret (Inl (BadStatus status))
          else (case decode_reply L schema_fields body of
             None \<Rightarrow> ret (Inl BadBody)
           | Some sc \<Rightarrow> do {
               t \<leftarrow> now;
               _ \<leftarrow> remember (\<lambda>m. m\<lparr>m_cache := (m_cache m)(category \<mapsto> \<lparr>cs_schema = sc, cs_fetched = t\<rparr>)\<rparr>);
               ret (Inr sc)
             }))
   }"

definition GetSchema ::
  "libs \<Rightarrow> registry_client \<Rightarrow> string \<Rightarrow> (lookup_error + registry_schema) io" where
  "GetSchema L c category = do {
     known \<leftarrow> recall (\<lambda>m. m_cache m category);
     (case known of
        None \<Rightarrow> fetchSchema L c category
      | Some e \<Rightarrow> do {
          t \<leftarrow> now;
          (if t - cs_fetched e < rc_ttl then ret (Inr (cs_schema e)) else fetchSchema L c category)
        })
   }"

definition Invalidate :: "string \<Rightarrow> unit io" where
  "Invalidate category = remember (\<lambda>m. m\<lparr>m_cache := (m_cache m)(category := None)\<rparr>)"

section \<open>What a lookup asks\<close>

lemma upper_hex_safe: "n < 16 \<Longrightarrow> upper_hex n \<notin> {CHR ''/'', CHR ''?'', CHR ''#''}"
proof -
  assume n: "n < 16"
  have "(of_char (upper_hex n) :: nat) = (if n < 10 then 48 + n else 55 + n)"
    using n by (simp add: upper_hex_def)
  moreover have "(of_char (CHR ''/'') :: nat) = 47" "(of_char (CHR ''?'') :: nat) = 63"
    "(of_char (CHR ''#'') :: nat) = 35" by simp_all
  ultimately show ?thesis using n by (auto split: if_splits)
qed

text \<open>An escaped category is a single path segment: it has no separator, query or fragment mark.\<close>

lemma path_escape_segment:
  assumes "x \<in> set (path_escape s)"
  shows "x \<notin> {CHR ''/'', CHR ''?'', CHR ''#''}"
proof -
  obtain c where c: "x \<in> set (if path_safe c then [c]
     else [CHR ''%'', upper_hex (of_char c div 16), upper_hex (of_char c mod 16)])"
    using assms unfolding path_escape_def set_concat set_map by blast
  show ?thesis
  proof (cases "path_safe c")
    case True
    then show ?thesis using c by (auto simp: path_safe_def Let_def)
  next
    case False
    then show ?thesis
      using c upper_hex_safe [OF of_char_nibbles(1) [of c]] upper_hex_safe [OF of_char_nibbles(2) [of c]]
      by auto
  qed
qed

section \<open>Interface to the worker\<close>

locale schema_source =
  fixes get :: "string \<Rightarrow> ('e + registry_schema) io"
    and forget :: "string \<Rightarrow> unit io"
    and entry :: "memory \<Rightarrow> string \<Rightarrow> (registry_schema \<times> time) option"
    and ttl :: int
  assumes get_fresh: "entry (w_mem w) c = Some (s, t0) \<Longrightarrow> w_clock w (w_tick w) - t0 < ttl \<Longrightarrow>
      run_state (get c) w = (Inr s, tick w)"
    and get_asks: "entry (w_mem w) c = None \<or> (\<exists>s t0. entry (w_mem w) c = Some (s, t0) \<and> ttl \<le> w_clock w (w_tick w) - t0) \<Longrightarrow>
      length (w_sent (snd (run_state (get c) w))) = Suc (length (w_sent w))"
    and get_other: "c' \<noteq> c \<Longrightarrow> entry (w_mem (snd (run_state (get c) w))) c' = entry (w_mem w) c'"
    and get_db: "w_db (snd (run_state (get c) w)) = w_db w \<and> w_streams (snd (run_state (get c) w)) = w_streams w"
    and forget_entry: "run_state (forget c) w = ((), w') \<Longrightarrow> entry (w_mem w') c = None"
    and forget_other: "run_state (forget c) w = ((), w') \<Longrightarrow> c' \<noteq> c \<Longrightarrow> entry (w_mem w') c' = entry (w_mem w) c'"
    and forget_sent: "w_sent (snd (run_state (forget c) w)) = w_sent w"
begin

text \<open>After dropping an entry the next lookup asks the registry.\<close>

lemma get_after_forget:
  assumes "run_state (forget c) w = ((), v)"
  shows "length (w_sent (snd (run_state (get c) v))) = Suc (length (w_sent w))"
  using get_asks [of v c] forget_entry [OF assms] forget_sent [of c w] assms by simp

lemma get_within_ttl:
  assumes "entry (w_mem w) c = Some (s, t0)" and "w_clock w (w_tick w) - t0 < ttl"
  shows "fst (run_state (get c) w) = Inr s \<and> w_sent (snd (run_state (get c) w)) = w_sent w"
  using get_fresh [OF assms] by simp

end

definition cache_entry :: "memory \<Rightarrow> string \<Rightarrow> (registry_schema \<times> time) option" where
  "cache_entry m c = map_option (\<lambda>e. (cs_schema e, cs_fetched e)) (m_cache m c)"

lemma fetchSchema_facts:
  "length (w_sent (snd (run_state (fetchSchema L c n) w))) = Suc (length (w_sent w))"
  "n' \<noteq> n \<Longrightarrow> m_cache (w_mem (snd (run_state (fetchSchema L c n) w))) n' = m_cache (w_mem w) n'"
  "w_db (snd (run_state (fetchSchema L c n) w)) = w_db w"
  "w_streams (snd (run_state (fetchSchema L c n) w)) = w_streams w"
  by (simp_all add: fetchSchema_def run_simps split: reply.split option.split)

interpretation src: schema_source "GetSchema L c" Invalidate cache_entry rc_ttl for L c
proof
  fix w w' :: world and n n' :: string and s t0
  show "run_state (GetSchema L c n) w = (Inr s, tick w)"
    if "cache_entry (w_mem w) n = Some (s, t0)" "w_clock w (w_tick w) - t0 < rc_ttl"
    using that by (auto simp: GetSchema_def run_simps cache_entry_def)
  show "length (w_sent (snd (run_state (GetSchema L c n) w))) = Suc (length (w_sent w))"
    if "cache_entry (w_mem w) n = None \<or>
      (\<exists>s t0. cache_entry (w_mem w) n = Some (s, t0) \<and> rc_ttl \<le> w_clock w (w_tick w) - t0)"
    using that by (auto simp: GetSchema_def run_simps cache_entry_def fetchSchema_facts split: option.splits)
  show "cache_entry (w_mem (snd (run_state (GetSchema L c n) w))) n' = cache_entry (w_mem w) n'" if "n' \<noteq> n"
    using that by (simp add: GetSchema_def run_simps cache_entry_def fetchSchema_facts split: option.split)
  show "w_db (snd (run_state (GetSchema L c n) w)) = w_db w \<and>
      w_streams (snd (run_state (GetSchema L c n) w)) = w_streams w"
    by (simp add: GetSchema_def run_simps fetchSchema_facts split: option.split)
  show "cache_entry (w_mem w') n = None" if "run_state (Invalidate n) w = ((), w')"
    using that by (auto simp: Invalidate_def run_simps cache_entry_def)
  show "cache_entry (w_mem w') n' = cache_entry (w_mem w) n'"
    if "run_state (Invalidate n) w = ((), w')" "n' \<noteq> n"
    using that by (auto simp: Invalidate_def run_simps cache_entry_def)
  show "w_sent (snd (run_state (Invalidate n) w)) = w_sent w"
    by (simp add: Invalidate_def run_simps)
qed

text \<open>What a lookup that had to ask returns, by the reply.\<close>

lemma fetchSchema_reply:
  "fst (run_state (fetchSchema L c n) w) =
     (case w_reply w (w_tick w) of
        NoReply \<Rightarrow> (case cache_entry (w_mem w) n of Some (s, _) \<Rightarrow> Inr s | None \<Rightarrow> Inl Unreachable)
      | Reply status body \<Rightarrow>
          if status = 404 then Inl ErrSchemaNotFound
          else if status \<noteq> 200 then Inl (BadStatus status)
          else case decode_reply L schema_fields body of None \<Rightarrow> Inl BadBody | Some sc \<Rightarrow> Inr sc)"
  by (simp add: fetchSchema_def run_simps cache_entry_def split: reply.split option.split)

lemma GetSchema_obeys:
  "keeps I (GetSchema L c n)" "obeys same_env (GetSchema L c n)"
  unfolding GetSchema_def fetchSchema_def
  by (intro keeps_intros same_env_intros)+

end
