(* ===== verification/NormWorker.thy ===== *)
theory NormWorker
  imports NormStore SchemaCache
begin

text \<open>
  \<open>internal/normalizer/worker.go\<close>: validating an envelope against its category's schema, routing it to
  its destinations or into the quarantine, replaying quarantined events, and the two stream consumers.
  A consumer's result is its answer to the broker, acknowledgement or redelivery. JSON-schema
  validation and YAML decoding are parameters. Tracing and logging are not modelled.
\<close>

section \<open>Routing\<close>

definition destinations :: "routing_yaml \<Rightarrow> string list" where
  "destinations rc =
     (if ry_targets rc \<noteq> [] then ry_targets rc
      else if ry_target rc \<noteq> [] then [ry_target rc]
      else [''postgres''])"

record norm_config =
  nc_registry :: registry_client
  nc_loki :: string

datatype proc_error =
    SchemaLookupError lookup_error
  | ValidateError
  | RouteError string
  | RecordError db_error
  | PublishError db_error
  | StoreError db_error

datatype proc_result = Routed | Quarantined

definition bump :: "(counters \<Rightarrow> counters) \<Rightarrow> unit io" where
  "bump f = remember (\<lambda>m. m\<lparr>m_counts := f (m_counts m)\<rparr>)"

text \<open>The first violation is the reason.\<close>

definition validatePayload :: "libs \<Rightarrow> jmap option \<Rightarrow> jmap option \<Rightarrow> (unit + string option) " where
  "validatePayload L schema payload =
     (case l_schema_validate L (j_map schema) (j_map payload) of
        None \<Rightarrow> Inl ()
      | Some [] \<Rightarrow> Inr None
      | Some (e # _) \<Rightarrow> Inr (Some e))"

definition loki_body :: "libs \<Rightarrow> envelope \<Rightarrow> time \<Rightarrow> json" where
  "loki_body L e ts = JObj [(''streams'', JArr [JObj
     [(''stream'', JObj [(''category'', JStr (en_category e)), (''source'', JStr (en_source e))]),
      (''values'', JArr [JArr [JStr (show_int ts), JStr (l_json_print L (j_map (en_payload e)))]])]])]"

definition pushLoki :: "libs \<Rightarrow> norm_config \<Rightarrow> envelope \<Rightarrow> (unit + unit) io" where
  "pushLoki L cfg e =
     (if nc_loki cfg = [] then ret (Inr ())
      else do {
        ts \<leftarrow> (if en_timestamp e = zero_time then now else ret (en_timestamp e));
        reply \<leftarrow> http_call (nc_loki cfg) (JsonBody (loki_body L e ts));
        ret (case reply of NoReply \<Rightarrow> Inl () | Reply status _ \<Rightarrow> if 300 \<le> status then Inl () else Inr ())
      })"

definition insert_route :: "libs \<Rightarrow> envelope \<Rightarrow> (unit + unit) io" where
  "insert_route L e = do {
     x \<leftarrow> InsertEvent L e;
     ret (case x of Inl _ \<Rightarrow> Inl () | Inr _ \<Rightarrow> Inr ())
   }"

definition route :: "libs \<Rightarrow> norm_config \<Rightarrow> string \<Rightarrow> envelope \<Rightarrow> (unit + unit) io" where
  "route L cfg dest e =
     (if dest = ''postgres'' then insert_route L e
      else if dest = ''loki'' then pushLoki L cfg e
      else if dest = ''tempo'' \<or> dest = ''mimir'' then ret (Inr ())
      else insert_route L e)"

fun routeAll :: "libs \<Rightarrow> norm_config \<Rightarrow> envelope \<Rightarrow> string list \<Rightarrow> (proc_error + unit) io" where
  "routeAll L cfg e [] = ret (Inr ())"
| "routeAll L cfg e (dest # ds) = do {
     x \<leftarrow> route L cfg dest e;
     (case x of Inl _ \<Rightarrow> ret (Inl (RouteError dest)) | Inr _ \<Rightarrow> routeAll L cfg e ds)
   }"

text \<open>A routing text that does not parse leaves what YAML decoding filled in so far.\<close>

definition routing_of :: "libs \<Rightarrow> string \<Rightarrow> routing_yaml" where
  "routing_of L text =
     (if text = [] then \<lparr>ry_target = [], ry_targets = []\<rparr> else snd (l_yaml_routing L text))"

section \<open>Processing one envelope\<close>

definition quarantine :: "libs \<Rightarrow> envelope \<Rightarrow> string \<Rightarrow> (proc_error + unit) io" where
  "quarantine L e reason = do {
     x \<leftarrow> Quarantine L e reason;
     (case x of
        Inl err \<Rightarrow> ret (Inl (RecordError err))
      | Inr _ \<Rightarrow> do {
          y \<leftarrow> publish ''quarantine.unknown'' (JsonBody (j_envelope L e));
          (case y of
             Inl err \<Rightarrow> ret (Inl (PublishError err))
           | Inr _ \<Rightarrow> do {
               _ \<leftarrow> bump (\<lambda>c. c\<lparr>ct_quarantined := ct_quarantined c + 1\<rparr>);
               ret (Inr ())
             })
        })
   }"

definition into_quarantine :: "libs \<Rightarrow> envelope \<Rightarrow> string \<Rightarrow> (proc_error + proc_result) io" where
  "into_quarantine L e reason = do {
     x \<leftarrow> quarantine L e reason;
     ret (case x of Inl err \<Rightarrow> Inl err | Inr _ \<Rightarrow> Inr Quarantined)
   }"

definition Process :: "libs \<Rightarrow> norm_config \<Rightarrow> envelope \<Rightarrow> (proc_error + proc_result) io" where
  "Process L cfg e = do {
     _ \<leftarrow> bump (\<lambda>c. c\<lparr>ct_processed := ct_processed c + 1\<rparr>);
     x \<leftarrow> GetSchema L (nc_registry cfg) (en_category e);
     (case x of
        Inl err \<Rightarrow>
          if err = ErrSchemaNotFound then into_quarantine L e ''unknown_category''
          else ret (Inl (SchemaLookupError err))
      | Inr schema \<Rightarrow>
          (case validatePayload L (sch_json schema) (en_payload e) of
             Inl _ \<Rightarrow> ret (Inl ValidateError)
           | Inr (Some reason) \<Rightarrow> do {
               _ \<leftarrow> bump (\<lambda>c. c\<lparr>ct_failed := ct_failed c + 1\<rparr>);
               into_quarantine L e (''schema_validation_failed: '' @ reason)
             }
           | Inr None \<Rightarrow> do {
               y \<leftarrow> routeAll L cfg e (destinations (routing_of L (sch_routing schema)));
               (case y of
                  Inl err \<Rightarrow> ret (Inl err)
                | Inr _ \<Rightarrow> do {
                    _ \<leftarrow> bump (\<lambda>c. c\<lparr>ct_routed := ct_routed c + 1\<rparr>);
                    ret (Inr Routed)
                  })
             }))
   }"

section \<open>Replay\<close>

definition ReplayOne :: "libs \<Rightarrow> norm_config \<Rightarrow> quarantine_event \<Rightarrow> (proc_error + bool) io" where
  "ReplayOne L cfg q =
     (case dec_envelope L (j_map (qe_raw q)) of
        None \<Rightarrow> do {
          x \<leftarrow> sql (BumpAttempts (qe_id q) ''unparseable stored payload'');
          ret (case x of Inl err \<Rightarrow> Inl (StoreError err) | Inr _ \<Rightarrow> Inr False)
        }
      | Some e \<Rightarrow> do {
          x \<leftarrow> Process L cfg e;
          (case x of
             Inl err \<Rightarrow> ret (Inl err)
           | Inr Quarantined \<Rightarrow> ret (Inr False)
           | Inr Routed \<Rightarrow> do {
               _ \<leftarrow> bump (\<lambda>c. c\<lparr>ct_replayed := ct_replayed c + 1\<rparr>);
               y \<leftarrow> sql (MarkReplayed (qe_id q));
               ret (case y of Inl err \<Rightarrow> Inl (StoreError err) | Inr _ \<Rightarrow> Inr True)
             })
        })"

fun replayLoop :: "libs \<Rightarrow> norm_config \<Rightarrow> quarantine_event list \<Rightarrow> nat \<Rightarrow> ((proc_error \<times> nat) + nat) io" where
  "replayLoop L cfg [] n = ret (Inr n)"
| "replayLoop L cfg (q # qs) n = do {
     x \<leftarrow> ReplayOne L cfg q;
     (case x of
        Inl err \<Rightarrow> ret (Inl (err, n))
      | Inr ok \<Rightarrow> replayLoop L cfg qs (if ok then Suc n else n))
   }"

definition ReplayCategory :: "libs \<Rightarrow> norm_config \<Rightarrow> string \<Rightarrow> ((proc_error \<times> nat) + nat) io" where
  "ReplayCategory L cfg category = do {
     x \<leftarrow> sql (QuarantinedByCategory category);
     (case x of
        Inl err \<Rightarrow> ret (Inl (StoreError err, 0))
      | Inr qs \<Rightarrow> replayLoop L cfg qs 0)
   }"

section \<open>The consumers\<close>

datatype disposition = Ack | Nak int

text \<open>\<open>json.Unmarshal(msg.Data(), ..)\<close> up to the parsed value.\<close>

definition message_json :: "libs \<Rightarrow> payload \<Rightarrow> json option" where
  "message_json L data =
     (case data of NoBody \<Rightarrow> None | JsonBody v \<Rightarrow> Some v | RawBody b \<Rightarrow> l_json_parse L b)"

definition message_envelope :: "libs \<Rightarrow> payload \<Rightarrow> envelope option" where
  "message_envelope L data =
     (case message_json L data of None \<Rightarrow> None | Some v \<Rightarrow> dec_envelope L v)"

definition handleIngest :: "libs \<Rightarrow> norm_config \<Rightarrow> payload \<Rightarrow> disposition io" where
  "handleIngest L cfg data =
     (case message_envelope L data of
        None \<Rightarrow> do {
          _ \<leftarrow> bump (\<lambda>c. c\<lparr>ct_quarantined := ct_quarantined c + 1\<rparr>);
          ret Ack
        }
      | Some e \<Rightarrow> do {
          x \<leftarrow> Process L cfg e;
          ret (case x of Inl _ \<Rightarrow> Nak (5 * 10 ^ 9) | Inr _ \<Rightarrow> Ack)
        })"

definition approved_category :: "libs \<Rightarrow> payload \<Rightarrow> string" where
  "approved_category L data =
     (case message_json L data of
        None \<Rightarrow> []
      | Some v \<Rightarrow> (case dec_object v of
            None \<Rightarrow> []
          | Some m \<Rightarrow> (case dec_field dec_string [] m ''category'' of None \<Rightarrow> [] | Some c \<Rightarrow> c)))"

definition handleApproval :: "libs \<Rightarrow> norm_config \<Rightarrow> payload \<Rightarrow> disposition io" where
  "handleApproval L cfg data =
     (let category = approved_category L data in
      if category = [] then ret Ack
      else do {
        _ \<leftarrow> Invalidate category;
        x \<leftarrow> ReplayCategory L cfg category;
        ret (case x of Inl _ \<Rightarrow> Nak (10 * 10 ^ 9) | Inr _ \<Rightarrow> Ack)
      })"

text \<open>Events per second, and the shares of processed events that failed validation and that were
  quarantined.\<close>

definition Stats :: "(rat \<times> rat \<times> rat) io" where
  "Stats = do {
     c \<leftarrow> recall m_counts;
     t \<leftarrow> now;
     (let processed = rat_of_int (ct_processed c); uptime = rat_of_int (t - ct_started c) / 10 ^ 9 in
      ret (if uptime > 0 then processed / uptime else 0,
           if processed > 0 then rat_of_int (ct_failed c) / processed else 0,
           if processed > 0 then rat_of_int (ct_quarantined c) / processed else 0))
   }"

section \<open>Relations every run of the worker obeys\<close>

text \<open>A relation that the worker's statements and effects obey is obeyed by each of its operations.\<close>

locale worker_relation = run_relation R for R +
  assumes obeys_reads: "obeys R (sql (resolveCategory n))" "obeys R (sql (QuarantinedByCategory n'))"
    and obeys_writes: "obeys R (sql (insertEventRow a c sid e))" "obeys R (sql (upsertQuarantine q ag s raw rs))"
      "obeys R (sql (MarkReplayed q))" "obeys R (sql (BumpAttempts q rs))"
    and obeys_effects: "obeys R (publish sj p)" "obeys R (http_call url p)" "obeys R now"
      "obeys R new_uuid"
    and obeys_memory: "obeys R (remember (\<lambda>m. m\<lparr>m_counts := f (m_counts m)\<rparr>))"
      "obeys R (remember (\<lambda>m. m\<lparr>m_cache := g (m_cache m)\<rparr>))"
begin

lemma bump: "obeys R (bump f)"
  unfolding bump_def by (rule obeys_memory)

lemma GetSchema: "obeys R (GetSchema L c n)"
  unfolding GetSchema_def fetchSchema_def by (intro obeys_control obeys_effects obeys_memory)

lemma route: "obeys R (route L cfg dest e)"
  unfolding route_def insert_route_def pushLoki_def InsertEvent_def
  by (intro obeys_control obeys_effects obeys_writes obeys_reads)

lemma routeAll: "obeys R (routeAll L cfg e ds)"
  by (induction ds) (auto intro!: obeys_control route)

lemma into_quarantine: "obeys R (into_quarantine L e r)"
  unfolding into_quarantine_def quarantine_def Quarantine_def
  by (intro obeys_control obeys_effects obeys_writes bump)

lemma Process: "obeys R (Process L cfg e)"
  unfolding Process_def by (intro obeys_control bump GetSchema into_quarantine routeAll)

lemma proc_result: "obeys R m \<Longrightarrow> obeys R n \<Longrightarrow> obeys R (case x of Routed \<Rightarrow> m | Quarantined \<Rightarrow> n)"
  by (cases x) auto

lemma ReplayOne: "obeys R (ReplayOne L cfg q)"
  unfolding ReplayOne_def by (intro obeys_control bump Process proc_result obeys_writes)

lemma replayLoop: "obeys R (replayLoop L cfg qs n)"
  by (induction qs arbitrary: n) (auto intro!: obeys_control ReplayOne)

lemma ReplayCategory: "obeys R (ReplayCategory L cfg c)"
  unfolding ReplayCategory_def by (intro obeys_control replayLoop obeys_reads)

lemma consumers: "obeys R (handleIngest L cfg data)" "obeys R (handleApproval L cfg data)"
  unfolding handleIngest_def handleApproval_def Let_def Invalidate_def
  by (intro obeys_control obeys_effects obeys_memory bump Process ReplayCategory)+

end

interpretation winv: worker_relation "inv_rel db_inv"
proof
  show "keeps db_inv (sql (resolveCategory n))" "keeps db_inv (sql (QuarantinedByCategory n))" for n
    by (intro keeps_reads reads_norm)+
  show "keeps db_inv (sql (insertEventRow a c sid e))" for a c sid e
    by (intro keeps_sql db_inv_insertEventRow)
  show "keeps db_inv (sql (upsertQuarantine q ag s raw rs))" for q ag s raw rs
    by (intro keeps_sql db_inv_upsertQuarantine)
  show "keeps db_inv (sql (MarkReplayed q))" "keeps db_inv (sql (BumpAttempts q rs))" for q rs
    by (intro keeps_sql db_inv_quarantine_updates; assumption)+
qed (rule keeps_no_sql)+

text \<open>The event store and the quarantine only grow.\<close>

definition events_kept :: "world \<Rightarrow> world \<Rightarrow> bool" where
  "events_kept w w' \<longleftrightarrow> prefix (events (w_db w)) (events (w_db w')) \<and> quarantine_kept (w_db w) (w_db w')"

interpretation ek: run_relation events_kept
  by unfold_locales (auto simp: events_kept_def intro: quarantine_kept_trans)

lemma events_kept_sql:
  assumes "\<And>u t d. prefix (events d) (events (snd (f u t d)))" and "\<And>u t d. quarantine_kept d (snd (f u t d))"
  shows "obeys events_kept (sql f)"
proof (rule obeysI)
  fix w
  show "events_kept w (snd (run_state (sql f) w))"
    by (cases rule: sql_cases [of f w]) (simp_all add: events_kept_def assms)
qed

interpretation wkept: worker_relation events_kept
proof
  show "obeys events_kept (sql (resolveCategory n))" "obeys events_kept (sql (QuarantinedByCategory n))" for n
    by (rule events_kept_sql; simp add: resolveCategory_def QuarantinedByCategory_def)+
  show "obeys events_kept (sql (insertEventRow a c sid e))" for a c sid e
    by (intro events_kept_sql quarantine_kept_statements) (simp add: insertEventRow_def split: option.split)
  show "obeys events_kept (sql (upsertQuarantine q ag s raw rs))" for q ag s raw rs
    by (intro events_kept_sql quarantine_kept_statements) (simp add: upsertQuarantine_def)
  show "obeys events_kept (sql (MarkReplayed q))" "obeys events_kept (sql (BumpAttempts q rs))" for q rs
    by (intro events_kept_sql quarantine_kept_statements; simp add: MarkReplayed_def BumpAttempts_def)+
  show "obeys events_kept (publish sj p)" "obeys events_kept (http_call url p)" "obeys events_kept now"
    "obeys events_kept new_uuid" "obeys events_kept (remember (\<lambda>m. m\<lparr>m_counts := f (m_counts m)\<rparr>))"
    "obeys events_kept (remember (\<lambda>m. m\<lparr>m_cache := g (m_cache m)\<rparr>))" for sj p url f g
    by (auto intro!: obeysI split: outcome.splits simp: events_kept_def publish_def http_call_def now_def
        new_uuid_def remember_def Let_def)
qed

interpretation wenv: worker_relation same_env
  by unfold_locales (rule same_env_effects)+

interpretation wtrail: worker_relation trail_rel
proof
  show "obeys trail_rel (sql (resolveCategory n))" "obeys trail_rel (sql (QuarantinedByCategory n))" for n
    by (intro trail_reads reads_norm)+
  show "obeys trail_rel (sql (insertEventRow a c sid e))" for a c sid e
    by (intro trail_sql trail_same) (simp_all add: insertEventRow_def split: option.split)
  show "obeys trail_rel (sql (upsertQuarantine q ag s raw rs))" for q ag s raw rs
    by (intro trail_sql trail_same) (simp_all add: upsertQuarantine_def)
  show "obeys trail_rel (sql (MarkReplayed q))" "obeys trail_rel (sql (BumpAttempts q rs))" for q rs
    by (intro trail_sql trail_same; simp add: MarkReplayed_def BumpAttempts_def)+
  show "obeys trail_rel (remember (\<lambda>m. m\<lparr>m_counts := f (m_counts m)\<rparr>))"
    "obeys trail_rel (remember (\<lambda>m. m\<lparr>m_cache := g (m_cache m)\<rparr>))" for f g
    by (rule obeysI, simp add: remember_def trail_rel_def)+
qed (rule trail_effects)+

end
