(* ===== verification/NormOutcome.thy ===== *)
theory NormOutcome
  imports NormWorker
begin

text \<open>
  What the worker's operations achieve: a routed envelope has left one row per storing destination, a
  quarantined one a row under its event id and a message on the quarantine subject, and a pending event
  whose category has gained a fitting schema is replayed.
\<close>

lemma run_bump: "run_state (bump f) w = ((), w\<lparr>w_mem := (w_mem w)\<lparr>m_counts := f (m_counts (w_mem w))\<rparr>\<rparr>)"
  by (simp add: bump_def run_simps)

section \<open>Storing an event\<close>

definition event_for :: "libs \<Rightarrow> envelope \<Rightarrow> db \<Rightarrow> event_row \<Rightarrow> bool" where
  "event_for L e d r \<longleftrightarrow> en_payload e = Some (e_payload r) \<and> e_occurred r = en_timestamp e \<and>
     e_source r = Some (en_source e) \<and> e_agent r = l_uuid_parse L (en_agent e) \<and>
     (\<exists>c \<in> set (categories d). c_id c = e_category r \<and> c_name c = en_category e) \<and>
     (\<exists>s \<in> set (schemas d). e_schema r = Some (s_id s) \<and> s_category s = e_category r \<and> s_active s)"

lemma resolveCategory_ok:
  assumes "resolveCategory n u t d = (Inr (cat, sid), d')"
  shows "d' = d" and "\<exists>c \<in> set (categories d). c_id c = cat \<and> c_name c = n"
    and "\<exists>s \<in> set (schemas d). s_id s = sid \<and> s_category s = cat \<and> s_active s"
proof -
  let ?xs = "[(c, s). c \<leftarrow> categories d, s \<leftarrow> schemas d, s_category s = c_id c \<and> s_active s \<and> c_name c = n]"
  show "d' = d" using assms by (simp add: resolveCategory_def)
  obtain c s rest where o: "order_desc (\<lambda>(c, s). s_version s) ?xs = (c, s) # rest" "c_id c = cat" "s_id s = sid"
    using assms by (auto simp: resolveCategory_def split: list.splits prod.splits)
  have "(c, s) \<in> set ?xs" using order_desc_hd_max(1) [OF o(1)] .
  then have "c \<in> set (categories d)" "s \<in> set (schemas d)" "s_category s = c_id c" "s_active s" "c_name c = n"
    by auto
  with o(2,3) show "\<exists>c \<in> set (categories d). c_id c = cat \<and> c_name c = n"
    "\<exists>s \<in> set (schemas d). s_id s = sid \<and> s_category s = cat \<and> s_active s" by auto
qed

lemma insertEventRow_ok:
  assumes "insertEventRow a cat sid e u t d = (Inr (), d')"
  shows "\<exists>r. d' = d\<lparr>events := events d @ [r]\<rparr> \<and> en_payload e = Some (e_payload r) \<and>
    e_occurred r = en_timestamp e \<and> e_source r = Some (en_source e) \<and> e_category r = cat \<and>
    e_agent r = a \<and> e_schema r = Some sid"
  using assms by (auto simp: insertEventRow_def split: option.splits if_splits)

lemma InsertEvent_ok:
  assumes "run_state (InsertEvent L e) w = (Inr (), w')"
  shows "\<exists>r. w_db w' = (w_db w)\<lparr>events := events (w_db w) @ [r]\<rparr> \<and> event_for L e (w_db w) r \<and>
    w_streams w' = w_streams w"
proof -
  obtain x v where x: "run_state (sql (resolveCategory (en_category e))) w = (x, v)" by force
  then obtain cat sid where cs: "x = Inr (cat, sid)"
    using assms by (cases x) (auto simp: InsertEvent_def)
  have ins: "run_state (sql (insertEventRow (l_uuid_parse L (en_agent e)) cat sid e)) v = (Inr (), w')"
    using assms x cs by (simp add: InsertEvent_def)
  have v: "w_db v = w_db w" "\<exists>c \<in> set (categories (w_db w)). c_id c = cat \<and> c_name c = en_category e"
    "\<exists>s \<in> set (schemas (w_db w)). s_id s = sid \<and> s_category s = cat \<and> s_active s"
    using resolveCategory_ok [OF sql_Inr [OF x [unfolded cs], THEN conjunct1]] by auto
  have str: "w_streams w' = w_streams w"
    using sql_streams [OF x] sql_streams [OF ins] by simp
  obtain r where "w_db w' = (w_db v)\<lparr>events := events (w_db v) @ [r]\<rparr>" "en_payload e = Some (e_payload r)"
    "e_occurred r = en_timestamp e" "e_source r = Some (en_source e)" "e_category r = cat"
    "e_agent r = l_uuid_parse L (en_agent e)" "e_schema r = Some sid"
    using insertEventRow_ok [OF sql_Inr [OF ins, THEN conjunct1]] by blast
  then show ?thesis
    using v str by (intro exI [of _ r]) (auto simp: event_for_def)
qed

text \<open>The destinations that write a row.\<close>

definition storing :: "string \<Rightarrow> bool" where
  "storing dest \<longleftrightarrow> dest \<noteq> ''loki'' \<and> dest \<noteq> ''tempo'' \<and> dest \<noteq> ''mimir''"

lemma pushLoki_frame:
  "run_state (pushLoki L cfg e) w = (x, w') \<Longrightarrow> w_db w' = w_db w \<and> w_streams w' = w_streams w"
  by (auto simp: pushLoki_def run_simps split: if_splits)

lemma route_ok:
  assumes "run_state (route L cfg dest e) w = (Inr (), w')"
  shows "\<exists>rs. w_db w' = (w_db w)\<lparr>events := events (w_db w) @ rs\<rparr> \<and>
    length rs = (if storing dest then 1 else 0) \<and> list_all (event_for L e (w_db w)) rs \<and> w_streams w' = w_streams w"
proof (cases "storing dest")
  case True
  then have "run_state (insert_route L e) w = (Inr (), w')"
    using assms by (auto simp: route_def storing_def split: if_splits)
  then have "run_state (InsertEvent L e) w = (Inr (), w')"
    by (cases "run_state (InsertEvent L e) w") (auto simp: insert_route_def split: sum.splits)
  from InsertEvent_ok [OF this] obtain r where "w_db w' = (w_db w)\<lparr>events := events (w_db w) @ [r]\<rparr>"
    "event_for L e (w_db w) r" "w_streams w' = w_streams w" by blast
  with True show ?thesis by (intro exI [of _ "[r]"]) simp
next
  case False
  then have "w_db w' = w_db w" "w_streams w' = w_streams w"
    using assms pushLoki_frame [of L cfg e w "Inr ()" w'] by (auto simp: route_def storing_def split: if_splits)
  with False show ?thesis by (intro exI [of _ "[]"]) simp
qed

lemma event_for_events [simp]: "event_for L e (d\<lparr>events := es\<rparr>) = event_for L e d"
  by (simp add: event_for_def fun_eq_iff)

lemma routeAll_ok:
  "run_state (routeAll L cfg e ds) w = (Inr (), w') \<Longrightarrow>
   \<exists>rs. w_db w' = (w_db w)\<lparr>events := events (w_db w) @ rs\<rparr> \<and> length rs = length (filter storing ds) \<and>
     list_all (event_for L e (w_db w)) rs \<and> w_streams w' = w_streams w"
proof (induction ds arbitrary: w)
  case Nil
  then show ?case by (intro exI [of _ "[]"]) simp
next
  case (Cons dest ds)
  obtain x v where x: "run_state (route L cfg dest e) w = (x, v)" by force
  then have "x = Inr ()" and rest: "run_state (routeAll L cfg e ds) v = (Inr (), w')"
    using Cons.prems by (cases x; auto)+
  then obtain rs where rs: "w_db v = (w_db w)\<lparr>events := events (w_db w) @ rs\<rparr>"
    "length rs = (if storing dest then 1 else 0)" "list_all (event_for L e (w_db w)) rs" "w_streams v = w_streams w"
    using route_ok [of L cfg dest e w v] x by blast
  obtain rs' where rs': "w_db w' = (w_db v)\<lparr>events := events (w_db v) @ rs'\<rparr>"
    "length rs' = length (filter storing ds)" "list_all (event_for L e (w_db v)) rs'" "w_streams w' = w_streams v"
    using Cons.IH [OF rest] by blast
  show ?case using rs rs' by (intro exI [of _ "rs @ rs'"]) simp
qed

section \<open>Quarantining an event\<close>

lemma upsertQuarantine_ok:
  assumes "upsertQuarantine qid a s raw reason u t d = (Inr (), d')"
  shows "events d' = events d" and
    "\<exists>q \<in> set (quarantine_events d'). q_id q = qid \<and> q_reason q = Some reason \<and>
       (qid \<notin> q_id ` set (quarantine_events d) \<longrightarrow> q_raw q = raw \<and> q_status q = ''pending'')"
proof -
  show "events d' = events d"
    using assms by (auto simp: upsertQuarantine_def split: if_splits)
  show "\<exists>q \<in> set (quarantine_events d'). q_id q = qid \<and> q_reason q = Some reason \<and>
       (qid \<notin> q_id ` set (quarantine_events d) \<longrightarrow> q_raw q = raw \<and> q_status q = ''pending'')"
  proof (cases "qid \<in> q_id ` set (quarantine_events d)")
    case True
    then obtain q where q: "q \<in> set (quarantine_events d)" "q_id q = qid" by auto
    let ?q = "q\<lparr>q_attempts := q_attempts q + 1, q_reason := Some reason, q_updated := t\<rparr>"
    have "?q \<in> set (quarantine_events d')"
      using assms q True by (auto simp: upsertQuarantine_def in_upd_where intro!: bexI [of _ q])
    then show ?thesis using q True by (intro bexI [of _ ?q]) simp_all
  next
    case False
    then show ?thesis using assms by (auto simp: upsertQuarantine_def split: if_splits)
  qed
qed

definition quarantined_as :: "libs \<Rightarrow> envelope \<Rightarrow> string \<Rightarrow> db \<Rightarrow> db \<Rightarrow> bool" where
  "quarantined_as L e reason d d' \<longleftrightarrow>
     (\<exists>q \<in> set (quarantine_events d'). q_reason q = Some reason \<and>
        (\<forall>u. l_uuid_parse L (en_event e) = Some u \<longrightarrow> q_id q = u \<and>
           (u \<notin> q_id ` set (quarantine_events d) \<longrightarrow> q_raw q = j_envelope L e \<and> q_status q = ''pending'')))"

lemma into_quarantine_ok:
  assumes "run_state (into_quarantine L e reason) w = (Inr res, w')"
  shows "res = Quarantined" and "quarantined_as L e reason (w_db w) (w_db w')"
    and "events (w_db w') = events (w_db w)"
    and "w_streams w' = w_streams w @ [(''quarantine.unknown'', JsonBody (j_envelope L e))]"
proof -
  obtain x v where x: "run_state (Quarantine L e reason) w = (x, v)" by force
  have x': "x = Inr ()"
    using assms x by (cases x) (auto simp: into_quarantine_def quarantine_def)
  obtain y v2 where y: "run_state (publish ''quarantine.unknown'' (JsonBody (j_envelope L e))) v = (y, v2)" by force
  have y': "y = Inr ()"
    using assms x x' y by (cases y) (auto simp: into_quarantine_def quarantine_def)
  have w': "res = Quarantined" "w' = v2\<lparr>w_mem := w_mem w'\<rparr>"
    using assms x x' y y' by (auto simp: into_quarantine_def quarantine_def run_bump)
  then show "res = Quarantined" by simp
  obtain qid v0 where qid: "run_state (case l_uuid_parse L (en_event e) of Some u \<Rightarrow> ret u | None \<Rightarrow> new_uuid) w = (qid, v0)"
    by force
  have v0: "w_db v0 = w_db w" "w_streams v0 = w_streams w" "\<And>u. l_uuid_parse L (en_event e) = Some u \<Longrightarrow> qid = u"
    using qid by (auto simp: new_uuid_def split: option.splits)
  have up: "run_state (sql (upsertQuarantine qid (l_uuid_parse L (en_agent e)) (en_source e) (j_envelope L e) reason)) v0
      = (Inr (), v)"
    using x x' qid by (simp add: Quarantine_def)
  note ok = upsertQuarantine_ok [OF sql_Inr [OF up, THEN conjunct1]]
  have p: "w_db v2 = w_db v" "w_streams v2 = w_streams v @ [(''quarantine.unknown'', JsonBody (j_envelope L e))]"
    using y y' by (auto simp: publish_def Let_def split: outcome.splits)
  have db: "w_db w' = w_db v" "w_streams w' = w_streams v2"
    by (subst w'(2), simp add: p)+
  show "events (w_db w') = events (w_db w)" using ok(1) v0 db by simp
  show "w_streams w' = w_streams w @ [(''quarantine.unknown'', JsonBody (j_envelope L e))]"
    using db p sql_streams [OF up] v0 by simp
  show "quarantined_as L e reason (w_db w) (w_db w')"
    using ok(2) v0 unfolding quarantined_as_def db by metis
qed

section \<open>Processing\<close>

lemma GetSchema_frame:
  "run_state (GetSchema L c n) w = (x, w') \<Longrightarrow> w_db w' = w_db w \<and> w_streams w' = w_streams w"
  using src.get_db [of L c n w] by simp

lemma Process_ok:
  assumes run: "run_state (Process L cfg e) w = (Inr res, w')"
  shows "(res = Routed \<and> (\<exists>(sc :: registry_schema) rs. validatePayload L (sch_json sc) (en_payload e) = Inr None \<and>
        w_db w' = (w_db w)\<lparr>events := events (w_db w) @ rs\<rparr> \<and>
        length rs = length (filter storing (destinations (routing_of L (sch_routing sc)))) \<and>
        list_all (event_for L e (w_db w)) rs \<and> w_streams w' = w_streams w)) \<or>
    (res = Quarantined \<and> (\<exists>reason. quarantined_as L e reason (w_db w) (w_db w')) \<and>
        events (w_db w') = events (w_db w) \<and>
        w_streams w' = w_streams w @ [(''quarantine.unknown'', JsonBody (j_envelope L e))])"
proof -
  let ?w1 = "w\<lparr>w_mem := (w_mem w)\<lparr>m_counts := (m_counts (w_mem w))\<lparr>ct_processed := ct_processed (m_counts (w_mem w)) + 1\<rparr>\<rparr>\<rparr>"
  obtain x v where x: "run_state (GetSchema L (nc_registry cfg) (en_category e)) ?w1 = (x, v)" by force
  have v: "w_db v = w_db w" "w_streams v = w_streams w" using GetSchema_frame [OF x] by simp_all
  have inq: ?thesis if "run_state (into_quarantine L e reason) v2 = (Inr res, w')" "w_db v2 = w_db w" "w_streams v2 = w_streams w"
    for reason v2
    using into_quarantine_ok [OF that(1)] that(2,3) by auto
  show ?thesis
  proof (cases x)
    case (Inl err)
    then have "run_state (into_quarantine L e ''unknown_category'') v = (Inr res, w')"
      using run x by (auto simp: Process_def run_bump split: if_splits)
    then show ?thesis using v by (rule inq)
  next
    case (Inr sc)
    obtain o' where o': "validatePayload L (sch_json sc) (en_payload e) = Inr o'"
      using run x Inr by (cases "validatePayload L (sch_json sc) (en_payload e)") (auto simp: Process_def run_bump)
    show ?thesis
    proof (cases o')
      case (Some reason)
      let ?v2 = "v\<lparr>w_mem := (w_mem v)\<lparr>m_counts := (m_counts (w_mem v))\<lparr>ct_failed := ct_failed (m_counts (w_mem v)) + 1\<rparr>\<rparr>\<rparr>"
      have "run_state (into_quarantine L e (''schema_validation_failed: '' @ reason)) ?v2 = (Inr res, w')"
        using run x Inr o' Some by (simp add: Process_def run_bump)
      then show ?thesis by (rule inq) (simp_all add: v)
    next
      case None
      obtain y v2 where y: "run_state (routeAll L cfg e (destinations (routing_of L (sch_routing sc)))) v = (y, v2)"
        by force
      then have y': "y = Inr ()" and res: "res = Routed" and w': "w_db w' = w_db v2" "w_streams w' = w_streams v2"
        using run x Inr o' None by (cases y; auto simp: Process_def run_bump)+
      obtain rs where "w_db v2 = (w_db v)\<lparr>events := events (w_db v) @ rs\<rparr>"
        "length rs = length (filter storing (destinations (routing_of L (sch_routing sc))))"
        "list_all (event_for L e (w_db v)) rs" "w_streams v2 = w_streams v"
        using routeAll_ok [OF y [unfolded y']] by blast
      then have "\<exists>rs. w_db w' = (w_db w)\<lparr>events := events (w_db w) @ rs\<rparr> \<and>
          length rs = length (filter storing (destinations (routing_of L (sch_routing sc)))) \<and>
          list_all (event_for L e (w_db w)) rs \<and> w_streams w' = w_streams w"
        using w' v by (intro exI [of _ rs]) simp
      with o' None res show ?thesis by blast
    qed
  qed
qed

section \<open>Replay succeeds\<close>

text \<open>Every reply of the registry from now on is the schema \<open>sc\<close>, and the cache holds nothing else for
  the category.\<close>

definition registry_says :: "libs \<Rightarrow> string \<Rightarrow> registry_schema \<Rightarrow> world \<Rightarrow> bool" where
  "registry_says L c sc w \<longleftrightarrow>
     (\<forall>n \<ge> w_tick w. \<exists>body. w_reply w n = Reply 200 body \<and> decode_reply L schema_fields body = Some sc) \<and>
     (\<forall>k. m_cache (w_mem w) c = Some k \<longrightarrow> cs_schema k = sc)"

lemma registry_says_later:
  "registry_says L c sc w \<Longrightarrow> same_env w w' \<Longrightarrow> m_cache (w_mem w') c = m_cache (w_mem w) c \<Longrightarrow>
   registry_says L c sc w'"
  by (auto simp: registry_says_def same_env_def)

lemma GetSchema_says:
  assumes says: "registry_says L c sc w"
  shows "\<exists>w'. run_state (GetSchema L cl c) w = (Inr sc, w') \<and> registry_says L c sc w' \<and>
    same_env w w' \<and> w_db w' = w_db w \<and> w_streams w' = w_streams w \<and> w_tick w' \<le> w_tick w + 3"
proof -
  obtain x w' where run: "run_state (GetSchema L cl c) w = (x, w')" by force
  have ticks: "w_tick w' \<le> w_tick w + 3"
    using run by (auto simp: GetSchema_def fetchSchema_def run_simps split: option.splits reply.splits if_splits)
  have fetch: "run_state (fetchSchema L cl c) v = (Inr sc, v') \<Longrightarrow> registry_says L c sc v \<Longrightarrow> registry_says L c sc v'"
    and got: "registry_says L c sc v \<Longrightarrow> fst (run_state (fetchSchema L cl c) v) = Inr sc" for v v'
    by (auto simp: fetchSchema_def run_simps registry_says_def split: reply.splits option.splits if_splits)
  have env: "same_env w w'" using GetSchema_obeys(2) run by (rule obeys_run)
  have x: "x = Inr sc \<and> registry_says L c sc w'"
  proof (cases "m_cache (w_mem w) c")
    case None
    then have "run_state (fetchSchema L cl c) w = (x, w')" using run by (simp add: GetSchema_def run_simps)
    then show ?thesis using fetch [of w w'] got [of w] says by auto
  next
    case (Some k)
    have k: "cs_schema k = sc" using says Some by (simp add: registry_says_def)
    have later: "registry_says L c sc (tick w)" using says by (auto simp: registry_says_def)
    show ?thesis
    proof (cases "w_clock w (w_tick w) - cs_fetched k < rc_ttl")
      case True
      then show ?thesis using run Some k later by (auto simp: GetSchema_def run_simps)
    next
      case False
      then have "run_state (fetchSchema L cl c) (tick w) = (x, w')"
        using run Some by (simp add: GetSchema_def run_simps)
      then show ?thesis using fetch [of "tick w" w'] got [of "tick w"] later by auto
    qed
  qed
  with run env ticks GetSchema_frame [OF run] show ?thesis by blast
qed

text \<open>The UUIDs of the ticks before \<open>N\<close> are new event ids and distinct.\<close>

definition fresh_events :: "nat \<Rightarrow> world \<Rightarrow> bool" where
  "fresh_events N w \<longleftrightarrow> (\<forall>n \<in> {w_tick w..<N}. w_uuid w n \<notin> e_id ` set (events (w_db w))) \<and>
     inj_on (w_uuid w) {w_tick w..<N}"

lemma fresh_events_later:
  "fresh_events N w \<Longrightarrow> same_env w w' \<Longrightarrow> events (w_db w') = events (w_db w) \<Longrightarrow> fresh_events N w'"
  unfolding fresh_events_def same_env_def by (auto elim!: inj_on_subset)

definition has_active :: "db \<Rightarrow> string \<Rightarrow> bool" where
  "has_active d n \<longleftrightarrow> (\<exists>c \<in> set (categories d). c_name c = n \<and>
     (\<exists>s \<in> set (schemas d). s_category s = c_id c \<and> s_active s))"

lemma resolveCategory_some:
  assumes "has_active d n"
  shows "\<exists>cat sid. resolveCategory n u t d = (Inr (cat, sid), d) \<and> cat \<in> c_id ` set (categories d) \<and>
    sid \<in> s_id ` set (schemas d)"
proof -
  define xs where "xs = [(c, s). c \<leftarrow> categories d, s \<leftarrow> schemas d, s_category s = c_id c \<and> s_active s \<and> c_name c = n]"
  have mem: "(c, s) \<in> set xs \<longleftrightarrow> c \<in> set (categories d) \<and> s \<in> set (schemas d) \<and> s_category s = c_id c \<and>
      s_active s \<and> c_name c = n" for c s
    by (auto simp: xs_def)
  have "xs \<noteq> []"
    using assms mem unfolding has_active_def by force
  then obtain p rest where o: "order_desc (\<lambda>(c, s). s_version s) xs = p # rest"
    by (cases "order_desc (\<lambda>(c, s). s_version s) xs") simp_all
  obtain c s where p: "p = (c, s)" by (cases p)
  have "resolveCategory n u t d = (Inr (c_id c, s_id s), d)"
    unfolding resolveCategory_def xs_def [symmetric] o p by simp
  moreover have "c \<in> set (categories d)" "s \<in> set (schemas d)"
    using order_desc_hd_max(1) [OF o] mem unfolding p by blast+
  ultimately show ?thesis by auto
qed

definition known_agent :: "libs \<Rightarrow> db \<Rightarrow> envelope \<Rightarrow> bool" where
  "known_agent L d e \<longleftrightarrow> (case l_uuid_parse L (en_agent e) of None \<Rightarrow> True | Some a \<Rightarrow> a \<in> a_id ` set (agents d))"

lemma run_InsertEvent:
  assumes h: "healthy w" and act: "has_active (w_db w) (en_category e)" and fr: "fresh_events N w"
    and N: "w_tick w + 2 \<le> N" and p: "en_payload e = Some p" and ag: "known_agent L (w_db w) e"
  shows "\<exists>r w'. run_state (InsertEvent L e) w = (Inr (), w') \<and>
    w_db w' = (w_db w)\<lparr>events := events (w_db w) @ [r]\<rparr> \<and> w_mem w' = w_mem w \<and>
    same_env w w' \<and> fresh_events N w' \<and> w_tick w' = w_tick w + 2"
proof -
  obtain cat sid where res: "resolveCategory (en_category e) (w_uuid w (w_tick w)) (w_clock w (w_tick w)) (w_db w)
      = (Inr (cat, sid), w_db w)" "cat \<in> c_id ` set (categories (w_db w))" "sid \<in> s_id ` set (schemas (w_db w))"
    using resolveCategory_some [OF act] by blast
  let ?w1 = "tick w" and ?u = "w_uuid w (Suc (w_tick w))"
  have new: "?u \<notin> e_id ` set (events (w_db w))"
    using fr N by (simp add: fresh_events_def)
  define r where "r = \<lparr>e_id = ?u, e_agent = l_uuid_parse L (en_agent e), e_category = cat, e_schema = Some sid,
      e_source = Some (en_source e), e_payload = p, e_occurred = en_timestamp e,
      e_created = w_clock w (Suc (w_tick w))\<rparr>"
  have ins: "insertEventRow (l_uuid_parse L (en_agent e)) cat sid e ?u (w_clock w (Suc (w_tick w))) (w_db w) =
      (Inr (), (w_db w)\<lparr>events := events (w_db w) @ [r]\<rparr>)"
    using new p ag res(2,3) unfolding insertEventRow_def known_agent_def
    by (auto simp: r_def split: option.splits)
  define w' where "w' = tick (?w1\<lparr>w_db := (w_db w)\<lparr>events := events (w_db w) @ [r]\<rparr>\<rparr>)"
  have "w\<lparr>w_db := w_db w\<rparr> = w" by simp
  then have run: "run_state (InsertEvent L e) w = (Inr (), w')"
    using h res(1) ins by (simp add: InsertEvent_def run_simps w'_def)
  have "fresh_events N w'"
    unfolding fresh_events_def
  proof (intro conjI ballI)
    fix n assume "n \<in> {w_tick w'..<N}"
    then have n: "n \<in> {w_tick w..<N}" "Suc (w_tick w) \<in> {w_tick w..<N}" "n \<noteq> Suc (w_tick w)"
      by (simp_all add: w'_def)
    then have "w_uuid w n \<noteq> ?u" "w_uuid w n \<notin> e_id ` set (events (w_db w))"
      using fr unfolding fresh_events_def by (meson inj_onD, blast)
    then show "w_uuid w' n \<notin> e_id ` set (events (w_db w'))" by (simp add: w'_def r_def)
  next
    show "inj_on (w_uuid w') {w_tick w'..<N}"
      using fr unfolding fresh_events_def by (auto simp: w'_def elim!: inj_on_subset)
  qed
  with run show ?thesis
    by (intro exI [of _ r] exI [of _ w']) (simp add: w'_def same_env_def)
qed

end
