(* ===== verification/NormReplay.thy ===== *)
theory NormReplay
  imports NormOutcome
begin

text \<open>
  Replaying succeeds: in a healthy world whose registry has the schema, every pending event that fits it
  is stored and marked replayed, so an approval leaves nothing of its category pending.
\<close>

section \<open>What a replay needs\<close>

definition replay_ready :: "libs \<Rightarrow> string \<Rightarrow> registry_schema \<Rightarrow> nat \<Rightarrow> world \<Rightarrow> bool" where
  "replay_ready L c sc N w \<longleftrightarrow>
     healthy w \<and> has_active (w_db w) c \<and> fresh_events N w \<and> registry_says L c sc w"

definition fits :: "libs \<Rightarrow> db \<Rightarrow> string \<Rightarrow> registry_schema \<Rightarrow> json \<Rightarrow> bool" where
  "fits L d c sc raw \<longleftrightarrow> (\<exists>m (e :: envelope) p. raw = JObj m \<and> dec_envelope L raw = Some e \<and> en_category e = c \<and>
     en_payload e = Some p \<and> validatePayload L (sch_json sc) (Some p) = Inr None \<and> known_agent L d e)"

text \<open>Destinations that need no other service.\<close>

definition local_dest :: "norm_config \<Rightarrow> string \<Rightarrow> bool" where
  "local_dest cfg dest \<longleftrightarrow> dest \<noteq> ''loki'' \<or> nc_loki cfg = []"

definition stored_copies :: "libs \<Rightarrow> registry_schema \<Rightarrow> nat" where
  "stored_copies L sc = length (filter storing (destinations (routing_of L (sch_routing sc))))"

text \<open>The tables replaying does not touch.\<close>

definition same_actors :: "db \<Rightarrow> db \<Rightarrow> bool" where
  "same_actors d d' \<longleftrightarrow> agents d' = agents d \<and> categories d' = categories d \<and> schemas d' = schemas d"

lemma same_actors_simps [simp]:
  "same_actors d d" "same_actors d (d'\<lparr>events := es\<rparr>) = same_actors d d'"
  "same_actors d (d'\<lparr>quarantine_events := qs\<rparr>) = same_actors d d'"
  by (simp_all add: same_actors_def)

lemma same_actors_trans: "same_actors d e \<Longrightarrow> same_actors e f \<Longrightarrow> same_actors d f"
  by (simp add: same_actors_def)

lemma same_actors_keep:
  assumes "same_actors d d'"
  shows "has_active d' c = has_active d c" and "known_agent L d' e = known_agent L d e"
    and "fits L d' c sc raw = fits L d c sc raw"
proof -
  show ka: "known_agent L d' e = known_agent L d e" for e
    using assms by (simp add: same_actors_def known_agent_def split: option.split)
  show "has_active d' c = has_active d c"
    using assms by (simp add: same_actors_def has_active_def)
  show "fits L d' c sc raw = fits L d c sc raw"
    by (simp add: fits_def ka)
qed

lemma replay_ready_later:
  assumes "replay_ready L c sc N w" and "same_env w w'" and "same_actors (w_db w) (w_db w')"
    and "fresh_events N w'" and "m_cache (w_mem w') = m_cache (w_mem w)"
  shows "replay_ready L c sc N w'"
  using assms registry_says_later [of L c sc w w']
  by (simp add: replay_ready_def healthy_same_env same_actors_keep)

section \<open>Routing and processing\<close>

lemma run_routeAll:
  assumes "replay_ready L c sc N w" and "en_category e = c" and "en_payload e = Some p"
    and "known_agent L (w_db w) e" and "list_all (local_dest cfg) ds"
    and "w_tick w + 2 * length (filter storing ds) \<le> N"
  shows "\<exists>rs w'. run_state (routeAll L cfg e ds) w = (Inr (), w') \<and>
    w_db w' = (w_db w)\<lparr>events := events (w_db w) @ rs\<rparr> \<and> length rs = length (filter storing ds) \<and>
    w_mem w' = w_mem w \<and> same_env w w' \<and> fresh_events N w' \<and>
    w_tick w' = w_tick w + 2 * length (filter storing ds)"
  using assms
proof (induction ds arbitrary: w)
  case Nil
  then show ?case
    by (intro exI [of _ "[]"] exI [of _ w]) (simp add: replay_ready_def env.refl_R)
next
  case (Cons dest ds)
  have one: "\<exists>rs v. run_state (route L cfg dest e) w = (Inr (), v) \<and>
      w_db v = (w_db w)\<lparr>events := events (w_db w) @ rs\<rparr> \<and> length rs = (if storing dest then 1 else 0) \<and>
      w_mem v = w_mem w \<and> same_env w v \<and> fresh_events N v \<and>
      w_tick v = w_tick w + (if storing dest then 2 else 0)"
  proof (cases "storing dest")
    case True
    then have route: "route L cfg dest e = insert_route L e"
      by (simp add: route_def storing_def)
    obtain r v where "run_state (InsertEvent L e) w = (Inr (), v)"
      "w_db v = (w_db w)\<lparr>events := events (w_db w) @ [r]\<rparr>" "w_mem v = w_mem w" "same_env w v" "fresh_events N v"
      "w_tick v = w_tick w + 2"
      using run_InsertEvent [where w = w and e = e and L = L and p = p and N = N] Cons.prems True
      by (auto simp: replay_ready_def)
    then show ?thesis
      using True by (intro exI [of _ "[r]"] exI [of _ v]) (simp add: route insert_route_def)
  next
    case False
    then have "run_state (route L cfg dest e) w = (Inr (), w)"
      using Cons.prems by (auto simp: route_def storing_def local_dest_def pushLoki_def)
    with False Cons.prems show ?thesis
      by (intro exI [of _ "[]"] exI [of _ w]) (simp add: replay_ready_def env.refl_R)
  qed
  then obtain rs v where v: "run_state (route L cfg dest e) w = (Inr (), v)"
    "w_db v = (w_db w)\<lparr>events := events (w_db w) @ rs\<rparr>" "length rs = (if storing dest then 1 else 0)"
    "w_mem v = w_mem w" "same_env w v" "fresh_events N v"
    "w_tick v = w_tick w + (if storing dest then 2 else 0)" by blast
  have act: "same_actors (w_db w) (w_db v)" by (simp add: v)
  have "replay_ready L c sc N v"
    using replay_ready_later [OF Cons.prems(1) v(5) act v(6)] v(4) by simp
  then obtain rs' w' where w': "run_state (routeAll L cfg e ds) v = (Inr (), w')"
    "w_db w' = (w_db v)\<lparr>events := events (w_db v) @ rs'\<rparr>" "length rs' = length (filter storing ds)"
    "w_mem w' = w_mem v" "same_env v w'" "fresh_events N w'" "w_tick w' = w_tick v + 2 * length (filter storing ds)"
    using Cons.IH [of v] Cons.prems same_actors_keep(2) [OF act] v(7) by (auto split: if_splits)
  show ?case
    using v w' env.trans_R [OF v(5) w'(5)] by (intro exI [of _ "rs @ rs'"] exI [of _ w']) simp
qed

lemma replay_ready_counts [simp]:
  "m_cache m = m_cache (w_mem w) \<Longrightarrow> replay_ready L c sc N (w\<lparr>w_mem := m\<rparr>) = replay_ready L c sc N w"
  by (simp add: replay_ready_def registry_says_def fresh_events_def)

lemma same_env_mem [simp]: "same_env w (v\<lparr>w_mem := m\<rparr>) = same_env w v"
  by (simp add: same_env_def)

lemma run_Process:
  assumes ready: "replay_ready L c sc N w" and e: "en_category e = c" "en_payload e = Some p"
    and valid: "validatePayload L (sch_json sc) (Some p) = Inr None"
    and ag: "known_agent L (w_db w) e"
    and loc: "list_all (local_dest cfg) (destinations (routing_of L (sch_routing sc)))"
    and N: "w_tick w + 3 + 2 * stored_copies L sc \<le> N"
  shows "\<exists>rs w'. run_state (Process L cfg e) w = (Inr Routed, w') \<and>
    w_db w' = (w_db w)\<lparr>events := events (w_db w) @ rs\<rparr> \<and> length rs = stored_copies L sc \<and>
    replay_ready L c sc N w' \<and> w_tick w' \<le> w_tick w + 3 + 2 * stored_copies L sc"
proof -
  let ?w1 = "w\<lparr>w_mem := (w_mem w)\<lparr>m_counts := (m_counts (w_mem w))\<lparr>ct_processed := ct_processed (m_counts (w_mem w)) + 1\<rparr>\<rparr>\<rparr>"
  have r1: "replay_ready L c sc N ?w1" using ready by simp
  then have says: "registry_says L c sc ?w1" unfolding replay_ready_def by blast
  obtain v where v: "run_state (GetSchema L (nc_registry cfg) c) ?w1 = (Inr sc, v)"
    "registry_says L c sc v" "same_env ?w1 v" "w_db v = w_db ?w1" "w_tick v \<le> w_tick w + 3"
    using GetSchema_says [OF says, of "nc_registry cfg"] by auto
  have "fresh_events N v"
    using r1 v(3,4) by (intro fresh_events_later [of N ?w1 v]) (simp_all add: replay_ready_def)
  then have r2: "replay_ready L c sc N v"
    using r1 v by (simp add: replay_ready_def healthy_same_env)
  obtain rs w2 where w2: "run_state (routeAll L cfg e (destinations (routing_of L (sch_routing sc)))) v = (Inr (), w2)"
    "w_db w2 = (w_db v)\<lparr>events := events (w_db v) @ rs\<rparr>" "length rs = stored_copies L sc"
    "w_mem w2 = w_mem v" "same_env v w2" "fresh_events N w2" "w_tick w2 = w_tick v + 2 * stored_copies L sc"
    using run_routeAll [OF r2 e _ loc] ag v(4,5) N by (auto simp: stored_copies_def)
  have r3: "replay_ready L c sc N w2"
    using replay_ready_later [OF r2 w2(5)] w2 by simp
  show ?thesis
    using v w2 r3 valid e by (intro exI [of _ rs]) (simp add: Process_def run_bump)
qed

section \<open>Replaying one event, and all of a category\<close>

definition marked :: "uuid \<Rightarrow> time \<Rightarrow> db \<Rightarrow> quarantine_row list" where
  "marked qid t d = upd_where (\<lambda>q. q_id q = qid)
     (\<lambda>q. q\<lparr>q_status := ''replayed'', q_replayed_at := Some t, q_updated := t\<rparr>) (quarantine_events d)"

lemma run_ReplayOne:
  assumes ready: "replay_ready L c sc N w" and fits: "fits L (w_db w) c sc (j_map (qe_raw q))"
    and loc: "list_all (local_dest cfg) (destinations (routing_of L (sch_routing sc)))"
    and N: "w_tick w + (4 + 2 * stored_copies L sc) \<le> N"
  shows "\<exists>t w'. run_state (ReplayOne L cfg q) w = (Inr True, w') \<and> replay_ready L c sc N w' \<and>
    same_actors (w_db w) (w_db w') \<and> quarantine_events (w_db w') = marked (qe_id q) t (w_db w) \<and>
    length (events (w_db w')) = length (events (w_db w)) + stored_copies L sc \<and>
    w_tick w' \<le> w_tick w + (4 + 2 * stored_copies L sc)"
proof -
  obtain e p where e: "dec_envelope L (j_map (qe_raw q)) = Some e" "en_category e = c" "en_payload e = Some p"
    "validatePayload L (sch_json sc) (Some p) = Inr None" "known_agent L (w_db w) e"
    using fits unfolding fits_def by blast
  obtain rs v where v: "run_state (Process L cfg e) w = (Inr Routed, v)"
    "w_db v = (w_db w)\<lparr>events := events (w_db w) @ rs\<rparr>" "length rs = stored_copies L sc" "replay_ready L c sc N v"
    "w_tick v \<le> w_tick w + 3 + 2 * stored_copies L sc"
    using run_Process [OF ready e(2-5) loc] N by fastforce
  let ?v = "v\<lparr>w_mem := (w_mem v)\<lparr>m_counts := (m_counts (w_mem v))\<lparr>ct_replayed := ct_replayed (m_counts (w_mem v)) + 1\<rparr>\<rparr>\<rparr>"
  let ?t = "w_clock v (w_tick v)"
  let ?w' = "tick (?v\<lparr>w_db := (w_db v)\<lparr>quarantine_events := marked (qe_id q) ?t (w_db v)\<rparr>\<rparr>)"
  have h: "healthy v" using v(4) by (simp add: replay_ready_def)
  have run: "run_state (ReplayOne L cfg q) w = (Inr True, ?w')"
    using e(1) v(1) h by (simp add: ReplayOne_def run_bump run_simps MarkReplayed_def marked_def)
  have env: "same_env v ?w'" by (simp add: same_env_def)
  have "fresh_events N ?w'"
    using v(4) by (intro fresh_events_later [OF _ env]) (simp_all add: replay_ready_def)
  then have "replay_ready L c sc N ?w'"
    by (intro replay_ready_later [OF v(4) env]) simp_all
  with run show ?thesis
    using v(2,3,5) by (intro exI [of _ ?t] exI [of _ ?w']) (simp add: marked_def)
qed

text \<open>Nothing pending remains of the given events, and every other pending row is as before.\<close>

definition settled :: "uuid set \<Rightarrow> db \<Rightarrow> db \<Rightarrow> bool" where
  "settled ids d d' \<longleftrightarrow> (\<forall>r \<in> set (quarantine_events d'). q_status r = ''pending'' \<longrightarrow>
     r \<in> set (quarantine_events d) \<and> q_id r \<notin> ids)"

lemma settled_marked:
  assumes "quarantine_events d' = marked qid t d"
  shows "settled {qid} d d'"
  unfolding settled_def
proof (intro ballI impI)
  fix r assume r: "r \<in> set (quarantine_events d')" and pend: "q_status r = ''pending''"
  obtain x where x: "x \<in> set (quarantine_events d)"
    "r = (if q_id x = qid then x\<lparr>q_status := ''replayed'', q_replayed_at := Some t, q_updated := t\<rparr> else x)"
    using r unfolding assms marked_def in_upd_where by blast
  show "r \<in> set (quarantine_events d) \<and> q_id r \<notin> {qid}"
    using x pend by (cases "q_id x = qid") simp_all
qed

lemma settled_trans: "settled A d e \<Longrightarrow> settled B e f \<Longrightarrow> settled (A \<union> B) d f"
  by (auto simp: settled_def)

lemma run_replayLoop:
  assumes "replay_ready L c sc N w" and "\<forall>q \<in> set qs. fits L (w_db w) c sc (j_map (qe_raw q))"
    and "list_all (local_dest cfg) (destinations (routing_of L (sch_routing sc)))"
    and "w_tick w + (4 + 2 * stored_copies L sc) * length qs \<le> N"
  shows "\<exists>w'. run_state (replayLoop L cfg qs n) w = (Inr (n + length qs), w') \<and>
    settled (qe_id ` set qs) (w_db w) (w_db w') \<and>
    length (events (w_db w')) = length (events (w_db w)) + stored_copies L sc * length qs"
  using assms(1,2,4)
proof (induction qs arbitrary: w n)
  case Nil
  then show ?case by (simp add: settled_def)
next
  case (Cons q qs)
  obtain t v where v: "run_state (ReplayOne L cfg q) w = (Inr True, v)" "replay_ready L c sc N v"
    "same_actors (w_db w) (w_db v)" "quarantine_events (w_db v) = marked (qe_id q) t (w_db w)"
    "length (events (w_db v)) = length (events (w_db w)) + stored_copies L sc"
    "w_tick v \<le> w_tick w + (4 + 2 * stored_copies L sc)"
    using run_ReplayOne [OF Cons.prems(1) _ assms(3), of q] Cons.prems(2,3) by auto
  obtain w' where w': "run_state (replayLoop L cfg qs (Suc n)) v = (Inr (Suc n + length qs), w')"
    "settled (qe_id ` set qs) (w_db v) (w_db w')"
    "length (events (w_db w')) = length (events (w_db v)) + stored_copies L sc * length qs"
    using Cons.IH [OF v(2), of "Suc n"] Cons.prems(2,3) same_actors_keep(3) [OF v(3)] v(6) by auto
  show ?case
    using v w' settled_trans [OF settled_marked [OF v(4)] w'(2)] by simp
qed

section \<open>An approval\<close>

definition pending_of :: "string \<Rightarrow> db \<Rightarrow> quarantine_row list" where
  "pending_of c d = filter (\<lambda>q. q_status q = ''pending'' \<and> json_category (q_raw q) = Some c) (quarantine_events d)"

lemma QuarantinedByCategory_fits:
  assumes "\<forall>q \<in> set (pending_of c d). fits L d c sc (q_raw q)"
  shows "\<exists>qs. QuarantinedByCategory c u t d = (Inr qs, d) \<and> length qs = length (pending_of c d) \<and>
    qe_id ` set qs = q_id ` set (pending_of c d) \<and> (\<forall>q \<in> set qs. fits L d c sc (j_map (qe_raw q)))"
proof -
  let ?rows = "sort_key q_created (pending_of c d)"
  let ?g = "\<lambda>q. \<lparr>qe_id = q_id q, qe_agent = q_agent q, qe_source = coalesce (q_source q),
      qe_raw = (case q_raw q of JObj m \<Rightarrow> Some m | _ \<Rightarrow> None), qe_reason = coalesce (q_reason q),
      qe_status = q_status q, qe_attempts = q_attempts q, qe_received = q_created q\<rparr>"
  have scan: "scanQuarantine q = Inr (?g q)" "j_map (qe_raw (?g q)) = q_raw q" if "q \<in> set ?rows" for q
  proof -
    have "q \<in> set (pending_of c d)" using that by simp
    with assms have "fits L d c sc (q_raw q)" by blast
    then obtain m where "q_raw q = JObj m" unfolding fits_def by blast
    then show "scanQuarantine q = Inr (?g q)" "j_map (qe_raw (?g q)) = q_raw q"
      by (simp_all add: scanQuarantine_def j_map_def)
  qed
  have "map_res scanQuarantine ?rows = Inr (map ?g ?rows)"
    by (rule map_res_Inr) (rule scan(1))
  then have "QuarantinedByCategory c u t d = (Inr (map ?g ?rows), d)"
    by (simp add: QuarantinedByCategory_def pending_of_def)
  moreover have "\<forall>q \<in> set (map ?g ?rows). fits L d c sc (j_map (qe_raw q))"
    using assms scan(2) by auto
  ultimately show ?thesis
    by (intro exI [of _ "map ?g ?rows"]) (simp add: image_image)
qed

lemma run_handleApproval:
  assumes c: "approved_category L data = c" "c \<noteq> []"
    and w: "healthy w" "has_active (w_db w) c"
      "fresh_events (w_tick w + 1 + (4 + 2 * stored_copies L sc) * length (pending_of c (w_db w))) w"
    and reg: "\<forall>n \<ge> w_tick w. \<exists>body. w_reply w n = Reply 200 body \<and> decode_reply L schema_fields body = Some sc"
    and loc: "list_all (local_dest cfg) (destinations (routing_of L (sch_routing sc)))"
    and fits: "\<forall>q \<in> set (pending_of c (w_db w)). fits L (w_db w) c sc (q_raw q)"
  shows "\<exists>w'. run_state (handleApproval L cfg data) w = (Ack, w') \<and> pending_of c (w_db w') = [] \<and>
    length (events (w_db w')) = length (events (w_db w)) + stored_copies L sc * length (pending_of c (w_db w))"
proof -
  let ?w1 = "tick (w\<lparr>w_mem := (w_mem w)\<lparr>m_cache := (m_cache (w_mem w))(c := None)\<rparr>\<rparr>)"
  define N where "N = w_tick w + 1 + (4 + 2 * stored_copies L sc) * length (pending_of c (w_db w))"
  have "fresh_events N ?w1"
    using w(3) unfolding N_def by (rule fresh_events_later) (simp_all add: same_env_def)
  then have ready: "replay_ready L c sc N ?w1"
    using w reg by (simp add: replay_ready_def registry_says_def)
  obtain qs where qs: "QuarantinedByCategory c (w_uuid w (w_tick w)) (w_clock w (w_tick w)) (w_db w) = (Inr qs, w_db w)"
    "length qs = length (pending_of c (w_db w))" "qe_id ` set qs = q_id ` set (pending_of c (w_db w))"
    "\<forall>q \<in> set qs. fits L (w_db w) c sc (j_map (qe_raw q))"
    using QuarantinedByCategory_fits [OF fits] by blast
  obtain w' where w': "run_state (replayLoop L cfg qs 0) ?w1 = (Inr (length qs), w')"
    "settled (qe_id ` set qs) (w_db w) (w_db w')"
    "length (events (w_db w')) = length (events (w_db w)) + stored_copies L sc * length qs"
    using run_replayLoop [OF ready _ loc, of qs 0] qs(2,4) by (auto simp: N_def)
  have "w\<lparr>w_mem := m, w_db := w_db w\<rparr> = w\<lparr>w_mem := m\<rparr>" for m by simp
  then have run: "run_state (handleApproval L cfg data) w = (Ack, w')"
    using c w(1) qs(1) w'(1)
    by (simp add: handleApproval_def ReplayCategory_def Invalidate_def run_simps)
  have "pending_of c (w_db w') = []"
    using w'(2) qs(3) by (auto simp: pending_of_def settled_def filter_empty_conv)
  with run w'(3) qs(2) show ?thesis by auto
qed

end
