(* ===== verification/NormApi.thy ===== *)
theory NormApi
  imports NormReplay
begin

text \<open>
  \<open>internal/normalizer/server.go\<close>: the HTTP API of the normalizer, its handlers and its routing table.
  The metrics endpoint answers what the library's handler, a field of \<open>libs\<close>, makes of the counters.
\<close>

record norm_server =
  nz_config :: norm_config
  nz_auth :: token_auth

definition j_quarantine_event :: "libs \<Rightarrow> quarantine_event \<Rightarrow> json" where
  "j_quarantine_event L q = JObj
     ([(''event_id'', j_uuid L (qe_id q))] @
      (case qe_agent q of None \<Rightarrow> [] | Some a \<Rightarrow> [(''agent_id'', j_uuid L a)]) @
      omit_empty ''source'' (qe_source q) @
      [(''raw_payload'', j_map (qe_raw q)), (''reason'', JStr (qe_reason q)), (''status'', JStr (qe_status q)),
       (''attempts'', j_int (qe_attempts q)), (''received_at'', j_time L (qe_received q))])"

definition handleListQuarantine :: "libs \<Rightarrow> handler" where
  "handleListQuarantine L i r = do {
     x \<leftarrow> ListQuarantined (query_param r ''status'');
     ret (case x of
        Inl e \<Rightarrow> WriteError 500 ''list failed''
      | Inr (qs, n) \<Rightarrow> WriteJSON 200 (JObj
          [(''events'', JArr (map (j_quarantine_event L) qs)), (''total'', j_int n)]))
   }"

definition handleGetQuarantine :: "libs \<Rightarrow> handler" where
  "handleGetQuarantine L i r =
     (case l_uuid_parse L (url_param r ''event_id'') of
        None \<Rightarrow> ret (WriteError 400 ''invalid event_id'')
      | Some qid \<Rightarrow> do {
          x \<leftarrow> sql (GetQuarantined qid);
          ret (case x of
             Inl e \<Rightarrow> if e = ErrNotFound then WriteError 404 ''event not found''
                     else WriteError 500 ''lookup failed''
           | Inr q \<Rightarrow> WriteJSON 200 (JObj
               [(''event_id'', j_uuid L (qe_id q)), (''raw_payload'', j_map (qe_raw q)),
                (''attempts'', j_int (qe_attempts q)), (''received_at'', j_time L (qe_received q)),
                (''reason'', JStr (qe_reason q)), (''status'', JStr (qe_status q))]))
        })"

definition handleReplayOne :: "libs \<Rightarrow> norm_server \<Rightarrow> handler" where
  "handleReplayOne L s i r =
     (case l_uuid_parse L (url_param r ''event_id'') of
        None \<Rightarrow> ret (WriteError 400 ''invalid event_id'')
      | Some qid \<Rightarrow> do {
          x \<leftarrow> sql (GetQuarantined qid);
          (case x of
             Inl e \<Rightarrow> ret (if e = ErrNotFound then WriteError 404 ''event not found''
                          else WriteError 500 ''lookup failed'')
           | Inr q \<Rightarrow>
               if qe_status q \<noteq> ''pending'' then ret (WriteError 400 ''event is not pending replay'')
               else do {
                 y \<leftarrow> ReplayOne L (nz_config s) q;
                 ret (case y of
                    Inl e \<Rightarrow> WriteError 500 ''replay failed''
                  | Inr ok \<Rightarrow> WriteJSON 200 (JObj
                      [(''event_id'', j_uuid L qid),
                       (''status'', JStr (if ok then ''replayed'' else ''still_failing''))]))
               })
        })"

definition handleReplayCategory :: "libs \<Rightarrow> norm_server \<Rightarrow> handler" where
  "handleReplayCategory L s i r =
     (let category = url_param r ''category'' in do {
        x \<leftarrow> GetSchema L (nc_registry (nz_config s)) category;
        (case x of
           Inl e \<Rightarrow> ret (if e = ErrSchemaNotFound then WriteError 404 ''no schema for category''
                        else WriteError 502 ''schema registry unreachable'')
         | Inr _ \<Rightarrow> do {
             y \<leftarrow> ReplayCategory L (nz_config s) category;
             ret (case y of
                Inl e \<Rightarrow> WriteError 500 ''replay failed''
              | Inr n \<Rightarrow> WriteJSON 200 (JObj
                  [(''category'', JStr category), (''queued_count'', j_int (int n))]))
           })
      })"

definition handleRoutingStats :: "libs \<Rightarrow> handler" where
  "handleRoutingStats L i r = do {
     x \<leftarrow> Stats;
     (let (throughput, failed, quarantined) = x in
      ret (WriteJSON 200 (JObj
        [(''throughput'', JNum (l_float_print L throughput)),
         (''validation_failure_rate'', JNum (l_float_print L failed)),
         (''quarantine_rate'', JNum (l_float_print L quarantined))])))
   }"

definition nz_handleMetrics :: "libs \<Rightarrow> request \<Rightarrow> response io" where
  "nz_handleMetrics L r = do {
     m \<leftarrow> recall m_norm_metrics;
     ret (l_promhttp L [nm_routed m] r)
   }"

datatype norm_route =
  NGetHealth | NGetMetrics | NGetQuarantine | NGetQuarantineOf | NPostReplayOf | NPostReplayCategory | NGetStats

definition norm_handler :: "libs \<Rightarrow> norm_server \<Rightarrow> norm_route \<Rightarrow> handler option" where
  "norm_handler L s rt =
     (case rt of
        NGetHealth \<Rightarrow> None
      | NGetMetrics \<Rightarrow> None
      | NGetQuarantine \<Rightarrow> Some (handleListQuarantine L)
      | NGetQuarantineOf \<Rightarrow> Some (handleGetQuarantine L)
      | NPostReplayOf \<Rightarrow> Some (handleReplayOne L s)
      | NPostReplayCategory \<Rightarrow> Some (handleReplayCategory L s)
      | NGetStats \<Rightarrow> Some (handleRoutingStats L))"

definition norm_Router :: "libs \<Rightarrow> norm_server \<Rightarrow> norm_route \<Rightarrow> request \<Rightarrow> response io" where
  "norm_Router L s rt =
     CORS (case norm_handler L s rt of
        Some h \<Rightarrow> Middleware L (nz_auth s) h
      | None \<Rightarrow> if rt = NGetMetrics then nz_handleMetrics L
          else (\<lambda>r. ret (WriteJSON 200 (JObj [(''status'', JStr ''ok'')]))))"

section \<open>Everything the service reacts to\<close>

text \<open>A message of the ingest consumer, a message of the approvals consumer, or an HTTP request; the
  service handles them one after the other.\<close>

datatype norm_input = Ingest payload | Approval payload | NormHttp norm_route request

datatype norm_output = Disposed disposition | Answered response

definition norm_step :: "libs \<Rightarrow> norm_server \<Rightarrow> norm_input \<Rightarrow> norm_output io" where
  "norm_step L s input =
     (case input of
        Ingest data \<Rightarrow> do { x \<leftarrow> handleIngest L (nz_config s) data; ret (Disposed x) }
      | Approval data \<Rightarrow> do { x \<leftarrow> handleApproval L (nz_config s) data; ret (Disposed x) }
      | NormHttp rt r \<Rightarrow> do { x \<leftarrow> norm_Router L s rt r; ret (Answered x) })"

fun norm_serve :: "libs \<Rightarrow> norm_server \<Rightarrow> norm_input list \<Rightarrow> norm_output list io" where
  "norm_serve L s [] = ret []"
| "norm_serve L s (i # inputs) = do {
     x \<leftarrow> norm_step L s i;
     xs \<leftarrow> norm_serve L s inputs;
     ret (x # xs)
   }"

section \<open>The service under the worker's relations\<close>

locale service_relation = worker_relation +
  assumes obeys_lookups: "obeys R (sql (selectQuarantined st))" "obeys R (sql (countQuarantined st))"
      "obeys R (sql (GetQuarantined q))" "obeys R (sql (select_live_key h))"
begin

lemma norm_handlers:
  assumes h: "norm_handler L s rt = Some g"
  shows "obeys R (g i r)"
  using h
  by (cases rt)
    (auto simp: norm_handler_def handleListQuarantine_def ListQuarantined_def handleGetQuarantine_def
      handleReplayOne_def handleReplayCategory_def handleRoutingStats_def Stats_def Let_def
      intro!: obeys_control obeys_effects obeys_lookups GetSchema ReplayOne ReplayCategory)

lemma norm_Router: "obeys R (norm_Router L s rt r)"
  unfolding norm_Router_def
  by (intro obeys_CORS)
    (auto simp: nz_handleMetrics_def split: option.split
      intro!: obeys_Middleware obeys_lookups obeys_effects obeys_control intro: norm_handlers)

lemma norm_step: "obeys R (norm_step L s i)"
  by (cases i) (auto simp: norm_step_def intro!: obeys_bind obeys_ret norm_Router consumers)

lemma norm_serve: "obeys R (norm_serve L s inputs)"
  by (induction inputs) (auto intro!: obeys_bind obeys_ret norm_step)

end

interpretation sinv: service_relation "inv_rel db_inv"
  by unfold_locales (intro keeps_reads reads_norm reads_select_live_key)+

interpretation strail: service_relation trail_rel
  by unfold_locales (intro trail_reads reads_norm reads_select_live_key)+

interpretation skept: service_relation events_kept
  by unfold_locales
    (rule events_kept_sql; simp add: selectQuarantined_def countQuarantined_def GetQuarantined_def select_live_key_def)+

end
