(* ===== verification/NormCounts.thy ===== *)
theory NormCounts
  imports NormApi
begin

text \<open>
  The counters of the worker: every processed event is counted as routed or as failed at most once, and
  only routed events are counted as replayed. The rates of \<open>Stats\<close> rest on this.
\<close>

abbreviation counts :: "world \<Rightarrow> counters" where
  "counts w \<equiv> m_counts (w_mem w)"

section \<open>What leaves the counters alone\<close>

definition counts_same :: "world \<Rightarrow> world \<Rightarrow> bool" where
  "counts_same w w' \<longleftrightarrow> counts w' = counts w"

interpretation cs: run_relation counts_same
  by unfold_locales (auto simp: counts_same_def)

lemma counts_sameI: "obeys same_memory m \<Longrightarrow> obeys counts_same m"
  by (simp add: obeys_def counts_same_def same_memory_def)

lemmas counts_same_effects = same_memory_effects [THEN counts_sameI]

lemma counts_same_cache: "obeys counts_same (remember (\<lambda>m. m\<lparr>m_cache := f m\<rparr>))"
  by (rule obeysI) (simp add: counts_same_def remember_def)

lemmas counts_same_intros = cs.obeys_control counts_same_effects counts_same_cache

lemma counts_same_GetSchema: "obeys counts_same (GetSchema L c n)"
  unfolding GetSchema_def fetchSchema_def by (intro counts_same_intros)

lemma counts_same_routeAll: "obeys counts_same (routeAll L cfg e ds)"
proof (induction ds)
  case (Cons dest ds)
  have "obeys counts_same (route L cfg dest e)"
    unfolding route_def insert_route_def pushLoki_def InsertEvent_def by (intro counts_same_intros)
  then show ?case using Cons by (auto intro!: counts_same_intros)
qed (simp add: cs.obeys_ret)

lemma counts_same_record: "obeys counts_same (Quarantine L e reason)"
  unfolding Quarantine_def by (intro counts_same_intros)

section \<open>One event\<close>

lemma counts_into_quarantine:
  assumes "run_state (into_quarantine L e reason) w = (x, w')"
  shows "counts w' = (if x = Inr Quarantined then (counts w)\<lparr>ct_quarantined := ct_quarantined (counts w) + 1\<rparr>
    else counts w)" and "x \<noteq> Inr Routed"
proof -
  obtain y v where y: "run_state (Quarantine L e reason) w = (y, v)" by force
  obtain z v2 where z: "run_state (publish ''quarantine.unknown'' (JsonBody (j_envelope L e))) v = (z, v2)" by force
  have "counts v = counts w" "counts v2 = counts v"
    using obeys_run [OF counts_same_record y] obeys_run [OF counts_same_effects(2) z] by (simp_all add: counts_same_def)
  then have c: "counts v = counts w" "counts v2 = counts w" by simp_all
  have run: "(x, w') = (case y of Inl err \<Rightarrow> (Inl (RecordError err), v)
      | Inr _ \<Rightarrow> (case z of Inl err \<Rightarrow> (Inl (PublishError err), v2)
          | Inr _ \<Rightarrow> (Inr Quarantined, v2\<lparr>w_mem := (w_mem v2)\<lparr>m_counts := (counts v2)\<lparr>ct_quarantined := ct_quarantined (counts v2) + 1\<rparr>\<rparr>\<rparr>)))"
    unfolding assms [symmetric] by (simp add: into_quarantine_def quarantine_def y z run_bump split: sum.split)
  show "counts w' = (if x = Inr Quarantined then (counts w)\<lparr>ct_quarantined := ct_quarantined (counts w) + 1\<rparr>
      else counts w)"
    using run c by (cases y; cases z) simp_all
  show "x \<noteq> Inr Routed"
    using run by (cases y; cases z) simp_all
qed

text \<open>How one processed event moves the counters.\<close>

definition counted :: "proc_error + proc_result \<Rightarrow> counters \<Rightarrow> counters \<Rightarrow> bool" where
  "counted x c c' \<longleftrightarrow>
     ct_processed c' = ct_processed c + 1 \<and> ct_replayed c' = ct_replayed c \<and> ct_started c' = ct_started c \<and>
     ct_routed c' = ct_routed c + (if x = Inr Routed then 1 else 0) \<and>
     ct_quarantined c' = ct_quarantined c + (if x = Inr Quarantined then 1 else 0) \<and>
     ct_failed c \<le> ct_failed c' \<and> ct_routed c' + ct_failed c' \<le> ct_routed c + ct_failed c + 1"

lemma Process_counted:
  assumes run: "run_state (Process L cfg e) w = (x, w')"
  shows "counted x (counts w) (counts w')"
proof -
  let ?w1 = "w\<lparr>w_mem := (w_mem w)\<lparr>m_counts := (counts w)\<lparr>ct_processed := ct_processed (counts w) + 1\<rparr>\<rparr>\<rparr>"
  obtain y v where y: "run_state (GetSchema L (nc_registry cfg) (en_category e)) ?w1 = (y, v)" by force
  have v: "counts v = (counts w)\<lparr>ct_processed := ct_processed (counts w) + 1\<rparr>"
    using obeys_run [OF counts_same_GetSchema y] by (simp add: counts_same_def)
  show ?thesis
  proof (cases y)
    case (Inl err)
    show ?thesis
    proof (cases "err = ErrSchemaNotFound")
      case True
      then have "run_state (into_quarantine L e ''unknown_category'') v = (x, w')"
        using run y Inl by (simp add: Process_def run_bump)
      from counts_into_quarantine [OF this] v show ?thesis by (simp add: counted_def)
    next
      case False
      then show ?thesis using run y Inl v by (auto simp: Process_def run_bump counted_def)
    qed
  next
    case (Inr sc)
    show ?thesis
    proof (cases "validatePayload L (sch_json sc) (en_payload e)")
      case (Inl err)
      then show ?thesis using run y Inr v by (auto simp: Process_def run_bump counted_def)
    next
      case val: (Inr o')
      show ?thesis
      proof (cases o')
        case (Some reason)
        let ?v2 = "v\<lparr>w_mem := (w_mem v)\<lparr>m_counts := (counts v)\<lparr>ct_failed := ct_failed (counts v) + 1\<rparr>\<rparr>\<rparr>"
        have "run_state (into_quarantine L e (''schema_validation_failed: '' @ reason)) ?v2 = (x, w')"
          using run y Inr val Some by (simp add: Process_def run_bump)
        from counts_into_quarantine [OF this] v show ?thesis by (simp add: counted_def)
      next
        case None
        obtain z v2 where z: "run_state (routeAll L cfg e (destinations (routing_of L (sch_routing sc)))) v = (z, v2)"
          by force
        have "counts v2 = counts v"
          using obeys_run [OF counts_same_routeAll z] by (simp add: counts_same_def)
        then show ?thesis
          using run y Inr val None z v by (cases z) (auto simp: Process_def run_bump counted_def)
      qed
    qed
  qed
qed

section \<open>The invariant of the counters\<close>

definition counts_ok :: "counters \<Rightarrow> bool" where
  "counts_ok c \<longleftrightarrow> 0 \<le> ct_replayed c \<and> ct_replayed c \<le> ct_routed c \<and> 0 \<le> ct_failed c \<and>
     ct_routed c + ct_failed c \<le> ct_processed c \<and> 0 \<le> ct_quarantined c"

definition counts_rel :: "world \<Rightarrow> world \<Rightarrow> bool" where
  "counts_rel w w' \<longleftrightarrow> (counts_ok (counts w) \<longrightarrow> counts_ok (counts w'))"

interpretation cr: run_relation counts_rel
  by unfold_locales (auto simp: counts_rel_def)

lemma counts_relI: "obeys counts_same m \<Longrightarrow> obeys counts_rel m"
  by (simp add: obeys_def counts_same_def counts_rel_def)

lemma counted_ok: "counted x c c' \<Longrightarrow> counts_ok c \<Longrightarrow> counts_ok c'"
  by (simp add: counted_def counts_ok_def split: if_splits)

lemma counts_rel_Process: "obeys counts_rel (Process L cfg e)"
proof (rule obeysI)
  fix w
  obtain x w' where "run_state (Process L cfg e) w = (x, w')" by force
  with Process_counted [OF this] show "counts_rel w (snd (run_state (Process L cfg e) w))"
    by (auto simp: counts_rel_def dest: counted_ok)
qed

lemma counts_rel_ReplayOne: "obeys counts_rel (ReplayOne L cfg q)"
proof (cases "dec_envelope L (j_map (qe_raw q))")
  case None
  have "obeys counts_same (ReplayOne L cfg q)"
    unfolding ReplayOne_def None option.case by (intro counts_same_intros)
  then show ?thesis by (rule counts_relI)
next
  case (Some e)
  show ?thesis
  proof (rule obeysI)
    fix w
    obtain x v where x: "run_state (Process L cfg e) w = (x, v)" by force
    note c = Process_counted [OF x]
    show "counts_rel w (snd (run_state (ReplayOne L cfg q) w))"
    proof (cases "x = Inr Routed")
      case True
      let ?v = "v\<lparr>w_mem := (w_mem v)\<lparr>m_counts := (counts v)\<lparr>ct_replayed := ct_replayed (counts v) + 1\<rparr>\<rparr>\<rparr>"
      obtain y w' where y: "run_state (sql (MarkReplayed (qe_id q))) ?v = (y, w')" by force
      have "counts w' = counts ?v"
        using obeys_run [OF counts_same_effects(1) y] by (simp add: counts_same_def)
      moreover have "snd (run_state (ReplayOne L cfg q) w) = w'"
        using Some x True y by (simp add: ReplayOne_def run_bump)
      ultimately show ?thesis
        using c True by (simp add: counts_rel_def counted_def counts_ok_def)
    next
      case False
      then have "snd (run_state (ReplayOne L cfg q) w) = v"
        using Some x by (cases x; cases "projr x") (auto simp: ReplayOne_def)
      then show ?thesis using counted_ok [OF c] by (simp add: counts_rel_def)
    qed
  qed
qed

lemma counts_rel_replayLoop: "obeys counts_rel (replayLoop L cfg qs n)"
  by (induction qs arbitrary: n) (auto intro!: cr.obeys_control counts_rel_ReplayOne)

lemmas counts_rel_effects = counts_same_effects [THEN counts_relI] counts_same_cache [THEN counts_relI]

lemma counts_rel_ReplayCategory: "obeys counts_rel (ReplayCategory L cfg c)"
  unfolding ReplayCategory_def by (intro cr.obeys_control counts_rel_effects counts_rel_replayLoop)

lemma counts_rel_consumers:
  "obeys counts_rel (handleIngest L cfg data)" "obeys counts_rel (handleApproval L cfg data)"
proof -
  have "obeys counts_rel (bump (\<lambda>c. c\<lparr>ct_quarantined := ct_quarantined c + 1\<rparr>))"
    by (rule obeysI) (simp add: run_bump counts_rel_def counts_ok_def)
  then show "obeys counts_rel (handleIngest L cfg data)"
    unfolding handleIngest_def by (intro cr.obeys_control counts_rel_Process)
  show "obeys counts_rel (handleApproval L cfg data)"
    unfolding handleApproval_def Let_def Invalidate_def
    by (intro cr.obeys_control counts_rel_effects counts_rel_ReplayCategory)
qed

lemma counts_rel_handler: "norm_handler L s rt = Some g \<Longrightarrow> obeys counts_rel (g i r)"
  by (cases rt)
    (auto simp: norm_handler_def handleListQuarantine_def ListQuarantined_def handleGetQuarantine_def
      handleReplayOne_def handleReplayCategory_def handleRoutingStats_def Stats_def Let_def
      intro!: cr.obeys_control counts_rel_effects counts_relI [OF counts_same_GetSchema]
        counts_rel_ReplayOne counts_rel_ReplayCategory)

lemma counts_rel_serve: "obeys counts_rel (norm_serve L s inputs)"
proof (induction inputs)
  case (Cons i inputs)
  have "obeys counts_rel (norm_Router L s rt r)" for rt r
    unfolding norm_Router_def
    by (intro cr.obeys_CORS)
      (auto simp: nz_handleMetrics_def split: option.split
        intro!: cr.obeys_Middleware counts_rel_effects cr.obeys_control intro: counts_rel_handler)
  then have "obeys counts_rel (norm_step L s i)"
    by (cases i) (auto simp: norm_step_def intro!: cr.obeys_bind cr.obeys_ret counts_rel_consumers)
  with Cons show ?case by (auto intro!: cr.obeys_bind cr.obeys_ret)
qed (simp add: cr.obeys_ret)

section \<open>The rates\<close>

lemma Stats_run:
  "\<exists>t. run_state Stats w = ((t,
     if ct_processed (counts w) > 0 then rat_of_int (ct_failed (counts w)) / rat_of_int (ct_processed (counts w)) else 0,
     if ct_processed (counts w) > 0 then rat_of_int (ct_quarantined (counts w)) / rat_of_int (ct_processed (counts w)) else 0),
     tick w)"
  by (simp add: Stats_def run_simps Let_def)

end
