(* ===== verification/NormDemo.thy ===== *)
theory NormDemo
  imports NormCounts Demo
begin

text \<open>The worlds the normalizer's witnesses run in: one category with an active schema, and one event
  pending in the quarantine that fits it. The registry answers every lookup with the schema, or with 404.\<close>

definition demo_envelope :: envelope where
  "demo_envelope = \<lparr>en_event = demo_uuid_string 30, en_agent = demo_uuid_string 1, en_slug = ''crawler-0'',
     en_category = ''orders'', en_source = ''api'', en_timestamp = 1000, en_payload = Some [(''k'', JStr ''v'')],
     en_received = 2000\<rparr>"

definition demo_category :: category_row where
  "demo_category = \<lparr>c_id = 20, c_name = ''orders'', c_description = None, c_created = 0, c_updated = 0\<rparr>"

definition demo_schema :: schema_row where
  "demo_schema = \<lparr>s_id = 21, s_category = 20, s_version = 1, s_json = [(''type'', JStr ''object'')],
     s_routing = Some ''target: both'', s_sha = None, s_active = True, s_created_by = None,
     s_created = 0, s_updated = 0\<rparr>"

definition demo_pending :: quarantine_row where
  "demo_pending = \<lparr>q_id = 30, q_agent = None, q_source = Some ''api'', q_raw = j_envelope demo_libs demo_envelope,
     q_reason = Some ''unknown_category'', q_status = ''pending'', q_replayed_at = None, q_attempts = 0,
     q_created = 0, q_updated = 0\<rparr>"

definition demo_norm_db :: db where
  "demo_norm_db = demo_db\<lparr>categories := [demo_category], schemas := [demo_schema],
     quarantine_events := [demo_pending]\<rparr>"

definition demo_norm_world :: world where
  "demo_norm_world = demo_world\<lparr>w_db := demo_norm_db, w_reply := (\<lambda>_. Reply 200 (RawBody ''schema''))\<rparr>"

definition demo_lost_world :: world where
  "demo_lost_world = demo_world\<lparr>w_db := demo_norm_db, w_reply := (\<lambda>_. Reply 404 NoBody)\<rparr>"

lemma demo_norm_inv: "db_inv (w_db demo_norm_world)" "db_inv (w_db demo_lost_world)"
  by (simp_all add: demo_norm_world_def demo_lost_world_def demo_norm_db_def demo_db_def empty_db_def db_inv_defs
      versions_ok_def cat_rows_def chain_ok_def demo_category_def demo_schema_def demo_pending_def demo_agent_def
      demo_key_def demo_proposal_def unique_by_def)

definition demo_norm_config :: norm_config where
  "demo_norm_config = \<lparr>nc_registry = \<lparr>rc_url = ''http://registry'', rc_token = ''t''\<rparr>, nc_loki = []\<rparr>"

definition demo_norm :: norm_server where
  "demo_norm = \<lparr>nz_config = demo_norm_config, nz_auth = demo_auth\<rparr>"

abbreviation demo_message :: payload where
  "demo_message \<equiv> JsonBody (j_envelope demo_libs demo_envelope)"

definition demo_registry_schema :: registry_schema where
  "demo_registry_schema = \<lparr>sch_category = ''orders'', sch_version = 0,
     sch_json = Some [(''type'', JStr ''object'')], sch_routing = ''target: both''\<rparr>"

section \<open>These worlds meet the hypotheses of the theorems\<close>

lemma demo_norm_healthy: "healthy demo_norm_world" "healthy demo_lost_world"
  by (simp_all add: healthy_def demo_norm_world_def demo_lost_world_def demo_world_def)

lemma demo_norm_active: "has_active (w_db demo_norm_world) ''orders''"
  by (simp add: has_active_def demo_norm_world_def demo_norm_db_def demo_category_def demo_schema_def)

lemma fresh_events_mono: "fresh_events N w \<Longrightarrow> M \<le> N \<Longrightarrow> fresh_events M w"
  by (auto simp: fresh_events_def elim!: inj_on_subset)

lemma demo_fresh: "fresh_events 1000 demo_norm_world"
proof -
  have "inj_on (word_of_nat :: nat \<Rightarrow> uuid) {100..<1000}"
  proof (rule inj_onI)
    fix m n :: nat
    assume mn: "m \<in> {100..<1000}" "n \<in> {100..<1000}" and eq: "(word_of_nat m :: uuid) = word_of_nat n"
    have "unat (word_of_nat m :: uuid) = m" "unat (word_of_nat n :: uuid) = n"
      using mn by (simp_all add: unat_of_nat)
    with eq show "m = n" by metis
  qed
  then show ?thesis
    by (simp add: fresh_events_def demo_norm_world_def demo_world_def demo_norm_db_def demo_db_def empty_db_def)
qed

lemma demo_reply: "decode_reply demo_libs schema_fields (RawBody ''schema'') = Some demo_registry_schema"
  by code_simp

lemma demo_replies:
  "\<forall>n \<ge> w_tick demo_norm_world. \<exists>body. w_reply demo_norm_world n = Reply 200 body \<and>
     decode_reply demo_libs schema_fields body = Some demo_registry_schema"
  by (simp add: demo_norm_world_def demo_reply)

lemma demo_copies: "stored_copies demo_libs demo_registry_schema = 1"
  "list_all (local_dest demo_norm_config) (destinations (routing_of demo_libs (sch_routing demo_registry_schema)))"
  by code_simp+

lemma demo_decodes: "dec_envelope demo_libs (j_envelope demo_libs demo_envelope) = Some demo_envelope"
  by (rule dec_envelope_j_envelope [OF demo_laws(2)]) (simp_all add: demo_envelope_def rfc3339_time_def)

lemma demo_pending_of: "pending_of ''orders'' (w_db demo_norm_world) = [demo_pending]"
  by (simp add: pending_of_def demo_norm_world_def demo_norm_db_def demo_pending_def demo_envelope_def)

lemma demo_known: "known_agent demo_libs (w_db demo_norm_world) demo_envelope"
  by (simp add: known_agent_def demo_norm_world_def demo_norm_db_def demo_db_def demo_envelope_def demo_libs_def
      demo_uuid demo_agent_def)

lemma demo_fits: "fits demo_libs (w_db demo_norm_world) ''orders'' demo_registry_schema (q_raw demo_pending)"
proof -
  have "q_raw demo_pending = j_envelope demo_libs demo_envelope" by (simp add: demo_pending_def)
  moreover have "\<exists>m. j_envelope demo_libs demo_envelope = JObj m" by (simp add: j_envelope_def)
  moreover have "en_category demo_envelope = ''orders''" "en_payload demo_envelope = Some [(''k'', JStr ''v'')]"
    by (simp_all add: demo_envelope_def)
  moreover have "validatePayload demo_libs (sch_json demo_registry_schema) (Some [(''k'', JStr ''v'')]) = Inr None"
    by (simp add: validatePayload_def demo_libs_def)
  ultimately show ?thesis
    unfolding fits_def using demo_decodes demo_known by metis
qed

lemma demo_envelope_decodes: "message_envelope demo_libs demo_message = Some demo_envelope"
  unfolding message_envelope_def message_json_def payload.case option.case
  by (rule demo_decodes)

end
