(* ===== verification/NormProps.thy ===== *)
theory NormProps
  imports NormDemo
begin

text \<open>The properties of the normalizer, each with its witness.\<close>

section \<open>Consumed messages\<close>

text \<open>C4. No acknowledged event is lost: when the ingest consumer acknowledges a message that decodes to an
  envelope, then either the payload met its category's schema and one row per storing destination was
  added to the events table with the envelope's agent, payload, source, time and category and an active
  schema of that category, or a row of the
  quarantine holds the reason (under the envelope's event id, with the whole envelope when it is new)
  and the envelope was published on \<open>quarantine.unknown\<close>.\<close>

theorem acked_event_is_kept:
  assumes "run_state (handleIngest L cfg data) w = (Ack, w')" and "message_envelope L data = Some e"
  shows "(\<exists>(sc :: registry_schema) rs. validatePayload L (sch_json sc) (en_payload e) = Inr None \<and>
        w_db w' = (w_db w)\<lparr>events := events (w_db w) @ rs\<rparr> \<and>
        length rs = length (filter storing (destinations (routing_of L (sch_routing sc)))) \<and>
        list_all (event_for L e (w_db w)) rs \<and> w_streams w' = w_streams w) \<or>
    ((\<exists>reason. quarantined_as L e reason (w_db w) (w_db w')) \<and> events (w_db w') = events (w_db w) \<and>
        w_streams w' = w_streams w @ [(''quarantine.unknown'', JsonBody (j_envelope L e))])"
proof -
  obtain x v where x: "run_state (Process L cfg e) w = (x, v)" by force
  then obtain res where "x = Inr res" "v = w'"
    using assms by (cases x) (auto simp: handleIngest_def)
  then have "run_state (Process L cfg e) w = (Inr res, w')" using x by simp
  from Process_ok [OF this] show ?thesis by blast
qed

lemma demo_lost_acked:
  "fst (run_state (handleIngest demo_libs demo_norm_config demo_message) demo_lost_world) = Ack"
proof -
  let ?w = "demo_lost_world"
  have mem: "m_cache (w_mem ?w) c = None" "w_reply ?w = (\<lambda>_. Reply 404 NoBody)" for c
    by (simp_all add: demo_lost_world_def demo_world_def fresh_memory_def)
  have uuid: "l_uuid_parse demo_libs (en_event demo_envelope) = Some 30"
    by (simp add: demo_libs_def demo_envelope_def demo_uuid)
  have up: "fst (upsertQuarantine 30 a s raw rs u t (w_db ?w)) = Inr ()" for a s raw rs u t
    by (simp add: upsertQuarantine_def demo_lost_world_def demo_norm_db_def demo_pending_def)
  show ?thesis
    using demo_norm_healthy(2) up
    by (simp add: handleIngest_def demo_envelope_decodes Process_def GetSchema_def fetchSchema_def run_bump run_simps mem
      into_quarantine_def quarantine_def Quarantine_def uuid split: prod.split)
qed

theorem acked_event_is_kept_witness:
  "\<exists>w'. run_state (handleIngest demo_libs demo_norm_config demo_message) demo_lost_world = (Ack, w') \<and>
     quarantine_events (w_db w') \<noteq> []"
proof -
  let ?r = "run_state (handleIngest demo_libs demo_norm_config demo_message) demo_lost_world"
  obtain w' where run: "?r = (Ack, w')" using demo_lost_acked by (metis prod.collapse)
  have "quarantine_events (w_db demo_lost_world) \<noteq> []"
    by (simp add: demo_lost_world_def demo_norm_db_def)
  with acked_event_is_kept [OF run demo_envelope_decodes]
  have "quarantine_events (w_db w') \<noteq> []" by (auto simp: quarantined_as_def)
  with run show ?thesis by blast
qed

text \<open>Whatever messages and requests the normalizer serves, in whatever order and whatever fails, the
  events table only grows at its end, no quarantined event is dropped or changes its stored envelope,
  the constraints of all tables and the version discipline keep holding, and reviewed proposals and
  the audit log stay untouched.\<close>

theorem nothing_recorded_is_lost:
  assumes "run_state (norm_serve L s inputs) w = (outs, w')" and "db_inv (w_db w)"
  shows "prefix (events (w_db w)) (events (w_db w')) \<and> quarantine_kept (w_db w) (w_db w') \<and>
    db_inv (w_db w') \<and> trail (w_db w) (w_db w')"
proof -
  have "events_kept w w'" "trail_rel w w'" "inv_rel db_inv w w'"
    using obeys_run [OF skept.norm_serve assms(1)] obeys_run [OF strail.norm_serve assms(1)]
      obeys_run [OF sinv.norm_serve assms(1)] by simp_all
  with assms(2) show ?thesis
    by (simp_all add: events_kept_def trail_rel_def inv_rel_def)
qed

theorem nothing_recorded_is_lost_witness:
  "db_inv (w_db (snd (run_state (norm_serve demo_libs demo_norm [Ingest demo_message, Approval NoBody]) demo_norm_world)))"
  using nothing_recorded_is_lost [OF surjective_pairing demo_norm_inv(1)] by blast



text \<open>A message that is no envelope is acknowledged and counted as quarantined, but nothing is recorded:
  the database and the streams stay as they are, so its bytes are gone.\<close>

theorem unparseable_only_counted:
  assumes "message_envelope L data = None"
  shows "run_state (handleIngest L cfg data) w =
    (Ack, w\<lparr>w_mem := (w_mem w)\<lparr>m_counts := (counts w)\<lparr>ct_quarantined := ct_quarantined (counts w) + 1\<rparr>\<rparr>\<rparr>)"
  using assms by (simp add: handleIngest_def run_bump)

theorem unparseable_only_counted_witness:
  "w_db (snd (run_state (handleIngest demo_libs demo_norm_config (RawBody ''garbage'')) demo_norm_world)) =
     w_db demo_norm_world"
proof -
  have "message_envelope demo_libs (RawBody ''garbage'') = None" by code_simp
  from unparseable_only_counted [OF this] show ?thesis by simp
qed

text \<open>C39. Redelivery duplicates: event ids are not checked when an event is stored, so a message that is
  delivered twice, as the broker may after a lost acknowledgement, leaves its rows twice.\<close>

theorem redelivery_stores_again:
  assumes "message_envelope L data = Some e" and "en_payload e = Some p"
    and "replay_ready L (en_category e) sc (w_tick w + 6 + 4 * stored_copies L sc) w"
    and "validatePayload L (sch_json sc) (Some p) = Inr None" and "known_agent L (w_db w) e"
    and "list_all (local_dest cfg) (destinations (routing_of L (sch_routing sc)))"
  shows "\<exists>v w'. run_state (handleIngest L cfg data) w = (Ack, v) \<and>
    run_state (handleIngest L cfg data) v = (Ack, w') \<and>
    length (events (w_db w')) = length (events (w_db w)) + 2 * stored_copies L sc"
proof -
  let ?N = "w_tick w + 6 + 4 * stored_copies L sc"
  obtain rs v where v: "run_state (Process L cfg e) w = (Inr Routed, v)"
    "w_db v = (w_db w)\<lparr>events := events (w_db w) @ rs\<rparr>" "length rs = stored_copies L sc"
    "replay_ready L (en_category e) sc ?N v" "w_tick v \<le> w_tick w + 3 + 2 * stored_copies L sc"
    using run_Process [OF assms(3) refl assms(2,4,5,6)] by auto
  have "known_agent L (w_db v) e" using assms(5) same_actors_keep(2) [of "w_db w" "w_db v"] v(2) by simp
  then obtain rs' w' where w': "run_state (Process L cfg e) v = (Inr Routed, w')"
    "w_db w' = (w_db v)\<lparr>events := events (w_db v) @ rs'\<rparr>" "length rs' = stored_copies L sc"
    using run_Process [OF v(4) refl assms(2,4) _ assms(6)] v(5) by auto
  show ?thesis using assms(1) v w' by (simp add: handleIngest_def)
qed

theorem redelivery_stores_again_witness:
  "\<exists>v w'. run_state (handleIngest demo_libs demo_norm_config demo_message) demo_norm_world = (Ack, v) \<and>
    run_state (handleIngest demo_libs demo_norm_config demo_message) v = (Ack, w') \<and>
    length (events (w_db w')) = length (events (w_db demo_norm_world)) + 2"
proof -
  have p: "en_payload demo_envelope = Some [(''k'', JStr ''v'')]" by (simp add: demo_envelope_def)
  have c: "en_category demo_envelope = ''orders''" by (simp add: demo_envelope_def)
  have "fresh_events (w_tick demo_norm_world + 6 + 4 * stored_copies demo_libs demo_registry_schema) demo_norm_world"
    by (rule fresh_events_mono [OF demo_fresh]) (simp add: demo_copies, simp add: demo_norm_world_def demo_world_def)
  moreover have "registry_says demo_libs ''orders'' demo_registry_schema demo_norm_world"
    using demo_replies by (simp add: registry_says_def) (simp add: demo_norm_world_def demo_world_def fresh_memory_def)
  ultimately have r: "replay_ready demo_libs (en_category demo_envelope) demo_registry_schema
      (w_tick demo_norm_world + 6 + 4 * stored_copies demo_libs demo_registry_schema) demo_norm_world"
    unfolding c replay_ready_def using demo_norm_healthy(1) demo_norm_active by blast
  have val: "validatePayload demo_libs (sch_json demo_registry_schema) (Some [(''k'', JStr ''v'')]) = Inr None"
    by (simp add: validatePayload_def demo_libs_def)
  from redelivery_stores_again [OF demo_envelope_decodes p r val demo_known demo_copies(2)]
  show ?thesis unfolding demo_copies(1) by simp
qed

section \<open>Schema lookups\<close>

text \<open>Lookups and the cache: a cached schema younger than 30 seconds is returned without a request, and
  after \<open>Invalidate\<close> for its category the next lookup sends exactly one request to the registry, whatever
  was cached.\<close>

theorem lookup_cached_until_invalidated:
  assumes "m_cache (w_mem w) c = Some k" and "w_clock w (w_tick w) - cs_fetched k < rc_ttl"
  shows "run_state (GetSchema L cl c) w = (Inr (cs_schema k), tick w) \<and>
    length (w_sent (snd (run_state (GetSchema L cl c) (snd (run_state (Invalidate c) w))))) = Suc (length (w_sent w))"
proof -
  have e: "cache_entry (w_mem w) c = Some (cs_schema k, cs_fetched k)"
    using assms(1) by (simp add: cache_entry_def)
  have v: "run_state (Invalidate c) w = ((), snd (run_state (Invalidate c) w))"
    by (simp add: prod_eq_iff)
  show ?thesis
    using src.get_fresh [OF e assms(2)] src.get_after_forget [OF v] by blast
qed

definition demo_cached_world :: world where
  "demo_cached_world = demo_world\<lparr>w_mem := fresh_memory\<lparr>m_cache := [''orders'' \<mapsto>
     \<lparr>cs_schema = demo_registry_schema, cs_fetched = 90\<rparr>]\<rparr>\<rparr>"

theorem lookup_cached_until_invalidated_witness:
  "run_state (GetSchema demo_libs \<lparr>rc_url = ''http://registry'', rc_token = ''t''\<rparr> ''orders'') demo_cached_world =
     (Inr demo_registry_schema, tick demo_cached_world)"
proof -
  have k: "m_cache (w_mem demo_cached_world) ''orders'' = Some \<lparr>cs_schema = demo_registry_schema, cs_fetched = 90\<rparr>"
    by (simp add: demo_cached_world_def)
  have t: "w_clock demo_cached_world (w_tick demo_cached_world) -
      cs_fetched \<lparr>cs_schema = demo_registry_schema, cs_fetched = 90\<rparr> < rc_ttl"
    by (simp add: demo_cached_world_def demo_world_def rc_ttl_def)
  show ?thesis using lookup_cached_until_invalidated [OF k t] by simp
qed

text \<open>The last-known schema covers only a registry that cannot be reached: with an expired entry in the
  cache, no reply gives the cached schema, while any status other than 200 and 404 is an error, so the
  event being processed is redelivered; 404 reports an unknown category though the entry stays cached.\<close>

theorem outage_uses_last_known:
  assumes "m_cache (w_mem w) c = Some k" and "rc_ttl \<le> w_clock w (w_tick w) - cs_fetched k"
  shows "fst (run_state (GetSchema L cl c) w) =
    (case w_reply w (Suc (w_tick w)) of
       NoReply \<Rightarrow> Inr (cs_schema k)
     | Reply status body \<Rightarrow>
         if status = 404 then Inl ErrSchemaNotFound
         else if status \<noteq> 200 then Inl (BadStatus status)
         else case decode_reply L schema_fields body of None \<Rightarrow> Inl BadBody | Some sc \<Rightarrow> Inr sc)"
proof -
  have "run_state (GetSchema L cl c) w = run_state (fetchSchema L cl c) (tick w)"
    using assms by (simp add: GetSchema_def run_simps)
  with assms(1) show ?thesis
    by (simp add: fetchSchema_reply cache_entry_def split: reply.split)
qed

definition demo_stale_world :: world where
  "demo_stale_world = demo_cached_world\<lparr>w_clock := (\<lambda>n. rc_ttl + 90 + int n)\<rparr>"

theorem outage_uses_last_known_witness:
  "fst (run_state (GetSchema demo_libs \<lparr>rc_url = ''http://registry'', rc_token = ''t''\<rparr> ''orders'') demo_stale_world) =
     Inr demo_registry_schema"
proof -
  have k: "m_cache (w_mem demo_stale_world) ''orders'' = Some \<lparr>cs_schema = demo_registry_schema, cs_fetched = 90\<rparr>"
    by (simp add: demo_stale_world_def demo_cached_world_def)
  have t: "rc_ttl \<le> w_clock demo_stale_world (w_tick demo_stale_world) -
      cs_fetched \<lparr>cs_schema = demo_registry_schema, cs_fetched = 90\<rparr>"
    by (simp add: demo_stale_world_def demo_cached_world_def demo_world_def)
  show ?thesis
    unfolding outage_uses_last_known [OF k t] by (simp add: demo_stale_world_def demo_cached_world_def demo_world_def)
qed

section \<open>Requests, counters, formats\<close>

text \<open>Replaying needs a token: every route but the health check and the metrics answers 401 and changes nothing unless the
  request's token resolves to an identity.\<close>

theorem replay_needs_token:
  assumes "rt \<noteq> NGetHealth" and "rt \<noteq> NGetMetrics" and "rq_method r \<noteq> ''OPTIONS''"
    and "extractToken r = [] \<or> isl (fst (run_state (Resolve L (nz_auth s) (extractToken r)) w))"
    and "run_state (norm_Router L s rt r) w = (rs, w')"
  shows "rs_status rs = 401 \<and> unchanged w w'"
proof -
  obtain g where g: "norm_handler L s rt = Some g"
    using assms(1,2) by (cases rt) (auto simp: norm_handler_def)
  obtain x v where x: "run_state (Resolve L (nz_auth s) (extractToken r)) w = (x, v)" by force
  have un: "unchanged w v" using obeys_run [OF Resolve_unchanged x] .
  show ?thesis
    using assms(3,4,5) g x un ro.refl_R [of w]
    by (auto simp: norm_Router_def CORS_def Middleware_def Let_def split: if_splits sum.splits)
qed

definition demo_anonymous :: request where
  "demo_anonymous = \<lparr>rq_method = ''POST'', rq_headers = [], rq_params = [(''category'', ''orders'')], rq_query = [],
     rq_body = []\<rparr>"

theorem replay_needs_token_witness:
  "rs_status (fst (run_state (norm_Router demo_libs demo_norm NPostReplayCategory demo_anonymous) demo_norm_world)) = 401"
proof -
  have "NPostReplayCategory \<noteq> NGetHealth" by simp
  moreover have "rq_method demo_anonymous \<noteq> ''OPTIONS''" by (simp add: demo_anonymous_def)
  moreover have "extractToken demo_anonymous = []" by code_simp
  ultimately show ?thesis using replay_needs_token [OF _ _ _ disjI1 surjective_pairing] by blast
qed

text \<open>The counters stay consistent, and the failure rate is a rate: over any messages and requests, replayed
  never exceeds routed, routed and failed together never exceed processed, and the validation failure
  rate \<open>Stats\<close> reports lies between 0 and 1.\<close>

theorem counters_consistent:
  assumes "run_state (norm_serve L s inputs) w = (outs, w')" and "counts_ok (counts w)"
    and "run_state Stats w' = ((thr, failed, quar), w2)"
  shows "counts_ok (counts w') \<and> 0 \<le> failed \<and> failed \<le> 1"
proof -
  have ok: "counts_ok (counts w')"
    using obeys_run [OF counts_rel_serve assms(1)] assms(2) by (simp add: counts_rel_def)
  note st = assms(3)
  obtain t where "run_state Stats w' = ((t,
     if ct_processed (counts w') > 0 then rat_of_int (ct_failed (counts w')) / rat_of_int (ct_processed (counts w')) else 0,
     if ct_processed (counts w') > 0 then rat_of_int (ct_quarantined (counts w')) / rat_of_int (ct_processed (counts w')) else 0),
     tick w')" using Stats_run by blast
  then have f: "failed = (if ct_processed (counts w') > 0
      then rat_of_int (ct_failed (counts w')) / rat_of_int (ct_processed (counts w')) else 0)"
    using st by simp
  have "0 \<le> ct_failed (counts w')" "ct_failed (counts w') \<le> ct_processed (counts w')"
    using ok by (simp_all add: counts_ok_def)
  with ok show ?thesis unfolding f by simp
qed

theorem counters_consistent_witness:
  "counts_ok (counts (snd (run_state (norm_serve demo_libs demo_norm [Ingest demo_message, Approval NoBody]) demo_norm_world)))"
proof -
  have ok: "counts_ok (counts demo_norm_world)"
    by (simp add: demo_norm_world_def demo_world_def fresh_memory_def counts_ok_def)
  obtain t f q w2 where st: "run_state Stats (snd (run_state (norm_serve demo_libs demo_norm
      [Ingest demo_message, Approval NoBody]) demo_norm_world)) = ((t, f, q), w2)" by (metis prod.collapse)
  from counters_consistent [OF surjective_pairing ok st] show ?thesis by blast
qed

text \<open>Envelopes survive the stream: an envelope whose times RFC 3339 can write decodes from its JSON form to
  itself.\<close>

theorem envelope_roundtrip:
  assumes "time_laws L" and "rfc3339_time (en_timestamp e)" and "rfc3339_time (en_received e)"
  shows "message_envelope L (JsonBody (j_envelope L e)) = Some e"
  using dec_envelope_j_envelope [OF assms] by (simp add: message_envelope_def message_json_def)

theorem envelope_roundtrip_witness:
  "message_envelope demo_libs (JsonBody (j_envelope demo_libs demo_envelope)) = Some demo_envelope"
  by (rule envelope_roundtrip [OF demo_laws(2)]) (simp_all add: demo_envelope_def rfc3339_time_def)

end
