(* ===== verification/Config.thy ===== *)
theory Config
  imports GoLib
begin

text \<open>
  The configuration of the four services, read from the environment: \<open>internal/coreapi/config.go\<close>,
  \<open>internal/normalizer/config.go\<close>, \<open>internal/registry/config.go\<close> and \<open>internal/webhook/config.go\<close>.
  \<open>env\<close> is \<open>os.Getenv\<close>, which reads the empty string for a variable that is not set.
\<close>

type_synonym env = "string \<Rightarrow> string"

datatype config_error = InvalidValue string | NotSet string

definition envOr :: "env \<Rightarrow> string \<Rightarrow> string \<Rightarrow> string" where
  "envOr env key fallback = (if env key \<noteq> [] then env key else fallback)"

text \<open>The steps the four loaders share: an optional number over its default, and the check of the required
  settings, in order.\<close>

definition env_int :: "env \<Rightarrow> string \<Rightarrow> int \<Rightarrow> config_error + int" where
  "env_int env key old =
     (if env key = [] then Inr old
      else case atoi (env key) of None \<Rightarrow> Inl (InvalidValue key) | Some p \<Rightarrow> Inr p)"

definition env_float :: "libs \<Rightarrow> env \<Rightarrow> string \<Rightarrow> rat \<Rightarrow> config_error + rat" where
  "env_float L env key old =
     (if env key = [] then Inr old
      else case l_float_parse L (env key) of None \<Rightarrow> Inl (InvalidValue key) | Some f \<Rightarrow> Inr f)"

fun check_required :: "(string \<times> string) list \<Rightarrow> config_error + unit" where
  "check_required [] = Inr ()"
| "check_required ((name, val) # rs) = (if val = [] then Inl (NotSet name) else check_required rs)"

lemma check_required_Inr: "check_required rs = Inr () \<longleftrightarrow> (\<forall>(name, val) \<in> set rs. val \<noteq> [])"
  by (induction rs rule: check_required.induct) auto

section \<open>The gateway\<close>

record gw_config =
  gc_port :: int
  gc_dsn :: string
  gc_nats :: string
  gc_oidc_issuer :: string
  gc_oidc_client :: string
  gc_oidc_secret :: string
  gc_jwt_secret :: bytes
  gc_salt :: bytes
  gc_collector :: string
  gc_registry :: string
  gc_dev_token :: string
  gc_migrate :: bool
  gc_rps :: rat
  gc_burst :: rat

definition gw_LoadConfig :: "libs \<Rightarrow> env \<Rightarrow> config_error + gw_config" where
  "gw_LoadConfig L env =
     (case env_float L env ''RATE_LIMIT_RPS'' 50 of
        Inl e \<Rightarrow> Inl e
      | Inr rps \<Rightarrow> (case env_float L env ''RATE_LIMIT_BURST'' 100 of
          Inl e \<Rightarrow> Inl e
        | Inr burst \<Rightarrow> (case env_int env ''PORT'' 8080 of
            Inl e \<Rightarrow> Inl e
          | Inr port \<Rightarrow> (case check_required
                [(''POSTGRES_DSN'', env ''POSTGRES_DSN''), (''NATS_URL'', env ''NATS_URL''),
                 (''JWT_SIGNING_SECRET'', env ''JWT_SIGNING_SECRET''), (''HEC_TOKEN_SALT'', env ''HEC_TOKEN_SALT'')] of
              Inl e \<Rightarrow> Inl e
            | Inr _ \<Rightarrow> Inr
                \<lparr>gc_port = port, gc_dsn = env ''POSTGRES_DSN'', gc_nats = env ''NATS_URL'',
                 gc_oidc_issuer = env ''OIDC_ISSUER_URL'', gc_oidc_client = env ''OIDC_CLIENT_ID'',
                 gc_oidc_secret = env ''OIDC_CLIENT_SECRET'', gc_jwt_secret = env ''JWT_SIGNING_SECRET'',
                 gc_salt = env ''HEC_TOKEN_SALT'', gc_collector = env ''OTEL_COLLECTOR_ENDPOINT'',
                 gc_registry = env ''SCHEMA_REGISTRY_URL'', gc_dev_token = env ''DEV_ADMIN_TOKEN'',
                 gc_migrate = (env ''RUN_MIGRATIONS'' = ''true''), gc_rps = rps, gc_burst = burst\<rparr>))))"

section \<open>The normalizer\<close>

record nz_config_env =
  nzc_port :: int
  nzc_nats :: string
  nzc_dsn :: string
  nzc_loki :: string
  nzc_tempo :: string
  nzc_mimir :: string
  nzc_registry :: string
  nzc_registry_token :: string
  nzc_stream :: string
  nzc_salt :: bytes
  nzc_jwt_secret :: bytes
  nzc_dev_token :: string

definition nz_LoadConfig :: "env \<Rightarrow> config_error + nz_config_env" where
  "nz_LoadConfig env =
     (case env_int env ''PORT'' 8081 of
        Inl e \<Rightarrow> Inl e
      | Inr port \<Rightarrow> (case check_required
            [(''NATS_URL'', env ''NATS_URL''), (''POSTGRES_DSN'', env ''POSTGRES_DSN''),
             (''SCHEMA_REGISTRY_URL'', env ''SCHEMA_REGISTRY_URL''), (''HEC_TOKEN_SALT'', env ''HEC_TOKEN_SALT'')] of
          Inl e \<Rightarrow> Inl e
        | Inr _ \<Rightarrow> Inr
            \<lparr>nzc_port = port, nzc_nats = env ''NATS_URL'', nzc_dsn = env ''POSTGRES_DSN'',
             nzc_loki = env ''LOKI_PUSH_URL'', nzc_tempo = env ''TEMPO_OTLP_ENDPOINT'',
             nzc_mimir = env ''MIMIR_REMOTE_WRITE_URL'', nzc_registry = env ''SCHEMA_REGISTRY_URL'',
             nzc_registry_token = env ''SCHEMA_REGISTRY_TOKEN'',
             nzc_stream = envOr env ''QUARANTINE_STREAM_NAME'' ''quarantine'', nzc_salt = env ''HEC_TOKEN_SALT'',
             nzc_jwt_secret = env ''JWT_SIGNING_SECRET'', nzc_dev_token = env ''DEV_ADMIN_TOKEN''\<rparr>))"

section \<open>The registry\<close>

record rg_config_env =
  rgc_port :: int
  rgc_dsn :: string
  rgc_nats :: string
  rgc_git_url :: string
  rgc_git_key :: string
  rgc_git_dir :: string
  rgc_salt :: bytes
  rgc_jwt_secret :: bytes
  rgc_dev_token :: string

definition rg_LoadConfig :: "env \<Rightarrow> config_error + rg_config_env" where
  "rg_LoadConfig env =
     (case env_int env ''PORT'' 8082 of
        Inl e \<Rightarrow> Inl e
      | Inr port \<Rightarrow> (case check_required
            [(''POSTGRES_DSN'', env ''POSTGRES_DSN''), (''NATS_URL'', env ''NATS_URL''),
             (''HEC_TOKEN_SALT'', env ''HEC_TOKEN_SALT'')] of
          Inl e \<Rightarrow> Inl e
        | Inr _ \<Rightarrow> Inr
            \<lparr>rgc_port = port, rgc_dsn = env ''POSTGRES_DSN'', rgc_nats = env ''NATS_URL'',
             rgc_git_url = env ''GIT_REPO_URL'', rgc_git_key = env ''GIT_SSH_KEY_PATH'',
             rgc_git_dir = env ''GIT_WORK_DIR'', rgc_salt = env ''HEC_TOKEN_SALT'',
             rgc_jwt_secret = env ''JWT_SIGNING_SECRET'', rgc_dev_token = env ''DEV_ADMIN_TOKEN''\<rparr>))"

section \<open>The webhook adapter\<close>

record wh_config =
  wc_port :: int
  wc_nats :: string
  wc_dsn :: string
  wc_github :: bytes
  wc_jira :: bytes
  wc_pagerduty :: bytes
  wc_marble_jar :: bytes
  wc_salt :: bytes
  wc_jwt_secret :: bytes
  wc_dev_token :: string

definition wh_LoadConfig :: "env \<Rightarrow> config_error + wh_config" where
  "wh_LoadConfig env =
     (case env_int env ''PORT'' 8084 of
        Inl e \<Rightarrow> Inl e
      | Inr port \<Rightarrow> (case check_required
            [(''NATS_URL'', env ''NATS_URL''), (''POSTGRES_DSN'', env ''POSTGRES_DSN''),
             (''HEC_TOKEN_SALT'', env ''HEC_TOKEN_SALT'')] of
          Inl e \<Rightarrow> Inl e
        | Inr _ \<Rightarrow> Inr
            \<lparr>wc_port = port, wc_nats = env ''NATS_URL'', wc_dsn = env ''POSTGRES_DSN'',
             wc_github = env ''GITHUB_WEBHOOK_SECRET'', wc_jira = env ''JIRA_WEBHOOK_SECRET'',
             wc_pagerduty = env ''PAGERDUTY_WEBHOOK_SECRET'', wc_marble_jar = env ''MARBLE_JAR_WEBHOOK_SECRET'',
             wc_salt = env ''HEC_TOKEN_SALT'', wc_jwt_secret = env ''JWT_SIGNING_SECRET'',
             wc_dev_token = env ''DEV_ADMIN_TOKEN''\<rparr>))"

definition secretFor :: "wh_config \<Rightarrow> string \<Rightarrow> bytes" where
  "secretFor c tool =
     (if tool = ''github'' then wc_github c
      else if tool = ''jira'' then wc_jira c
      else if tool = ''pagerduty'' then wc_pagerduty c
      else if tool = ''marble-jar'' then wc_marble_jar c
      else [])"

section \<open>What a loaded configuration guarantees\<close>

lemma env_int_Inr:
  "env_int env key old = Inr p \<longleftrightarrow> (if env key = [] then p = old else atoi (env key) = Some p)"
  by (auto simp: env_int_def split: option.splits)

lemma atoi_bounds: "atoi s = Some v \<Longrightarrow> - (2 ^ 63) \<le> v \<and> v < 2 ^ 63"
  by (auto simp: atoi_def Let_def split: if_splits option.splits prod.splits)

lemma gw_LoadConfig_ok:
  "gw_LoadConfig L env = Inr c \<Longrightarrow>
   gc_dsn c \<noteq> [] \<and> gc_nats c \<noteq> [] \<and> gc_jwt_secret c \<noteq> [] \<and> gc_salt c \<noteq> [] \<and>
   - (2 ^ 63) \<le> gc_port c \<and> gc_port c < 2 ^ 63"
  by (auto simp: gw_LoadConfig_def env_int_Inr split: sum.splits if_splits dest: atoi_bounds)

lemma nz_LoadConfig_ok:
  "nz_LoadConfig env = Inr c \<Longrightarrow>
   nzc_dsn c \<noteq> [] \<and> nzc_nats c \<noteq> [] \<and> nzc_registry c \<noteq> [] \<and> nzc_salt c \<noteq> [] \<and> nzc_stream c \<noteq> []"
  by (auto simp: nz_LoadConfig_def envOr_def split: sum.splits if_splits)

lemma rg_LoadConfig_ok:
  "rg_LoadConfig env = Inr c \<Longrightarrow> rgc_dsn c \<noteq> [] \<and> rgc_nats c \<noteq> [] \<and> rgc_salt c \<noteq> []"
  by (auto simp: rg_LoadConfig_def split: sum.splits if_splits)

lemma wh_LoadConfig_ok:
  "wh_LoadConfig env = Inr c \<Longrightarrow> wc_dsn c \<noteq> [] \<and> wc_nats c \<noteq> [] \<and> wc_salt c \<noteq> []"
  by (auto simp: wh_LoadConfig_def split: sum.splits if_splits)

end
