(* ===== verification/WebhookSign.thy ===== *)
theory WebhookSign
  imports Config
begin

text \<open>
  \<open>internal/webhook/verify.go\<close>: checking the signature of a webhook over its raw body. The lemmas give
  both directions: a header made from the secret is accepted, and an accepted header carries the MAC of
  the body under the tool's secret.
\<close>

definition hmacSHA256 :: "libs \<Rightarrow> bytes \<Rightarrow> bytes \<Rightarrow> string" where
  "hmacSHA256 L secret body = hex_encode (l_hmac_sha256 L secret body)"

definition hmacSHA1 :: "libs \<Rightarrow> bytes \<Rightarrow> bytes \<Rightarrow> string" where
  "hmacSHA1 L secret body = hex_encode (l_hmac_sha1 L secret body)"

definition checkHMACHeader :: "string \<Rightarrow> string \<Rightarrow> string \<Rightarrow> bool" where
  "checkHMACHeader hdr pre want =
     (case cut_prefix hdr pre of None \<Rightarrow> False | Some got \<Rightarrow> got = want)"

text \<open>The loop over the parts of the PagerDuty header.\<close>

fun some_part_matches :: "string \<Rightarrow> string list \<Rightarrow> bool" where
  "some_part_matches want [] = False"
| "some_part_matches want (part # parts) =
     (case cut_prefix (trim_space part) ''v1='' of
        Some got \<Rightarrow> if got = want then True else some_part_matches want parts
      | None \<Rightarrow> some_part_matches want parts)"

definition verifySignature :: "libs \<Rightarrow> string \<Rightarrow> request \<Rightarrow> bytes \<Rightarrow> bytes \<Rightarrow> bool" where
  "verifySignature L tool r body secret =
     (if secret = [] then False
      else if tool = ''github'' then
        checkHMACHeader (header r ''X-Hub-Signature-256'') ''sha256='' (hmacSHA256 L secret body) \<or>
        checkHMACHeader (header r ''X-Hub-Signature'') ''sha1='' (hmacSHA1 L secret body)
      else if tool = ''pagerduty'' then
        some_part_matches (hmacSHA256 L secret body) (split_at (CHR '','') (header r ''X-PagerDuty-Signature''))
      else checkHMACHeader (header r ''X-SignalYard-Signature'') ''sha256='' (hmacSHA256 L secret body))"

lemma checkHMACHeader_iff: "checkHMACHeader hdr pre want \<longleftrightarrow> hdr = pre @ want"
  by (auto simp: checkHMACHeader_def cut_prefix_iff split: option.splits)

lemma some_part_matches_iff:
  "some_part_matches want parts \<longleftrightarrow> (\<exists>part \<in> set parts. trim_space part = ''v1='' @ want)"
proof (induction parts)
  case Nil
  then show ?case by simp
next
  case (Cons part parts)
  show ?case
  proof (cases "cut_prefix (trim_space part) ''v1=''")
    case None
    then have "trim_space part \<noteq> ''v1='' @ want" by (metis cut_prefix_append option.distinct(1))
    then show ?thesis using Cons None by simp
  next
    case (Some got)
    then have "trim_space part = ''v1='' @ got" by (simp add: cut_prefix_iff)
    then show ?thesis using Cons Some by auto
  qed
qed

text \<open>The headers that authenticate a body for a tool.\<close>

definition signed_for :: "libs \<Rightarrow> string \<Rightarrow> request \<Rightarrow> bytes \<Rightarrow> bytes \<Rightarrow> bool" where
  "signed_for L tool r body secret \<longleftrightarrow>
     (if tool = ''github'' then
        header r ''X-Hub-Signature-256'' = ''sha256='' @ hex_encode (l_hmac_sha256 L secret body) \<or>
        header r ''X-Hub-Signature'' = ''sha1='' @ hex_encode (l_hmac_sha1 L secret body)
      else if tool = ''pagerduty'' then
        \<exists>part \<in> set (split_at (CHR '','') (header r ''X-PagerDuty-Signature'')).
          trim_space part = ''v1='' @ hex_encode (l_hmac_sha256 L secret body)
      else header r ''X-SignalYard-Signature'' = ''sha256='' @ hex_encode (l_hmac_sha256 L secret body))"

lemma verifySignature_iff:
  "verifySignature L tool r body secret \<longleftrightarrow> secret \<noteq> [] \<and> signed_for L tool r body secret"
  by (auto simp: verifySignature_def signed_for_def checkHMACHeader_iff some_part_matches_iff hmacSHA256_def
      hmacSHA1_def)

text \<open>A PagerDuty header may list several signatures: one that matches is enough.\<close>

lemma split_at_nonempty: "split_at d s \<noteq> []"
  by (induction s) (auto split: list.splits)

lemma split_at_append: "split_at d (p @ d # t) = split_at d p @ split_at d t"
proof (induction p)
  case Nil
  then show ?case by simp
next
  case (Cons c p)
  obtain w ws where "split_at d p = w # ws"
    using split_at_nonempty [of d p] by (cases "split_at d p") auto
  with Cons show ?case by simp
qed

lemma split_at_member:
  assumes "d \<notin> set s" and "pre = [] \<or> (\<exists>p. pre = p @ [d])" and "post = [] \<or> (\<exists>q. post = d # q)"
  shows "s \<in> set (split_at d (pre @ s @ post))"
proof -
  have tail: "s \<in> set (split_at d (s @ post))"
    using assms(1,3) by (auto simp: split_at_no_sep split_at_sep)
  show ?thesis
  proof (cases "pre = []")
    case True
    then show ?thesis using tail by simp
  next
    case False
    then obtain p where "pre = p @ [d]" using assms(2) by auto
    then show ?thesis using tail split_at_append [of d p "s @ post"] by simp
  qed
qed

text \<open>A sender that knows the secret is accepted.\<close>

lemma hex_trim: "trim_space (''v1='' @ hex_encode bs) = ''v1='' @ hex_encode bs"
proof (rule trim_space_id)
  fix c assume "c \<in> set (''v1='' @ hex_encode bs)"
  then show "\<not> is_space c"
    using hex_encode_no_space [of c bs] by (auto simp: is_space_def)
qed

lemma pagerduty_accepts:
  assumes "header r ''X-PagerDuty-Signature'' = pre @ (''v1='' @ hmacSHA256 L secret body) @ post"
    and "pre = [] \<or> (\<exists>p. pre = p @ '','')" and "post = [] \<or> (\<exists>q. post = CHR '','' # q)" and "secret \<noteq> []"
  shows "verifySignature L ''pagerduty'' r body secret"
proof -
  let ?s = "''v1='' @ hex_encode (l_hmac_sha256 L secret body)"
  have "CHR '','' \<notin> set ?s"
    using hex_encode_no_space [of "CHR '',''" "l_hmac_sha256 L secret body"] by auto
  from split_at_member [OF this assms(2,3)]
  have "?s \<in> set (split_at (CHR '','') (header r ''X-PagerDuty-Signature''))"
    using assms(1) by (simp add: hmacSHA256_def)
  then show ?thesis
    using assms(4) hex_trim by (auto simp: verifySignature_iff signed_for_def intro!: bexI [of _ ?s])
qed

end
