(* ===== verification/Webhook.thy ===== *)
theory Webhook
  imports WebhookSign RegistryLaws
begin

text \<open>
  \<open>internal/webhook/normalize.go\<close>, \<open>store.go\<close> and \<open>server.go\<close>: the webhook adapter, from a tool's signed
  payload to an event on the ingest stream, with a record of every delivery and a retry endpoint.
  Each answer of the receiver is counted as the code counts it. Reading a request body never fails here.
\<close>

section \<open>The common envelope (normalize.go)\<close>

record wh_envelope =
  we_event :: string
  we_agent :: string
  we_slug :: string
  we_category :: string
  we_source :: string
  we_timestamp :: time
  we_payload :: "jmap option"

definition raw_field :: "jmap option \<Rightarrow> string \<Rightarrow> json" where
  "raw_field raw k = (case raw of None \<Rightarrow> JNull | Some m \<Rightarrow> jget m k)"

text \<open>\<open>normalize\<close>, given the time it reads.\<close>

definition wh_normalize :: "string \<Rightarrow> request \<Rightarrow> jmap option \<Rightarrow> time \<Rightarrow> wh_envelope" where
  "wh_normalize tool r raw t =
     (let env = \<lparr>we_event = [], we_agent = [], we_slug = [], we_category = [], we_source = tool,
                 we_timestamp = t, we_payload = raw\<rparr> in
      if tool = ''github'' then env\<lparr>we_category := ''github_event'', we_payload := Some
        [(''action'', raw_field raw ''action''), (''delivery'', JStr (header r ''X-GitHub-Delivery'')),
         (''event'', JStr (header r ''X-GitHub-Event'')), (''repository'', raw_field raw ''repository''),
         (''sender'', raw_field raw ''sender'')]\<rparr>
      else if tool = ''jira'' then env\<lparr>we_category := ''pm_ticket_update'', we_payload := Some
        [(''changelog'', raw_field raw ''changelog''), (''issue'', raw_field raw ''issue''),
         (''user'', raw_field raw ''user''), (''webhook_event'', raw_field raw ''webhookEvent'')]\<rparr>
      else if tool = ''pagerduty'' then env\<lparr>we_category := ''soar_alert'', we_payload := Some
        [(''event'', raw_field raw ''event''), (''messages'', raw_field raw ''messages'')]\<rparr>
      else env\<lparr>we_category := ''marble_jar_event'', we_payload := raw\<rparr>)"

definition j_wh_envelope :: "libs \<Rightarrow> wh_envelope \<Rightarrow> json" where
  "j_wh_envelope L e = JObj
     ([(''event_id'', JStr (we_event e))] @ omit_empty ''agent_id'' (we_agent e) @ omit_empty ''agent_slug'' (we_slug e) @
      [(''category'', JStr (we_category e)), (''source'', JStr (we_source e)),
       (''timestamp'', j_time L (we_timestamp e)), (''payload'', j_map (we_payload e))])"

definition wh_envelope_fields :: "libs \<Rightarrow> jmap \<Rightarrow> wh_envelope option" where
  "wh_envelope_fields L m =
     (case (dec_field dec_string [] m ''event_id'', dec_field dec_string [] m ''agent_id'',
            dec_field dec_string [] m ''agent_slug'', dec_field dec_string [] m ''category'',
            dec_field dec_string [] m ''source'', dec_field (dec_time L) zero_time m ''timestamp'',
            dec_field dec_map None m ''payload'') of
        (Some i, Some a, Some g, Some c, Some s, Some t, Some p) \<Rightarrow>
          Some \<lparr>we_event = i, we_agent = a, we_slug = g, we_category = c, we_source = s, we_timestamp = t,
                we_payload = p\<rparr>
      | _ \<Rightarrow> None)"

section \<open>Deliveries (store.go)\<close>

record delivery =
  dv_id :: uuid
  dv_tool :: string
  dv_status :: string
  dv_sig_valid :: bool
  dv_raw :: "jmap option"
  dv_normalized :: "json option"
  dv_error :: string
  dv_created :: time

text \<open>One endpoint of \<open>SeedSources\<close>; the loop stops at the first error. The map of secrets is the list of its
  entries in iteration order.\<close>

definition upsertSource :: "libs \<Rightarrow> string \<Rightarrow> bytes \<Rightarrow> unit stmt" where
  "upsertSource L tool secret u t d =
     (let path = ''/webhooks/'' @ tool; hash = hex_encode (l_sha256 L secret) in
      if path \<in> ws_path ` set (webhook_sources d)
      then (Inr (), d\<lparr>webhook_sources := upd_where (\<lambda>s. ws_path s = path)
              (\<lambda>s. s\<lparr>ws_secret_hash := Some hash\<rparr>) (webhook_sources d)\<rparr>)
      else if u \<in> ws_id ` set (webhook_sources d) then (Inl UniqueViolation, d)
      else (Inr (), d\<lparr>webhook_sources := webhook_sources d @
              [\<lparr>ws_id = u, ws_name = tool, ws_secret_hash = Some hash, ws_path = path\<rparr>]\<rparr>))"

fun SeedSources :: "libs \<Rightarrow> (string \<times> bytes) list \<Rightarrow> unit res io" where
  "SeedSources L [] = ret (Inr ())"
| "SeedSources L ((tool, secret) # ss) = do {
     x \<leftarrow> sql (upsertSource L tool secret);
     (case x of Inl e \<Rightarrow> ret (Inl e) | Inr _ \<Rightarrow> SeedSources L ss)
   }"

definition sourceID :: "string \<Rightarrow> uuid stmt" where
  "sourceID tool u t d =
     (case find (\<lambda>s. ws_name s = tool) (webhook_sources d) of
        None \<Rightarrow> Inl ErrNotFound | Some s \<Rightarrow> Inr (ws_id s), d)"

definition insertDelivery ::
  "uuid \<Rightarrow> bool \<Rightarrow> json \<Rightarrow> (string \<times> string) list \<Rightarrow> uuid stmt" where
  "insertDelivery src sig body hdrs u t d =
     (if u \<in> d_id ` set (deliveries d) then (Inl UniqueViolation, d)
      else if src \<notin> ws_id ` set (webhook_sources d) then (Inl ForeignKeyViolation, d)
      else (Inr u, d\<lparr>deliveries := deliveries d @
             [\<lparr>d_id = u, d_source = src, d_status = None, d_headers = hdrs, d_body = body,
               d_sig_valid = Some sig, d_error = None, d_created = t\<rparr>]\<rparr>))"

definition delivery_body :: "jmap option \<Rightarrow> json \<Rightarrow> json" where
  "delivery_body raw normalized = JObj [(''normalized'', normalized), (''raw'', j_map raw)]"

definition RecordDelivery ::
  "string \<Rightarrow> bool \<Rightarrow> jmap option \<Rightarrow> json \<Rightarrow> (string \<times> string) list \<Rightarrow> uuid res io" where
  "RecordDelivery tool sig raw normalized hdrs = do {
     x \<leftarrow> sql (sourceID tool);
     (case x of
        Inl e \<Rightarrow> ret (Inl e)
      | Inr src \<Rightarrow> sql (insertDelivery src sig (delivery_body raw normalized) hdrs))
   }"

definition MarkForwarded :: "uuid \<Rightarrow> unit stmt" where
  "MarkForwarded did u t d =
     (Inr (), d\<lparr>deliveries := upd_where (\<lambda>r. d_id r = did)
        (\<lambda>r. r\<lparr>d_status := Some 202, d_error := None\<rparr>) (deliveries d)\<rparr>)"

definition MarkFailed :: "uuid \<Rightarrow> string \<Rightarrow> unit stmt" where
  "MarkFailed did msg u t d =
     (Inr (), d\<lparr>deliveries := upd_where (\<lambda>r. d_id r = did)
        (\<lambda>r. r\<lparr>d_status := Some 502, d_error := Some msg\<rparr>) (deliveries d)\<rparr>)"

text \<open>The stored body decodes leniently: a part of the wrong type is skipped, the rest is read.\<close>

fun lenient :: "('a \<Rightarrow> json \<Rightarrow> 'a option) \<Rightarrow> 'a \<Rightarrow> json list \<Rightarrow> 'a" where
  "lenient dec x [] = x"
| "lenient dec x (v # vs) = lenient dec (case dec x v of None \<Rightarrow> x | Some y \<Rightarrow> y) vs"

definition body_part :: "json \<Rightarrow> string \<Rightarrow> json list" where
  "body_part body name = (case body of JObj m \<Rightarrow> field_values m name | _ \<Rightarrow> [])"

definition delivery_status :: "int \<Rightarrow> string" where
  "delivery_status code =
     (if code = 202 then ''forwarded'' else if code = 0 then ''pending'' else ''failed'')"

definition scanDelivery :: "delivery_row \<Rightarrow> string \<Rightarrow> delivery res" where
  "scanDelivery r tool =
     (case d_sig_valid r of
        None \<Rightarrow> Inl ScanNull
      | Some sig \<Rightarrow> Inr
          \<lparr>dv_id = d_id r, dv_tool = tool,
           dv_status = delivery_status (case d_status r of None \<Rightarrow> 0 | Some c \<Rightarrow> c),
           dv_sig_valid = sig, dv_raw = lenient dec_map None (body_part (d_body r) ''raw''),
           dv_normalized = lenient (\<lambda>_ v. Some (Some v)) None (body_part (d_body r) ''normalized''),
           dv_error = coalesce (d_error r), dv_created = d_created r\<rparr>)"

definition joined_deliveries :: "db \<Rightarrow> (delivery_row \<times> string) list" where
  "joined_deliveries d =
     [(r, ws_name s). r \<leftarrow> deliveries d, s \<leftarrow> webhook_sources d, ws_id s = d_source r]"

definition ListDeliveries :: "int \<Rightarrow> delivery list stmt" where
  "ListDeliveries limit0 u t d =
     (let limit = (if limit0 \<le> 0 \<or> limit0 > 500 then 100 else limit0) in
      (map_res (\<lambda>(r, tool). scanDelivery r tool)
         (take (nat limit) (order_desc (\<lambda>(r, tool). d_created r) (joined_deliveries d))), d))"

definition GetDelivery :: "uuid \<Rightarrow> delivery stmt" where
  "GetDelivery did u t d =
     (case find (\<lambda>(r, tool). d_id r = did) (joined_deliveries d) of
        None \<Rightarrow> Inl ErrNotFound
      | Some (r, tool) \<Rightarrow> scanDelivery r tool, d)"

section \<open>The handlers (server.go)\<close>

record wh_server =
  wh_cfg :: wh_config
  wh_auth :: token_auth

definition wh_tools :: "string list" where
  "wh_tools = [''github'', ''jira'', ''pagerduty'', ''marble-jar'']"

definition forward :: "string \<Rightarrow> json \<Rightarrow> unit res io" where
  "forward category normalized = publish (''events.ingest.'' @ category) (JsonBody normalized)"

definition deadLetter :: "libs \<Rightarrow> string \<Rightarrow> uuid \<Rightarrow> json \<Rightarrow> unit io" where
  "deadLetter L tool did normalized = do {
     t \<leftarrow> now;
     _ \<leftarrow> publish ''webhooks.deadletter'' (JsonBody (JObj
            [(''delivery_id'', j_uuid L did), (''error'', JStr (l_publish_error L)), (''failed_at'', j_time L t),
             (''normalized'', normalized), (''tool'', JStr tool)]));
     ret ()
   }"

definition kept_headers :: "request \<Rightarrow> (string \<times> string) list" where
  "kept_headers r = filter (\<lambda>(h, v). v \<noteq> [])
     (map (\<lambda>h. (h, header r h)) [''X-GitHub-Event'', ''X-GitHub-Delivery'', ''User-Agent'', ''Content-Type''])"

definition max_body :: nat where
  "max_body = 10 * 2 ^ 20"

text \<open>\<open>s.metrics.deliveries.WithLabelValues(tool, outcome).Inc()\<close>\<close>

definition delivered :: "string \<Rightarrow> string \<Rightarrow> webhook_metrics \<Rightarrow> webhook_metrics" where
  "delivered tool outcome m = m\<lparr>wm_deliveries := inc_counter [tool, outcome] (wm_deliveries m)\<rparr>"

definition count_delivery :: "string \<Rightarrow> string \<Rightarrow> unit io" where
  "count_delivery tool outcome = remember (\<lambda>m. m\<lparr>m_hook_metrics := delivered tool outcome (m_hook_metrics m)\<rparr>)"

definition handleWebhook :: "libs \<Rightarrow> wh_server \<Rightarrow> string \<Rightarrow> request \<Rightarrow> response io" where
  "handleWebhook L s tool r =
     (let body = take max_body (rq_body r) in
      if body = [] then ret (WriteError 400 ''empty or unreadable payload'')
      else if \<not> verifySignature L tool r body (secretFor (wh_cfg s) tool)
      then do {
        _ \<leftarrow> count_delivery tool ''bad_signature'';
        ret (WriteError 401 ''invalid webhook signature'')
      }
      else (case l_json_parse L body of
          None \<Rightarrow> ret (WriteError 400 ''payload must be a JSON object'')
        | Some v \<Rightarrow> (case dec_map None v of
            None \<Rightarrow> ret (WriteError 400 ''payload must be a JSON object'')
          | Some raw \<Rightarrow> do {
              t \<leftarrow> now;
              eid \<leftarrow> new_uuid;
              (let env = (wh_normalize tool r raw t)\<lparr>we_event := l_uuid_string L eid\<rparr>; normalized = j_wh_envelope L env in do {
                 x \<leftarrow> RecordDelivery tool True raw normalized (kept_headers r);
                 (case x of
                    Inl e \<Rightarrow> ret (WriteError 500 ''failed to record delivery'')
                  | Inr did \<Rightarrow> do {
                      y \<leftarrow> forward (we_category env) normalized;
                      (case y of
                         Inl e \<Rightarrow> do {
                           _ \<leftarrow> sql (MarkFailed did (l_publish_error L));
                           _ \<leftarrow> deadLetter L tool did normalized;
                           _ \<leftarrow> count_delivery tool ''forward_failed'';
                           ret (WriteError 502 ''failed to forward event'')
                         }
                       | Inr _ \<Rightarrow> do {
                           _ \<leftarrow> sql (MarkForwarded did);
                           _ \<leftarrow> count_delivery tool ''forwarded'';
                           ret (WriteJSON 202 (JObj
                             [(''event_id'', JStr (we_event env)), (''status'', JStr ''accepted'')]))
                         })
                    })
               })
            })))"

definition j_raw :: "json option \<Rightarrow> json" where
  "j_raw v = (case v of None \<Rightarrow> JNull | Some j \<Rightarrow> j)"

definition j_delivery :: "libs \<Rightarrow> delivery \<Rightarrow> json" where
  "j_delivery L d = JObj
     ([(''delivery_id'', j_uuid L (dv_id d)), (''tool'', JStr (dv_tool d)), (''status'', JStr (dv_status d)),
       (''signature_valid'', JBool (dv_sig_valid d)), (''raw_payload'', j_map (dv_raw d))] @
      (case dv_normalized d of None \<Rightarrow> [] | Some v \<Rightarrow> [(''normalized_event'', v)]) @
      omit_empty ''error'' (dv_error d) @ [(''created_at'', j_time L (dv_created d))])"

definition handleListDeliveries :: "libs \<Rightarrow> handler" where
  "handleListDeliveries L i r = do {
     x \<leftarrow> sql (ListDeliveries 100);
     ret (case x of
        Inl e \<Rightarrow> WriteError 500 ''list failed''
      | Inr ds \<Rightarrow> WriteJSON 200 (JObj [(''deliveries'', JArr (map (j_delivery L) ds))]))
   }"

definition handleGetDelivery :: "libs \<Rightarrow> handler" where
  "handleGetDelivery L i r =
     (case l_uuid_parse L (url_param r ''delivery_id'') of
        None \<Rightarrow> ret (WriteError 400 ''invalid delivery_id'')
      | Some did \<Rightarrow> do {
          x \<leftarrow> sql (GetDelivery did);
          ret (case x of
             Inl e \<Rightarrow> if e = ErrNotFound then WriteError 404 ''delivery not found''
                     else WriteError 500 ''lookup failed''
           | Inr d \<Rightarrow> WriteJSON 200 (JObj
               [(''delivery_id'', j_uuid L (dv_id d)), (''tool'', JStr (dv_tool d)), (''status'', JStr (dv_status d)),
                (''raw_payload'', j_map (dv_raw d)), (''normalized_event'', j_raw (dv_normalized d)),
                (''error'', JStr (dv_error d))]))
        })"

text \<open>The stored event as the retry reads it back.\<close>

definition stored_envelope :: "libs \<Rightarrow> json option \<Rightarrow> wh_envelope option" where
  "stored_envelope L v =
     (case v of
        None \<Rightarrow> None
      | Some j \<Rightarrow> (case dec_object j of None \<Rightarrow> None | Some m \<Rightarrow> wh_envelope_fields L m))"

definition handleRetryDelivery :: "libs \<Rightarrow> handler" where
  "handleRetryDelivery L i r =
     (case l_uuid_parse L (url_param r ''delivery_id'') of
        None \<Rightarrow> ret (WriteError 400 ''invalid delivery_id'')
      | Some did \<Rightarrow> do {
          x \<leftarrow> sql (GetDelivery did);
          (case x of
             Inl e \<Rightarrow> ret (if e = ErrNotFound then WriteError 404 ''delivery not found''
                          else WriteError 500 ''lookup failed'')
           | Inr d \<Rightarrow>
               if dv_status d = ''forwarded'' then ret (WriteError 400 ''delivery already forwarded'')
               else (case stored_envelope L (dv_normalized d) of
                  None \<Rightarrow> ret (WriteError 400 ''stored delivery has no normalized event'')
                | Some env \<Rightarrow> do {
                    y \<leftarrow> forward (we_category env) (j_raw (dv_normalized d));
                    (case y of
                       Inl e \<Rightarrow> do {
                         _ \<leftarrow> sql (MarkFailed did (l_publish_error L));
                         ret (WriteError 502 ''retry forward failed'')
                       }
                     | Inr _ \<Rightarrow> do {
                         _ \<leftarrow> sql (MarkForwarded did);
                         ret (WriteJSON 200 (JObj
                           [(''delivery_id'', j_uuid L did), (''status'', JStr ''forwarded'')]))
                       })
                  }))
        })"

datatype wh_tool = GitHub | Jira | PagerDuty | MarbleJar

definition tool_name :: "wh_tool \<Rightarrow> string" where
  "tool_name t = (case t of GitHub \<Rightarrow> ''github'' | Jira \<Rightarrow> ''jira'' | PagerDuty \<Rightarrow> ''pagerduty'' | MarbleJar \<Rightarrow> ''marble-jar'')"

definition wh_handleMetrics :: "libs \<Rightarrow> request \<Rightarrow> response io" where
  "wh_handleMetrics L r = do {
     m \<leftarrow> recall m_hook_metrics;
     ret (l_promhttp L [wm_deliveries m] r)
   }"

datatype wh_route = WGetHealth | WGetMetrics | WPostWebhook wh_tool | WGetDeliveries | WGetDeliveryOf | WPostRetryOf

definition wh_Router :: "libs \<Rightarrow> wh_server \<Rightarrow> wh_route \<Rightarrow> request \<Rightarrow> response io" where
  "wh_Router L s rt r =
     (case rt of
        WGetHealth \<Rightarrow> ret (WriteJSON 200 (JObj [(''status'', JStr ''ok'')]))
      | WGetMetrics \<Rightarrow> wh_handleMetrics L r
      | WPostWebhook t \<Rightarrow> handleWebhook L s (tool_name t) r
      | WGetDeliveries \<Rightarrow> Middleware L (wh_auth s) (handleListDeliveries L) r
      | WGetDeliveryOf \<Rightarrow> Middleware L (wh_auth s) (handleGetDelivery L) r
      | WPostRetryOf \<Rightarrow> Middleware L (wh_auth s) (handleRetryDelivery L) r)"

lemma tools_routed: "tool_name ` UNIV = set wh_tools"
proof -
  have "(UNIV :: wh_tool set) = {GitHub, Jira, PagerDuty, MarbleJar}"
    by (auto intro: wh_tool.exhaust)
  show ?thesis unfolding \<open>UNIV = _\<close> by (simp add: tool_name_def wh_tools_def)
qed

fun wh_serve :: "libs \<Rightarrow> wh_server \<Rightarrow> (wh_route \<times> request) list \<Rightarrow> response list io" where
  "wh_serve L s [] = ret []"
| "wh_serve L s ((rt, r) # qs) = do {
     rs \<leftarrow> wh_Router L s rt r;
     rss \<leftarrow> wh_serve L s qs;
     ret (rs # rss)
   }"

section \<open>Relations every run of the adapter obeys\<close>

locale adapter_relation = run_relation R for R +
  assumes obeys_lookups: "obeys R (sql (sourceID tool))" "obeys R (sql (ListDeliveries n))"
      "obeys R (sql (GetDelivery did))" "obeys R (sql (select_live_key h))"
    and obeys_record: "obeys R (sql (insertDelivery src sig body hdrs))"
    and obeys_effects: "obeys R (publish sj p)" "obeys R now" "obeys R new_uuid"
      "obeys R (remember (\<lambda>m. m\<lparr>m_hook_metrics := f (m_hook_metrics m)\<rparr>))"
    and obeys_marks: "obeys R (sql (MarkForwarded did))" "obeys R (sql (MarkFailed did msg))"
begin

lemma handleWebhook: "obeys R (handleWebhook L s tool r)"
  unfolding handleWebhook_def Let_def RecordDelivery_def forward_def deadLetter_def count_delivery_def
  by (intro obeys_control obeys_lookups obeys_record obeys_effects obeys_marks)

lemma delivery_handlers:
  "obeys R (handleListDeliveries L i r)" "obeys R (handleGetDelivery L i r)" "obeys R (handleRetryDelivery L i r)"
  unfolding handleListDeliveries_def handleGetDelivery_def handleRetryDelivery_def forward_def
  by (intro obeys_control obeys_lookups obeys_effects obeys_marks)+

lemma wh_Router: "obeys R (wh_Router L s rt r)"
  by (cases rt) (auto simp: wh_Router_def wh_handleMetrics_def intro!: obeys_control handleWebhook obeys_Middleware obeys_lookups obeys_effects
      delivery_handlers)

lemma wh_serve: "obeys R (wh_serve L s qs)"
  by (induction qs) (auto intro!: obeys_bind obeys_ret wh_Router)

end

lemma reads_webhook: "reads (sourceID tool)" "reads (ListDeliveries n)" "reads (GetDelivery did)"
  by (simp_all add: reads_def sourceID_def ListDeliveries_def GetDelivery_def Let_def)

lemma db_inv_insertDelivery: "db_inv d \<Longrightarrow> db_inv (snd (insertDelivery src sig body hdrs u t d))"
proof -
  assume inv: "db_inv d"
  have add: "db_inv (d\<lparr>deliveries := deliveries d @ [r]\<rparr>)"
    if "d_id r \<notin> d_id ` set (deliveries d)" "d_source r \<in> ws_id ` set (webhook_sources d)" for r
    using inv that unfolding db_inv_defs by (elim conjE, intro conjI; simp)
  show ?thesis by (simp add: insertDelivery_def inv add)
qed

lemma db_inv_marks:
  "db_inv d \<Longrightarrow> db_inv (snd (MarkForwarded did u t d))" "db_inv d \<Longrightarrow> db_inv (snd (MarkFailed did msg u t d))"
  by (simp_all add: MarkForwarded_def MarkFailed_def db_inv_defs unique_by_upd_where image_upd_where)

interpretation ainv: adapter_relation "inv_rel db_inv"
proof
  show "keeps db_inv (sql (sourceID tool))" "keeps db_inv (sql (ListDeliveries n))"
    "keeps db_inv (sql (GetDelivery did))" "keeps db_inv (sql (select_live_key h))" for tool n did h
    by (intro keeps_reads reads_webhook reads_select_live_key)+
  show "keeps db_inv (sql (insertDelivery src sig body hdrs))" for src sig body hdrs
    by (intro keeps_sql db_inv_insertDelivery)
  show "keeps db_inv (sql (MarkForwarded did))" "keeps db_inv (sql (MarkFailed did msg))" for did msg
    by (intro keeps_sql db_inv_marks; assumption)+
qed (rule keeps_no_sql)+

text \<open>No delivery is dropped, and what was received stays as it was recorded.\<close>

definition deliveries_kept :: "world \<Rightarrow> world \<Rightarrow> bool" where
  "deliveries_kept w w' \<longleftrightarrow> (\<forall>r \<in> set (deliveries (w_db w)). \<exists>r' \<in> set (deliveries (w_db w')).
     d_id r' = d_id r \<and> d_source r' = d_source r \<and> d_body r' = d_body r \<and> d_headers r' = d_headers r \<and>
     d_created r' = d_created r \<and> d_sig_valid r' = d_sig_valid r)"

interpretation dk: run_relation deliveries_kept
proof
  show "deliveries_kept w w" for w by (auto simp: deliveries_kept_def)
  show "deliveries_kept u v \<Longrightarrow> deliveries_kept v w \<Longrightarrow> deliveries_kept u w" for u v w
    unfolding deliveries_kept_def by (metis (no_types, lifting))
qed

lemma deliveries_kept_sql:
  assumes "\<And>u t d. \<exists>es P f. deliveries (snd (g u t d)) = upd_where P f (deliveries d) @ es \<and>
    (\<forall>r. d_id (f r) = d_id r \<and> d_source (f r) = d_source r \<and> d_body (f r) = d_body r \<and> d_headers (f r) = d_headers r \<and>
      d_created (f r) = d_created r \<and> d_sig_valid (f r) = d_sig_valid r)"
  shows "obeys deliveries_kept (sql g)"
proof (rule obeysI)
  fix w
  have kept: "deliveries_kept w (tick (w\<lparr>w_db := snd (g u t (w_db w))\<rparr>))" for u t
  proof -
    obtain es P f where eq: "deliveries (snd (g u t (w_db w))) = upd_where P f (deliveries (w_db w)) @ es"
      and f: "\<And>r. d_id (f r) = d_id r \<and> d_source (f r) = d_source r \<and> d_body (f r) = d_body r \<and>
        d_headers (f r) = d_headers r \<and> d_created (f r) = d_created r \<and> d_sig_valid (f r) = d_sig_valid r"
      using assms [of u t "w_db w"] by blast
    show ?thesis
      unfolding deliveries_kept_def
    proof
      fix r assume "r \<in> set (deliveries (w_db w))"
      then have "(if P r then f r else r) \<in> set (deliveries (snd (g u t (w_db w))))"
        unfolding eq by (auto simp: in_upd_where)
      then show "\<exists>r' \<in> set (deliveries (w_db (tick (w\<lparr>w_db := snd (g u t (w_db w))\<rparr>)))).
        d_id r' = d_id r \<and> d_source r' = d_source r \<and> d_body r' = d_body r \<and> d_headers r' = d_headers r \<and>
        d_created r' = d_created r \<and> d_sig_valid r' = d_sig_valid r"
        using f [of r] by (intro bexI [of _ "if P r then f r else r"]) auto
    qed
  qed
  show "deliveries_kept w (snd (run_state (sql g) w))"
    by (cases rule: sql_cases [of g w]) (simp_all add: kept, auto simp: deliveries_kept_def)
qed

lemma upd_where_id: "upd_where P (\<lambda>r. r) xs = xs"
  by (simp add: upd_where_def)

lemma deliveries_kept_same: "(\<And>u t d. deliveries (snd (g u t d)) = deliveries d) \<Longrightarrow> obeys deliveries_kept (sql g)"
  by (rule deliveries_kept_sql) (intro exI [of _ "[]"] exI [of _ "\<lambda>_. True"] exI [of _ "\<lambda>r. r"], simp add: upd_where_id)

interpretation akept: adapter_relation deliveries_kept
proof
  show "obeys deliveries_kept (sql (sourceID tool))" "obeys deliveries_kept (sql (ListDeliveries n))"
    "obeys deliveries_kept (sql (GetDelivery did))" "obeys deliveries_kept (sql (select_live_key h))" for tool n did h
    by (rule deliveries_kept_same; simp add: sourceID_def ListDeliveries_def GetDelivery_def select_live_key_def Let_def)+
  show "obeys deliveries_kept (sql (insertDelivery src sig body hdrs))" for src sig body hdrs
  proof (rule deliveries_kept_sql)
    fix u t d
    show "\<exists>es P f. deliveries (snd (insertDelivery src sig body hdrs u t d)) = upd_where P f (deliveries d) @ es \<and>
      (\<forall>r. d_id (f r) = d_id r \<and> d_source (f r) = d_source r \<and> d_body (f r) = d_body r \<and> d_headers (f r) = d_headers r \<and>
        d_created (f r) = d_created r \<and> d_sig_valid (f r) = d_sig_valid r)"
      using upd_where_id [of "\<lambda>_. True" "deliveries d"]
      by (auto simp: insertDelivery_def intro!: exI [of _ "\<lambda>_. True"] exI [of _ "\<lambda>r. r"])
  qed
  show "obeys deliveries_kept (sql (MarkForwarded did))" "obeys deliveries_kept (sql (MarkFailed did msg))" for did msg
    by (rule deliveries_kept_sql, unfold MarkForwarded_def MarkFailed_def snd_conv,
        intro exI [of _ "[]"] exI conjI allI, simp, simp_all)+
  show "obeys deliveries_kept (publish sj p)" "obeys deliveries_kept now" "obeys deliveries_kept new_uuid"
    "obeys deliveries_kept (remember m)" for sj p m
    by (auto intro!: obeysI split: outcome.splits
        simp: deliveries_kept_def publish_def now_def new_uuid_def remember_def Let_def)
qed

end
