(* ===== verification/WebhookOutcome.thy ===== *)
theory WebhookOutcome
  imports Webhook
begin

text \<open>What the webhook handlers achieve, branch by branch.\<close>

section \<open>Recording\<close>

lemma RecordDelivery_ok:
  assumes "run_state (RecordDelivery tool sig raw n hdrs) w = (Inr did, w')"
  shows "\<exists>row. w_db w' = (w_db w)\<lparr>deliveries := deliveries (w_db w) @ [row]\<rparr> \<and> d_id row = did \<and>
    d_body row = delivery_body raw n \<and> d_status row = None \<and> d_sig_valid row = Some sig \<and>
    d_source row \<in> ws_id ` {s \<in> set (webhook_sources (w_db w)). ws_name s = tool} \<and>
    did \<notin> d_id ` set (deliveries (w_db w)) \<and> w_streams w' = w_streams w"
proof -
  obtain x v where x: "run_state (sql (sourceID tool)) w = (x, v)" by force
  then obtain src where src: "x = Inr src"
    using assms by (cases x) (auto simp: RecordDelivery_def)
  have ins: "run_state (sql (insertDelivery src sig (delivery_body raw n) hdrs)) v = (Inr did, w')"
    using assms x src by (simp add: RecordDelivery_def)
  have v: "w_db v = w_db w" "w_streams v = w_streams w"
    using sql_Inr [OF x [unfolded src], THEN conjunct1] sql_streams [OF x] by (simp_all add: sourceID_def)
  obtain s where s: "s \<in> set (webhook_sources (w_db w))" "ws_name s = tool" "ws_id s = src"
    using sql_Inr [OF x [unfolded src], THEN conjunct1]
    by (auto simp: sourceID_def split: option.splits dest!: find_SomeD)
  let ?row = "\<lparr>d_id = did, d_source = src, d_status = None, d_headers = hdrs, d_body = delivery_body raw n,
    d_sig_valid = Some sig, d_error = None, d_created = w_clock v (w_tick v)\<rparr>"
  have "w_db w' = (w_db w)\<lparr>deliveries := deliveries (w_db w) @ [?row]\<rparr>" "did \<notin> d_id ` set (deliveries (w_db w))"
    using sql_Inr [OF ins, THEN conjunct1] v by (auto simp: insertDelivery_def split: if_splits)
  moreover have "w_streams w' = w_streams w" using sql_streams [OF ins] v by simp
  ultimately show ?thesis using s by (intro exI [of _ ?row]) auto
qed

lemma mark_row:
  assumes "run_state (sql (MarkForwarded did)) w = (x, w') \<or> run_state (sql (MarkFailed did msg)) w = (x, w')"
    and "r \<in> set (deliveries (w_db w))"
  shows "\<exists>r' \<in> set (deliveries (w_db w')). d_id r' = d_id r \<and> d_body r' = d_body r"
proof -
  have "deliveries_kept w w'"
    using assms(1) obeys_run [OF akept.obeys_marks(1)] obeys_run [OF akept.obeys_marks(2)] by blast
  then show ?thesis using assms(2) unfolding deliveries_kept_def by blast
qed

section \<open>Receiving a webhook\<close>

text \<open>The event a tool's request stands for.\<close>

definition received_as :: "libs \<Rightarrow> string \<Rightarrow> request \<Rightarrow> jmap option \<Rightarrow> wh_envelope \<Rightarrow> bool" where
  "received_as L tool r raw env \<longleftrightarrow>
     (\<exists>v. l_json_parse L (take max_body (rq_body r)) = Some v \<and> dec_map None v = Some raw) \<and>
     (\<exists>t u. env = (wh_normalize tool r raw t)\<lparr>we_event := l_uuid_string L u\<rparr>)"

text \<open>The world with one more delivery counted.\<close>

definition with_count :: "string \<Rightarrow> string \<Rightarrow> world \<Rightarrow> world" where
  "with_count tool outcome w = w\<lparr>w_mem := (w_mem w)\<lparr>m_hook_metrics := delivered tool outcome (m_hook_metrics (w_mem w))\<rparr>\<rparr>"

lemma run_count_delivery: "run_state (count_delivery tool outcome) w = ((), with_count tool outcome w)"
  by (simp add: count_delivery_def remember_def with_count_def)

lemma with_count_simps [simp]:
  "w_db (with_count tool outcome w) = w_db w" "w_streams (with_count tool outcome w) = w_streams w"
  "w_tick (with_count tool outcome w) = w_tick w" "healthy (with_count tool outcome w) = healthy w"
  "m_hook_metrics (w_mem (with_count tool outcome w)) = delivered tool outcome (m_hook_metrics (w_mem w))"
  by (simp_all add: with_count_def)

lemma handleWebhook_cases:
  assumes "run_state (handleWebhook L s tool r) w = (rs, w')"
  obtains (rejected) "rs_status rs = 400" "w' = w"
  | (unsigned) "rs_status rs = 401" "w' = with_count tool ''bad_signature'' w"
      "\<not> verifySignature L tool r (take max_body (rq_body r)) (secretFor (wh_cfg s) tool)"
  | (unrecorded) raw n e where "rs_status rs = 500"
      "run_state (RecordDelivery tool True raw n (kept_headers r)) (tick (tick w)) = (Inl e, w')"
      "verifySignature L tool r (take max_body (rq_body r)) (secretFor (wh_cfg s) tool)"
  | (recorded) raw env did v y v2 z
    where "verifySignature L tool r (take max_body (rq_body r)) (secretFor (wh_cfg s) tool)"
      and "received_as L tool r raw env" and "env = (wh_normalize tool r raw (w_clock w (w_tick w)))\<lparr>we_event :=
          l_uuid_string L (w_uuid w (Suc (w_tick w)))\<rparr>"
      and "run_state (RecordDelivery tool True raw (j_wh_envelope L env) (kept_headers r)) (tick (tick w)) = (Inr did, v)"
      and "run_state (forward (we_category env) (j_wh_envelope L env)) v = (y, v2)"
      and "\<not> isl y \<Longrightarrow> rs_status rs = 202 \<and>
        (\<exists>v3. run_state (sql (MarkForwarded did)) v2 = (z, v3) \<and> w' = with_count tool ''forwarded'' v3)"
      and "isl y \<Longrightarrow> rs_status rs = 502 \<and>
        (\<exists>v3. run_state (sql (MarkFailed did (l_publish_error L))) v2 = (z, v3) \<and>
           w' = with_count tool ''forward_failed'' (snd (run_state (deadLetter L tool did (j_wh_envelope L env)) v3)))"
proof -
  let ?body = "take max_body (rq_body r)"
  consider (bad) "?body \<noteq> []" "\<not> verifySignature L tool r ?body (secretFor (wh_cfg s) tool)"
    | (no) "?body = [] \<or> verifySignature L tool r ?body (secretFor (wh_cfg s) tool) \<and>
      (\<forall>v raw. l_json_parse L ?body = Some v \<longrightarrow> dec_map None v \<noteq> Some raw)"
    | (yes) v raw where "?body \<noteq> []" "verifySignature L tool r ?body (secretFor (wh_cfg s) tool)"
        "l_json_parse L ?body = Some v" "dec_map None v = Some raw" by blast
  then show ?thesis
  proof cases
    case bad
    then have "rs_status rs = 401 \<and> w' = with_count tool ''bad_signature'' w"
      using assms by (auto simp: handleWebhook_def Let_def run_count_delivery)
    then show ?thesis using unsigned bad(2) by blast
  next
    case no
    then have "rs_status rs = 400 \<and> w' = w"
      using assms by (auto simp: handleWebhook_def Let_def split: if_splits option.splits)
    then show ?thesis using rejected by blast
  next
    case yes
    define env where "env = (wh_normalize tool r raw (w_clock w (w_tick w)))\<lparr>we_event :=
      l_uuid_string L (w_uuid w (Suc (w_tick w)))\<rparr>"
    have rec: "received_as L tool r raw env"
      using yes(3,4) by (auto simp: received_as_def env_def)
    obtain x v1 where x: "run_state (RecordDelivery tool True raw (j_wh_envelope L env) (kept_headers r)) (tick (tick w)) = (x, v1)"
      by force
    show ?thesis
    proof (cases x)
      case (Inl e)
      then have "rs_status rs = 500 \<and> w' = v1"
        using assms yes x by (auto simp: handleWebhook_def Let_def run_simps env_def)
      then show ?thesis using unrecorded [OF _ _ yes(2)] x Inl by blast
    next
      case (Inr did)
      obtain y v2 where y: "run_state (forward (we_category env) (j_wh_envelope L env)) v1 = (y, v2)" by force
      show ?thesis
      proof (cases y)
        case (Inl e)
        obtain z v3 where z: "run_state (sql (MarkFailed did (l_publish_error L))) v2 = (z, v3)" by force
        have "rs_status rs = 502 \<and>
            w' = with_count tool ''forward_failed'' (snd (run_state (deadLetter L tool did (j_wh_envelope L env)) v3))"
          using assms yes x y z Inr Inl
          by (cases "run_state (deadLetter L tool did (j_wh_envelope L env)) v3")
            (auto simp: handleWebhook_def Let_def run_simps env_def run_count_delivery)
        then show ?thesis
          using recorded [OF yes(2) rec env_def x [unfolded Inr] y, of z] Inl z by auto
      next
        case (Inr u)
        obtain z v3 where z: "run_state (sql (MarkForwarded did)) v2 = (z, v3)" by force
        have "rs_status rs = 202 \<and> w' = with_count tool ''forwarded'' v3"
          using assms yes x y z \<open>x = Inr did\<close> Inr
          by (auto simp: handleWebhook_def Let_def run_simps env_def run_count_delivery)
        then show ?thesis
          using recorded [OF yes(2) rec env_def x [unfolded \<open>x = Inr did\<close>] y, of z] Inr z by auto
      qed
    qed
  qed
qed

lemma forward_ok:
  "run_state (forward c n) w = (y, w') \<Longrightarrow> \<not> isl y \<Longrightarrow>
   w_streams w' = w_streams w @ [(''events.ingest.'' @ c, JsonBody n)] \<and> w_db w' = w_db w"
  by (auto simp: forward_def publish_def Let_def split: outcome.splits)

lemma forward_db: "run_state (forward c n) w = (y, w') \<Longrightarrow> w_db w' = w_db w"
  by (auto simp: forward_def publish_def Let_def split: outcome.splits)

lemma deadLetter_db: "w_db (snd (run_state (deadLetter L tool did n) w)) = w_db w"
  by (simp add: deadLetter_def now_def publish_def Let_def split: outcome.splits)

text \<open>Nothing is answered 202 or 502 before its delivery is recorded; 202 means it is on the stream.\<close>

lemma handleWebhook_recorded:
  assumes "run_state (handleWebhook L s tool r) w = (rs, w')" and "rs_status rs \<in> {202, 502}"
  shows "\<exists>raw env row. received_as L tool r raw env \<and> row \<in> set (deliveries (w_db w')) \<and>
    d_id row \<notin> d_id ` set (deliveries (w_db w)) \<and> d_body row = delivery_body raw (j_wh_envelope L env) \<and>
    (rs_status rs = 202 \<longrightarrow> w_streams w' = w_streams w @
       [(''events.ingest.'' @ we_category env, JsonBody (j_wh_envelope L env))])"
  using assms(1)
proof (cases rule: handleWebhook_cases)
  case rejected
  then show ?thesis using assms(2) by auto
next
  case unsigned
  then show ?thesis using assms(2) by auto
next
  case unrecorded
  then show ?thesis using assms(2) by simp
next
  case (recorded raw env did v y v2 z)
  obtain row where row: "w_db v = (w_db w)\<lparr>deliveries := deliveries (w_db w) @ [row]\<rparr>" "d_id row = did"
    "d_body row = delivery_body raw (j_wh_envelope L env)" "did \<notin> d_id ` set (deliveries (w_db w))"
    "w_streams v = w_streams w"
    using RecordDelivery_ok [OF recorded(4)] by auto
  have "row \<in> set (deliveries (w_db v2))" using row(1) forward_db [OF recorded(5)] by simp
  then have "\<exists>row' \<in> set (deliveries (w_db w')). d_id row' = did \<and> d_body row' = delivery_body raw (j_wh_envelope L env)"
    using recorded(6,7) mark_row [where w = v2 and r = row] row(2,3) deadLetter_db with_count_simps(1)
    by (cases "isl y") (metis (lifting))+
  moreover have "w_streams w' = w_streams w @ [(''events.ingest.'' @ we_category env, JsonBody (j_wh_envelope L env))]"
    if "rs_status rs = 202"
  proof -
    have y: "\<not> isl y" using recorded(7) that by auto
    then show ?thesis
      using forward_ok [OF recorded(5) y] row(5) recorded(6) sql_streams by fastforce
  qed
  ultimately show ?thesis using recorded(2) row(2,4) by blast
qed

section \<open>Retrying a delivery\<close>

lemma wh_field_values:
  assumes "a = [] \<or> a = [(''agent_id'', x)]" and "g = [] \<or> g = [(''agent_slug'', y)]"
  shows "field_values ([(''event_id'', e)] @ a @ g @ [(''category'', c), (''source'', s), (''timestamp'', t), (''payload'', p)]) k =
    (if map lower k = ''event_id'' then [e] else if map lower k = ''agent_id'' then map snd a
     else if map lower k = ''agent_slug'' then map snd g else if map lower k = ''category'' then [c]
     else if map lower k = ''source'' then [s] else if map lower k = ''timestamp'' then [t]
     else if map lower k = ''payload'' then [p] else [])"
proof -
  have low: "map lower ''event_id'' = ''event_id''" "map lower ''agent_id'' = ''agent_id''"
    "map lower ''agent_slug'' = ''agent_slug''" "map lower ''category'' = ''category''"
    "map lower ''source'' = ''source''" "map lower ''timestamp'' = ''timestamp''" "map lower ''payload'' = ''payload''"
    by code_simp+
  have one: "map snd [(n, v)] = [v]" for n :: string and v :: json by simp
  show ?thesis
    using assms by (elim disjE) (simp_all add: field_values_def low one del: list.map(2))
qed

lemma wh_envelope_object:
  "\<exists>a g x y. j_wh_envelope L env = JObj ([(''event_id'', JStr (we_event env))] @ a @ g @
     [(''category'', JStr (we_category env)), (''source'', JStr (we_source env)),
      (''timestamp'', j_time L (we_timestamp env)), (''payload'', j_map (we_payload env))]) \<and>
     (a = [] \<or> a = [(''agent_id'', x)]) \<and> (g = [] \<or> g = [(''agent_slug'', y)]) \<and>
     dec_values dec_string [] (map snd a) = Some (we_agent env) \<and>
     dec_values dec_string [] (map snd g) = Some (we_slug env)"
  unfolding j_wh_envelope_def
  by (intro exI [of _ "omit_empty ''agent_id'' (we_agent env)"] exI [of _ "omit_empty ''agent_slug'' (we_slug env)"]
      exI [of _ "JStr (we_agent env)"] exI [of _ "JStr (we_slug env)"]) (simp add: omit_empty_def)

lemma lower_names:
  "map lower ''event_id'' = ''event_id''" "map lower ''agent_id'' = ''agent_id''"
  "map lower ''agent_slug'' = ''agent_slug''" "map lower ''category'' = ''category''" "map lower ''source'' = ''source''"
  "map lower ''timestamp'' = ''timestamp''" "map lower ''payload'' = ''payload''"
  "map lower ''received_at'' = ''received_at''"
  by code_simp+

text \<open>The stored event reads back as the envelope it was written from.\<close>

lemma stored_envelope_j:
  assumes "time_laws L" and "rfc3339_time (we_timestamp env)"
  shows "stored_envelope L (Some (j_wh_envelope L env)) = Some env"
proof -
  obtain a g x y where o: "j_wh_envelope L env = JObj ([(''event_id'', JStr (we_event env))] @ a @ g @
     [(''category'', JStr (we_category env)), (''source'', JStr (we_source env)),
      (''timestamp'', j_time L (we_timestamp env)), (''payload'', j_map (we_payload env))])"
     and ag: "a = [] \<or> a = [(''agent_id'', x)]" "g = [] \<or> g = [(''agent_slug'', y)]"
       "dec_values dec_string [] (map snd a) = Some (we_agent env)"
       "dec_values dec_string [] (map snd g) = Some (we_slug env)"
    using wh_envelope_object [of L env] by blast
  have t: "l_time_parse L (l_time_format L (we_timestamp env)) = Some (we_timestamp env)"
    using assms by (simp add: time_laws_def)
  show ?thesis
    unfolding stored_envelope_def o option.case dec_object.simps wh_envelope_fields_def dec_field_def
      wh_field_values [OF ag(1,2)] lower_names
    using ag(3,4) t by (simp add: j_time_def)
qed

lemma find_only:
  assumes "x \<in> set xs" and "P x" and only: "\<And>y. y \<in> set xs \<Longrightarrow> P y \<Longrightarrow> y = x"
  shows "find P xs = Some x"
proof (cases "find P xs")
  case None
  then show ?thesis using find_NoneD [OF None assms(1)] assms(2) by blast
next
  case (Some y)
  then show ?thesis using find_SomeD [OF Some] only [of y] by simp
qed

lemma delivery_body_parts:
  "body_part (delivery_body raw n) ''normalized'' = [n]" "body_part (delivery_body raw n) ''raw'' = [j_map raw]"
proof -
  have "field_values [(''normalized'', x), (''raw'', y)] ''normalized'' = [x]"
    "field_values [(''normalized'', x), (''raw'', y)] ''raw'' = [y]" for x y
    by code_simp+
  then show "body_part (delivery_body raw n) ''normalized'' = [n]" "body_part (delivery_body raw n) ''raw'' = [j_map raw]"
    by (simp_all add: body_part_def delivery_body_def)
qed

lemma joined_iff:
  "(q, tool) \<in> set (joined_deliveries d) \<longleftrightarrow>
   q \<in> set (deliveries d) \<and> (\<exists>s \<in> set (webhook_sources d). ws_id s = d_source q \<and> ws_name s = tool)"
  by (auto simp: joined_deliveries_def)

lemma GetDelivery_row:
  assumes inv: "db_inv d" and row: "r \<in> set (deliveries d)"
  shows "\<exists>tool. GetDelivery (d_id r) u t d = (scanDelivery r tool, d)"
proof -
  have w: "unique_by ws_id (webhook_sources d)" "unique_by d_id (deliveries d)"
    "d_source r \<in> ws_id ` set (webhook_sources d)"
    using inv row by (auto simp: db_inv_def wf_db_def wf_webhooks_def)
  then obtain s where s: "s \<in> set (webhook_sources d)" "ws_id s = d_source r" by auto
  have mem: "(r, ws_name s) \<in> set (joined_deliveries d)"
    using row s by (auto simp: joined_iff)
  have only: "p = (r, ws_name s)" if pm: "p \<in> set (joined_deliveries d)" "(\<lambda>(q, tool). d_id q = d_id r) p" for p
  proof -
    obtain q tool where qt: "p = (q, tool)" by (cases p)
    then obtain s' where p: "p = (q, ws_name s')" "q \<in> set (deliveries d)" "s' \<in> set (webhook_sources d)"
      "ws_id s' = d_source q" "d_id q = d_id r"
      using pm joined_iff [of q tool d] by auto
    have "q = r" using unique_byD [OF w(2) p(2) row p(5)] .
    moreover from this have "s' = s" using unique_byD [OF w(1) p(3) s(1)] p(4) s(2) by simp
    ultimately show ?thesis using p(1) by simp
  qed
  have "find (\<lambda>(q, tool). d_id q = d_id r) (joined_deliveries d) = Some (r, ws_name s)"
    by (rule find_only [OF mem _ only]) simp_all
  then show ?thesis by (intro exI [of _ "ws_name s"]) (simp add: GetDelivery_def)
qed

lemma run_handleRetryDelivery:
  assumes h: "healthy w" and inv: "db_inv (w_db w)" and row: "row \<in> set (deliveries (w_db w))"
    and body: "d_body row = delivery_body raw (j_wh_envelope L env)" and sig: "d_sig_valid row = Some sig"
    and st: "d_status row \<noteq> Some 202" and id: "l_uuid_parse L (url_param r ''delivery_id'') = Some (d_id row)"
    and tm: "time_laws L" "rfc3339_time (we_timestamp env)"
  shows "\<exists>rs w'. run_state (handleRetryDelivery L i r) w = (rs, w') \<and> rs_status rs = 200 \<and>
    w_streams w' = w_streams w @ [(''events.ingest.'' @ we_category env, JsonBody (j_wh_envelope L env))] \<and>
    (\<exists>row' \<in> set (deliveries (w_db w')). d_id row' = d_id row \<and> d_body row' = d_body row \<and> d_status row' = Some 202) \<and>
    healthy w'"
proof -
  obtain tool where get: "GetDelivery (d_id row) (w_uuid w (w_tick w)) (w_clock w (w_tick w)) (w_db w) =
      (scanDelivery row tool, w_db w)"
    using GetDelivery_row [OF inv row] by blast
  have scan: "scanDelivery row tool = Inr \<lparr>dv_id = d_id row, dv_tool = tool,
      dv_status = delivery_status (case d_status row of None \<Rightarrow> 0 | Some c \<Rightarrow> c), dv_sig_valid = sig, dv_raw = raw,
      dv_normalized = Some (j_wh_envelope L env), dv_error = coalesce (d_error row), dv_created = d_created row\<rparr>"
    by (simp add: scanDelivery_def sig body delivery_body_parts)
  have pend: "delivery_status (case d_status row of None \<Rightarrow> 0 | Some c \<Rightarrow> c) \<noteq> ''forwarded''"
    using st by (auto simp: delivery_status_def split: option.splits)
  have "\<exists>row' \<in> set (upd_where (\<lambda>q. d_id q = d_id row) (\<lambda>q. q\<lparr>d_status := Some 202, d_error := None\<rparr>) (deliveries (w_db w))).
      d_id row' = d_id row \<and> d_body row' = d_body row \<and> d_status row' = Some 202"
  proof (rule bexI)
    show "row\<lparr>d_status := Some 202, d_error := None\<rparr> \<in> set (upd_where (\<lambda>q. d_id q = d_id row)
        (\<lambda>q. q\<lparr>d_status := Some 202, d_error := None\<rparr>) (deliveries (w_db w)))"
      using row by (auto simp: in_upd_where intro!: bexI [of _ row])
  qed simp
  then show ?thesis
    using h id get scan pend stored_envelope_j [OF tm]
    by (simp add: handleRetryDelivery_def run_simps forward_def MarkForwarded_def j_raw_def)
qed

section \<open>Forwarded deliveries stay forwarded\<close>

definition fwd_rel :: "world \<Rightarrow> world \<Rightarrow> bool" where
  "fwd_rel w w' \<longleftrightarrow> (db_inv (w_db w) \<longrightarrow> db_inv (w_db w') \<and>
     (\<forall>r \<in> set (deliveries (w_db w)). d_status r = Some 202 \<longrightarrow>
        (\<exists>r' \<in> set (deliveries (w_db w')). d_id r' = d_id r \<and> d_status r' = Some 202)))"

interpretation fr: run_relation fwd_rel
proof
  show "fwd_rel w w" for w by (auto simp: fwd_rel_def)
  show "fwd_rel u v \<Longrightarrow> fwd_rel v w \<Longrightarrow> fwd_rel u w" for u v w
    unfolding fwd_rel_def by metis
qed

lemma fwd_same_db: "w_db w' = w_db w \<Longrightarrow> fwd_rel w w'"
  by (auto simp: fwd_rel_def)

lemma fwd_sql:
  assumes "\<And>u t d. db_inv d \<Longrightarrow> db_inv (snd (g u t d))"
    and "\<And>u t d r. r \<in> set (deliveries d) \<Longrightarrow> d_status r = Some 202 \<Longrightarrow>
      \<exists>r' \<in> set (deliveries (snd (g u t d))). d_id r' = d_id r \<and> d_status r' = Some 202"
  shows "obeys fwd_rel (sql g)"
proof (rule obeysI)
  fix w
  show "fwd_rel w (snd (run_state (sql g) w))"
    by (cases rule: sql_cases [of g w]) (simp_all add: fwd_same_db, simp_all add: fwd_rel_def assms)
qed

lemma fwd_reads: "reads g \<Longrightarrow> obeys fwd_rel (sql g)"
  by (rule fwd_sql) (auto simp: reads_def)

lemma fwd_insert: "obeys fwd_rel (sql (insertDelivery src sig body hdrs))"
  by (rule fwd_sql, erule db_inv_insertDelivery) (auto simp: insertDelivery_def)

lemma fwd_mark: "obeys fwd_rel (sql (MarkForwarded did))"
proof (rule fwd_sql)
  show "db_inv d \<Longrightarrow> db_inv (snd (MarkForwarded did u t d))" for u t d by (rule db_inv_marks)
  fix u t and d :: db and r assume r: "r \<in> set (deliveries d)" "d_status r = Some (202 :: int)"
  let ?r = "if d_id r = did then r\<lparr>d_status := Some 202, d_error := None\<rparr> else r"
  have "?r \<in> set (deliveries (snd (MarkForwarded did u t d)))"
    using r(1) by (auto simp: MarkForwarded_def in_upd_where)
  then show "\<exists>r' \<in> set (deliveries (snd (MarkForwarded did u t d))). d_id r' = d_id r \<and> d_status r' = Some 202"
    using r(2) by (intro bexI [of _ ?r]) auto
qed

text \<open>Marking a delivery failed is harmless when it is not a forwarded one.\<close>

lemma fwd_fail:
  assumes "run_state (sql (MarkFailed did msg)) w = (x, w')"
    and "\<forall>r \<in> set (deliveries (w_db w)). d_id r = did \<longrightarrow> d_status r \<noteq> Some 202"
  shows "fwd_rel w w'"
proof -
  have inv: "db_inv (w_db w) \<Longrightarrow> db_inv (w_db w')"
    using obeys_run [OF ainv.obeys_marks(2) assms(1)] by (simp add: inv_rel_def)
  have "\<exists>r' \<in> set (deliveries (w_db w')). d_id r' = d_id r \<and> d_status r' = Some 202"
    if r: "r \<in> set (deliveries (w_db w))" "d_status r = Some 202" for r
  proof -
    have "d_id r \<noteq> did" using assms(2) r by blast
    then have "r \<in> set (upd_where (\<lambda>r. d_id r = did) (\<lambda>r. r\<lparr>d_status := Some 502, d_error := Some msg\<rparr>)
        (deliveries (w_db w)))"
      using r(1) by (auto simp: in_upd_where)
    moreover have "deliveries (w_db w') = deliveries (w_db w) \<or> deliveries (w_db w') =
        upd_where (\<lambda>r. d_id r = did) (\<lambda>r. r\<lparr>d_status := Some 502, d_error := Some msg\<rparr>) (deliveries (w_db w))"
      using assms(1) by (cases rule: sql_cases [of "MarkFailed did msg" w]) (auto simp: MarkFailed_def)
    ultimately show ?thesis using r by metis
  qed
  with inv show ?thesis by (simp add: fwd_rel_def)
qed

lemma fwd_handleWebhook: "obeys fwd_rel (handleWebhook L s tool r)"
proof (rule obeysI)
  fix w
  obtain rs w' where run: "run_state (handleWebhook L s tool r) w = (rs, w')" by force
  have rec: "obeys fwd_rel (RecordDelivery tool True raw n hdrs)" for raw n hdrs
    unfolding RecordDelivery_def by (intro fr.obeys_control fwd_reads reads_webhook fwd_insert)
  have start: "fwd_rel w (tick (tick w))" by (rule fwd_same_db) simp
  from run have "fwd_rel w w'"
  proof (cases rule: handleWebhook_cases)
    case rejected
    then show ?thesis by (simp add: fr.refl_R)
  next
    case unsigned
    then show ?thesis by (intro fwd_same_db) simp
  next
    case (unrecorded raw n e)
    then show ?thesis using obeys_run [OF rec] fr.trans_R [OF start] by blast
  next
    case (recorded raw env did v y v2 z)
    have "fwd_rel w v" using obeys_run [OF rec recorded(4)] by (rule fr.trans_R [OF start])
    moreover have "fwd_rel v v2" by (rule fwd_same_db) (rule forward_db [OF recorded(5)])
    moreover have "fwd_rel v2 w'"
    proof (cases "isl y")
      case False
      then obtain v3 where v3: "run_state (sql (MarkForwarded did)) v2 = (z, v3)" "w' = with_count tool ''forwarded'' v3"
        using recorded(6) by blast
      have "fwd_rel v3 w'" by (rule fwd_same_db) (simp add: v3(2))
      with obeys_run [OF fwd_mark v3(1)] show ?thesis by (rule fr.trans_R)
    next
      case True
      then obtain v3 where v3: "run_state (sql (MarkFailed did (l_publish_error L))) v2 = (z, v3)"
        "w' = with_count tool ''forward_failed'' (snd (run_state (deadLetter L tool did (j_wh_envelope L env)) v3))"
        using recorded(7) by blast
      obtain row where row: "w_db v = (w_db w)\<lparr>deliveries := deliveries (w_db w) @ [row]\<rparr>" "d_status row = None"
        "did \<notin> d_id ` set (deliveries (w_db w))"
        using RecordDelivery_ok [OF recorded(4)] by auto
      have "\<forall>r \<in> set (deliveries (w_db v2)). d_id r = did \<longrightarrow> d_status r \<noteq> Some 202"
        using row forward_db [OF recorded(5)] by auto
      from fwd_fail [OF v3(1) this] have "fwd_rel v2 v3" .
      moreover have "fwd_rel v3 w'" by (rule fwd_same_db) (simp add: v3(2) deadLetter_db)
      ultimately show ?thesis by (rule fr.trans_R)
    qed
    ultimately show ?thesis using fr.trans_R by blast
  qed
  then show "fwd_rel w (snd (run_state (handleWebhook L s tool r) w))" by (simp add: run)
qed

lemma GetDelivery_status:
  assumes "GetDelivery did u t d = (Inr dv, d')" and "dv_status dv \<noteq> ''forwarded''" and "db_inv d"
    and "r \<in> set (deliveries d)" and "d_id r = did"
  shows "d_status r \<noteq> Some 202"
proof -
  obtain tool where "GetDelivery did u t d = (scanDelivery r tool, d)"
    using GetDelivery_row [OF assms(3,4)] assms(5) by metis
  with assms(1) have "scanDelivery r tool = Inr dv" by simp
  then have "dv_status dv = delivery_status (case d_status r of None \<Rightarrow> 0 | Some c \<Rightarrow> c)"
    by (auto simp: scanDelivery_def split: option.splits)
  with assms(2) show ?thesis by (auto simp: delivery_status_def)
qed

lemma fwd_handleRetry: "obeys fwd_rel (handleRetryDelivery L i r)"
proof (rule obeysI)
  fix w
  show "fwd_rel w (snd (run_state (handleRetryDelivery L i r) w))"
  proof (cases "l_uuid_parse L (url_param r ''delivery_id'')")
    case None
    then show ?thesis by (simp add: handleRetryDelivery_def fr.refl_R)
  next
    case (Some did)
    obtain x v where x: "run_state (sql (GetDelivery did)) w = (x, v)" by force
    have v: "fwd_rel w v" using obeys_run [OF fwd_reads [OF reads_webhook(3)] x] .
    show ?thesis
    proof (cases "\<exists>dv env. x = Inr dv \<and> dv_status dv \<noteq> ''forwarded'' \<and> stored_envelope L (dv_normalized dv) = Some env")
      case False
      then show ?thesis
        using Some x v by (auto simp: handleRetryDelivery_def split: sum.split option.split)
    next
      case True
      then obtain dv env where dv: "x = Inr dv" "dv_status dv \<noteq> ''forwarded''"
        "stored_envelope L (dv_normalized dv) = Some env" by blast
      have get: "GetDelivery did (w_uuid w (w_tick w)) (w_clock w (w_tick w)) (w_db w) = (Inr dv, w_db v)"
        using sql_Inr [OF x [unfolded dv(1)]] by simp
      have db: "w_db v = w_db w" using get by (simp add: GetDelivery_def)
      obtain y v2 where y: "run_state (forward (we_category env) (j_raw (dv_normalized dv))) v = (y, v2)" by force
      have v2: "w_db v2 = w_db w" using forward_db [OF y] db by simp
      show ?thesis
      proof (cases "isl y")
        case False
        obtain z v3 where z: "run_state (sql (MarkForwarded did)) v2 = (z, v3)" by force
        have "fwd_rel v2 v3" using obeys_run [OF fwd_mark z] .
        then have "fwd_rel w v3" using fr.trans_R [OF fwd_same_db [OF v2]] by blast
        then show ?thesis using Some x dv y z False by (auto simp: handleRetryDelivery_def isl_def split: sum.splits)
      next
        case True
        obtain z v3 where z: "run_state (sql (MarkFailed did (l_publish_error L))) v2 = (z, v3)" by force
        have "fwd_rel w v3"
        proof (cases "db_inv (w_db w)")
          case inv: True
          have "\<forall>r \<in> set (deliveries (w_db v2)). d_id r = did \<longrightarrow> d_status r \<noteq> Some 202"
            using GetDelivery_status [OF get dv(2) inv] v2 by auto
          from fwd_fail [OF z this] show ?thesis using fr.trans_R [OF fwd_same_db [OF v2]] by blast
        qed (simp add: fwd_rel_def)
        then show ?thesis using Some x dv y z True by (auto simp: handleRetryDelivery_def isl_def)
      qed
    qed
  qed
qed

lemma fwd_Router: "obeys fwd_rel (wh_Router L s rt r)"
proof -
  have now: "obeys fwd_rel now" by (auto intro!: obeysI fwd_same_db simp: now_def)
  show ?thesis
    by (cases rt)
      (auto simp: wh_Router_def wh_handleMetrics_def handleListDeliveries_def handleGetDelivery_def
        intro!: fr.obeys_control fwd_handleWebhook fr.obeys_Middleware fwd_reads reads_webhook reads_select_live_key now
          fwd_handleRetry)
qed

lemma fwd_serve: "obeys fwd_rel (wh_serve L s qs)"
proof (induction qs)
  case (Cons q qs)
  then show ?case by (cases q) (auto intro!: fr.obeys_bind fr.obeys_ret fwd_Router)
qed (simp add: fr.obeys_ret)

end
