(* ===== verification/WebhookProps.thy ===== *)
theory WebhookProps
  imports WebhookOutcome Demo
begin

text \<open>The properties of the webhook adapter, each with its witness.\<close>

section \<open>A world for the witnesses\<close>

definition demo_source :: source_row where
  "demo_source = \<lparr>ws_id = 40, ws_name = ''marble-jar'', ws_secret_hash = None, ws_path = ''/webhooks/marble-jar''\<rparr>"

definition demo_stored :: wh_envelope where
  "demo_stored = \<lparr>we_event = ''e1'', we_agent = [], we_slug = [], we_category = ''marble_jar_event'',
     we_source = ''marble-jar'', we_timestamp = 1000, we_payload = Some []\<rparr>"

definition demo_delivery :: delivery_row where
  "demo_delivery = \<lparr>d_id = 41, d_source = 40, d_status = Some 502, d_headers = [],
     d_body = delivery_body (Some []) (j_wh_envelope demo_libs demo_stored), d_sig_valid = Some True,
     d_error = Some ''timeout'', d_created = 0\<rparr>"

definition demo_wh_world :: world where
  "demo_wh_world = demo_world\<lparr>w_db := demo_db\<lparr>webhook_sources := [demo_source], deliveries := [demo_delivery]\<rparr>\<rparr>"

definition demo_wh_config :: wh_config where
  "demo_wh_config = \<lparr>wc_port = 8084, wc_nats = ''n'', wc_dsn = ''d'', wc_github = [], wc_jira = [],
     wc_pagerduty = [], wc_marble_jar = ''wh'', wc_salt = demo_salt, wc_jwt_secret = demo_secret, wc_dev_token = []\<rparr>"

definition demo_wh :: wh_server where
  "demo_wh = \<lparr>wh_cfg = demo_wh_config, wh_auth = demo_auth\<rparr>"

definition demo_hook :: "(string \<times> string) list \<Rightarrow> request" where
  "demo_hook hdrs = \<lparr>rq_method = ''POST'', rq_headers = hdrs, rq_params = [], rq_query = [], rq_body = ''{}''\<rparr>"

lemma demo_wh_inv: "db_inv (w_db demo_wh_world)"
  by (simp add: demo_wh_world_def demo_world_def demo_db_def empty_db_def db_inv_defs versions_ok_def cat_rows_def
      demo_agent_def demo_key_def demo_proposal_def demo_source_def demo_delivery_def unique_by_def)

section \<open>The properties\<close>

text \<open>C33. The signature check is exact: it accepts a body for a tool precisely when a secret is configured and
  the tool's header carries the hex MAC of the body under that secret (for GitHub either of two headers,
  for PagerDuty any part of a comma-separated list).\<close>

theorem signature_check_exact:
  "verifySignature L tool r body secret \<longleftrightarrow> secret \<noteq> [] \<and>
     (if tool = ''github'' then
        header r ''X-Hub-Signature-256'' = ''sha256='' @ hex_encode (l_hmac_sha256 L secret body) \<or>
        header r ''X-Hub-Signature'' = ''sha1='' @ hex_encode (l_hmac_sha1 L secret body)
      else if tool = ''pagerduty'' then
        \<exists>part. part \<in> set (split_at (CHR '','') (header r ''X-PagerDuty-Signature'')) \<and>
          trim_space part = ''v1='' @ hex_encode (l_hmac_sha256 L secret body)
      else header r ''X-SignalYard-Signature'' = ''sha256='' @ hex_encode (l_hmac_sha256 L secret body))"
  by (auto simp: verifySignature_iff signed_for_def)

text \<open>C20. Unsigned webhooks do nothing: unless the signature check accepts the body, whatever the tool, the
  request is answered 400 and nothing at all changes, or it is answered 401 and all that changes is the
  count of bad signatures of that tool. A tool without a secret accepts nothing.\<close>

theorem webhook_needs_signature:
  assumes "run_state (wh_Router L s (WPostWebhook t) r) w = (rs, w')"
    and "\<not> verifySignature L (tool_name t) r (take max_body (rq_body r)) (secretFor (wh_cfg s) (tool_name t))"
  shows "rs_status rs = 400 \<and> w' = w \<or> rs_status rs = 401 \<and> w' = with_count (tool_name t) ''bad_signature'' w"
  using assms by (auto simp: wh_Router_def handleWebhook_def Let_def run_count_delivery split: if_splits)

theorem webhook_needs_signature_witness:
  "w_db (snd (run_state (wh_Router demo_libs demo_wh (WPostWebhook GitHub) (demo_hook [])) demo_wh_world)) = w_db demo_wh_world"
proof -
  have "secretFor (wh_cfg demo_wh) (tool_name GitHub) = []"
    by (simp add: demo_wh_def demo_wh_config_def secretFor_def tool_name_def)
  then have "\<not> verifySignature demo_libs (tool_name GitHub) (demo_hook []) (take max_body (rq_body (demo_hook [])))
      (secretFor (wh_cfg demo_wh) (tool_name GitHub))"
    by (simp add: verifySignature_def)
  from webhook_needs_signature [OF surjective_pairing this, of demo_wh_world] show ?thesis by auto
qed

text \<open>C23. A webhook is recorded before it is answered: with 202 or 502 there is a new delivery row that holds
  the payload as received and the normalized event, and with 202 exactly that event was published on the
  ingest stream under the tool's category. So a failed forward can be retried.\<close>

theorem webhook_recorded_before_answer:
  assumes "run_state (wh_Router L s (WPostWebhook t) r) w = (rs, w')" and "rs_status rs \<in> {202, 502}"
  shows "\<exists>raw env row. received_as L (tool_name t) r raw env \<and> row \<in> set (deliveries (w_db w')) \<and>
    d_id row \<notin> d_id ` set (deliveries (w_db w)) \<and> d_body row = delivery_body raw (j_wh_envelope L env) \<and>
    (rs_status rs = 202 \<longrightarrow> w_streams w' = w_streams w @
       [(''events.ingest.'' @ we_category env, JsonBody (j_wh_envelope L env))])"
  using assms by (intro handleWebhook_recorded) (simp_all add: wh_Router_def)

definition demo_signed :: request where
  "demo_signed = demo_hook [(''X-SignalYard-Signature'', ''sha256='' @ hmacSHA256 demo_libs ''wh'' ''{}'')]"

lemma demo_accepted: "rs_status (fst (run_state (wh_Router demo_libs demo_wh (WPostWebhook MarbleJar) demo_signed) demo_wh_world)) = 202"
proof -
  have healthy: "healthy demo_wh_world"
    by (simp add: healthy_def demo_wh_world_def demo_world_def)
  have body: "rq_body demo_signed = ''{}''" "take max_body ''{}'' = ''{}''"
    by (simp_all add: demo_signed_def demo_hook_def max_body_def)
  have secret: "secretFor (wh_cfg demo_wh) ''marble-jar'' = ''wh''"
    by (simp add: demo_wh_def demo_wh_config_def secretFor_def)
  have ok: "verifySignature demo_libs ''marble-jar'' demo_signed ''{}'' ''wh''"
    by (simp add: verifySignature_iff signed_for_def demo_signed_def demo_hook_def sget_def hmacSHA256_def)
  have parse: "l_json_parse demo_libs ''{}'' = Some (JObj [])"
    by (simp add: demo_libs_def demo_texts_def)
  have src: "fst (sourceID ''marble-jar'' u t (w_db demo_wh_world)) = Inr 40" "snd (sourceID n u t d) = d" for n u t d
    by (simp_all add: sourceID_def demo_wh_world_def demo_source_def)
  have ins: "fst (insertDelivery 40 sig b h 103 t (w_db demo_wh_world)) = Inr 103" for sig b h t
    by (simp add: insertDelivery_def demo_wh_world_def demo_source_def demo_delivery_def)
  have tick: "w_tick demo_wh_world = 100" "w_uuid demo_wh_world n = word_of_nat n" for n
    by (simp_all add: demo_wh_world_def demo_world_def)
  show ?thesis
    using healthy
    by (simp add: wh_Router_def tool_name_def handleWebhook_def Let_def body secret ok parse run_simps RecordDelivery_def
        src ins tick forward_def run_count_delivery)
qed

theorem webhook_recorded_before_answer_witness:
  "length (w_streams (snd (run_state (wh_Router demo_libs demo_wh (WPostWebhook MarbleJar) demo_signed) demo_wh_world))) = 1"
proof -
  let ?r = "run_state (wh_Router demo_libs demo_wh (WPostWebhook MarbleJar) demo_signed) demo_wh_world"
  have st: "rs_status (fst ?r) \<in> {202, 502}" using demo_accepted by simp
  have "w_streams demo_wh_world = []" by (simp add: demo_wh_world_def demo_world_def)
  with webhook_recorded_before_answer [OF surjective_pairing st] demo_accepted show ?thesis by auto
qed

text \<open>C30. A retry delivers: in a world where nothing fails, retrying a stored delivery that is not yet
  forwarded answers 200, publishes exactly the stored event under its category and marks the row
  forwarded, with its body unchanged.\<close>

theorem retry_delivers:
  assumes "healthy w" and "db_inv (w_db w)" and "row \<in> set (deliveries (w_db w))"
    and "d_body row = delivery_body raw (j_wh_envelope L env)" and "d_sig_valid row = Some sig"
    and "d_status row \<noteq> Some 202" and "l_uuid_parse L (url_param r ''delivery_id'') = Some (d_id row)"
    and "time_laws L" and "rfc3339_time (we_timestamp env)"
  shows "\<exists>rs w'. run_state (handleRetryDelivery L i r) w = (rs, w') \<and> rs_status rs = 200 \<and>
    w_streams w' = w_streams w @ [(''events.ingest.'' @ we_category env, JsonBody (j_wh_envelope L env))] \<and>
    (\<exists>row' \<in> set (deliveries (w_db w')). d_id row' = d_id row \<and> d_body row' = d_body row \<and> d_status row' = Some 202)"
  using run_handleRetryDelivery [OF assms] by blast

definition demo_retry :: request where
  "demo_retry = \<lparr>rq_method = ''POST'', rq_headers = [], rq_params = [(''delivery_id'', demo_uuid_string 41)],
     rq_query = [], rq_body = []\<rparr>"

theorem retry_delivers_witness:
  "\<exists>rs w'. run_state (handleRetryDelivery demo_libs zero_identity demo_retry) demo_wh_world = (rs, w') \<and>
     rs_status rs = 200 \<and> length (w_streams w') = 1"
proof -
  have h: "healthy demo_wh_world" by (simp add: healthy_def demo_wh_world_def demo_world_def)
  have row: "demo_delivery \<in> set (deliveries (w_db demo_wh_world))" by (simp add: demo_wh_world_def)
  have body: "d_body demo_delivery = delivery_body (Some []) (j_wh_envelope demo_libs demo_stored)"
    "d_sig_valid demo_delivery = Some True" "d_status demo_delivery \<noteq> Some 202"
    by (simp_all add: demo_delivery_def)
  have id: "l_uuid_parse demo_libs (url_param demo_retry ''delivery_id'') = Some (d_id demo_delivery)"
    by (simp add: demo_libs_def demo_retry_def sget_def demo_uuid demo_delivery_def)
  have t: "rfc3339_time (we_timestamp demo_stored)" by (simp add: demo_stored_def rfc3339_time_def)
  have "w_streams demo_wh_world = []" by (simp add: demo_wh_world_def demo_world_def)
  with retry_delivers [OF h demo_wh_inv row body id demo_laws(2) t] show ?thesis by fastforce
qed

text \<open>Deliveries are never dropped and forwarded ones stay forwarded: over any sequence of requests, and
  whatever fails, every delivery keeps its id, body and headers, one that is marked forwarded stays so,
  and all constraints keep holding.\<close>

theorem forwarded_is_final:
  assumes "run_state (wh_serve L s qs) w = (rss, w')" and "db_inv (w_db w)" and "r \<in> set (deliveries (w_db w))"
  shows "db_inv (w_db w') \<and>
    (\<exists>r' \<in> set (deliveries (w_db w')). d_id r' = d_id r \<and> d_body r' = d_body r \<and> d_headers r' = d_headers r \<and>
       (d_status r = Some 202 \<longrightarrow> d_status r' = Some 202))"
proof -
  have inv: "db_inv (w_db w')" and fwd: "d_status r = Some 202 \<Longrightarrow>
      \<exists>r' \<in> set (deliveries (w_db w')). d_id r' = d_id r \<and> d_status r' = Some 202"
    using obeys_run [OF fwd_serve assms(1)] assms(2,3) by (auto simp: fwd_rel_def)
  obtain r' where r': "r' \<in> set (deliveries (w_db w'))" "d_id r' = d_id r" "d_body r' = d_body r" "d_headers r' = d_headers r"
    using obeys_run [OF akept.wh_serve assms(1)] assms(3) unfolding deliveries_kept_def by blast
  have "d_status r' = Some 202" if st: "d_status r = Some 202"
  proof -
    obtain q where q: "q \<in> set (deliveries (w_db w'))" "d_id q = d_id r" "d_status q = Some 202" using fwd [OF st] by blast
    have "unique_by d_id (deliveries (w_db w'))" using inv by (simp add: db_inv_defs)
    from unique_byD [OF this q(1) r'(1)] q r'(2) show ?thesis by simp
  qed
  with inv r' show ?thesis by blast
qed

theorem forwarded_is_final_witness:
  "db_inv (w_db (snd (run_state (wh_serve demo_libs demo_wh
     [(WPostWebhook MarbleJar, demo_signed), (WPostRetryOf, demo_retry)]) demo_wh_world)))"
proof -
  have "demo_delivery \<in> set (deliveries (w_db demo_wh_world))" by (simp add: demo_wh_world_def)
  from forwarded_is_final [OF surjective_pairing demo_wh_inv this] show ?thesis by blast
qed

end
