(* ===== verification/GatewayStore.thy ===== *)
theory GatewayStore
  imports RegistryLaws
begin

text \<open>
  \<open>internal/coreapi/store.go\<close>: the gateway's queries over agents, keys, users, events and idempotency
  records, and the migrations it applies at start (\<open>Migrate\<close>, and the loop of
  \<open>cmd/core-api-gateway/main.go\<close>). The effect of a migration's SQL text is a parameter.
\<close>

section \<open>Rows as the gateway sees them\<close>

record gw_agent =
  ga_id :: uuid
  ga_name :: string
  ga_slug :: string
  ga_description :: string
  ga_type :: string
  ga_status :: string
  ga_email :: string
  ga_created :: time

record gw_key =
  gk_id :: uuid
  gk_agent :: uuid
  gk_prefix :: string
  gk_label :: string
  gk_scopes :: "string list option"
  gk_revoked :: "time option"
  gk_last_used :: "time option"
  gk_expires :: "time option"
  gk_created :: time

record gw_event =
  gv_id :: uuid
  gv_agent :: "uuid option"
  gv_category :: string
  gv_source :: string
  gv_timestamp :: time
  gv_payload :: jmap
  gv_created :: time

record gw_user =
  gu_id :: uuid
  gu_email :: string
  gu_display :: string
  gu_subject :: string
  gu_role :: string

text \<open>Scanning a row: a null column does not scan into a Go string.\<close>

definition scanAgent :: "agent_row \<Rightarrow> gw_agent res" where
  "scanAgent a =
     (case (a_description a, a_email a) of
        (Some desc, Some email) \<Rightarrow>
          Inr \<lparr>ga_id = a_id a, ga_name = a_name a, ga_slug = a_slug a, ga_description = desc,
               ga_type = a_type a, ga_status = a_status a, ga_email = email, ga_created = a_created a\<rparr>
      | _ \<Rightarrow> Inl ScanNull)"

definition scanKey :: "key_row \<Rightarrow> gw_key res" where
  "scanKey k =
     (case k_label k of
        None \<Rightarrow> Inl ScanNull
      | Some label \<Rightarrow>
          Inr \<lparr>gk_id = k_id k, gk_agent = k_agent k, gk_prefix = k_prefix k, gk_label = label,
               gk_scopes = k_scopes k, gk_revoked = k_revoked k, gk_last_used = k_last_used k,
               gk_expires = k_expires k, gk_created = k_created k\<rparr>)"

definition scanEvent :: "event_row \<times> string \<Rightarrow> gw_event res" where
  "scanEvent p = (let (e, category) = p in
     case e_source e of
        None \<Rightarrow> Inl ScanNull
      | Some source \<Rightarrow>
          Inr \<lparr>gv_id = e_id e, gv_agent = e_agent e, gv_category = category, gv_source = source,
               gv_timestamp = e_occurred e, gv_payload = e_payload e, gv_created = e_created e\<rparr>)"

section \<open>Agents\<close>

text \<open>\<open>slugify\<close> up to its random suffix. Runes outside ASCII fall in the default case, so do each of
  their bytes, and a run of them yields one dash either way. The accumulator is \<open>out\<close> reversed, with
  \<open>lastDash\<close>.\<close>

fun slug_chars :: "string \<Rightarrow> bool \<Rightarrow> string \<Rightarrow> string" where
  "slug_chars out lastDash [] = rev out"
| "slug_chars out lastDash (c # s) =
     (let n = of_char c :: nat in
      if (97 \<le> n \<and> n \<le> 122) \<or> (48 \<le> n \<and> n \<le> 57) then slug_chars (c # out) False s
      else if 65 \<le> n \<and> n \<le> 90 then slug_chars (char_of (n + 32) # out) False s
      else if \<not> lastDash \<and> out \<noteq> [] then slug_chars (CHR ''-'' # out) True s
      else slug_chars out lastDash s)"

definition slugify :: "libs \<Rightarrow> string \<Rightarrow> string io" where
  "slugify L name = (let s = slug_chars [] False name; base = (if s = [] then ''agent'' else s) in do {
     u \<leftarrow> new_uuid;
     ret (base @ ''-'' @ take 8 (l_uuid_string L u))
   })"

definition gw_insertAgent :: "string \<Rightarrow> string \<Rightarrow> string \<Rightarrow> string \<Rightarrow> string \<Rightarrow> gw_agent stmt" where
  "gw_insertAgent name slug description agentType email u t d =
     (if u \<in> a_id ` set (agents d) \<or> slug \<in> a_slug ` set (agents d) then (Inl UniqueViolation, d)
      else (let row = \<lparr>a_id = u, a_name = name, a_slug = slug, a_description = Some description,
                  a_type = agentType, a_status = ''pending'', a_email = Some email, a_metadata = None,
                  a_created = t, a_updated = t\<rparr> in
            (scanAgent row, d\<lparr>agents := agents d @ [row]\<rparr>)))"

definition gw_CreateAgent :: "libs \<Rightarrow> string \<Rightarrow> string \<Rightarrow> string \<Rightarrow> string \<Rightarrow> gw_agent res io" where
  "gw_CreateAgent L name email categoryHint description =
     (let agentType = (if categoryHint = [] then ''custom'' else categoryHint) in do {
        slug \<leftarrow> slugify L name;
        sql (gw_insertAgent name slug description agentType email)
      })"

definition gw_GetAgent :: "uuid \<Rightarrow> gw_agent stmt" where
  "gw_GetAgent aid u t d =
     (case find (\<lambda>a. a_id a = aid) (agents d) of None \<Rightarrow> Inl ErrNotFound | Some a \<Rightarrow> scanAgent a, d)"

section \<open>API keys\<close>

definition CreateAPIKey ::
  "uuid \<Rightarrow> string \<Rightarrow> string list option \<Rightarrow> string \<Rightarrow> string \<Rightarrow> gw_key stmt" where
  "CreateAPIKey agentID label scopes keyHash keyPrefix u t d =
     (if u \<in> k_id ` set (api_keys d) \<or> keyHash \<in> k_hash ` set (api_keys d) then (Inl UniqueViolation, d)
      else if agentID \<notin> a_id ` set (agents d) then (Inl ForeignKeyViolation, d)
      else (let row = \<lparr>k_id = u, k_agent = agentID, k_hash = keyHash, k_prefix = keyPrefix,
                  k_label = Some label, k_scopes = scopes, k_revoked = None, k_last_used = None,
                  k_expires = None, k_created = t, k_updated = t\<rparr> in
            (scanKey row, d\<lparr>api_keys := api_keys d @ [row]\<rparr>)))"

definition GetAPIKeyByHash :: "string \<Rightarrow> gw_key stmt" where
  "GetAPIKeyByHash keyHash u t d =
     (case find (\<lambda>k. k_hash k = keyHash) (api_keys d) of None \<Rightarrow> Inl ErrNotFound | Some k \<Rightarrow> scanKey k, d)"

definition GetAPIKeyByID :: "uuid \<Rightarrow> gw_key stmt" where
  "GetAPIKeyByID kid u t d =
     (case find (\<lambda>k. k_id k = kid) (api_keys d) of None \<Rightarrow> Inl ErrNotFound | Some k \<Rightarrow> scanKey k, d)"

definition RevokeAPIKey :: "uuid \<Rightarrow> unit stmt" where
  "RevokeAPIKey kid u t d =
     (if count_where (\<lambda>k. k_id k = kid \<and> k_revoked k = None) (api_keys d) = 0 then (Inl ErrNotFound, d)
      else (Inr (), d\<lparr>api_keys := upd_where (\<lambda>k. k_id k = kid \<and> k_revoked k = None)
             (\<lambda>k. k\<lparr>k_revoked := Some t, k_updated := t\<rparr>) (api_keys d)\<rparr>))"

definition TouchAPIKey :: "uuid \<Rightarrow> unit stmt" where
  "TouchAPIKey kid u t d =
     (Inr (), d\<lparr>api_keys := upd_where (\<lambda>k. k_id k = kid) (\<lambda>k. k\<lparr>k_last_used := Some t\<rparr>) (api_keys d)\<rparr>)"

section \<open>Events\<close>

definition joined_events :: "db \<Rightarrow> (event_row \<times> string) list" where
  "joined_events d = [(e, c_name c). e \<leftarrow> events d, c \<leftarrow> categories d, c_id c = e_category e]"

text \<open>The conditions the query is assembled from; an empty category and zero times add none.\<close>

definition in_range :: "string \<Rightarrow> time \<Rightarrow> time \<Rightarrow> event_row \<times> string \<Rightarrow> bool" where
  "in_range category start end_time p \<longleftrightarrow>
     (category \<noteq> [] \<longrightarrow> snd p = category) \<and>
     (start \<noteq> zero_time \<longrightarrow> start \<le> e_occurred (fst p)) \<and>
     (end_time \<noteq> zero_time \<longrightarrow> e_occurred (fst p) \<le> end_time)"

definition query_limit :: "int \<Rightarrow> nat" where
  "query_limit limit = nat (if limit \<le> 0 \<or> limit > 1000 then 100 else limit)"

definition QueryEvents :: "string \<Rightarrow> time \<Rightarrow> time \<Rightarrow> int \<Rightarrow> gw_event list stmt" where
  "QueryEvents category start end_time limit u t d =
     (map_res scanEvent (take (query_limit limit) (order_desc (\<lambda>p. e_occurred (fst p))
        (filter (in_range category start end_time) (joined_events d)))), d)"

section \<open>Users\<close>

definition scanUser :: "user_row \<Rightarrow> gw_user res" where
  "scanUser r =
     (case u_display r of
        None \<Rightarrow> Inl ScanNull
      | Some name \<Rightarrow> Inr \<lparr>gu_id = u_id r, gu_email = u_email r, gu_display = name,
                         gu_subject = u_subject r, gu_role = u_role r\<rparr>)"

definition UpsertUserByOIDC :: "string \<Rightarrow> string \<Rightarrow> string \<Rightarrow> gw_user stmt" where
  "UpsertUserByOIDC email subject displayName u t d =
     (case find (\<lambda>r. u_subject r = subject) (users d) of
        Some r \<Rightarrow>
          (let f = (\<lambda>r. r\<lparr>u_last_login := Some t, u_display := Some displayName\<rparr>) in
           (scanUser (f r), d\<lparr>users := upd_where (\<lambda>r. u_subject r = subject) f (users d)\<rparr>))
      | None \<Rightarrow>
          if u \<in> u_id ` set (users d) \<or> email \<in> u_email ` set (users d) then (Inl UniqueViolation, d)
          else (let row = \<lparr>u_id = u, u_email = email, u_display = Some displayName, u_subject = subject,
                      u_role = ''viewer'', u_last_login = Some t\<rparr> in
                (scanUser row, d\<lparr>users := users d @ [row]\<rparr>)))"

section \<open>Idempotency records\<close>

definition GetIdempotencyResponse :: "string \<Rightarrow> uuid \<Rightarrow> json stmt" where
  "GetIdempotencyResponse key agentID u t d =
     (case find (\<lambda>i. i_key i = key \<and> i_agent i = agentID) (idempotency_keys d) of
        None \<Rightarrow> Inl ErrNotFound | Some i \<Rightarrow> Inr (i_response i), d)"

definition SaveIdempotencyResponse :: "string \<Rightarrow> uuid \<Rightarrow> uuid \<Rightarrow> json \<Rightarrow> unit stmt" where
  "SaveIdempotencyResponse key agentID eventID response u t d =
     (if (key, agentID) \<in> (\<lambda>i. (i_key i, i_agent i)) ` set (idempotency_keys d) then (Inr (), d)
      else if agentID \<notin> a_id ` set (agents d) then (Inl ForeignKeyViolation, d)
      else (Inr (), d\<lparr>idempotency_keys := idempotency_keys d @
             [\<lparr>i_key = key, i_agent = agentID, i_event = eventID, i_response = response\<rparr>]\<rparr>))"

section \<open>Migrations\<close>

definition migration_applied :: "string \<Rightarrow> bool stmt" where
  "migration_applied name u t d = (Inr (name \<in> set (migrations d)), d)"

definition record_migration :: "string \<Rightarrow> unit stmt" where
  "record_migration name u t d =
     (if name \<in> set (migrations d) then (Inl UniqueViolation, d)
      else (Inr (), d\<lparr>migrations := migrations d @ [name]\<rparr>))"

text \<open>\<open>CREATE TABLE IF NOT EXISTS schema_migrations\<close>: the table is always there in the model.\<close>

definition create_migrations_table :: "unit stmt" where
  "create_migrations_table u t d = (Inr (), d)"

definition Migrate :: "string \<Rightarrow> unit stmt \<Rightarrow> unit res io" where
  "Migrate name script = do {
     x \<leftarrow> sql create_migrations_table;
     (case x of
        Inl e \<Rightarrow> ret (Inl e)
      | Inr _ \<Rightarrow> do {
          y \<leftarrow> sql (migration_applied name);
          (case y of
             Inl e \<Rightarrow> ret (Inl e)
           | Inr applied \<Rightarrow>
               if applied then ret (Inr ())
               else do {
                 z \<leftarrow> tx_begin;
                 (case z of
                    Inl e \<Rightarrow> ret (Inl e)
                  | Inr d \<Rightarrow> do {
                      (a, d1) \<leftarrow> tx_sql script d;
                      (case a of
                         Inl e \<Rightarrow> ret (Inl e)
                       | Inr _ \<Rightarrow> do {
                           (b, d2) \<leftarrow> tx_sql (record_migration name) d1;
                           (case b of Inl e \<Rightarrow> ret (Inl e) | Inr _ \<Rightarrow> tx_commit d2)
                         })
                    })
               })
        })
   }"

text \<open>An entry of the migrations directory: its name, whether it is a directory, and its contents
  (\<open>None\<close> when it cannot be read); \<open>run\<close> is what Postgres does with a text.\<close>

record dir_entry =
  de_name :: string
  de_dir :: bool
  de_text :: "bytes option"

datatype startup_error = ReadMigration string | RunMigration string db_error

fun run_migrations :: "(bytes \<Rightarrow> unit stmt) \<Rightarrow> dir_entry list \<Rightarrow> (startup_error + unit) io" where
  "run_migrations run [] = ret (Inr ())"
| "run_migrations run (f # fs) =
     (if de_dir f \<or> \<not> suffix ''.sql'' (de_name f) then run_migrations run fs
      else (case de_text f of
          None \<Rightarrow> ret (Inl (ReadMigration (de_name f)))
        | Some text \<Rightarrow> do {
            x \<leftarrow> Migrate (de_name f) (run text);
            (case x of Inl e \<Rightarrow> ret (Inl (RunMigration (de_name f) e)) | Inr _ \<Rightarrow> run_migrations run fs)
          }))"

end
