(* ===== verification/RateLimit.thy ===== *)
theory RateLimit
  imports Effects
begin

text \<open>
  \<open>internal/coreapi/rate.go\<close>: the token bucket of each agent, kept in the gateway's memory. \<open>refill\<close> and
  \<open>take_token\<close> are the two halves of \<open>allow\<close>. The lemmas keep a bucket within its bounds and say
  what a call costs: a bucket's level, less the refill of its time, falls by one with every allowed call.
  Go's \<open>float64\<close> arithmetic is exact here.
\<close>

record limiter =
  lm_rps :: rat
  lm_burst :: rat

definition newRateLimiter :: "rat \<Rightarrow> rat \<Rightarrow> limiter" where
  "newRateLimiter rps burst =
     \<lparr>lm_rps = (if rps \<le> 0 then 50 else rps), lm_burst = (if burst \<le> 0 then 100 else burst)\<rparr>"

text \<open>\<open>Duration.Seconds()\<close>.\<close>

definition seconds :: "int \<Rightarrow> rat" where
  "seconds d = rat_of_int d / 10 ^ 9"

definition refill :: "limiter \<Rightarrow> time \<Rightarrow> bucket \<Rightarrow> bucket" where
  "refill lm t b =
     (let tokens = bk_tokens b + seconds (t - bk_last b) * lm_rps lm in
      \<lparr>bk_tokens = (if tokens > lm_burst lm then lm_burst lm else tokens), bk_last = t\<rparr>)"

definition take_token :: "bucket \<Rightarrow> bool \<times> bucket" where
  "take_token b =
     (if bk_tokens b < 1 then (False, b) else (True, b\<lparr>bk_tokens := bk_tokens b - 1\<rparr>))"

definition allow_bucket :: "limiter \<Rightarrow> time \<Rightarrow> bucket option \<Rightarrow> bool \<times> bucket" where
  "allow_bucket lm t known =
     take_token (refill lm t
       (case known of None \<Rightarrow> \<lparr>bk_tokens = lm_burst lm, bk_last = t\<rparr> | Some b \<Rightarrow> b))"

definition allow :: "limiter \<Rightarrow> uuid \<Rightarrow> bool io" where
  "allow lm agent = do {
     t \<leftarrow> now;
     known \<leftarrow> recall (\<lambda>m. m_buckets m agent);
     (let (ok, b) = allow_bucket lm t known in do {
        _ \<leftarrow> remember (\<lambda>m. m\<lparr>m_buckets := (m_buckets m)(agent \<mapsto> b)\<rparr>);
        ret ok
      })
   }"

section \<open>The bucket stays within its bounds\<close>

definition bucket_ok :: "limiter \<Rightarrow> time \<Rightarrow> bucket \<Rightarrow> bool" where
  "bucket_ok lm t b \<longleftrightarrow> 0 \<le> bk_tokens b \<and> bk_tokens b \<le> lm_burst lm \<and> bk_last b \<le> t"

definition limiter_ok :: "limiter \<Rightarrow> bool" where
  "limiter_ok lm \<longleftrightarrow> 0 < lm_rps lm \<and> 0 < lm_burst lm"

lemma newRateLimiter_ok: "limiter_ok (newRateLimiter rps burst)"
  by (simp add: limiter_ok_def newRateLimiter_def)

lemma seconds_simps [simp]: "seconds 0 = 0" "0 \<le> d \<Longrightarrow> 0 \<le> seconds d"
  by (simp_all add: seconds_def)

lemma seconds_add: "seconds (a + b) = seconds a + seconds b"
  by (simp add: seconds_def add_divide_distrib)

definition level :: "limiter \<Rightarrow> bucket option \<Rightarrow> rat" where
  "level lm k = (case k of None \<Rightarrow> lm_burst lm | Some b \<Rightarrow> bk_tokens b)"

definition known_ok :: "limiter \<Rightarrow> time \<Rightarrow> bucket option \<Rightarrow> bool" where
  "known_ok lm t k \<longleftrightarrow> (case k of None \<Rightarrow> True | Some b \<Rightarrow> bucket_ok lm t b)"

lemma refill_ok:
  assumes "limiter_ok lm" and "bucket_ok lm t b"
  shows "bucket_ok lm t (refill lm t b)"
    and "bk_tokens (refill lm t b) \<le> bk_tokens b + seconds (t - bk_last b) * lm_rps lm"
    and "bk_last (refill lm t b) = t"
proof -
  have "0 \<le> seconds (t - bk_last b) * lm_rps lm"
    using assms by (simp add: limiter_ok_def bucket_ok_def)
  then show "bucket_ok lm t (refill lm t b)"
    using assms by (auto simp: refill_def bucket_ok_def limiter_ok_def Let_def)
  show "bk_tokens (refill lm t b) \<le> bk_tokens b + seconds (t - bk_last b) * lm_rps lm" "bk_last (refill lm t b) = t"
    by (auto simp: refill_def Let_def)
qed

lemma allow_bucket_ok:
  assumes lm: "limiter_ok lm" and k: "known_ok lm t k" and run: "allow_bucket lm t k = (ok, b)"
  shows "bucket_ok lm t b" and "bk_last b = t"
    and "bk_tokens b + of_bool ok \<le> level lm k + (case k of None \<Rightarrow> 0 | Some c \<Rightarrow> seconds (t - bk_last c) * lm_rps lm)"
proof -
  let ?c = "case k of None \<Rightarrow> \<lparr>bk_tokens = lm_burst lm, bk_last = t\<rparr> | Some c \<Rightarrow> c"
  have c: "bucket_ok lm t ?c"
    using lm k by (cases k) (auto simp: known_ok_def bucket_ok_def limiter_ok_def)
  have b: "b = (if bk_tokens (refill lm t ?c) < 1 then refill lm t ?c
      else (refill lm t ?c)\<lparr>bk_tokens := bk_tokens (refill lm t ?c) - 1\<rparr>)"
    "ok = (\<not> bk_tokens (refill lm t ?c) < 1)"
    using run by (auto simp: allow_bucket_def take_token_def split: if_splits)
  show "bucket_ok lm t b" "bk_last b = t"
    using refill_ok [OF lm c] by (auto simp: b bucket_ok_def)
  show "bk_tokens b + of_bool ok \<le> level lm k + (case k of None \<Rightarrow> 0 | Some c \<Rightarrow> seconds (t - bk_last c) * lm_rps lm)"
    using refill_ok(2) [OF lm c] by (auto simp: b level_def split: option.splits)
qed

text \<open>Waiting for one token's worth of time is enough.\<close>

lemma allow_after_wait:
  assumes "limiter_ok lm" and "1 \<le> lm_burst lm" and "bucket_ok lm t b" and "1 \<le> seconds (t - bk_last b) * lm_rps lm"
  shows "fst (allow_bucket lm t (Some b))"
  using assms by (auto simp: allow_bucket_def take_token_def refill_def Let_def bucket_ok_def)

lemma allow_first:
  assumes "limiter_ok lm"
  shows "fst (allow_bucket lm t None) \<longleftrightarrow> 1 \<le> lm_burst lm"
  by (auto simp: allow_bucket_def take_token_def refill_def Let_def)

section \<open>The limiter over all agents\<close>

lemma run_allow:
  "run_state (allow lm a) w =
     (let (ok, b) = allow_bucket lm (w_clock w (w_tick w)) (m_buckets (w_mem w) a) in
      (ok, tick (w\<lparr>w_mem := (w_mem w)\<lparr>m_buckets := (m_buckets (w_mem w))(a \<mapsto> b)\<rparr>\<rparr>)))"
  by (simp add: allow_def run_simps split: prod.split)

end
