(* ===== verification/GatewayAuth.thy ===== *)
theory GatewayAuth
  imports GatewayStore Config RateLimit
begin

text \<open>
  \<open>internal/coreapi/auth.go\<close> and the middleware of \<open>rate.go\<close>: key generation, the two kinds of
  callers of the gateway (agents with an API key or an agent JWT, people with a session JWT), the
  guards in front of its handlers, and the tokens it issues.

  \<open>rand.Read\<close> and HS256 signing do not fail. A request's handler runs after \<open>TouchAPIKey\<close>, which the
  code starts concurrently.
\<close>

section \<open>Keys\<close>

definition HashAPIKey :: "libs \<Rightarrow> bytes \<Rightarrow> string \<Rightarrow> string" where
  "HashAPIKey L salt token = hex_encode (l_hmac_sha256 L salt token)"

text \<open>Token, hash and prefix from the random bytes.\<close>

definition api_key_of :: "libs \<Rightarrow> bytes \<Rightarrow> bytes \<Rightarrow> string \<times> string \<times> string" where
  "api_key_of L salt buf =
     (let prefix = hex_encode (take 4 buf); token = ''sy_'' @ prefix @ ''_'' @ hex_encode (drop 4 buf) in
      (token, HashAPIKey L salt token, prefix))"

definition GenerateAPIKey :: "libs \<Rightarrow> bytes \<Rightarrow> (string \<times> string \<times> string) io" where
  "GenerateAPIKey L salt = do {
     buf \<leftarrow> random_bytes 24;
     ret (api_key_of L salt buf)
   }"

fun gw_cut_scheme :: "string list \<Rightarrow> string \<Rightarrow> string option" where
  "gw_cut_scheme [] h = None"
| "gw_cut_scheme (scheme # schemes) h =
     (case cut_prefix h (scheme @ '' '') of
        Some rest \<Rightarrow> Some (trim_space rest)
      | None \<Rightarrow> gw_cut_scheme schemes h)"

definition gw_extractToken :: "request \<Rightarrow> string" where
  "gw_extractToken r =
     (case gw_cut_scheme [''SignalYard'', ''Splunk'', ''Bearer''] (header r ''Authorization'') of
        Some token \<Rightarrow> token
      | None \<Rightarrow> header r ''X-SignalYard-Token'')"

section \<open>Tokens\<close>

definition unix_time :: "time \<Rightarrow> int" where
  "unix_time t = t div 10 ^ 9"

definition session_claims :: "libs \<Rightarrow> gw_user \<Rightarrow> time \<Rightarrow> time \<Rightarrow> jmap" where
  "session_claims L u expires issued =
     [(''email'', JStr (gu_email u)), (''exp'', j_int (unix_time expires)), (''iat'', j_int (unix_time issued)),
      (''role'', JStr (gu_role u)), (''sub'', JStr (l_uuid_string L (gu_id u)))]"

definition issueSessionToken :: "libs \<Rightarrow> gw_config \<Rightarrow> gw_user \<Rightarrow> (string \<times> time) io" where
  "issueSessionToken L cfg u = do {
     t \<leftarrow> now;
     (let expires = t + 8 * 3600 * 10 ^ 9 in do {
        issued \<leftarrow> now;
        ret (l_jwt_sign L (gc_jwt_secret cfg) (session_claims L u expires issued), expires)
      })
   }"

definition agent_claims :: "libs \<Rightarrow> uuid \<Rightarrow> time \<Rightarrow> time \<Rightarrow> jmap" where
  "agent_claims L agentID expires issued =
     [(''exp'', j_int (unix_time expires)), (''iat'', j_int (unix_time issued)), (''kind'', JStr ''agent''),
      (''sub'', JStr (l_uuid_string L agentID))]"

definition issueAgentToken :: "libs \<Rightarrow> gw_config \<Rightarrow> uuid \<Rightarrow> int \<Rightarrow> (string \<times> time) io" where
  "issueAgentToken L cfg agentID ttl = do {
     t \<leftarrow> now;
     (let expires = t + ttl in do {
        issued \<leftarrow> now;
        ret (l_jwt_sign L (gc_jwt_secret cfg) (agent_claims L agentID expires issued), expires)
      })
   }"

text \<open>The agent of verified claims.\<close>

definition claimed_agent :: "libs \<Rightarrow> jmap \<Rightarrow> uuid option" where
  "claimed_agent L claims =
     (if claim_string claims ''kind'' \<noteq> ''agent'' then None
      else l_uuid_parse L (claim_string claims ''sub''))"

definition parseAgentToken :: "libs \<Rightarrow> gw_config \<Rightarrow> string \<Rightarrow> uuid option io" where
  "parseAgentToken L cfg token = do {
     t \<leftarrow> now;
     ret (case l_jwt_parse L (gc_jwt_secret cfg) t token of
            None \<Rightarrow> None
          | Some claims \<Rightarrow> claimed_agent L claims)
   }"

definition verifyOIDCToken :: "libs \<Rightarrow> gw_config \<Rightarrow> string \<Rightarrow> (string \<times> string \<times> string) option io" where
  "verifyOIDCToken L cfg rawToken =
     (if gc_oidc_issuer cfg = [] then ret None
      else do {
        t \<leftarrow> now;
        ret (l_oidc_verify L (gc_oidc_issuer cfg) (gc_oidc_client cfg) t rawToken)
      })"

section \<open>Guards\<close>

type_synonym agent_handler = "gw_agent \<Rightarrow> request \<Rightarrow> response io"
type_synonym user_handler = "gw_user \<Rightarrow> request \<Rightarrow> response io"

definition key_dead :: "time \<Rightarrow> gw_key \<Rightarrow> bool" where
  "key_dead t k \<longleftrightarrow> gk_revoked k \<noteq> None \<or> (case gk_expires k of None \<Rightarrow> False | Some e \<Rightarrow> e < t)"

definition RequireAPIKey :: "libs \<Rightarrow> gw_config \<Rightarrow> agent_handler \<Rightarrow> request \<Rightarrow> response io" where
  "RequireAPIKey L cfg next r =
     (let token = gw_extractToken r in
      if token = [] then ret (WriteError 401 ''missing token'')
      else do {
        x \<leftarrow> sql (GetAPIKeyByHash (HashAPIKey L (gc_salt cfg) token));
        (case x of
           Inl e \<Rightarrow>
             if e = ErrNotFound then do {
               claimed \<leftarrow> parseAgentToken L cfg token;
               (case claimed of
                  None \<Rightarrow> ret (WriteError 401 ''invalid token'')
                | Some agentID \<Rightarrow> do {
                    a \<leftarrow> sql (gw_GetAgent agentID);
                    (case a of
                       Inl _ \<Rightarrow> ret (WriteError 401 ''agent not found for token'')
                     | Inr agent \<Rightarrow> next agent r)
                  })
             }
             else ret (WriteError 500 ''auth lookup failed'')
         | Inr key \<Rightarrow> do {
             t \<leftarrow> now;
             if key_dead t key then ret (WriteError 401 ''token revoked or expired'')
             else do {
               a \<leftarrow> sql (gw_GetAgent (gk_agent key));
               (case a of
                  Inl _ \<Rightarrow> ret (WriteError 401 ''agent not found for token'')
                | Inr agent \<Rightarrow> do {
                    _ \<leftarrow> sql (TouchAPIKey (gk_id key));
                    next agent r
                  })
             }
           })
      })"

definition gw_RequireRole :: "string list \<Rightarrow> user_handler \<Rightarrow> user_handler" where
  "gw_RequireRole roles next u r =
     (if gu_role u \<notin> set roles then ret (WriteError 403 ''forbidden'') else next u r)"

definition zero_user :: gw_user where
  "zero_user = \<lparr>gu_id = 0, gu_email = [], gu_display = [], gu_subject = [], gu_role = []\<rparr>"

text \<open>The id of a \<open>sub\<close> that is no UUID is never read; it is nil here.\<close>

definition session_user :: "libs \<Rightarrow> jmap \<Rightarrow> gw_user" where
  "session_user L claims = zero_user
     \<lparr>gu_id := (case l_uuid_parse L (claim_string claims ''sub'') of None \<Rightarrow> 0 | Some u \<Rightarrow> u),
      gu_email := claim_string claims ''email'', gu_role := claim_string claims ''role''\<rparr>"

definition RequireSession :: "libs \<Rightarrow> gw_config \<Rightarrow> user_handler \<Rightarrow> request \<Rightarrow> response io" where
  "RequireSession L cfg next r =
     (let token = gw_extractToken r in
      if token = [] then ret (WriteError 401 ''missing session token'')
      else if gc_dev_token cfg \<noteq> [] \<and> token = gc_dev_token cfg
      then next (zero_user\<lparr>gu_role := ''admin'', gu_email := ''dev-admin@local''\<rparr>) r
      else do {
        t \<leftarrow> now;
        (case l_jwt_parse L (gc_jwt_secret cfg) t token of
           None \<Rightarrow> ret (WriteError 401 ''invalid session token'')
         | Some claims \<Rightarrow> next (session_user L claims) r)
      })"

definition RateLimit :: "limiter \<Rightarrow> agent_handler \<Rightarrow> agent_handler" where
  "RateLimit lm next agent r = do {
     ok \<leftarrow> allow lm (ga_id agent);
     if \<not> ok then ret (WriteError 429 ''rate limit exceeded'') else next agent r
   }"

section \<open>The keys of the gateway and the platform's view of them\<close>

text \<open>The two token extractors and the two hashes are the same functions.\<close>

lemma gw_cut_scheme_eq: "gw_cut_scheme ss h = cut_scheme ss h"
  by (induction ss) (simp_all split: option.split)

lemma gw_extractToken_eq: "gw_extractToken r = extractToken r"
  by (simp add: gw_extractToken_def extractToken_def gw_cut_scheme_eq)

lemma HashAPIKey_eq: "HashAPIKey L salt token = HashToken L salt token"
  by (simp add: HashAPIKey_def HashToken_def)

lemma api_key_of_token:
  assumes "api_key_of L salt buf = (token, keyHash, pre)" and "length buf = 24"
  shows "length token = 52" and "pre = hex_encode (take 4 buf)" and "keyHash = HashToken L salt token"
    and "token = ''sy_'' @ pre @ ''_'' @ hex_encode (drop 4 buf)"
  using assms by (auto simp: api_key_of_def Let_def HashAPIKey_eq)

lemma api_key_of_inj:
  assumes "fst (api_key_of L s a) = fst (api_key_of L' s' b)" and "length a = 24" and "length b = 24"
  shows "a = b"
proof -
  have "hex_encode (take 4 a) @ ''_'' @ hex_encode (drop 4 a) = hex_encode (take 4 b) @ ''_'' @ hex_encode (drop 4 b)"
    using assms(1) by (simp add: api_key_of_def Let_def)
  then have "hex_encode (take 4 a) = hex_encode (take 4 b)" "hex_encode (drop 4 a) = hex_encode (drop 4 b)"
    using assms(2,3) by (auto simp: append_eq_append_conv)
  then have "take 4 a = take 4 b" "drop 4 a = drop 4 b" by (simp_all add: hex_encode_inj)
  then show ?thesis by (metis append_take_drop_id)
qed

text \<open>A generated token survives the header syntax: it has no white space.\<close>

lemma api_key_no_space: "c \<in> set (fst (api_key_of L s buf)) \<Longrightarrow> \<not> is_space c"
  using hex_encode_no_space by (auto simp: api_key_of_def Let_def is_space_def)

lemma bearer_token:
  assumes "\<And>c. c \<in> set token \<Longrightarrow> \<not> is_space c" and "header r ''Authorization'' = ''SignalYard '' @ token"
  shows "gw_extractToken r = token"
  using assms by (simp add: gw_extractToken_def cut_prefix_iff trim_space_id)

section \<open>Who gets past the guards\<close>

lemma reads_gateway:
  "reads (gw_GetAgent a)" "reads (GetAPIKeyByHash h)" "reads (GetAPIKeyByID k)" "reads (QueryEvents c s e l)"
  "reads (GetIdempotencyResponse key a)"
  by (simp_all add: reads_def gw_GetAgent_def GetAPIKeyByHash_def GetAPIKeyByID_def QueryEvents_def
      GetIdempotencyResponse_def)

end
