(* ===== verification/GatewayManifest.thy ===== *)
theory GatewayManifest
  imports GoLib
begin

text \<open>
  \<open>internal/coreapi/manifest.go\<close>: the documents the gateway serves to agents that onboard themselves.
\<close>

definition j_texts :: "string list \<Rightarrow> json" where
  "j_texts xs = JArr (map JStr xs)"

definition capabilityManifest :: json where
  "capabilityManifest = JObj
     [(''service'', JStr ''signal-yard core_api_gateway''),
      (''version'', JStr ''0.1.0''),
      (''protocols'', j_texts [''rest-json'', ''otlp-http'', ''mcp'']),
      (''ingestion'', JObj
        [(''generic_events'', JObj
           [(''method'', JStr ''POST''),
            (''path'', JStr ''/v1/collect''),
            (''auth'', JStr ''HEC-style token: Authorization: SignalYard <api_key>''),
            (''envelope'', JObj
              [(''required'', j_texts [''category'', ''timestamp'', ''payload'']),
               (''optional'', j_texts [''source''])])]),
         (''otlp'', JObj
           [(''traces'', JStr ''/v1/otlp/traces''),
            (''metrics'', JStr ''/v1/otlp/metrics''),
            (''logs'', JStr ''/v1/otlp/logs'')])]),
      (''unknown_shapes'', JStr ''Events with unrecognized payload shapes are quarantined, classified by an AI agent, and proposed as schema patches for human review. Nothing is silently dropped.''),
      (''query'', JObj [(''mcp_tool'', JStr ''query_events'')])]"

definition mcp_tool :: "string \<Rightarrow> string \<Rightarrow> string list option \<Rightarrow> (string \<times> string) list \<Rightarrow> json" where
  "mcp_tool name description required props = JObj
     [(''name'', JStr name),
      (''description'', JStr description),
      (''endpoint'', JStr (''/mcp/tools/'' @ name)),
      (''inputSchema'', JObj
        [(''type'', JStr ''object''),
         (''properties'', JObj (map (\<lambda>(k, v). (k, JObj [(''type'', JStr v)])) props)),
         (''required'', j_strings required)])]"

definition mcp_tools :: "json list" where
  "mcp_tools =
     [mcp_tool ''ingest_event'' ''Ingest a single event into Signal Yard'' (Some [''category'', ''timestamp'', ''payload''])
        [(''category'', ''string''), (''timestamp'', ''string''), (''payload'', ''object''), (''source'', ''string'')],
      mcp_tool ''query_events'' ''Query stored events by category and time range'' None
        [(''category'', ''string''), (''start_time'', ''string''), (''end_time'', ''string''), (''limit'', ''integer'')],
      mcp_tool ''propose_schema'' ''Submit a schema proposal for human review'' (Some [''category'', ''json_schema''])
        [(''category'', ''string''), (''json_schema'', ''object''), (''routing_yaml_diff'', ''string'')],
      mcp_tool ''list_categories'' ''List known event categories'' None [],
      mcp_tool ''get_manifest'' ''Return this capability/MCP manifest'' None []]"

definition mcpManifest :: json where
  "mcpManifest = JObj
     [(''protocol'', JStr ''mcp''),
      (''transport'', JObj
        [(''type'', JStr ''http''),
         (''basePath'', JStr ''/mcp''),
         (''auth'', JStr ''HEC-style token: Authorization: SignalYard <api_key>'')]),
      (''tools'', JArr mcp_tools)]"

definition examplePayloads :: json where
  "examplePayloads = JObj
     [(''soar_alert'', JObj
        [(''category'', JStr ''soar_alert''),
         (''timestamp'', JStr ''2026-09-18T19:00:00Z''),
         (''source'', JStr ''splunk-soar''),
         (''payload'', JObj
           [(''alert_id'', JStr ''ALT-1234''), (''severity'', JStr ''high''), (''rule'', JStr ''suspicious-login'')])]),
      (''dev_agent_trace'', JObj
        [(''category'', JStr ''dev_agent_trace''),
         (''timestamp'', JStr ''2026-09-18T19:00:00Z''),
         (''source'', JStr ''my-coding-agent''),
         (''payload'', JObj
           [(''session_id'', JStr ''sess-abc''), (''tool_calls'', j_int 7), (''outcome'', JStr ''success'')])]),
      (''pm_ticket_update'', JObj
        [(''category'', JStr ''pm_ticket_update''),
         (''timestamp'', JStr ''2026-09-18T19:00:00Z''),
         (''source'', JStr ''jira''),
         (''payload'', JObj
           [(''ticket'', JStr ''PROJ-42''), (''status'', JStr ''In Progress''), (''assignee'', JStr ''ada'')])])]"

definition unlines :: "string list \<Rightarrow> string" where
  "unlines ls = concat (map (\<lambda>(i, l). (if i = 0 then l else CHR 0x0A # l)) (enumerate 0 ls))"

definition apiKeyInstructions :: string where \<open>
  apiKeyInstructions = unlines
    [''1. POST /register with {"agent_name": "...", "contact_email": "..."} to register (no auth required).'',
     ''2. A human approver approves your registration and issues an API key via POST /v1/api-keys.'',
     ''3. Send events to POST /v1/collect with header "Authorization: SignalYard <api_key>".'',
     ''4. Optional: exchange the API key for a short-lived JWT via POST /v1/tokens (body {"ttl_seconds": 3600}) and use it as "Authorization: Bearer <token>" instead of the long-lived key.'',
     ''5. Unknown payload shapes are quarantined and classified; a human reviews the proposed schema before it goes live.'']\<close>

end
