(* ===== verification/GatewayApi.thy ===== *)
theory GatewayApi
  imports GatewayAuth GatewayManifest
begin

text \<open>
  \<open>internal/coreapi/handlers.go\<close> and \<open>server.go\<close>: the gateway's handlers and its routing table.
  The embedded OpenAPI document is a field of the server. The headers of outgoing requests are not modelled;
  reading a request body never fails; a URL that does not parse counts as a peer that does not reply.
\<close>

record gw_server =
  gs_cfg :: gw_config
  gs_limiter :: limiter
  gs_openapi :: bytes

definition NewServer :: "gw_config \<Rightarrow> bytes \<Rightarrow> gw_server" where
  "NewServer cfg openapi =
     \<lparr>gs_cfg = cfg, gs_limiter = newRateLimiter (gc_rps cfg) (gc_burst cfg), gs_openapi = openapi\<rparr>"

text \<open>Writing a JSON body as it is, with its content type.\<close>

definition write_raw :: "nat \<Rightarrow> payload \<Rightarrow> response" where
  "write_raw status body =
     \<lparr>rs_status = status, rs_headers = [(''Content-Type'', ''application/json'')], rs_body = body\<rparr>"

lemma write_raw_simps [simp]: "rs_status (write_raw s b) = s" "rs_body (write_raw s b) = b"
  by (simp_all add: write_raw_def)

section \<open>Counting\<close>

text \<open>\<open>s.metrics.ingestedEvents.WithLabelValues(category, kind).Inc()\<close>\<close>

definition ingested :: "string \<Rightarrow> string \<Rightarrow> metrics \<Rightarrow> metrics" where
  "ingested category kind m = m\<lparr>ingestedEvents := inc_counter [category, kind] (ingestedEvents m)\<rparr>"

definition count_ingested :: "string \<Rightarrow> string \<Rightarrow> unit io" where
  "count_ingested category kind = remember (\<lambda>m. m\<lparr>m_metrics := ingested category kind (m_metrics m)\<rparr>)"

lemma run_count_ingested [run_simps]:
  "run_state (count_ingested c k) w = ((), w\<lparr>w_mem := (w_mem w)\<lparr>m_metrics := ingested c k (m_metrics (w_mem w))\<rparr>\<rparr>)"
  by (simp add: count_ingested_def remember_def)

definition gw_handleMetrics :: "libs \<Rightarrow> request \<Rightarrow> response io" where
  "gw_handleMetrics L r = do {
     m \<leftarrow> recall m_metrics;
     ret (l_promhttp L (registered m) r)
   }"

section \<open>Onboarding\<close>

definition gw_handleHealth :: "request \<Rightarrow> response io" where
  "gw_handleHealth r = ret (WriteJSON 200 (JObj [(''status'', JStr ''ok'')]))"

definition handleStartHere :: "request \<Rightarrow> response io" where
  "handleStartHere r = ret (WriteJSON 200 (JObj
     [(''capability_manifest'', capabilityManifest),
      (''openapi_url'', JStr ''/openapi.json''),
      (''mcp_manifest'', mcpManifest),
      (''api_key_instructions'', JStr apiKeyInstructions),
      (''example_payloads'', examplePayloads)]))"

definition handleMCPManifest :: "request \<Rightarrow> response io" where
  "handleMCPManifest r = ret (WriteJSON 200 mcpManifest)"

definition handleMCPGetManifest :: agent_handler where
  "handleMCPGetManifest agent r = ret (WriteJSON 200 (JObj
     [(''capability_manifest'', capabilityManifest), (''mcp_manifest'', mcpManifest)]))"

definition handleOpenAPI :: "gw_server \<Rightarrow> request \<Rightarrow> response io" where
  "handleOpenAPI s r = ret (write_raw 200 (RawBody (gs_openapi s)))"

section \<open>Registration and login\<close>

record register_request =
  rr_name :: string
  rr_email :: string
  rr_hint :: string
  rr_description :: string

definition register_fields :: "jmap \<Rightarrow> register_request option" where
  "register_fields m =
     (case (dec_field dec_string [] m ''agent_name'', dec_field dec_string [] m ''contact_email'',
            dec_field dec_string [] m ''category_hint'', dec_field dec_string [] m ''description'') of
        (Some n, Some e, Some h, Some d) \<Rightarrow>
          Some \<lparr>rr_name = n, rr_email = e, rr_hint = h, rr_description = d\<rparr>
      | _ \<Rightarrow> None)"

definition handleRegister :: "libs \<Rightarrow> request \<Rightarrow> response io" where
  "handleRegister L r =
     (case decode_struct L register_fields (rq_body r) of
        None \<Rightarrow> ret (WriteError 400 ''invalid JSON body'')
      | Some req \<Rightarrow>
          if rr_name req = [] \<or> rr_email req = []
          then ret (WriteError 400 ''agent_name and contact_email are required'')
          else do {
            x \<leftarrow> gw_CreateAgent L (rr_name req) (rr_email req) (rr_hint req) (rr_description req);
            ret (case x of
               Inl e \<Rightarrow> WriteError 500 ''failed to register agent''
             | Inr agent \<Rightarrow> WriteJSON 201 (JObj
                 [(''agent_id'', j_uuid L (ga_id agent)), (''status'', JStr (ga_status agent))]))
          })"

definition login_token :: "jmap \<Rightarrow> string option" where
  "login_token m = dec_field dec_string [] m ''oidc_token''"

definition handleLogin :: "libs \<Rightarrow> gw_server \<Rightarrow> request \<Rightarrow> response io" where
  "handleLogin L s r =
     (case decode_struct L login_token (rq_body r) of
        None \<Rightarrow> ret (WriteError 400 ''oidc_token is required'')
      | Some token \<Rightarrow>
          if token = [] then ret (WriteError 400 ''oidc_token is required'')
          else do {
            x \<leftarrow> verifyOIDCToken L (gs_cfg s) token;
            (case x of
               None \<Rightarrow> ret (WriteError 401 ''invalid OIDC token'')
             | Some (email, subject, name) \<Rightarrow> do {
                 y \<leftarrow> sql (UpsertUserByOIDC email subject name);
                 (case y of
                    Inl e \<Rightarrow> ret (WriteError 500 ''failed to create session'')
                  | Inr user \<Rightarrow> do {
                      (session, expires) \<leftarrow> issueSessionToken L (gs_cfg s) user;
                      ret (WriteJSON 200 (JObj
                        [(''session_token'', JStr session), (''expires_at'', JStr (l_time_rfc3339 L expires))]))
                    })
               })
          })"

section \<open>API keys\<close>

record create_key_request =
  kq_agent :: string
  kq_label :: string
  kq_scopes :: "string list option"

definition create_key_fields :: "jmap \<Rightarrow> create_key_request option" where
  "create_key_fields m =
     (case (dec_field dec_string [] m ''agent_id'', dec_field dec_string [] m ''label'',
            dec_field dec_strings None m ''scopes'') of
        (Some a, Some l, Some s) \<Rightarrow> Some \<lparr>kq_agent = a, kq_label = l, kq_scopes = s\<rparr>
      | _ \<Rightarrow> None)"

definition handleCreateAPIKey :: "libs \<Rightarrow> gw_server \<Rightarrow> user_handler" where
  "handleCreateAPIKey L s usr r =
     (case decode_struct L create_key_fields (rq_body r) of
        None \<Rightarrow> ret (WriteError 400 ''invalid JSON body'')
      | Some req \<Rightarrow> (case l_uuid_parse L (kq_agent req) of
          None \<Rightarrow> ret (WriteError 400 ''valid agent_id is required'')
        | Some agentID \<Rightarrow> do {
            a \<leftarrow> sql (gw_GetAgent agentID);
            (case a of
               Inl e \<Rightarrow> ret (if e = ErrNotFound then WriteError 400 ''agent not found''
                            else WriteError 500 ''agent lookup failed'')
             | Inr _ \<Rightarrow> do {
                 (token, keyHash, keyPrefix) \<leftarrow> GenerateAPIKey L (gc_salt (gs_cfg s));
                 x \<leftarrow> sql (CreateAPIKey agentID (kq_label req) (kq_scopes req) keyHash keyPrefix);
                 ret (case x of
                    Inl e \<Rightarrow> WriteError 500 ''failed to store key''
                  | Inr key \<Rightarrow> WriteJSON 201 (JObj
                      [(''api_key'', JStr token), (''key_id'', j_uuid L (gk_id key)),
                       (''agent_id'', j_uuid L agentID),
                       (''issued_at'', JStr (l_time_rfc3339 L (gk_created key)))]))
               })
          }))"

definition handleGetAPIKey :: "libs \<Rightarrow> user_handler" where
  "handleGetAPIKey L usr r =
     (case l_uuid_parse L (url_param r ''key_id'') of
        None \<Rightarrow> ret (WriteError 400 ''invalid key_id'')
      | Some keyID \<Rightarrow> do {
          x \<leftarrow> sql (GetAPIKeyByID keyID);
          ret (case x of
             Inl e \<Rightarrow> if e = ErrNotFound then WriteError 404 ''key not found'' else WriteError 500 ''lookup failed''
           | Inr key \<Rightarrow> WriteJSON 200 (JObj
               [(''key_id'', j_uuid L (gk_id key)), (''agent_id'', j_uuid L (gk_agent key)),
                (''key_prefix'', JStr (gk_prefix key)), (''scopes'', j_strings (gk_scopes key)),
                (''created_at'', JStr (l_time_rfc3339 L (gk_created key))),
                (''revoked'', JBool (gk_revoked key \<noteq> None))]))
        })"

definition handleDeleteAPIKey :: "libs \<Rightarrow> user_handler" where
  "handleDeleteAPIKey L usr r =
     (case l_uuid_parse L (url_param r ''key_id'') of
        None \<Rightarrow> ret (WriteError 400 ''invalid key_id'')
      | Some keyID \<Rightarrow> do {
          x \<leftarrow> sql (RevokeAPIKey keyID);
          ret (case x of
             Inl e \<Rightarrow> if e = ErrNotFound then WriteError 404 ''key not found'' else WriteError 500 ''revoke failed''
           | Inr _ \<Rightarrow> WriteJSON 200 (JObj [(''key_id'', j_uuid L keyID), (''revoked'', JBool True)]))
        })"

section \<open>Ingestion\<close>

record collect_request =
  cq_category :: string
  cq_timestamp :: time
  cq_payload :: "jmap option"
  cq_source :: string

definition collect_fields :: "libs \<Rightarrow> jmap \<Rightarrow> collect_request option" where
  "collect_fields L m =
     (case (dec_field dec_string [] m ''category'', dec_field (dec_time L) zero_time m ''timestamp'',
            dec_field dec_map None m ''payload'', dec_field dec_string [] m ''source'') of
        (Some c, Some t, Some p, Some s) \<Rightarrow>
          Some \<lparr>cq_category = c, cq_timestamp = t, cq_payload = p, cq_source = s\<rparr>
      | _ \<Rightarrow> None)"

record ingest_envelope =
  ie_event :: string
  ie_agent :: string
  ie_slug :: string
  ie_category :: string
  ie_source :: string
  ie_timestamp :: time
  ie_payload :: "jmap option"
  ie_received :: time

text \<open>\<open>json.Marshal\<close> fails for a time whose year does not have four digits.\<close>

definition j_ingest :: "libs \<Rightarrow> ingest_envelope \<Rightarrow> json option" where
  "j_ingest L e =
     (if rfc3339_time (ie_timestamp e) \<and> rfc3339_time (ie_received e)
      then Some (JObj
        [(''event_id'', JStr (ie_event e)), (''agent_id'', JStr (ie_agent e)), (''agent_slug'', JStr (ie_slug e)),
         (''category'', JStr (ie_category e)), (''source'', JStr (ie_source e)),
         (''timestamp'', j_time L (ie_timestamp e)), (''payload'', j_map (ie_payload e)),
         (''received_at'', j_time L (ie_received e))])
      else None)"

definition accepted_body :: "string \<Rightarrow> json" where
  "accepted_body event = JObj [(''event_id'', JStr event), (''status'', JStr ''accepted'')]"

definition collect_envelope :: "libs \<Rightarrow> gw_agent \<Rightarrow> collect_request \<Rightarrow> uuid \<Rightarrow> time \<Rightarrow> ingest_envelope" where
  "collect_envelope L agent req eid t =
     \<lparr>ie_event = l_uuid_string L eid, ie_agent = l_uuid_string L (ga_id agent), ie_slug = ga_slug agent,
      ie_category = cq_category req, ie_source = cq_source req, ie_timestamp = cq_timestamp req,
      ie_payload = cq_payload req, ie_received = t\<rparr>"

definition save_response :: "libs \<Rightarrow> gw_agent \<Rightarrow> request \<Rightarrow> string \<Rightarrow> json \<Rightarrow> unit res io" where
  "save_response L agent r event resp =
     (let idemKey = header r ''Idempotency-Key'' in
      if idemKey = [] then ret (Inr ())
      else case l_uuid_parse L event of
          None \<Rightarrow> ret (Inr ())
        | Some eventID \<Rightarrow> sql (SaveIdempotencyResponse idemKey (ga_id agent) eventID resp))"

text \<open>The part of \<open>handleCollect\<close> behind the idempotency lookup.\<close>

definition collect_new :: "libs \<Rightarrow> gw_agent \<Rightarrow> request \<Rightarrow> response io" where
  "collect_new L agent r =
     (case decode_struct L (collect_fields L) (rq_body r) of
        None \<Rightarrow> ret (WriteError 400 ''malformed event payload'')
      | Some req \<Rightarrow>
          if cq_category req = [] \<or> cq_timestamp req = zero_time \<or> cq_payload req = None
          then ret (WriteError 400 ''category, timestamp and payload are required'')
          else do {
            eid \<leftarrow> new_uuid;
            t \<leftarrow> now;
            (let env = collect_envelope L agent req eid t in
             (case j_ingest L env of
                None \<Rightarrow> ret (WriteError 400 ''malformed event payload'')
              | Some data \<Rightarrow> do {
                  x \<leftarrow> publish (''events.ingest.'' @ cq_category req) (JsonBody data);
                  (case x of
                     Inl e \<Rightarrow> ret (WriteError 503 ''ingestion backend unavailable'')
                   | Inr _ \<Rightarrow>
                       (let resp = accepted_body (ie_event env) in do {
                          _ \<leftarrow> count_ingested (cq_category req) ''event'';
                          _ \<leftarrow> save_response L agent r (ie_event env) resp;
                          ret (WriteJSON 201 resp)
                        }))
                }))
          })"

definition handleCollect :: "libs \<Rightarrow> agent_handler" where
  "handleCollect L agent r =
     (let idemKey = header r ''Idempotency-Key'' in
      if idemKey = [] then collect_new L agent r
      else do {
        x \<leftarrow> sql (GetIdempotencyResponse idemKey (ga_id agent));
        (case x of
           Inr existing \<Rightarrow> ret (write_raw 200 (JsonBody existing))
         | Inl e \<Rightarrow>
             if e = ErrNotFound then collect_new L agent r
             else ret (WriteError 500 ''idempotency lookup failed''))
      })"

definition token_ttl :: "jmap \<Rightarrow> int option" where
  "token_ttl m = dec_field dec_int 0 m ''ttl_seconds''"

text \<open>An empty body leaves the request's zero value, any other error is refused.\<close>

definition requested_ttl :: "libs \<Rightarrow> bytes \<Rightarrow> int option" where
  "requested_ttl L b = (if decode_body L b = AtEOF then Some 0 else decode_struct L token_ttl b)"

definition handleCreateAgentToken :: "libs \<Rightarrow> gw_server \<Rightarrow> agent_handler" where
  "handleCreateAgentToken L s agent r =
     (case requested_ttl L (rq_body r) of
        None \<Rightarrow> ret (WriteError 400 ''invalid JSON body'')
      | Some secs \<Rightarrow>
          (let ttl = (if secs \<noteq> 0 then secs else 3600) in
           if ttl < 1 \<or> ttl > 86400 then ret (WriteError 400 ''ttl_seconds must be between 1 and 86400'')
           else do {
             (token, expires) \<leftarrow> issueAgentToken L (gs_cfg s) (ga_id agent) (ttl * 10 ^ 9);
             ret (WriteJSON 201 (JObj
               [(''token'', JStr token), (''expires_at'', JStr (l_time_rfc3339 L expires))]))
           }))"

section \<open>OTLP\<close>

definition otlp_limit :: nat where
  "otlp_limit = 10 * 2 ^ 20"

definition collector_url :: "string \<Rightarrow> string \<Rightarrow> string" where
  "collector_url endpoint kind =
     (if has_prefix endpoint ''http'' then endpoint else ''http://'' @ endpoint) @ ''/v1/'' @ kind"

definition forwardOTLP :: "gw_config \<Rightarrow> string \<Rightarrow> bytes \<Rightarrow> (unit + unit) io" where
  "forwardOTLP cfg kind body = do {
     reply \<leftarrow> http_call (collector_url (gc_collector cfg) kind) (RawBody body);
     ret (case reply of
        NoReply \<Rightarrow> Inl ()
      | Reply status _ \<Rightarrow> if 300 \<le> status then Inl () else Inr ())
   }"

definition handleOTLP :: "gw_server \<Rightarrow> string \<Rightarrow> agent_handler" where
  "handleOTLP s kind agent r =
     (let body = take otlp_limit (rq_body r) in
      if body = [] then ret (WriteError 400 ''invalid OTLP payload'')
      else let ct = header r ''Content-Type'' in
        if ct \<noteq> [] \<and> ct \<noteq> ''application/json'' \<and> ct \<noteq> ''application/x-protobuf''
        then ret (WriteError 400 ''unsupported OTLP content type'')
        else do {
          x \<leftarrow> publish (''events.otlp.'' @ kind) (RawBody body);
          (case x of
             Inl e \<Rightarrow> ret (WriteError 503 ''ingestion backend unavailable'')
           | Inr _ \<Rightarrow> do {
               y \<leftarrow> (if gc_collector (gs_cfg s) = [] then ret (Inr ()) else forwardOTLP (gs_cfg s) kind body);
               (case y of
                  Inl _ \<Rightarrow> ret (WriteError 502 ''otel collector forward failed'')
                | Inr _ \<Rightarrow> do {
                    _ \<leftarrow> count_ingested (''otlp_'' @ kind) ''otlp'';
                    ret (WriteJSON 201 (JObj [(''status'', JStr ''accepted'')]))
                  })
             })
        })"

section \<open>MCP tools\<close>

record query_request =
  qr_category :: string
  qr_start :: time
  qr_end :: time
  qr_limit :: int

definition query_fields :: "libs \<Rightarrow> jmap \<Rightarrow> query_request option" where
  "query_fields L m =
     (case (dec_field dec_string [] m ''category'', dec_field (dec_time L) zero_time m ''start_time'',
            dec_field (dec_time L) zero_time m ''end_time'', dec_field dec_int 0 m ''limit'') of
        (Some c, Some s, Some e, Some l) \<Rightarrow>
          Some \<lparr>qr_category = c, qr_start = s, qr_end = e, qr_limit = l\<rparr>
      | _ \<Rightarrow> None)"

definition j_event :: "libs \<Rightarrow> gw_event \<Rightarrow> json" where
  "j_event L e = JObj
     ([(''event_id'', j_uuid L (gv_id e))] @
      (case gv_agent e of None \<Rightarrow> [] | Some a \<Rightarrow> [(''agent_id'', j_uuid L a)]) @
      [(''category'', JStr (gv_category e))] @ omit_empty ''source'' (gv_source e) @
      [(''timestamp'', j_time L (gv_timestamp e)), (''payload'', JObj (gv_payload e)),
       (''created_at'', j_time L (gv_created e))])"

definition handleQueryEvents :: "libs \<Rightarrow> agent_handler" where
  "handleQueryEvents L agent r =
     (case decode_struct L (query_fields L) (rq_body r) of
        None \<Rightarrow> ret (WriteError 400 ''invalid query'')
      | Some req \<Rightarrow>
          if qr_start req \<noteq> zero_time \<and> qr_end req \<noteq> zero_time \<and> qr_end req < qr_start req
          then ret (WriteError 400 ''end_time must be after start_time'')
          else do {
            x \<leftarrow> sql (QueryEvents (qr_category req) (qr_start req) (qr_end req) (qr_limit req));
            ret (case x of
               Inl e \<Rightarrow> WriteError 500 ''query failed''
             | Inr es \<Rightarrow> WriteJSON 200 (JObj [(''events'', JArr (map (j_event L) es))]))
          })"

record propose_request =
  ps_category :: string
  ps_schema :: "jmap option"
  ps_diff :: string

definition propose_fields :: "jmap \<Rightarrow> propose_request option" where
  "propose_fields m =
     (case (dec_field dec_string [] m ''category'', dec_field dec_map None m ''json_schema'',
            dec_field dec_string [] m ''routing_yaml_diff'') of
        (Some c, Some s, Some d) \<Rightarrow> Some \<lparr>ps_category = c, ps_schema = s, ps_diff = d\<rparr>
      | _ \<Rightarrow> None)"

definition proxyToRegistry :: "gw_config \<Rightarrow> string \<Rightarrow> payload \<Rightarrow> reply io" where
  "proxyToRegistry cfg path body = http_call (gc_registry cfg @ path) body"

definition mcp_proposal :: "gw_agent \<Rightarrow> propose_request \<Rightarrow> json" where
  "mcp_proposal agent req = JObj
     [(''category'', JStr (ps_category req)), (''generated_by'', JStr (''mcp-agent:'' @ ga_slug agent)),
      (''json_schema_patch'', j_map (ps_schema req)), (''routing_yaml_diff'', JStr (ps_diff req)),
      (''sample_event_ids'', JArr [])]"

definition handleProposeSchema :: "libs \<Rightarrow> gw_server \<Rightarrow> agent_handler" where
  "handleProposeSchema L s agent r =
     (case decode_struct L propose_fields (rq_body r) of
        None \<Rightarrow> ret (WriteError 400 ''invalid proposal payload'')
      | Some req \<Rightarrow>
          if ps_category req = [] \<or> ps_schema req = None
          then ret (WriteError 400 ''category and json_schema are required'')
          else if gc_registry (gs_cfg s) = [] then ret (WriteError 503 ''schema registry not configured'')
          else do {
            x \<leftarrow> proxyToRegistry (gs_cfg s) ''/v1/proposals'' (JsonBody (mcp_proposal agent req));
            ret (case x of
               NoReply \<Rightarrow> WriteError 502 ''schema registry unreachable''
             | Reply status body \<Rightarrow> write_raw status body)
          })"

definition gw_handleListCategories :: "gw_server \<Rightarrow> agent_handler" where
  "gw_handleListCategories s agent r =
     (if gc_registry (gs_cfg s) = [] then ret (WriteJSON 200 (JObj [(''categories'', JArr [])]))
      else do {
        x \<leftarrow> proxyToRegistry (gs_cfg s) ''/v1/categories'' NoBody;
        ret (case x of
           NoReply \<Rightarrow> WriteError 502 ''schema registry unreachable''
         | Reply status body \<Rightarrow> write_raw status body)
      })"

section \<open>The routing table (server.go)\<close>

datatype gw_route =
    GGetHealth | GGetMetrics | GGetStartHere | GGetOpenAPI | GGetManifest | GPostRegister | GPostLogin
  | GGetKeyOf | GPostKeys | GDeleteKeyOf
  | GPostTokens | GPostCollect | GPostIngestEvent
  | GPostTraces | GPostMetrics | GPostLogs
  | GPostQueryEvents | GPostProposeSchema | GPostListCategories | GPostGetManifest

definition gw_pattern :: "gw_route \<Rightarrow> string \<times> string" where
  "gw_pattern rt =
     (case rt of
        GGetHealth \<Rightarrow> (''GET'', ''/health'')
      | GGetMetrics \<Rightarrow> (''GET'', ''/metrics'')
      | GGetStartHere \<Rightarrow> (''GET'', ''/start-here-agents'')
      | GGetOpenAPI \<Rightarrow> (''GET'', ''/openapi.json'')
      | GGetManifest \<Rightarrow> (''GET'', ''/mcp/manifest'')
      | GPostRegister \<Rightarrow> (''POST'', ''/register'')
      | GPostLogin \<Rightarrow> (''POST'', ''/login'')
      | GGetKeyOf \<Rightarrow> (''GET'', ''/v1/api-keys/{key_id}'')
      | GPostKeys \<Rightarrow> (''POST'', ''/v1/api-keys'')
      | GDeleteKeyOf \<Rightarrow> (''DELETE'', ''/v1/api-keys/{key_id}'')
      | GPostTokens \<Rightarrow> (''POST'', ''/v1/tokens'')
      | GPostCollect \<Rightarrow> (''POST'', ''/v1/collect'')
      | GPostIngestEvent \<Rightarrow> (''POST'', ''/mcp/tools/ingest_event'')
      | GPostTraces \<Rightarrow> (''POST'', ''/v1/otlp/traces'')
      | GPostMetrics \<Rightarrow> (''POST'', ''/v1/otlp/metrics'')
      | GPostLogs \<Rightarrow> (''POST'', ''/v1/otlp/logs'')
      | GPostQueryEvents \<Rightarrow> (''POST'', ''/mcp/tools/query_events'')
      | GPostProposeSchema \<Rightarrow> (''POST'', ''/mcp/tools/propose_schema'')
      | GPostListCategories \<Rightarrow> (''POST'', ''/mcp/tools/list_categories'')
      | GPostGetManifest \<Rightarrow> (''POST'', ''/mcp/tools/get_manifest''))"

text \<open>The routes of each group, with the guards the group puts in front.\<close>

definition open_handler :: "libs \<Rightarrow> gw_server \<Rightarrow> gw_route \<Rightarrow> (request \<Rightarrow> response io) option" where
  "open_handler L s rt =
     (case rt of
        GGetHealth \<Rightarrow> Some gw_handleHealth
      | GGetMetrics \<Rightarrow> Some (gw_handleMetrics L)
      | GGetStartHere \<Rightarrow> Some handleStartHere
      | GGetOpenAPI \<Rightarrow> Some (handleOpenAPI s)
      | GGetManifest \<Rightarrow> Some handleMCPManifest
      | GPostRegister \<Rightarrow> Some (handleRegister L)
      | GPostLogin \<Rightarrow> Some (handleLogin L s)
      | _ \<Rightarrow> None)"

definition session_handler :: "libs \<Rightarrow> gw_server \<Rightarrow> gw_route \<Rightarrow> user_handler option" where
  "session_handler L s rt =
     (case rt of
        GGetKeyOf \<Rightarrow> Some (handleGetAPIKey L)
      | GPostKeys \<Rightarrow> Some (gw_RequireRole [''admin'', ''approver''] (handleCreateAPIKey L s))
      | GDeleteKeyOf \<Rightarrow> Some (gw_RequireRole [''admin'', ''approver''] (handleDeleteAPIKey L))
      | _ \<Rightarrow> None)"

definition machine_handler :: "libs \<Rightarrow> gw_server \<Rightarrow> gw_route \<Rightarrow> agent_handler option" where
  "machine_handler L s rt =
     (case rt of
        GPostTokens \<Rightarrow> Some (handleCreateAgentToken L s)
      | GPostCollect \<Rightarrow> Some (RateLimit (gs_limiter s) (handleCollect L))
      | GPostIngestEvent \<Rightarrow> Some (RateLimit (gs_limiter s) (handleCollect L))
      | GPostTraces \<Rightarrow> Some (handleOTLP s ''traces'')
      | GPostMetrics \<Rightarrow> Some (handleOTLP s ''metrics'')
      | GPostLogs \<Rightarrow> Some (handleOTLP s ''logs'')
      | GPostQueryEvents \<Rightarrow> Some (handleQueryEvents L)
      | GPostProposeSchema \<Rightarrow> Some (handleProposeSchema L s)
      | GPostListCategories \<Rightarrow> Some (gw_handleListCategories s)
      | GPostGetManifest \<Rightarrow> Some handleMCPGetManifest
      | _ \<Rightarrow> None)"

definition gw_Router :: "libs \<Rightarrow> gw_server \<Rightarrow> gw_route \<Rightarrow> request \<Rightarrow> response io" where
  "gw_Router L s rt =
     CORS (case machine_handler L s rt of
        Some h \<Rightarrow> RequireAPIKey L (gs_cfg s) h
      | None \<Rightarrow> (case session_handler L s rt of
          Some h \<Rightarrow> RequireSession L (gs_cfg s) h
        | None \<Rightarrow> (case open_handler L s rt of Some h \<Rightarrow> h | None \<Rightarrow> (\<lambda>r. ret (WriteError 404 ''not found'')))))"

text \<open>Every route is in exactly one group, so the last case never runs.\<close>

lemma routes_grouped:
  "machine_handler L s rt = None \<Longrightarrow> session_handler L s rt = None \<Longrightarrow> open_handler L s rt \<noteq> None"
  by (cases rt) (simp_all add: machine_handler_def session_handler_def open_handler_def)

fun gw_serve :: "libs \<Rightarrow> gw_server \<Rightarrow> (gw_route \<times> request) list \<Rightarrow> response list io" where
  "gw_serve L s [] = ret []"
| "gw_serve L s ((rt, r) # qs) = do {
     rs \<leftarrow> gw_Router L s rt r;
     rss \<leftarrow> gw_serve L s qs;
     ret (rs # rss)
   }"

section \<open>Relations every run of the gateway obeys\<close>

text \<open>The routes that put events on a stream, and count them. \<open>gateway_core\<close> asks for what all the others need,
  \<open>gateway_base\<close> adds the effects of the OTLP routes and \<open>gateway_relation\<close> those of the collect routes.\<close>

definition collect_route :: "gw_route \<Rightarrow> bool" where
  "collect_route rt \<longleftrightarrow> rt = GPostCollect \<or> rt = GPostIngestEvent"

definition otlp_kind :: "gw_route \<Rightarrow> string option" where
  "otlp_kind rt =
     (case rt of GPostTraces \<Rightarrow> Some ''traces'' | GPostMetrics \<Rightarrow> Some ''metrics'' | GPostLogs \<Rightarrow> Some ''logs'' | _ \<Rightarrow> None)"

definition otlp_route :: "gw_route \<Rightarrow> bool" where
  "otlp_route rt \<longleftrightarrow> otlp_kind rt \<noteq> None"

lemma otlp_handler: "otlp_kind rt = Some kind \<Longrightarrow> machine_handler L s rt = Some (handleOTLP s kind)"
  by (cases rt) (auto simp: otlp_kind_def machine_handler_def)

locale gateway_core = run_relation R for R +
  assumes obeys_lookups: "obeys R (sql (gw_GetAgent a))" "obeys R (sql (GetAPIKeyByHash h))"
      "obeys R (sql (GetAPIKeyByID k))" "obeys R (sql (QueryEvents c st en l))"
      "obeys R (sql (GetIdempotencyResponse key a))"
    and obeys_writes: "obeys R (sql (gw_insertAgent n slug desc ty em))"
      "obeys R (sql (CreateAPIKey a label scopes h pre))" "obeys R (sql (RevokeAPIKey k))"
      "obeys R (sql (TouchAPIKey k))" "obeys R (sql (UpsertUserByOIDC em sub name))"
      "obeys R (sql (SaveIdempotencyResponse key a ev resp))"
    and obeys_effects: "obeys R (http_call url p)" "obeys R now" "obeys R new_uuid" "obeys R (random_bytes len)"
begin

lemmas gw_intros = obeys_control obeys_lookups obeys_writes obeys_effects

lemma open_handlers: "open_handler L s rt = Some h \<Longrightarrow> obeys R (h r)"
  by (cases rt)
    (auto simp: open_handler_def gw_handleHealth_def gw_handleMetrics_def handleStartHere_def handleOpenAPI_def
      handleMCPManifest_def handleRegister_def gw_CreateAgent_def slugify_def handleLogin_def verifyOIDCToken_def
      issueSessionToken_def Let_def intro!: gw_intros)

lemma session_handlers: "session_handler L s rt = Some h \<Longrightarrow> obeys R (h u r)"
  by (cases rt)
    (auto simp: session_handler_def gw_RequireRole_def handleGetAPIKey_def handleCreateAPIKey_def GenerateAPIKey_def
      handleDeleteAPIKey_def Let_def intro!: gw_intros)

lemma plain_handlers:
  "machine_handler L s rt = Some h \<Longrightarrow> \<not> collect_route rt \<Longrightarrow> \<not> otlp_route rt \<Longrightarrow> obeys R (h agent r)"
  by (cases rt)
    (auto simp: machine_handler_def collect_route_def otlp_route_def otlp_kind_def handleCreateAgentToken_def issueAgentToken_def
      handleQueryEvents_def handleProposeSchema_def proxyToRegistry_def
      gw_handleListCategories_def handleMCPGetManifest_def Let_def intro!: gw_intros)

lemma RequireAPIKey: "(\<And>agent. obeys R (h agent r)) \<Longrightarrow> obeys R (RequireAPIKey L cfg h r)"
  unfolding RequireAPIKey_def parseAgentToken_def Let_def by (intro gw_intros)

lemma RequireSession: "(\<And>u. obeys R (h u r)) \<Longrightarrow> obeys R (RequireSession L cfg h r)"
  unfolding RequireSession_def Let_def by (intro gw_intros)

lemma Router_cases:
  assumes "\<And>h agent r. machine_handler L s rt = Some h \<Longrightarrow> obeys R (h agent r)"
  shows "obeys R (gw_Router L s rt r)"
  unfolding gw_Router_def
  by (intro obeys_CORS)
    (auto split: option.split intro!: RequireAPIKey RequireSession obeys_ret
      intro: assms session_handlers open_handlers)

lemma plain_routes: "\<not> collect_route rt \<Longrightarrow> \<not> otlp_route rt \<Longrightarrow> obeys R (gw_Router L s rt r)"
  by (rule Router_cases) (rule plain_handlers)

end

locale gateway_base = gateway_core R for R +
  assumes obeys_otlp: "obeys R (publish (''events.otlp.'' @ kind) p)"
    and obeys_counted: "obeys R (remember (\<lambda>m. m\<lparr>m_metrics := f (m_metrics m)\<rparr>))"
begin

lemma handleOTLP: "obeys R (handleOTLP s kind agent r)"
  unfolding handleOTLP_def forwardOTLP_def count_ingested_def Let_def by (intro gw_intros obeys_otlp obeys_counted)

lemma other_handlers: "machine_handler L s rt = Some h \<Longrightarrow> \<not> collect_route rt \<Longrightarrow> obeys R (h agent r)"
  using otlp_handler [of rt] handleOTLP plain_handlers by (cases "otlp_kind rt") (auto simp: otlp_route_def)

end

locale gateway_relation = gateway_base R for R +
  assumes obeys_ingest: "obeys R (publish (''events.ingest.'' @ category) p)"
    and obeys_buckets: "obeys R (remember (\<lambda>m. m\<lparr>m_buckets := (m_buckets m)(a \<mapsto> b)\<rparr>))"
begin

lemma handleCollect: "obeys R (handleCollect L agent r)"
  unfolding handleCollect_def collect_new_def save_response_def count_ingested_def Let_def
  by (intro gw_intros obeys_ingest obeys_counted)

lemma RateLimit: "(\<And>a r. obeys R (h a r)) \<Longrightarrow> obeys R (RateLimit lm h agent r)"
  unfolding RateLimit_def allow_def Let_def by (intro gw_intros obeys_buckets)

lemma machine_handlers:
  assumes h: "machine_handler L s rt = Some h"
  shows "obeys R (h agent r)"
proof (cases "collect_route rt")
  case True
  then have "h = RateLimit (gs_limiter s) (handleCollect L)"
    using h by (auto simp: collect_route_def machine_handler_def)
  then show ?thesis by (simp add: RateLimit handleCollect)
next
  case False
  with h show ?thesis by (rule other_handlers)
qed

lemma gw_Router: "obeys R (gw_Router L s rt r)"
  by (rule Router_cases) (rule machine_handlers)

lemma gw_serve: "obeys R (gw_serve L s qs)"
  by (induction qs) (auto intro!: obeys_bind obeys_ret gw_Router)

end

end
