(* ===== verification/GatewayLaws.thy ===== *)
theory GatewayLaws
  imports GatewayApi
begin

text \<open>
  What every run of the gateway keeps: the invariant of the database (\<open>ginv\<close>), and its credentials
  (\<open>gcred\<close>): keys and users persist, a revocation stands, roles never change, and the tables of the other
  services are left alone.
\<close>

section \<open>The invariant of the database\<close>

lemma db_inv_add_key:
  "db_inv d \<Longrightarrow> k_id k \<notin> k_id ` set (api_keys d) \<Longrightarrow> k_hash k \<notin> k_hash ` set (api_keys d) \<Longrightarrow>
   k_agent k \<in> a_id ` set (agents d) \<Longrightarrow> db_inv (d\<lparr>api_keys := api_keys d @ [k]\<rparr>)"
  unfolding db_inv_defs by (elim conjE, intro conjI; simp)

lemma db_inv_add_user:
  "db_inv d \<Longrightarrow> u_id r \<notin> u_id ` set (users d) \<Longrightarrow> u_email r \<notin> u_email ` set (users d) \<Longrightarrow>
   u_subject r \<notin> u_subject ` set (users d) \<Longrightarrow> db_inv (d\<lparr>users := users d @ [r]\<rparr>)"
  unfolding db_inv_defs by (elim conjE, intro conjI; simp)

lemma db_inv_add_idem:
  "db_inv d \<Longrightarrow> (i_key i, i_agent i) \<notin> (\<lambda>i. (i_key i, i_agent i)) ` set (idempotency_keys d) \<Longrightarrow>
   i_agent i \<in> a_id ` set (agents d) \<Longrightarrow> db_inv (d\<lparr>idempotency_keys := idempotency_keys d @ [i]\<rparr>)"
  unfolding db_inv_defs by (elim conjE, intro conjI; simp)

lemma db_inv_upd_keys:
  "(\<And>k. k_id (f k) = k_id k \<and> k_hash (f k) = k_hash k \<and> k_agent (f k) = k_agent k) \<Longrightarrow>
   db_inv d \<Longrightarrow> db_inv (d\<lparr>api_keys := upd_where P f (api_keys d)\<rparr>)"
  unfolding db_inv_defs by (elim conjE, intro conjI; simp add: unique_by_upd_where image_upd_where)

lemma db_inv_gateway:
  assumes inv: "db_inv d"
  shows "db_inv (snd (gw_insertAgent n slug desc ty em u t d))" "db_inv (snd (CreateAPIKey a label scopes h pre u t d))"
    "db_inv (snd (RevokeAPIKey k u t d))" "db_inv (snd (TouchAPIKey k u t d))"
    "db_inv (snd (UpsertUserByOIDC em sub name u t d))" "db_inv (snd (SaveIdempotencyResponse key a ev resp u t d))"
proof -
  show "db_inv (snd (gw_insertAgent n slug desc ty em u t d))"
    by (simp add: gw_insertAgent_def Let_def inv db_inv_add_agent)
  show "db_inv (snd (CreateAPIKey a label scopes h pre u t d))"
    by (simp add: CreateAPIKey_def Let_def inv db_inv_add_key)
  show "db_inv (snd (RevokeAPIKey k u t d))" "db_inv (snd (TouchAPIKey k u t d))"
    by (simp_all add: RevokeAPIKey_def TouchAPIKey_def inv db_inv_upd_keys)
  show "db_inv (snd (UpsertUserByOIDC em sub name u t d))"
  proof (cases "find (\<lambda>r. u_subject r = sub) (users d)")
    case None
    then have "sub \<notin> u_subject ` set (users d)" by (auto dest: find_NoneD)
    with None show ?thesis by (simp add: UpsertUserByOIDC_def Let_def inv db_inv_add_user)
  next
    case (Some r)
    then show ?thesis
      using inv by (simp add: UpsertUserByOIDC_def Let_def db_inv_defs unique_by_upd_where)
  qed
  show "db_inv (snd (SaveIdempotencyResponse key a ev resp u t d))"
    by (auto simp: SaveIdempotencyResponse_def inv intro!: db_inv_add_idem)
qed

interpretation ginv: gateway_relation "inv_rel db_inv"
  by unfold_locales (intro keeps_reads reads_gateway keeps_sql db_inv_gateway keeps_no_sql; assumption?)+

section \<open>Credentials\<close>

definition same_key :: "key_row \<Rightarrow> key_row \<Rightarrow> bool" where
  "same_key k k' \<longleftrightarrow> k_id k' = k_id k \<and> k_agent k' = k_agent k \<and> k_hash k' = k_hash k \<and> k_expires k' = k_expires k \<and>
     (k_revoked k \<noteq> None \<longrightarrow> k_revoked k' = k_revoked k)"

definition same_user :: "user_row \<Rightarrow> user_row \<Rightarrow> bool" where
  "same_user u u' \<longleftrightarrow> u_id u' = u_id u \<and> u_email u' = u_email u \<and> u_subject u' = u_subject u \<and> u_role u' = u_role u"

definition others_untouched :: "db \<Rightarrow> db \<Rightarrow> bool" where
  "others_untouched d d' \<longleftrightarrow>
     categories d' = categories d \<and> schemas d' = schemas d \<and> quarantine_events d' = quarantine_events d \<and>
     events d' = events d \<and> proposals d' = proposals d \<and> audit_log d' = audit_log d \<and>
     webhook_sources d' = webhook_sources d \<and> deliveries d' = deliveries d \<and> migrations d' = migrations d"

definition credentials_kept :: "db \<Rightarrow> db \<Rightarrow> bool" where
  "credentials_kept d d' \<longleftrightarrow>
     (\<forall>k \<in> set (api_keys d). \<exists>k' \<in> set (api_keys d'). same_key k k') \<and>
     (\<forall>u \<in> set (users d). \<exists>u' \<in> set (users d'). same_user u u') \<and>
     (\<forall>u' \<in> set (users d'). (\<exists>u \<in> set (users d). same_user u u') \<or> u_role u' = ''viewer'') \<and>
     set (agents d) \<subseteq> set (agents d') \<and>
     (\<forall>a \<in> set (agents d'). a \<in> set (agents d) \<or> a_status a = ''pending'') \<and>
     set (idempotency_keys d) \<subseteq> set (idempotency_keys d') \<and> others_untouched d d'"

definition cred_rel :: "world \<Rightarrow> world \<Rightarrow> bool" where
  "cred_rel w w' \<longleftrightarrow> credentials_kept (w_db w) (w_db w')"

lemma same_key_refl [simp]: "same_key k k" by (simp add: same_key_def)
lemma same_user_refl [simp]: "same_user u u" by (simp add: same_user_def)

lemma same_key_trans: "same_key a b \<Longrightarrow> same_key b c \<Longrightarrow> same_key a c"
  by (auto simp: same_key_def)

lemma same_user_trans: "same_user a b \<Longrightarrow> same_user b c \<Longrightarrow> same_user a c"
  by (auto simp: same_user_def)

lemma credentials_refl [simp]: "credentials_kept d d"
  by (auto simp: credentials_kept_def others_untouched_def intro: same_key_refl same_user_refl)

lemma credentials_trans:
  assumes a: "credentials_kept d e" and b: "credentials_kept e f"
  shows "credentials_kept d f"
  unfolding credentials_kept_def
proof (intro conjI ballI)
  show "\<exists>k' \<in> set (api_keys f). same_key k k'" if "k \<in> set (api_keys d)" for k
    using a b that unfolding credentials_kept_def by (meson same_key_trans)
  show "\<exists>u' \<in> set (users f). same_user u u'" if "u \<in> set (users d)" for u
    using a b that unfolding credentials_kept_def by (meson same_user_trans)
  show "(\<exists>u \<in> set (users d). same_user u u') \<or> u_role u' = ''viewer''" if new: "u' \<in> set (users f)" for u'
  proof (rule disjCI)
    assume no: "u_role u' \<noteq> ''viewer''"
    then obtain v where v: "v \<in> set (users e)" "same_user v u'"
      using b new unfolding credentials_kept_def by blast
    with no have "u_role v \<noteq> ''viewer''" by (simp add: same_user_def)
    then obtain u where "u \<in> set (users d)" "same_user u v"
      using a v(1) unfolding credentials_kept_def by blast
    then show "\<exists>u \<in> set (users d). same_user u u'" using v(2) same_user_trans by blast
  qed
  show "a' \<in> set (agents d) \<or> a_status a' = ''pending''" if "a' \<in> set (agents f)" for a'
    using a b that unfolding credentials_kept_def by blast
qed (use a b in \<open>auto simp: credentials_kept_def others_untouched_def\<close>)

interpretation cred: run_relation cred_rel
  by unfold_locales (auto simp: cred_rel_def intro: credentials_trans)

lemma cred_sql:
  assumes "\<And>u t d. credentials_kept d (snd (f u t d))"
  shows "obeys cred_rel (sql f)"
proof (rule obeysI)
  fix w show "cred_rel w (snd (run_state (sql f) w))"
    by (cases rule: sql_cases [of f w]) (simp_all add: cred_rel_def assms)
qed

lemma cred_reads: "reads f \<Longrightarrow> obeys cred_rel (sql f)"
  by (rule cred_sql) (simp add: reads_def)

lemma cred_effects:
  "obeys cred_rel (publish s p)" "obeys cred_rel (http_call s p)" "obeys cred_rel now" "obeys cred_rel new_uuid"
  "obeys cred_rel (random_bytes n)" "obeys cred_rel (remember m)"
  by (auto intro!: obeysI split: outcome.splits simp: publish_def http_call_def now_def new_uuid_def random_bytes_def
      cred_rel_def remember_def Let_def)

lemma credentials_upd_keys:
  assumes "\<And>k. P k \<Longrightarrow> same_key k (f k)"
  shows "credentials_kept d (d\<lparr>api_keys := upd_where P f (api_keys d)\<rparr>)"
proof -
  have "\<exists>k' \<in> set (upd_where P f (api_keys d)). same_key k k'" if "k \<in> set (api_keys d)" for k
    using that assms [of k] by (intro bexI [of _ "if P k then f k else k"]) (auto simp: in_upd_where)
  then show ?thesis
    by (auto simp: credentials_kept_def others_untouched_def intro: same_user_refl)
qed

lemma credentials_upd_users:
  assumes "\<And>u. same_user u (f u)"
  shows "credentials_kept d (d\<lparr>users := upd_where P f (users d)\<rparr>)"
proof -
  have "\<exists>u' \<in> set (upd_where P f (users d)). same_user u u'" if "u \<in> set (users d)" for u
    using that assms [of u] by (intro bexI [of _ "if P u then f u else u"]) (auto simp: in_upd_where)
  moreover have "\<exists>u \<in> set (users d). same_user u u'" if "u' \<in> set (upd_where P f (users d))" for u'
    using that assms by (auto simp: in_upd_where split: if_splits intro: same_user_refl)
  ultimately show ?thesis
    by (auto simp: credentials_kept_def others_untouched_def intro: same_key_refl)
qed

lemma credentials_add:
  "credentials_kept d (d\<lparr>api_keys := api_keys d @ [k]\<rparr>)"
  "u_role r = ''viewer'' \<Longrightarrow> credentials_kept d (d\<lparr>users := users d @ [r]\<rparr>)"
  "a_status a = ''pending'' \<Longrightarrow> credentials_kept d (d\<lparr>agents := agents d @ [a]\<rparr>)"
  "credentials_kept d (d\<lparr>idempotency_keys := idempotency_keys d @ [i]\<rparr>)"
  by (auto simp: credentials_kept_def others_untouched_def intro: same_key_refl same_user_refl)

lemma credentials_gateway:
  "credentials_kept d (snd (gw_insertAgent n slug desc ty em u t d))"
  "credentials_kept d (snd (CreateAPIKey a label scopes h pre u t d))"
  "credentials_kept d (snd (RevokeAPIKey k u t d))" "credentials_kept d (snd (TouchAPIKey k u t d))"
  "credentials_kept d (snd (UpsertUserByOIDC em sub name u t d))"
  "credentials_kept d (snd (SaveIdempotencyResponse key a ev resp u t d))"
proof -
  show "credentials_kept d (snd (gw_insertAgent n slug desc ty em u t d))"
    by (simp add: gw_insertAgent_def Let_def credentials_add)
  show "credentials_kept d (snd (CreateAPIKey a label scopes h pre u t d))"
    by (simp add: CreateAPIKey_def Let_def credentials_add)
  show "credentials_kept d (snd (RevokeAPIKey k u t d))" "credentials_kept d (snd (TouchAPIKey k u t d))"
    by (auto simp: RevokeAPIKey_def TouchAPIKey_def same_key_def intro!: credentials_upd_keys)
  show "credentials_kept d (snd (UpsertUserByOIDC em sub name u t d))"
    by (auto simp: UpsertUserByOIDC_def Let_def same_user_def credentials_add split: option.split
        intro!: credentials_upd_users)
  show "credentials_kept d (snd (SaveIdempotencyResponse key a ev resp u t d))"
    by (simp add: SaveIdempotencyResponse_def credentials_add)
qed

interpretation gcred: gateway_relation cred_rel
  by unfold_locales (intro cred_reads reads_gateway cred_sql credentials_gateway cred_effects)+

section \<open>The outside and the log\<close>

interpretation genv: gateway_relation same_env
  by unfold_locales (rule same_env_effects)+

interpretation ggrow: gateway_relation grows
  by unfold_locales (rule grows_effects)+

end
