(* ===== verification/GatewayOutcome.thy ===== *)
theory GatewayOutcome
  imports GatewayLaws
begin

text \<open>
  Who a machine token stands for (\<open>caller_of\<close>), what \<open>RequireAPIKey\<close> makes of it in any world, and the
  outcomes of \<open>handleCollect\<close>, of key issuance and revocation and of a query.
\<close>

section \<open>The caller of a machine route\<close>

definition key_of :: "libs \<Rightarrow> gw_config \<Rightarrow> db \<Rightarrow> string \<Rightarrow> key_row option" where
  "key_of L cfg d token = find (\<lambda>k. k_hash k = HashToken L (gc_salt cfg) token) (api_keys d)"

definition agent_of :: "db \<Rightarrow> uuid \<Rightarrow> gw_agent option" where
  "agent_of d a =
     (case find (\<lambda>r. a_id r = a) (agents d) of
        None \<Rightarrow> None
      | Some r \<Rightarrow> (case scanAgent r of Inl _ \<Rightarrow> None | Inr g \<Rightarrow> Some g))"

definition caller_of :: "libs \<Rightarrow> gw_config \<Rightarrow> db \<Rightarrow> time \<Rightarrow> string \<Rightarrow> gw_agent option" where
  "caller_of L cfg d t token =
     (if token = [] then None
      else case key_of L cfg d token of
          Some k \<Rightarrow> if k_label k = None \<or> k_revoked k \<noteq> None \<or> (case k_expires k of None \<Rightarrow> False | Some e \<Rightarrow> e < t)
                   then None else agent_of d (k_agent k)
        | None \<Rightarrow> (case l_jwt_parse L (gc_jwt_secret cfg) t token of
              None \<Rightarrow> None
            | Some claims \<Rightarrow> (case claimed_agent L claims of None \<Rightarrow> None | Some a \<Rightarrow> agent_of d a)))"

text \<open>Only ticks have passed and only a \<open>last_used_at\<close> was written.\<close>

definition touched :: "world \<Rightarrow> world \<Rightarrow> bool" where
  "touched w v \<longleftrightarrow> w_streams v = w_streams w \<and> w_sent v = w_sent w \<and> w_mem v = w_mem w \<and> same_env w v \<and>
     (\<exists>P t. w_db v = (w_db w)\<lparr>api_keys := upd_where P (\<lambda>k. k\<lparr>k_last_used := Some t\<rparr>) (api_keys (w_db w))\<rparr>)"

lemma touched_same_db:
  assumes "w_db v = w_db w" "w_streams v = w_streams w" "w_sent v = w_sent w" "w_mem v = w_mem w" "same_env w v"
  shows "touched w v"
proof -
  have "w_db v = (w_db w)\<lparr>api_keys := upd_where (\<lambda>_. False) (\<lambda>k. k\<lparr>k_last_used := Some 0\<rparr>) (api_keys (w_db w))\<rparr>"
    using assms(1) by (simp add: upd_where_none)
  then show ?thesis using assms unfolding touched_def by blast
qed

lemma scanKey_fields:
  "scanKey k = Inr g \<Longrightarrow> gk_id g = k_id k \<and> gk_agent g = k_agent k \<and> gk_revoked g = k_revoked k \<and>
   gk_expires g = k_expires k \<and> gk_created g = k_created k \<and> k_label k = Some (gk_label g)"
  by (auto simp: scanKey_def split: option.splits)

lemma GetAPIKeyByHash_eq:
  "GetAPIKeyByHash (HashAPIKey L (gc_salt cfg) token) u t d =
     (case key_of L cfg d token of None \<Rightarrow> Inl ErrNotFound | Some k \<Rightarrow> scanKey k, d)"
  by (simp add: GetAPIKeyByHash_def key_of_def HashAPIKey_eq)

lemma gw_GetAgent_Inr: "gw_GetAgent a u t d = (Inr g, d') \<longleftrightarrow> agent_of d a = Some g \<and> d' = d"
  by (auto simp: gw_GetAgent_def agent_of_def split: option.splits sum.splits)

lemma gw_GetAgent_fst: "fst (gw_GetAgent a u t d) = Inr g \<longleftrightarrow> agent_of d a = Some g"
  by (auto simp: gw_GetAgent_def agent_of_def split: option.splits sum.splits)

lemma ticks_same_db:
  "(tick w)\<lparr>w_db := w_db w\<rparr> = tick w" "(tick (tick w))\<lparr>w_db := w_db w\<rparr> = tick (tick w)"
  by (simp_all add: tick_def)

lemma same_env_tick: "same_env w (tick (w\<lparr>w_db := d\<rparr>))"
  by (simp add: same_env_def)

text \<open>A statement that only reads: its answer, and a world in which only a tick has passed.\<close>

lemma sql_reads_Inr:
  assumes "run_state (sql f) w = (Inr x, v)" and "reads f"
  shows "fst (f (w_uuid w (w_tick w)) (w_clock w (w_tick w)) (w_db w)) = Inr x" and "v = tick w"
proof -
  have s: "f (w_uuid w (w_tick w)) (w_clock w (w_tick w)) (w_db w) = (Inr x, w_db v)" "v = tick (w\<lparr>w_db := w_db v\<rparr>)"
    using sql_Inr [OF assms(1)] by auto
  have db: "w_db v = w_db w" using s(1) assms(2) unfolding reads_def by (metis snd_conv)
  have "w\<lparr>w_db := w_db v\<rparr> = w" unfolding db by simp
  then show "v = tick w" using s(2) by metis
  show "fst (f (w_uuid w (w_tick w)) (w_clock w (w_tick w)) (w_db w)) = Inr x" using s(1) by simp
qed

lemma sql_reads_any:
  assumes "run_state (sql f) w = (x, v)" and "reads f"
  shows "v = tick w" and "x = fst (f (w_uuid w (w_tick w)) (w_clock w (w_tick w)) (w_db w)) \<or> x = Inl Unavailable"
proof -
  have db: "snd (f (w_uuid w (w_tick w)) (w_clock w (w_tick w)) (w_db w)) = w_db w" using assms(2) by (simp add: reads_def)
  show "v = tick w" "x = fst (f (w_uuid w (w_tick w)) (w_clock w (w_tick w)) (w_db w)) \<or> x = Inl Unavailable"
    using assms(1) by (cases rule: sql_cases [of f w]; simp add: db; force)+
qed

lemma unchanged_tick: "unchanged w (tick w)" "unchanged w (tick (tick w))" "unchanged w (tick (tick (tick w)))"
  by (simp_all add: unchanged_def)

lemma same_env_ticks: "same_env w (tick w)" "same_env w (tick (tick w))" "same_env w (tick (tick (tick w)))"
  by (simp_all add: same_env_def)

text \<open>The part behind the agent lookup.\<close>

lemma RequireAPIKey_cases:
  assumes run: "run_state (RequireAPIKey L cfg h r) w = (rs, w')"
  obtains (denied) "rs_status rs \<in> {401, 500}" "unchanged w w'" "same_env w w'" "w_mem w' = w_mem w"
  | (ran) agent v where
      "caller_of L cfg (w_db w) (w_clock w (Suc (w_tick w))) (gw_extractToken r) = Some agent"
      "run_state (h agent r) v = (rs, w')" "touched w v"
proof -
  let ?token = "gw_extractToken r"
  let ?q = "GetAPIKeyByHash (HashAPIKey L (gc_salt cfg) ?token)"
  let ?t = "w_clock w (Suc (w_tick w))"
  have two: ?thesis if "rs_status rs \<in> {401, 500}" "w' = w \<or> w' = tick w \<or> w' = tick (tick w) \<or> w' = tick (tick (tick w))"
    using that by (intro denied) (auto simp: unchanged_def same_env_def)
  show ?thesis
  proof (cases "?token = []")
    case True
    then show ?thesis using run by (intro two) (auto simp: RequireAPIKey_def Let_def)
  next
    case False
    obtain x v1 where x: "run_state (sql ?q) w = (x, v1)" by force
    note v1 = sql_reads_any [OF x reads_gateway(2)]
    show ?thesis
    proof (cases x)
      case (Inl e)
      show ?thesis
      proof (cases "e = ErrNotFound")
        case True
        then have none: "key_of L cfg (w_db w) ?token = None"
          using v1(2) Inl unfolding GetAPIKeyByHash_eq
          by (auto simp: scanKey_def split: option.splits)
        let ?claimed = "case l_jwt_parse L (gc_jwt_secret cfg) ?t ?token of None \<Rightarrow> None | Some claims \<Rightarrow> claimed_agent L claims"
        show ?thesis
        proof (cases ?claimed)
          case None
          then show ?thesis
            using run x v1 False Inl True by (intro two) (auto simp: RequireAPIKey_def Let_def parseAgentToken_def run_simps)
        next
          case (Some a)
          then obtain claims where c: "l_jwt_parse L (gc_jwt_secret cfg) ?t ?token = Some claims" "claimed_agent L claims = Some a"
            by (auto split: option.splits)
          obtain y v2 where y: "run_state (sql (gw_GetAgent a)) (tick v1) = (y, v2)" by force
          show ?thesis
          proof (cases y)
            case (Inl e')
            then show ?thesis
              using run x v1 False \<open>x = Inl e\<close> True c y sql_reads_any(1) [OF y reads_gateway(1)]
              by (intro two) (auto simp: RequireAPIKey_def Let_def parseAgentToken_def run_simps)
          next
            case (Inr g)
            note s = sql_reads_Inr [OF y [unfolded Inr] reads_gateway(1)]
            have g: "agent_of (w_db w) a = Some g"
              using s(1) v1(1) by (simp add: gw_GetAgent_fst)
            have "run_state (h g r) v2 = (rs, w')"
              using run x v1 False \<open>x = Inl e\<close> True c y Inr by (simp add: RequireAPIKey_def Let_def parseAgentToken_def run_simps)
            moreover have "touched w v2"
              unfolding s(2) v1(1) by (rule touched_same_db) (simp_all add: same_env_def)
            ultimately show ?thesis
              using False none c g by (intro ran) (simp_all add: caller_of_def)
          qed
        qed
      next
        case False
        then show ?thesis
          using run x v1 \<open>?token \<noteq> []\<close> Inl by (intro two) (auto simp: RequireAPIKey_def Let_def)
      qed
    next
      case (Inr key)
      have "fst (?q (w_uuid w (w_tick w)) (w_clock w (w_tick w)) (w_db w)) = Inr key"
        using sql_reads_Inr(1) [OF x [unfolded Inr] reads_gateway(2)] .
      then obtain k where k: "key_of L cfg (w_db w) ?token = Some k" "scanKey k = Inr key"
        unfolding GetAPIKeyByHash_eq by (auto split: option.splits)
      note kf = scanKey_fields [OF k(2)]
      show ?thesis
      proof (cases "key_dead ?t key")
        case True
        then show ?thesis
          using run x v1 False Inr by (intro two) (auto simp: RequireAPIKey_def Let_def run_simps)
      next
        case alive: False
        obtain y v2 where y: "run_state (sql (gw_GetAgent (gk_agent key))) (tick v1) = (y, v2)" by force
        show ?thesis
        proof (cases y)
          case (Inl e')
          then show ?thesis
            using run x v1 False \<open>x = Inr key\<close> alive y sql_reads_any(1) [OF y reads_gateway(1)]
            by (intro two) (auto simp: RequireAPIKey_def Let_def run_simps)
        next
          case (Inr g)
          note s = sql_reads_Inr [OF y [unfolded Inr] reads_gateway(1)]
          have g: "agent_of (w_db w) (k_agent k) = Some g"
            using s(1) v1(1) kf by (simp add: gw_GetAgent_fst)
          obtain z v3 where z: "run_state (sql (TouchAPIKey (gk_id key))) v2 = (z, v3)" by force
          have "run_state (h g r) v3 = (rs, w')"
            using run x v1 False \<open>x = Inr key\<close> alive y Inr z by (simp add: RequireAPIKey_def Let_def run_simps)
          moreover have "touched w v3"
          proof (cases "w_db v3 = w_db v2")
            case True
            have "same_env v2 v3" "w_streams v3 = w_streams v2" "w_sent v3 = w_sent v2" "w_mem v3 = w_mem v2"
              using z by (cases rule: sql_cases [of "TouchAPIKey (gk_id key)" v2]; force simp: same_env_def)+
            then show ?thesis
              using True unfolding s(2) v1(1) by (intro touched_same_db) (auto simp: same_env_def)
          next
            case no: False
            then have "v3 = tick (v2\<lparr>w_db := snd (TouchAPIKey (gk_id key) (w_uuid v2 (w_tick v2)) (w_clock v2 (w_tick v2)) (w_db v2))\<rparr>)"
              using z by (cases rule: sql_cases [of "TouchAPIKey (gk_id key)" v2]) auto
            then show ?thesis
              unfolding s(2) v1(1) touched_def by (auto simp: TouchAPIKey_def same_env_def)
          qed
          moreover have "caller_of L cfg (w_db w) ?t ?token = Some g"
            using False k kf alive g by (auto simp: caller_of_def key_dead_def)
          ultimately show ?thesis by (intro ran)
        qed
      qed
    qed
  qed
qed

text \<open>In a healthy world the handler runs exactly for the callers.\<close>

lemma run_RequireAPIKey:
  assumes w: "healthy w" and c: "caller_of L cfg (w_db w) (w_clock w (Suc (w_tick w))) (gw_extractToken r) = Some agent"
  shows "\<exists>v. run_state (RequireAPIKey L cfg h r) w = run_state (h agent r) v \<and> touched w v"
proof -
  let ?token = "gw_extractToken r"
  let ?t = "w_clock w (Suc (w_tick w))"
  have tok: "?token \<noteq> []" using c by (auto simp: caller_of_def)
  have get: "gw_GetAgent a u t d = (Inr g, d)" if "agent_of d a = Some g" for a u t d g
    using that by (simp add: gw_GetAgent_Inr)
  have w': "healthy (tick w)" "w\<lparr>w_db := w_db w\<rparr> = w" using w by simp_all
  show ?thesis
  proof (cases "key_of L cfg (w_db w) ?token")
    case None
    then obtain claims a where cl: "l_jwt_parse L (gc_jwt_secret cfg) ?t ?token = Some claims"
      "claimed_agent L claims = Some a" "agent_of (w_db w) a = Some agent"
      using c tok by (auto simp: caller_of_def split: option.splits)
    have "run_state (RequireAPIKey L cfg h r) w = run_state (h agent r) (tick (tick (tick w)))"
      using w tok None cl get [OF cl(3)]
      by (simp add: RequireAPIKey_def Let_def parseAgentToken_def run_simps GetAPIKeyByHash_eq ticks_same_db)
    moreover have "touched w (tick (tick (tick w)))"
      by (rule touched_same_db) (simp_all add: same_env_def)
    ultimately show ?thesis by blast
  next
    case (Some k)
    then have k: "k_label k \<noteq> None" "k_revoked k = None" "\<not> (case k_expires k of None \<Rightarrow> False | Some e \<Rightarrow> e < ?t)"
      "agent_of (w_db w) (k_agent k) = Some agent"
      using c tok by (auto simp: caller_of_def split: if_splits)
    obtain key where key: "scanKey k = Inr key" using k(1) by (auto simp: scanKey_def)
    note kf = scanKey_fields [OF key]
    have alive: "\<not> key_dead ?t key" using k kf by (auto simp: key_dead_def)
    let ?v = "tick (tick (tick w))"
    let ?v' = "tick (?v\<lparr>w_db := snd (TouchAPIKey (gk_id key) (w_uuid ?v (w_tick ?v)) (w_clock ?v (w_tick ?v)) (w_db ?v))\<rparr>)"
    have "run_state (RequireAPIKey L cfg h r) w = run_state (h agent r) ?v'"
      using w tok Some key kf alive get [OF k(4)]
      by (simp add: RequireAPIKey_def Let_def run_simps GetAPIKeyByHash_eq ticks_same_db)
    moreover have "touched w ?v'"
      unfolding touched_def by (auto simp: TouchAPIKey_def same_env_def)
    ultimately show ?thesis by blast
  qed
qed

lemma touched_same:
  assumes "touched w v"
  shows "agents (w_db v) = agents (w_db w)" "idempotency_keys (w_db v) = idempotency_keys (w_db w)"
    "events (w_db v) = events (w_db w)" "categories (w_db v) = categories (w_db w)" "users (w_db v) = users (w_db w)"
    "w_streams v = w_streams w" "w_sent v = w_sent w" "same_env w v"
  using assms by (auto simp: touched_def)

end
