(* ===== verification/GatewayCollect.thy ===== *)
theory GatewayCollect
  imports GatewayOutcome NormStore
begin

text \<open>
  The outcomes of \<open>handleCollect\<close>: what it refuses, what it publishes, what the normalizer reads of it,
  and what it remembers of an idempotency key.
\<close>

section \<open>Outcomes\<close>

lemma collect_new_cases:
  assumes run: "run_state (collect_new L agent r) w = (rs, w')"
  obtains (refused) "rs_status rs = 400" "w_db w' = w_db w" "w_streams w' = w_streams w" "w_mem w' = w_mem w"
  | (lost) req :: collect_request and data and env :: ingest_envelope where "rs_status rs = 503" "w_db w' = w_db w" "w_mem w' = w_mem w"
      "w_streams w' = w_streams w \<or>
       w_streams w' = w_streams w @ [(''events.ingest.'' @ cq_category req, JsonBody data)]"
      "j_ingest L env = Some data" "ie_agent env = l_uuid_string L (ga_id agent)"
  | (accepted) req data env v where "decode_struct L (collect_fields L) (rq_body r) = Some req"
      "cq_category req \<noteq> []" "cq_timestamp req \<noteq> zero_time" "cq_payload req \<noteq> None"
      "env = collect_envelope L agent req (w_uuid w (w_tick w)) (w_clock w (Suc (w_tick w)))"
      "j_ingest L env = Some data" "rs = WriteJSON 201 (accepted_body (ie_event env))"
      "v = tick (tick (tick (w\<lparr>w_streams := w_streams w @ [(''events.ingest.'' @ cq_category req, JsonBody data)],
         w_mem := (w_mem w)\<lparr>m_metrics := ingested (cq_category req) ''event'' (m_metrics (w_mem w))\<rparr>\<rparr>)))"
      "w' = snd (run_state (save_response L agent r (ie_event env) (accepted_body (ie_event env))) v)"
proof (cases "decode_struct L (collect_fields L) (rq_body r)")
  case None
  then show ?thesis using run by (intro refused) (auto simp: collect_new_def)
next
  case (Some req)
  show ?thesis
  proof (cases "cq_category req = [] \<or> cq_timestamp req = zero_time \<or> cq_payload req = None")
    case True
    then show ?thesis using run Some by (intro refused) (auto simp: collect_new_def)
  next
    case ok: False
    let ?env = "collect_envelope L agent req (w_uuid w (w_tick w)) (w_clock w (Suc (w_tick w)))"
    show ?thesis
    proof (cases "j_ingest L ?env")
      case None
      then show ?thesis using run Some ok by (intro refused) (auto simp: collect_new_def Let_def run_simps)
    next
      case data: (Some data)
      let ?p = "publish (''events.ingest.'' @ cq_category req) (JsonBody data)"
      obtain x v where x: "run_state ?p (tick (tick w)) = (x, v)" by force
      show ?thesis
      proof (cases x)
        case (Inl e)
        then have "rs_status rs = 503 \<and> w' = v"
          using run Some ok data x by (auto simp: collect_new_def Let_def run_simps)
        then show ?thesis
          using x data
          by (intro lost [of req data ?env]) (auto simp: publish_def Let_def collect_envelope_def split: outcome.splits)
      next
        case (Inr u)
        let ?v = "v\<lparr>w_mem := (w_mem v)\<lparr>m_metrics := ingested (cq_category req) ''event'' (m_metrics (w_mem v))\<rparr>\<rparr>"
        have v: "?v = tick (tick (tick (w\<lparr>w_streams := w_streams w @ [(''events.ingest.'' @ cq_category req, JsonBody data)],
            w_mem := (w_mem w)\<lparr>m_metrics := ingested (cq_category req) ''event'' (m_metrics (w_mem w))\<rparr>\<rparr>)))"
          using x Inr by (auto simp: publish_def Let_def tick_def split: outcome.splits)
        have "rs = WriteJSON 201 (accepted_body (ie_event ?env)) \<and>
            w' = snd (run_state (save_response L agent r (ie_event ?env) (accepted_body (ie_event ?env))) ?v)"
          using run Some ok data x Inr
          by (cases "run_state (save_response L agent r (ie_event ?env) (accepted_body (ie_event ?env))) ?v")
            (auto simp: collect_new_def Let_def run_simps)
        then show ?thesis
          using ok by (intro accepted [OF Some _ _ _ refl data _ v]) auto
      qed
    qed
  qed
qed

lemma save_response_frame:
  "w_streams (snd (run_state (save_response L agent r event resp) v)) = w_streams v"
  "same_env v (snd (run_state (save_response L agent r event resp) v))"
  "w_mem (snd (run_state (save_response L agent r event resp) v)) = w_mem v"
proof -
  let ?s = "\<lambda>ev. SaveIdempotencyResponse (header r ''Idempotency-Key'') (ga_id agent) ev resp"
  have "w_streams (snd (run_state (sql (?s ev)) v)) = w_streams v \<and> same_env v (snd (run_state (sql (?s ev)) v)) \<and>
      w_mem (snd (run_state (sql (?s ev)) v)) = w_mem v" for ev
    by (cases rule: sql_cases [of "?s ev" v]) (simp_all add: same_env_def)
  then show "w_streams (snd (run_state (save_response L agent r event resp) v)) = w_streams v"
    "same_env v (snd (run_state (save_response L agent r event resp) v))"
    "w_mem (snd (run_state (save_response L agent r event resp) v)) = w_mem v"
    by (auto simp: save_response_def Let_def env.refl_R split: option.split)
qed

text \<open>The answers of \<open>handleCollect\<close> behind the guards.\<close>

lemma handleCollect_cases:
  assumes run: "run_state (handleCollect L agent r) w = (rs, w')"
  obtains (replayed) existing where "header r ''Idempotency-Key'' \<noteq> []" "rs = write_raw 200 (JsonBody existing)"
      "w' = tick w"
      "\<exists>i \<in> set (idempotency_keys (w_db w)). i_key i = header r ''Idempotency-Key'' \<and> i_agent i = ga_id agent \<and>
         i_response i = existing"
  | (failed) "rs_status rs = 500" "w' = tick w"
  | (fresh) v where "v = w \<or> v = tick w" "run_state (collect_new L agent r) v = (rs, w')"
      "header r ''Idempotency-Key'' \<noteq> [] \<Longrightarrow>
         (header r ''Idempotency-Key'', ga_id agent) \<notin> (\<lambda>i. (i_key i, i_agent i)) ` set (idempotency_keys (w_db w))"
proof (cases "header r ''Idempotency-Key'' = []")
  case True
  then show ?thesis using run fresh [of w] by (simp add: handleCollect_def Let_def)
next
  case False
  let ?q = "GetIdempotencyResponse (header r ''Idempotency-Key'') (ga_id agent)"
  obtain x v where x: "run_state (sql ?q) w = (x, v)" by force
  note v = sql_reads_any [OF x reads_gateway(5)]
  show ?thesis
  proof (cases x)
    case (Inl e)
    then show ?thesis
    proof (cases "e = ErrNotFound")
      case True
      then have "find (\<lambda>i. i_key i = header r ''Idempotency-Key'' \<and> i_agent i = ga_id agent) (idempotency_keys (w_db w)) = None"
        using v(2) Inl by (auto simp: GetIdempotencyResponse_def split: option.splits)
      then have "(header r ''Idempotency-Key'', ga_id agent) \<notin> (\<lambda>i. (i_key i, i_agent i)) ` set (idempotency_keys (w_db w))"
        by (auto dest: find_NoneD)
      then show ?thesis
        using run x Inl False v(1) True fresh [of v] by (simp add: handleCollect_def Let_def)
    next
      case no: False
      then have "rs = WriteError 500 ''idempotency lookup failed'' \<and> w' = tick w"
        using run x Inl False v(1) by (simp add: handleCollect_def Let_def)
      then show ?thesis by (intro failed) simp_all
    qed
  next
    case (Inr existing)
    then have "rs = write_raw 200 (JsonBody existing) \<and> w' = tick w"
      using run x False v(1) by (simp add: handleCollect_def Let_def)
    moreover have "\<exists>i \<in> set (idempotency_keys (w_db w)). i_key i = header r ''Idempotency-Key'' \<and>
        i_agent i = ga_id agent \<and> i_response i = existing"
      using v(2) Inr by (auto simp: GetIdempotencyResponse_def split: option.splits dest: find_SomeD)
    ultimately show ?thesis by (intro replayed [OF False]) simp_all
  qed
qed

section \<open>What the normalizer reads\<close>

text \<open>The envelope of a collected event in the normalizer's terms.\<close>

definition as_envelope :: "ingest_envelope \<Rightarrow> envelope" where
  "as_envelope e =
     \<lparr>en_event = ie_event e, en_agent = ie_agent e, en_slug = ie_slug e, en_category = ie_category e,
      en_source = ie_source e, en_timestamp = ie_timestamp e, en_payload = ie_payload e, en_received = ie_received e\<rparr>"

lemma j_ingest_envelope:
  assumes "j_ingest L e = Some data"
  shows "data = j_envelope L (as_envelope e)" and "rfc3339_time (ie_timestamp e)" and "rfc3339_time (ie_received e)"
  using assms by (auto simp: j_ingest_def as_envelope_def j_envelope_def split: if_splits)

lemma dec_ingest:
  assumes "time_laws L" and "j_ingest L e = Some data"
  shows "dec_envelope L data = Some (as_envelope e)"
  using dec_envelope_j_envelope [OF assms(1), of "as_envelope e"] j_ingest_envelope [OF assms(2)]
  by (simp add: as_envelope_def)

section \<open>Idempotency keys\<close>

text \<open>A stored response answers every later request with its key.\<close>

lemma find_idem:
  assumes "wf_idem d" and "i \<in> set (idempotency_keys d)"
  shows "find (\<lambda>j. i_key j = i_key i \<and> i_agent j = i_agent i) (idempotency_keys d) = Some i"
proof -
  have "find (\<lambda>j. (i_key j, i_agent j) = (i_key i, i_agent i)) (idempotency_keys d) = Some i"
    using assms by (intro find_unique [of "\<lambda>j. (i_key j, i_agent j)"]) (simp_all add: wf_idem_def)
  then show ?thesis by simp
qed

lemma run_handleCollect_stored:
  assumes w: "healthy w" and wf: "wf_idem (w_db w)" and i: "i \<in> set (idempotency_keys (w_db w))"
    and key: "header r ''Idempotency-Key'' = i_key i" "i_key i \<noteq> []" "ga_id agent = i_agent i"
  shows "run_state (handleCollect L agent r) w = (write_raw 200 (JsonBody (i_response i)), tick w)"
proof -
  have "GetIdempotencyResponse (i_key i) (i_agent i) u t (w_db w) = (Inr (i_response i), w_db w)" for u t
    using find_idem [OF wf i] by (simp add: GetIdempotencyResponse_def)
  then show ?thesis using w key by (simp add: handleCollect_def Let_def run_simps)
qed

lemma save_response_stored:
  assumes w: "healthy v" and u: "uuid_laws L" and agent: "ga_id agent \<in> a_id ` set (agents (w_db v))"
    and key: "header r ''Idempotency-Key'' \<noteq> []"
    and new: "(header r ''Idempotency-Key'', ga_id agent) \<notin> (\<lambda>i. (i_key i, i_agent i)) ` set (idempotency_keys (w_db v))"
  shows "\<exists>i \<in> set (idempotency_keys (w_db (snd (run_state (save_response L agent r (l_uuid_string L eid) resp) v)))).
    i_key i = header r ''Idempotency-Key'' \<and> i_agent i = ga_id agent \<and> i_response i = resp"
  using w u agent key new
  by (simp add: save_response_def Let_def uuid_laws_def run_simps SaveIdempotencyResponse_def)

end
