(* ===== verification/GatewayRate.thy ===== *)
theory GatewayRate
  imports GatewayCollect
begin

text \<open>
  The rate limit end to end: whatever the gateway serves, the messages it puts on the ingest stream for one
  agent cost tokens of that agent's bucket. \<open>spend\<close> is the number of those messages plus the level of the
  bucket, less the refill of its time; no run raises it.
\<close>

section \<open>Messages of an agent\<close>

definition ingest_of :: "libs \<Rightarrow> uuid \<Rightarrow> string \<times> payload \<Rightarrow> bool" where
  "ingest_of L a m =
     (has_prefix (fst m) ''events.ingest.'' \<and>
      (case snd m of
         JsonBody v \<Rightarrow> (case v of
             JObj kvs \<Rightarrow> map_of kvs ''agent_id'' = Some (JStr (l_uuid_string L a))
           | _ \<Rightarrow> False)
       | _ \<Rightarrow> False))"

definition published_for :: "libs \<Rightarrow> uuid \<Rightarrow> world \<Rightarrow> nat" where
  "published_for L a w = length (filter (ingest_of L a) (w_streams w))"

lemma otlp_not_ingest: "\<not> ingest_of L a (''events.otlp.'' @ kind, p)"
  by (simp add: ingest_of_def has_prefix_def)

lemma ingest_of_envelope:
  assumes "uuid_laws L" and "j_ingest L env = Some data" and "ie_agent env = l_uuid_string L b"
  shows "ingest_of L a (''events.ingest.'' @ c, JsonBody data) \<longleftrightarrow> a = b"
proof -
  have "l_uuid_string L a = l_uuid_string L b \<longleftrightarrow> a = b"
    using assms(1) by (metis uuid_laws_def option.inject)
  then show ?thesis
    using assms(2,3) by (auto simp: ingest_of_def has_prefix_def j_ingest_def split: if_splits)
qed

section \<open>The potential\<close>

definition w_now :: "world \<Rightarrow> time" where
  "w_now w = w_clock w (w_tick w)"

definition mono_clock :: "world \<Rightarrow> bool" where
  "mono_clock w \<longleftrightarrow> (\<forall>m n. m \<le> n \<longrightarrow> w_clock w m \<le> w_clock w n)"

definition spend :: "libs \<Rightarrow> limiter \<Rightarrow> uuid \<Rightarrow> world \<Rightarrow> rat" where
  "spend L lm a w =
     of_nat (published_for L a w) +
     (case m_buckets (w_mem w) a of
        None \<Rightarrow> lm_burst lm - seconds (w_now w) * lm_rps lm
      | Some b \<Rightarrow> bk_tokens b - seconds (bk_last b) * lm_rps lm)"

definition spend_rel :: "libs \<Rightarrow> limiter \<Rightarrow> uuid \<Rightarrow> world \<Rightarrow> world \<Rightarrow> bool" where
  "spend_rel L lm a w w' \<longleftrightarrow>
     (mono_clock w \<and> known_ok lm (w_now w) (m_buckets (w_mem w) a) \<longrightarrow>
        same_env w w' \<and> known_ok lm (w_now w') (m_buckets (w_mem w') a) \<and> spend L lm a w' \<le> spend L lm a w)"

lemma mono_clock_env: "same_env w w' \<Longrightarrow> mono_clock w' = mono_clock w"
  by (simp add: mono_clock_def same_env_def)

lemma w_now_mono: "same_env w w' \<Longrightarrow> mono_clock w \<Longrightarrow> w_now w \<le> w_now w'"
  by (simp add: w_now_def same_env_def mono_clock_def)

interpretation sp: run_relation "spend_rel L lm a" for L lm a
proof
  show "spend_rel L lm a w w" for w by (simp add: spend_rel_def env.refl_R)
  show "spend_rel L lm a u v \<Longrightarrow> spend_rel L lm a v w \<Longrightarrow> spend_rel L lm a u w" for u v w
    using mono_clock_env [of u v] unfolding spend_rel_def by (meson env.trans_R order_trans)
qed

lemma known_ok_later: "known_ok lm t k \<Longrightarrow> t \<le> t' \<Longrightarrow> known_ok lm t' k"
  by (auto simp: known_ok_def bucket_ok_def split: option.splits)

lemma seconds_mono: "a \<le> b \<Longrightarrow> seconds a \<le> seconds b"
  by (simp add: seconds_def divide_right_mono)

text \<open>What neither publishes for the agent nor touches its bucket.\<close>

lemma spend_quiet:
  assumes lm: "limiter_ok lm" and e: "same_env w w'" and b: "m_buckets (w_mem w') a = m_buckets (w_mem w) a"
    and p: "published_for L a w' = published_for L a w"
  shows "spend_rel L lm a w w'"
  unfolding spend_rel_def
proof (intro impI, elim conjE, intro conjI)
  assume m: "mono_clock w" and k: "known_ok lm (w_now w) (m_buckets (w_mem w) a)"
  have le: "w_now w \<le> w_now w'" using e m by (rule w_now_mono)
  show "known_ok lm (w_now w') (m_buckets (w_mem w') a)" using k le unfolding b by (rule known_ok_later)
  have "seconds (w_now w) * lm_rps lm \<le> seconds (w_now w') * lm_rps lm"
    using lm seconds_mono [OF le] by (intro mult_right_mono) (simp_all add: limiter_ok_def)
  then show "spend L lm a w' \<le> spend L lm a w"
    by (simp add: spend_def b p split: option.split)
qed (rule e)

lemma spend_quiet_mem:
  assumes "limiter_ok lm" and "obeys same_env m" and "obeys same_memory m"
    and "\<And>w. filter (ingest_of L a) (w_streams (snd (run_state m w))) = filter (ingest_of L a) (w_streams w)"
  shows "obeys (spend_rel L lm a) m"
proof (rule obeysI)
  fix w
  have "same_memory w (snd (run_state m w))" "same_env w (snd (run_state m w))"
    using assms(2,3) by (auto dest: obeysD)
  then show "spend_rel L lm a w (snd (run_state m w))"
    using assms(4) [of w] by (intro spend_quiet assms(1)) (simp_all add: same_memory_def published_for_def)
qed

lemma spend_sql: "limiter_ok lm \<Longrightarrow> obeys (spend_rel L lm a) (sql f)"
  by (rule spend_quiet_mem) (auto intro: same_env_effects same_memory_effects simp: sql_streams [OF surjective_pairing])

lemma spend_effects:
  assumes "limiter_ok lm"
  shows "obeys (spend_rel L lm a) (publish (''events.otlp.'' @ kind) p)" "obeys (spend_rel L lm a) (http_call url p)"
    "obeys (spend_rel L lm a) now" "obeys (spend_rel L lm a) new_uuid" "obeys (spend_rel L lm a) (random_bytes n)"
  by (rule spend_quiet_mem [OF assms], rule same_env_effects, rule same_memory_effects,
      simp add: publish_def Let_def otlp_not_ingest [simplified] http_call_def now_def new_uuid_def random_bytes_def
        split: outcome.split)+

lemma spend_counted: "limiter_ok lm \<Longrightarrow> obeys (spend_rel L lm a) (remember (\<lambda>m. m\<lparr>m_metrics := f (m_metrics m)\<rparr>))"
  by (rule obeysI, rule spend_quiet) (simp_all add: remember_def same_env_def published_for_def)

section \<open>The collect routes\<close>

lemma collect_new_counts:
  assumes u: "uuid_laws L" and run: "run_state (collect_new L agent r) w = (rs, w')"
  shows "published_for L a w' \<le> published_for L a w + of_bool (ga_id agent = a)"
  using run
proof (cases rule: collect_new_cases)
  case refused
  then show ?thesis by (simp add: published_for_def)
next
  case (lost req data env)
  then show ?thesis
    using ingest_of_envelope [OF u lost(5,6)] by (auto simp: published_for_def)
next
  case (accepted req data env v)
  have "ie_agent env = l_uuid_string L (ga_id agent)" by (simp add: accepted(5) collect_envelope_def)
  from ingest_of_envelope [OF u accepted(6) this] show ?thesis
    by (simp add: published_for_def accepted(8,9) save_response_frame)
qed

lemma handleCollect_counts:
  assumes u: "uuid_laws L" and run: "run_state (handleCollect L agent r) w = (rs, w')"
  shows "published_for L a w' \<le> published_for L a w + of_bool (ga_id agent = a)"
  using run
proof (cases rule: handleCollect_cases)
  case (fresh v)
  then show ?thesis using collect_new_counts [OF u fresh(2), of a] by (auto simp: published_for_def)
qed (simp_all add: published_for_def)

text \<open>Only the rate limiter touches the buckets.\<close>

definition same_buckets :: "world \<Rightarrow> world \<Rightarrow> bool" where
  "same_buckets w w' \<longleftrightarrow> m_buckets (w_mem w') = m_buckets (w_mem w)"

interpretation sb: run_relation same_buckets
  by unfold_locales (auto simp: same_buckets_def)

lemma same_bucketsI: "obeys same_memory m \<Longrightarrow> obeys same_buckets m"
  by (simp add: obeys_def same_buckets_def same_memory_def)

lemma same_buckets_counted: "obeys same_buckets (count_ingested c k)"
  by (rule obeysI) (simp add: count_ingested_def remember_def same_buckets_def)

lemma handleCollect_buckets: "obeys same_buckets (handleCollect L agent r)"
  unfolding handleCollect_def collect_new_def save_response_def Let_def
  by (intro sb.obeys_control same_buckets_counted same_memory_effects [THEN same_bucketsI])

lemma spend_collect:
  assumes lm: "limiter_ok lm" and u: "uuid_laws L"
  shows "obeys (spend_rel L lm a) (RateLimit lm (handleCollect L) agent r)"
proof (rule obeysI)
  fix w
  let ?t = "w_now w"
  obtain ok b where b: "allow_bucket lm ?t (m_buckets (w_mem w) (ga_id agent)) = (ok, b)" by force
  define v where "v = tick (w\<lparr>w_mem := (w_mem w)\<lparr>m_buckets := (m_buckets (w_mem w))(ga_id agent \<mapsto> b)\<rparr>\<rparr>)"
  have allow: "run_state (allow lm (ga_id agent)) w = (ok, v)"
    using b by (simp add: run_allow v_def w_now_def)
  obtain rs w' where run: "run_state (RateLimit lm (handleCollect L) agent r) w = (rs, w')" by force
  have rest: "(\<not> ok \<and> w' = v) \<or> (ok \<and> run_state (handleCollect L agent r) v = (rs, w'))"
    using run allow by (auto simp: RateLimit_def split: if_splits)
  have env: "same_env w v" "same_env v w'"
    using rest genv.handleCollect [of L agent r] by (auto simp: v_def same_env_def dest: obeys_run)
  have mem: "m_buckets (w_mem w') = m_buckets (w_mem v)"
    using rest handleCollect_buckets [of L agent r] by (auto simp: same_buckets_def dest: obeys_run)
  have cnt: "published_for L a w' \<le> published_for L a w + of_bool (ok \<and> ga_id agent = a)"
    using rest handleCollect_counts [OF u, of agent r v rs w' a] by (auto simp: v_def published_for_def)
  show "spend_rel L lm a w (snd (run_state (RateLimit lm (handleCollect L) agent r) w))"
  proof (cases "ga_id agent = a")
    case False
    have "published_for L a w' = published_for L a w"
    proof -
      have "published_for L a w \<le> published_for L a w'"
      proof -
        have "grows v w'" using rest ggrow.handleCollect [of L agent r] by (auto simp: grows_def dest: obeys_run)
        then have "prefix (w_streams w) (w_streams w')" by (simp add: grows_def v_def)
        then show ?thesis by (auto simp: published_for_def prefix_def)
      qed
      with cnt False show ?thesis by simp
    qed
    then have "spend_rel L lm a w w'"
      using False by (intro spend_quiet [OF lm] env.trans_R [OF env]) (simp_all add: mem v_def)
    then show ?thesis using run by simp
  next
    case True
    have "spend_rel L lm a w w'"
      unfolding spend_rel_def
    proof (intro impI, elim conjE, intro conjI)
      assume m: "mono_clock w" and k: "known_ok lm ?t (m_buckets (w_mem w) a)"
      note s = allow_bucket_ok [OF lm k b [unfolded True]]
      have bw: "m_buckets (w_mem w') a = Some b" using True by (simp add: mem v_def)
      have le: "w_now w \<le> w_now w'" using env.trans_R [OF env] m by (rule w_now_mono)
      show "known_ok lm (w_now w') (m_buckets (w_mem w') a)"
        using s(1) le by (auto simp: bw known_ok_def bucket_ok_def)
      have split: "seconds (bk_last c) * lm_rps lm + seconds (?t - bk_last c) * lm_rps lm = seconds ?t * lm_rps lm" for c
        using seconds_add [of "bk_last c" "?t - bk_last c"] by (simp add: distrib_right [symmetric])
      have fall: "bk_tokens b - seconds ?t * lm_rps lm + of_bool ok \<le>
          (case m_buckets (w_mem w) a of None \<Rightarrow> lm_burst lm - seconds (w_now w) * lm_rps lm
           | Some c \<Rightarrow> bk_tokens c - seconds (bk_last c) * lm_rps lm)"
      proof (cases "m_buckets (w_mem w) a")
        case (Some c)
        then show ?thesis using s(3) split [of c] by (simp add: level_def)
      qed (use s(3) in \<open>simp add: level_def\<close>)
      have "(of_nat (published_for L a w') :: rat) \<le> of_nat (published_for L a w + of_bool (ok \<and> ga_id agent = a))"
        using cnt by (simp only: of_nat_le_iff)
      then have "(of_nat (published_for L a w') :: rat) \<le> of_nat (published_for L a w) + of_bool ok"
        using True by simp
      with fall show "spend L lm a w' \<le> spend L lm a w"
        by (simp add: spend_def bw s(2))
    qed (rule env.trans_R [OF env])
    then show ?thesis using run by simp
  qed
qed

section \<open>Every run\<close>

text \<open>Under a sound limiter and UUID syntax the relation is one of the gateway's.\<close>

definition spends :: "libs \<Rightarrow> limiter \<Rightarrow> uuid \<Rightarrow> world \<Rightarrow> world \<Rightarrow> bool" where
  "spends L lm a w w' \<longleftrightarrow> (limiter_ok lm \<and> uuid_laws L \<longrightarrow> spend_rel L lm a w w')"

lemma spendsI: "(limiter_ok lm \<Longrightarrow> uuid_laws L \<Longrightarrow> obeys (spend_rel L lm a) m) \<Longrightarrow> obeys (spends L lm a) m"
  by (simp add: obeys_def spends_def)

interpretation spg: gateway_base "spends L lm a" for L lm a
proof
  show "spends L lm a w w" for w by (simp add: spends_def sp.refl_R)
  show "spends L lm a u v \<Longrightarrow> spends L lm a v w \<Longrightarrow> spends L lm a u w" for u v w
    using sp.trans_R by (auto simp: spends_def)
qed (rule spendsI, (rule spend_sql | rule spend_effects | rule spend_counted), assumption)+

lemma spends_serve: "obeys (spends L (gs_limiter s) a) (gw_serve L s qs)"
proof (induction qs)
  case Nil
  then show ?case by (simp add: spg.obeys_ret)
next
  case (Cons q qs)
  obtain rt r where q: "q = (rt, r)" by force
  have "obeys (spends L (gs_limiter s) a) (gw_Router L s rt r)"
  proof (rule spg.Router_cases)
    fix h agent r assume h: "machine_handler L s rt = Some h"
    show "obeys (spends L (gs_limiter s) a) (h agent r)"
    proof (cases "collect_route rt")
      case True
      then have "h = RateLimit (gs_limiter s) (handleCollect L)"
        using h by (auto simp: collect_route_def machine_handler_def)
      then show ?thesis by (simp add: spendsI spend_collect)
    next
      case False
      with h show ?thesis by (rule spg.other_handlers)
    qed
  qed
  then show ?case using Cons by (auto simp: q intro!: spg.obeys_bind spg.obeys_ret)
qed

text \<open>From a bucket that does not exist yet.\<close>

lemma published_bound:
  assumes run: "run_state (gw_serve L s qs) w = (rss, w')" and lm: "limiter_ok (gs_limiter s)" and u: "uuid_laws L"
    and clock: "mono_clock w" and new: "m_buckets (w_mem w) a = None"
  shows "of_nat (published_for L a w') \<le> of_nat (published_for L a w) + lm_burst (gs_limiter s) +
    seconds (w_now w' - w_now w) * lm_rps (gs_limiter s)"
proof -
  let ?lm = "gs_limiter s"
  have "spend_rel L ?lm a w w'"
    using obeys_run [OF spends_serve run, of a] lm u by (simp add: spends_def)
  then have e: "known_ok ?lm (w_now w') (m_buckets (w_mem w') a)" "spend L ?lm a w' \<le> spend L ?lm a w"
    using clock new by (simp_all add: spend_rel_def known_ok_def)
  have pos: "0 < lm_rps ?lm" "0 < lm_burst ?lm" using lm by (simp_all add: limiter_ok_def)
  have "of_nat (published_for L a w') - seconds (w_now w') * lm_rps ?lm \<le> spend L ?lm a w'"
  proof (cases "m_buckets (w_mem w') a")
    case None
    then show ?thesis using pos by (simp add: spend_def)
  next
    case (Some b)
    then have "0 \<le> bk_tokens b" "seconds (bk_last b) * lm_rps ?lm \<le> seconds (w_now w') * lm_rps ?lm"
      using e(1) pos seconds_mono [of "bk_last b" "w_now w'"] by (auto simp: known_ok_def bucket_ok_def mult_right_mono)
    then show ?thesis using Some by (simp add: spend_def)
  qed
  moreover have "spend L ?lm a w = of_nat (published_for L a w) + lm_burst ?lm - seconds (w_now w) * lm_rps ?lm"
    by (simp add: spend_def new)
  moreover have "seconds (w_now w') * lm_rps ?lm = seconds (w_now w) * lm_rps ?lm + seconds (w_now w' - w_now w) * lm_rps ?lm"
    using seconds_add [of "w_now w" "w_now w' - w_now w"] by (simp add: distrib_right [symmetric])
  ultimately show ?thesis using e(2) by simp
qed

end
