(* ===== verification/GatewayKeys.thy ===== *)
theory GatewayKeys
  imports GatewayOutcome
begin

text \<open>
  The life of an API key: what issuing one stores and what revoking one does to its token; and what a query of
  events returns.
\<close>

section \<open>Issuing a key\<close>

lemma agent_of_id: "agent_of d a = Some g \<Longrightarrow> ga_id g = a \<and> a \<in> a_id ` set (agents d)"
  by (auto simp: agent_of_def scanAgent_def split: option.splits sum.splits dest: find_SomeD)

lemma agent_of_keys [simp]: "agent_of (d\<lparr>api_keys := ks\<rparr>) a = agent_of d a"
  by (simp add: agent_of_def)

lemma CreateAPIKey_Inr:
  assumes "CreateAPIKey a label scopes h pre u t d = (Inr key, d')"
  obtains k where "d' = d\<lparr>api_keys := api_keys d @ [k]\<rparr>" "k_hash k = h" "k_agent k = a" "k_revoked k = None"
    "k_expires k = None" "k_label k = Some label" "scanKey k = Inr key" "h \<notin> k_hash ` set (api_keys d)" "k_id k = gk_id key"
  using assms by (auto simp: CreateAPIKey_def Let_def scanKey_def split: if_splits)

lemma handleCreateAPIKey_ok:
  assumes run: "run_state (handleCreateAPIKey L s usr r) w = (rs, w')" and ok: "rs_status rs = 201"
  obtains req agent buf token rest k where "decode_struct L create_key_fields (rq_body r) = Some req"
    "l_uuid_parse L (kq_agent req) = Some (ga_id agent)" "agent_of (w_db w) (ga_id agent) = Some agent"
    "length buf = 24" "token = fst (api_key_of L (gc_salt (gs_cfg s)) buf)"
    "rs_body rs = JsonBody (JObj ((''api_key'', JStr token) # rest))"
    "w_db w' = (w_db w)\<lparr>api_keys := api_keys (w_db w) @ [k]\<rparr>" "k_hash k = HashToken L (gc_salt (gs_cfg s)) token"
    "k_agent k = ga_id agent" "k_revoked k = None" "k_expires k = None" "k_label k \<noteq> None"
    "k_hash k \<notin> k_hash ` set (api_keys (w_db w))"
proof -
  obtain req where req: "decode_struct L create_key_fields (rq_body r) = Some req"
    using run ok by (cases "decode_struct L create_key_fields (rq_body r)") (auto simp: handleCreateAPIKey_def)
  obtain aid where aid: "l_uuid_parse L (kq_agent req) = Some aid"
    using run ok req by (cases "l_uuid_parse L (kq_agent req)") (auto simp: handleCreateAPIKey_def)
  obtain x v where x: "run_state (sql (gw_GetAgent aid)) w = (x, v)" by force
  have "\<not> isl x" using run ok req aid x by (cases x) (auto simp: handleCreateAPIKey_def split: if_splits)
  then obtain agent where agent: "x = Inr agent" by (cases x) auto
  note s = sql_reads_Inr [OF x [unfolded agent] reads_gateway(1)]
  have g: "agent_of (w_db w) aid = Some agent" using s(1) by (simp add: gw_GetAgent_fst)
  define buf where "buf = take 24 (w_random v (w_tick v) @ replicate 24 (CHR 0x00))"
  obtain token h pre where t: "api_key_of L (gc_salt (gs_cfg s)) buf = (token, h, pre)" by (metis prod_cases3)
  obtain y v2 where y: "run_state (sql (CreateAPIKey aid (kq_label req) (kq_scopes req) h pre)) (tick v) = (y, v2)" by force
  have "\<not> isl y"
    using run ok req aid x agent y t
    by (cases y) (auto simp: handleCreateAPIKey_def GenerateAPIKey_def run_simps buf_def)
  then obtain key where key: "y = Inr key" by (cases y) auto
  have rs: "rs_body rs = JsonBody (JObj ((''api_key'', JStr token) #
      [(''key_id'', j_uuid L (gk_id key)), (''agent_id'', j_uuid L aid), (''issued_at'', JStr (l_time_rfc3339 L (gk_created key)))]))
      \<and> w' = v2"
    using run ok req aid x agent y t key by (auto simp: handleCreateAPIKey_def GenerateAPIKey_def run_simps buf_def)
  from sql_Inr [OF y [unfolded key]]
  have c: "CreateAPIKey aid (kq_label req) (kq_scopes req) h pre (w_uuid (tick v) (w_tick (tick v)))
      (w_clock (tick v) (w_tick (tick v))) (w_db w) = (Inr key, w_db v2)"
    by (simp add: s(2))
  obtain k where k: "w_db v2 = (w_db w)\<lparr>api_keys := api_keys (w_db w) @ [k]\<rparr>" "k_hash k = h" "k_agent k = aid"
    "k_revoked k = None" "k_expires k = None" "k_label k = Some (kq_label req)" "h \<notin> k_hash ` set (api_keys (w_db w))"
    using CreateAPIKey_Inr [OF c] by metis
  have len: "length buf = 24" by (simp add: buf_def)
  have h: "h = HashToken L (gc_salt (gs_cfg s)) token" using api_key_of_token(3) [OF t len] .
  have ga: "ga_id agent = aid" using agent_of_id [OF g] by simp
  have kh: "k_hash k \<notin> k_hash ` set (api_keys (w_db w))" using k by metis
  show ?thesis
    by (rule that [OF req _ _ len, of agent token _ k])
      (use aid g ga t rs k h kh in simp_all)
qed

text \<open>Whatever the time, a fresh key's token stands for its agent.\<close>

lemma caller_of_new_key:
  assumes ks: "w_db w' = (w_db w)\<lparr>api_keys := api_keys (w_db w) @ [k]\<rparr>" and h: "k_hash k = HashToken L (gc_salt cfg) token"
    and new: "k_hash k \<notin> k_hash ` set (api_keys (w_db w))" and live: "k_revoked k = None" "k_expires k = None" "k_label k \<noteq> None"
    and agent: "agent_of (w_db w) (k_agent k) = Some g" and token: "token \<noteq> []"
  shows "caller_of L cfg (w_db w') t token = Some g"
proof -
  have "find (\<lambda>q. k_hash q = k_hash k) (api_keys (w_db w)) = None"
    using new by (auto simp: find_None_iff image_iff)
  then have "key_of L cfg (w_db w') token = Some k"
    by (simp add: key_of_def ks find_append h)
  then show ?thesis using live agent token by (simp add: caller_of_def ks)
qed

section \<open>Revoking a key\<close>

lemma handleDeleteAPIKey_ok:
  assumes run: "run_state (handleDeleteAPIKey L usr r) w = (rs, w')" and ok: "rs_status rs = 200"
  obtains kid where "l_uuid_parse L (url_param r ''key_id'') = Some kid"
    "\<And>k. k \<in> set (api_keys (w_db w')) \<Longrightarrow> k_id k = kid \<Longrightarrow> k_revoked k \<noteq> None"
proof -
  obtain kid where kid: "l_uuid_parse L (url_param r ''key_id'') = Some kid"
    using run ok by (cases "l_uuid_parse L (url_param r ''key_id'')") (auto simp: handleDeleteAPIKey_def)
  obtain x v where x: "run_state (sql (RevokeAPIKey kid)) w = (x, v)" by force
  have "\<not> isl x" "v = w'" using run ok kid x by (cases x; auto simp: handleDeleteAPIKey_def split: if_splits)+
  then have "run_state (sql (RevokeAPIKey kid)) w = (Inr (), w')" using x by (cases x) auto
  from sql_Inr [OF this, THEN conjunct1]
  have "w_db w' = (w_db w)\<lparr>api_keys := upd_where (\<lambda>k. k_id k = kid \<and> k_revoked k = None)
      (\<lambda>k. k\<lparr>k_revoked := Some (w_clock w (w_tick w)), k_updated := w_clock w (w_tick w)\<rparr>) (api_keys (w_db w))\<rparr>"
    by (auto simp: RevokeAPIKey_def split: if_splits)
  then have ks: "api_keys (w_db w') = upd_where (\<lambda>k. k_id k = kid \<and> k_revoked k = None)
      (\<lambda>k. k\<lparr>k_revoked := Some (w_clock w (w_tick w)), k_updated := w_clock w (w_tick w)\<rparr>) (api_keys (w_db w))"
    by simp
  have "k_revoked k \<noteq> None" if k: "k \<in> set (api_keys (w_db w'))" "k_id k = kid" for k
  proof -
    obtain q where "k = (if k_id q = kid \<and> k_revoked q = None
        then q\<lparr>k_revoked := Some (w_clock w (w_tick w)), k_updated := w_clock w (w_tick w)\<rparr> else q)"
      using k(1) unfolding ks in_upd_where by blast
    then show ?thesis using k(2) by (cases "k_id q = kid \<and> k_revoked q = None") auto
  qed
  then show ?thesis using kid that by blast
qed

lemma caller_of_revoked:
  assumes wf: "wf_agents d" and k: "k \<in> set (api_keys d)" "k_revoked k \<noteq> None" "k_hash k = HashToken L (gc_salt cfg) token"
  shows "caller_of L cfg d t token = None"
proof -
  have "find (\<lambda>q. k_hash q = k_hash k) (api_keys d) = Some k"
    using wf k(1) by (intro find_unique) (simp_all add: wf_agents_def)
  then have "key_of L cfg d token = Some k" using k(3) by (simp add: key_of_def)
  with k(2) show ?thesis by (simp add: caller_of_def)
qed

section \<open>Queries\<close>

lemma map_res_Inr_nth: "map_res f xs = Inr ys \<Longrightarrow> list_all2 (\<lambda>x y. f x = Inr y) xs ys"
  by (induction xs arbitrary: ys) (auto split: sum.splits)

lemma scanEvent_fields:
  "scanEvent p = Inr e \<Longrightarrow> gv_id e = e_id (fst p) \<and> gv_category e = snd p \<and> gv_timestamp e = e_occurred (fst p) \<and>
   gv_payload e = e_payload (fst p)"
  by (auto simp: scanEvent_def Let_def split: prod.splits option.splits)

lemma query_limit_bounds: "1 \<le> query_limit l" "query_limit l \<le> 1000"
  by (auto simp: query_limit_def)

lemma take_or_short: "x \<in> set xs \<Longrightarrow> x \<in> set (take n xs) \<or> (n \<le> length xs \<and> x \<in> set (drop n xs))"
  by (metis Un_iff append_take_drop_id drop_all empty_iff list.set(1) nat_le_linear set_append)

text \<open>The rows of the answer are the newest ones in range.\<close>

lemma QueryEvents_rows:
  assumes run: "QueryEvents category start stop limit u t d = (Inr es, d')"
  defines "rows \<equiv> filter (in_range category start stop) (joined_events d)"
  shows "\<exists>ps. list_all2 (\<lambda>p e. scanEvent p = Inr e) ps es \<and> length ps \<le> query_limit limit \<and> set ps \<subseteq> set rows \<and>
    sorted_wrt (\<lambda>a b. e_occurred (fst b) \<le> e_occurred (fst a)) ps \<and>
    (\<forall>p \<in> set rows. p \<in> set ps \<or> (length ps = query_limit limit \<and> (\<forall>q \<in> set ps. e_occurred (fst p) \<le> e_occurred (fst q))))"
proof -
  let ?k = "\<lambda>p :: event_row \<times> string. e_occurred (fst p)"
  let ?xs = "order_desc ?k rows"
  let ?n = "query_limit limit"
  have s: "sorted_wrt (\<lambda>a b. ?k b \<le> ?k a) ?xs" by (rule order_desc_sorted)
  have ps: "list_all2 (\<lambda>p e. scanEvent p = Inr e) (take ?n ?xs) es"
    using run by (intro map_res_Inr_nth) (auto simp: QueryEvents_def rows_def)
  have later: "p \<in> set (take ?n ?xs) \<or> (length (take ?n ?xs) = ?n \<and> (\<forall>q \<in> set (take ?n ?xs). ?k p \<le> ?k q))"
    if "p \<in> set rows" for p
  proof -
    have "p \<in> set ?xs" using that by simp
    from take_or_short [OF this, of ?n] show ?thesis
    proof
      assume "?n \<le> length ?xs \<and> p \<in> set (drop ?n ?xs)"
      moreover have "sorted_wrt (\<lambda>a b. ?k b \<le> ?k a) (take ?n ?xs @ drop ?n ?xs)" using s by simp
      ultimately show ?thesis unfolding sorted_wrt_append by simp
    qed simp
  qed
  show ?thesis
  proof (intro exI [of _ "take ?n ?xs"] conjI ballI)
    show "set (take ?n ?xs) \<subseteq> set rows" using set_take_subset [of ?n ?xs] by simp
    show "sorted_wrt (\<lambda>a b. ?k b \<le> ?k a) (take ?n ?xs)" using s by (rule sorted_wrt_take)
  qed (use ps later in auto)
qed

end
