(* ===== verification/GatewayPipeline.thy ===== *)
theory GatewayPipeline
  imports GatewayRate GatewayKeys NormOutcome WebhookOutcome
begin

text \<open>
  Where the services meet: what the normalizer reads of a message of the gateway or of the webhook adapter, what
  becomes of it once acknowledged, and when the gateway accepts an event.
\<close>

section \<open>Acknowledged messages\<close>

text \<open>What is left of an acknowledged envelope: rows of the events table, one per storing destination, or a row of
  the quarantine.\<close>

definition settled_as :: "libs \<Rightarrow> envelope \<Rightarrow> db \<Rightarrow> db \<Rightarrow> bool" where
  "settled_as L e d d' \<longleftrightarrow>
     (\<exists>(sc :: registry_schema) rows. validatePayload L (sch_json sc) (en_payload e) = Inr None \<and>
        d' = d\<lparr>events := events d @ rows\<rparr> \<and> list_all (event_for L e d) rows \<and>
        length rows = length (filter storing (destinations (routing_of L (sch_routing sc))))) \<or>
     (\<exists>reason. quarantined_as L e reason d d')"

lemma acked_settled:
  assumes run: "run_state (handleIngest L cfg data) v = (Ack, v')" and e: "message_envelope L data = Some e"
  shows "settled_as L e (w_db v) (w_db v')"
proof -
  obtain x v2 where x: "run_state (Process L cfg e) v = (x, v2)" by force
  then obtain res where res: "x = Inr res" "v2 = v'"
    using run e by (cases x) (auto simp: handleIngest_def)
  from Process_ok [OF x [unfolded res]] show ?thesis unfolding settled_as_def by blast
qed

section \<open>What the two producers publish decodes\<close>

lemma message_ingest:
  assumes "time_laws L" and "j_ingest L e = Some data"
  shows "message_envelope L (JsonBody data) = Some (as_envelope e)"
  using dec_ingest [OF assms] by (simp add: message_envelope_def message_json_def)

definition of_webhook :: "wh_envelope \<Rightarrow> envelope" where
  "of_webhook e =
     \<lparr>en_event = we_event e, en_agent = we_agent e, en_slug = we_slug e, en_category = we_category e,
      en_source = we_source e, en_timestamp = we_timestamp e, en_payload = we_payload e, en_received = zero_time\<rparr>"

lemma message_webhook:
  assumes "time_laws L" and "rfc3339_time (we_timestamp e)"
  shows "message_envelope L (JsonBody (j_wh_envelope L e)) = Some (of_webhook e)"
proof -
  obtain a g x y where o: "j_wh_envelope L e = JObj ([(''event_id'', JStr (we_event e))] @ a @ g @
     [(''category'', JStr (we_category e)), (''source'', JStr (we_source e)),
      (''timestamp'', j_time L (we_timestamp e)), (''payload'', j_map (we_payload e))])"
     and ag: "a = [] \<or> a = [(''agent_id'', x)]" "g = [] \<or> g = [(''agent_slug'', y)]"
       "dec_values dec_string [] (map snd a) = Some (we_agent e)"
       "dec_values dec_string [] (map snd g) = Some (we_slug e)"
    using wh_envelope_object [of L e] by blast
  have t: "l_time_parse L (l_time_format L (we_timestamp e)) = Some (we_timestamp e)"
    using assms by (simp add: time_laws_def)
  show ?thesis
    unfolding message_envelope_def message_json_def dec_envelope_def o option.case payload.case dec_object.simps
      envelope_fields_def dec_field_def wh_field_values [OF ag(1,2)] lower_names
    using ag(3,4) t by (simp add: j_time_def of_webhook_def)
qed

section \<open>When an event is accepted\<close>

lemma run_collect_new:
  assumes w: "healthy w" and req: "decode_struct L (collect_fields L) (rq_body r) = Some req"
    and ok: "cq_category req \<noteq> []" "cq_timestamp req \<noteq> zero_time" "cq_payload req \<noteq> None"
    and times: "rfc3339_time (cq_timestamp req)" "rfc3339_time (w_clock w (Suc (w_tick w)))"
  shows "fst (run_state (collect_new L agent r) w) = WriteJSON 201 (accepted_body (l_uuid_string L (w_uuid w (w_tick w))))"
proof -
  let ?env = "collect_envelope L agent req (w_uuid w (w_tick w)) (w_clock w (Suc (w_tick w)))"
  obtain data where data: "j_ingest L ?env = Some data"
    using times by (simp add: j_ingest_def collect_envelope_def)
  have "ie_event ?env = l_uuid_string L (w_uuid w (w_tick w))" by (simp add: collect_envelope_def)
  then show ?thesis
    using w req ok data by (auto simp: collect_new_def Let_def run_simps split: prod.split)
qed

lemma run_handleCollect_new:
  assumes w: "healthy w" and req: "decode_struct L (collect_fields L) (rq_body r) = Some req"
    and ok: "cq_category req \<noteq> []" "cq_timestamp req \<noteq> zero_time" "cq_payload req \<noteq> None"
    and times: "rfc3339_time (cq_timestamp req)" "\<And>n. rfc3339_time (w_clock w n)"
    and new: "(header r ''Idempotency-Key'', ga_id agent) \<notin> (\<lambda>i. (i_key i, i_agent i)) ` set (idempotency_keys (w_db w))"
  shows "\<exists>event. fst (run_state (handleCollect L agent r) w) = WriteJSON 201 (accepted_body event)"
proof (cases "header r ''Idempotency-Key'' = []")
  case True
  then have "run_state (handleCollect L agent r) w = run_state (collect_new L agent r) w"
    by (simp add: handleCollect_def Let_def)
  then show ?thesis using run_collect_new [OF w req ok times(1) times(2), of agent] by auto
next
  case False
  have "find (\<lambda>i. i_key i = header r ''Idempotency-Key'' \<and> i_agent i = ga_id agent) (idempotency_keys (w_db w)) = None"
    using new by (auto simp: find_None_iff image_iff)
  then have "GetIdempotencyResponse (header r ''Idempotency-Key'') (ga_id agent) u t (w_db w) = (Inl ErrNotFound, w_db w)" for u t
    by (simp add: GetIdempotencyResponse_def)
  then have "run_state (handleCollect L agent r) w = run_state (collect_new L agent r) (tick w)"
    using False w by (simp add: handleCollect_def Let_def run_simps)
  then show ?thesis
    using run_collect_new [of "tick w", OF _ req ok times(1)] times(2) w by auto
qed

text \<open>A caller whose bucket holds a token, or is owed one.\<close>

definition may_call :: "limiter \<Rightarrow> time \<Rightarrow> bucket option \<Rightarrow> bool" where
  "may_call lm t k \<longleftrightarrow>
     (case k of None \<Rightarrow> True | Some b \<Rightarrow> bucket_ok lm t b \<and> 1 \<le> seconds (t - bk_last b) * lm_rps lm)"

lemma may_call_allowed:
  assumes lm: "limiter_ok lm" "1 \<le> lm_burst lm" and k: "may_call lm t k" and t: "t \<le> t'"
  shows "fst (allow_bucket lm t' k)"
proof (cases k)
  case None
  then show ?thesis using lm allow_first by simp
next
  case (Some b)
  have "seconds (t - bk_last b) * lm_rps lm \<le> seconds (t' - bk_last b) * lm_rps lm"
    using lm(1) t seconds_mono [of "t - bk_last b" "t' - bk_last b"] by (simp add: limiter_ok_def mult_right_mono)
  then show ?thesis
    using k t Some allow_after_wait [OF lm, of t' b] by (auto simp: may_call_def bucket_ok_def)
qed

end
