(* ===== verification/GatewayMigrate.thy ===== *)
theory GatewayMigrate
  imports GatewayStore
begin

text \<open>
  The gateway's migrations: \<open>applied_from\<close> is the abstract effect of a start, an ordered sequence of migrations
  each run and recorded once; every start, whatever fails in it, has such an effect.
\<close>

inductive applied_from ::
  "(bytes \<Rightarrow> unit stmt) \<Rightarrow> db \<Rightarrow> (string \<times> bytes) list \<Rightarrow> db \<Rightarrow> bool" for run where
  none: "applied_from run d [] d"
| step: "\<lbrakk>applied_from run d ms e; run text u t e = (Inr (), e1); name \<notin> set (migrations e1)\<rbrakk> \<Longrightarrow>
    applied_from run d (ms @ [(name, text)]) (e1\<lparr>migrations := migrations e1 @ [name]\<rparr>)"

inductive_cases applied_none: "applied_from run d [] e"

lemma applied_trans: "applied_from run e ns f \<Longrightarrow> applied_from run d ms e \<Longrightarrow> applied_from run d (ms @ ns) f"
  by (induction rule: applied_from.induct)
    (auto simp: append_assoc [symmetric] intro: applied_from.step simp del: append_assoc)

definition leaves_log :: "(bytes \<Rightarrow> unit stmt) \<Rightarrow> bool" where
  "leaves_log run \<longleftrightarrow> (\<forall>text u t d. migrations (snd (run text u t d)) = migrations d)"

lemma applied_log:
  "applied_from run d ms e \<Longrightarrow> leaves_log run \<Longrightarrow>
   migrations e = migrations d @ map fst ms \<and> distinct (map fst ms) \<and> set (map fst ms) \<inter> set (migrations d) = {}"
proof (induction rule: applied_from.induct)
  case (step d ms e body u t e1 name)
  have "migrations e1 = migrations e" using step(2,5) unfolding leaves_log_def by (metis snd_conv)
  then show ?case using step by auto
qed simp

text \<open>Names of the files a start considers.\<close>

definition eligible :: "dir_entry \<Rightarrow> bool" where
  "eligible f \<longleftrightarrow> \<not> de_dir f \<and> suffix ''.sql'' (de_name f)"

lemma sql_db_reads: "run_state (sql f) w = (x, v) \<Longrightarrow> reads f \<Longrightarrow> w_db v = w_db w"
  using obeys_run [OF unchanged_sql] by (metis unchanged_def)

lemma Migrate_applied:
  assumes run: "run_state (Migrate name (run text)) w = (x, w')"
  shows "(w_db w' = w_db w \<and> (x = Inr () \<longrightarrow> name \<in> set (migrations (w_db w)))) \<or>
    (name \<notin> set (migrations (w_db w)) \<and> applied_from run (w_db w) [(name, text)] (w_db w'))"
proof -
  have reads: "reads create_migrations_table" "reads (migration_applied name)"
    by (simp_all add: reads_def create_migrations_table_def migration_applied_def)
  obtain a v where a: "run_state (sql create_migrations_table) w = (a, v)" by force
  note v = sql_db_reads [OF a reads(1)]
  show ?thesis
  proof (cases a)
    case (Inl e)
    then show ?thesis using run a v by (auto simp: Migrate_def)
  next
    case (Inr u)
    obtain b v2 where b: "run_state (sql (migration_applied name)) v = (b, v2)" by force
    note v2 = sql_db_reads [OF b reads(2)]
    show ?thesis
    proof (cases b)
      case (Inl e)
      then show ?thesis using run a b v v2 Inr by (auto simp: Migrate_def)
    next
      case (Inr applied)
      have ap: "applied = (name \<in> set (migrations (w_db w)))"
        using sql_Inr [OF b [unfolded Inr]] v by (auto simp: migration_applied_def)
      show ?thesis
      proof (cases applied)
        case True
        then show ?thesis using run a b v v2 \<open>a = Inr u\<close> Inr ap by (auto simp: Migrate_def)
      next
        case False
        obtain c v3 where c: "run_state tx_begin v2 = (c, v3)" by force
        have v3: "w_db v3 = w_db w" "\<not> isl c \<Longrightarrow> c = Inr (w_db w)"
          using c v v2 by (auto simp: tx_begin_def split: outcome.splits)
        show ?thesis
        proof (cases c)
          case (Inl e)
          then show ?thesis using run a b c v3 \<open>a = Inr u\<close> \<open>b = Inr applied\<close> False by (auto simp: Migrate_def)
        next
          case (Inr d)
          then have d: "d = w_db w" using v3 by simp
          obtain p d1 v4 where p: "run_state (tx_sql (run text) d) v3 = ((p, d1), v4)" by (metis prod.exhaust)
          have v4: "w_db v4 = w_db w" "\<not> isl p \<Longrightarrow> \<exists>u t. run text u t d = (p, d1)"
            using p v3 by (auto simp: tx_sql_def split: outcome.splits)
          show ?thesis
          proof (cases p)
            case (Inl e)
            then show ?thesis
              using run a b c p v4 \<open>a = Inr u\<close> \<open>b = Inr applied\<close> \<open>c = Inr d\<close> False by (auto simp: Migrate_def)
          next
            case (Inr u1)
            obtain q d2 v5 where q: "run_state (tx_sql (record_migration name) d1) v4 = ((q, d2), v5)" by (metis prod.exhaust)
            have v5: "w_db v5 = w_db w"
              "\<not> isl q \<Longrightarrow> name \<notin> set (migrations d1) \<and> d2 = d1\<lparr>migrations := migrations d1 @ [name]\<rparr>"
              using q v4 by (auto simp: tx_sql_def record_migration_def split: outcome.splits if_splits)
            show ?thesis
            proof (cases q)
              case (Inl e)
              then show ?thesis
                using run a b c p q v5 \<open>a = Inr u\<close> \<open>b = Inr applied\<close> \<open>c = Inr d\<close> Inr False by (auto simp: Migrate_def)
            next
              case (Inr u2)
              have commit: "run_state (tx_commit d2) v5 = (x, w')"
                using run a b c p q Inr \<open>a = Inr u\<close> \<open>b = Inr applied\<close> \<open>c = Inr d\<close> \<open>p = Inr u1\<close> False
                by (simp add: Migrate_def)
              have "w_db w' = d2 \<or> (w_db w' = w_db w \<and> x \<noteq> Inr ())"
                using commit v5(1) by (auto simp: tx_commit_def split: outcome.splits)
              moreover have "applied_from run (w_db w) ([] @ [(name, text)]) d2"
              proof -
                obtain u' t' where "run text u' t' (w_db w) = (Inr (), d1)" using v4(2) \<open>p = Inr u1\<close> d by auto
                moreover have "name \<notin> set (migrations d1)" "d2 = d1\<lparr>migrations := migrations d1 @ [name]\<rparr>"
                  using v5(2) Inr by simp_all
                ultimately show ?thesis using applied_from.none by (auto intro: applied_from.step simp del: append_Nil)
              qed
              ultimately show ?thesis using ap False by auto
            qed
          qed
        qed
      qed
    qed
  qed
qed

lemma run_migrations_applied:
  assumes "run_state (run_migrations run fs) w = (x, w')" and "leaves_log run"
  shows "\<exists>ms. applied_from run (w_db w) ms (w_db w') \<and> set (map fst ms) \<subseteq> de_name ` set (filter eligible fs) \<and>
    (x = Inr () \<longrightarrow> de_name ` set (filter eligible fs) \<subseteq> set (migrations (w_db w')))"
  using assms(1)
proof (induction fs arbitrary: w)
  case Nil
  then show ?case by (auto intro: applied_from.none)
next
  case (Cons f fs)
  show ?case
  proof (cases "eligible f")
    case False
    then have "run_state (run_migrations run fs) w = (x, w')"
      using Cons.prems by (auto simp: eligible_def)
    from Cons.IH [OF this] show ?thesis using False by simp
  next
    case True
    then have el: "\<not> (de_dir f \<or> \<not> suffix ''.sql'' (de_name f))" by (simp add: eligible_def)
    show ?thesis
    proof (cases "de_text f")
      case None
      then have "w' = w" "x \<noteq> Inr ()" using Cons.prems el by auto
      then show ?thesis by (auto intro!: exI [of _ "[]"] applied_from.none)
    next
      case (Some body)
      obtain y v where y: "run_state (Migrate (de_name f) (run body)) w = (y, v)" by force
      obtain ms where ms: "applied_from run (w_db w) ms (w_db v)" "set (map fst ms) \<subseteq> {de_name f}"
        "y = Inr () \<Longrightarrow> de_name f \<in> set (migrations (w_db v))"
      proof -
        have same: "(w_db v = w_db w \<and> (y = Inr () \<longrightarrow> de_name f \<in> set (migrations (w_db w)))) \<Longrightarrow> thesis"
          using that [of "[]"] by (auto intro: applied_from.none)
        have new: "applied_from run (w_db w) [(de_name f, body)] (w_db v) \<Longrightarrow> thesis"
          using that [of "[(de_name f, body)]"] applied_log [OF _ assms(2)] by fastforce
        show thesis using Migrate_applied [where run = run, OF y] same new by blast
      qed
      show ?thesis
      proof (cases y)
        case (Inl e)
        then have "w' = v" "x \<noteq> Inr ()" using Cons.prems el Some y by auto
        then show ?thesis using ms(1,2) True by (intro exI [of _ ms]) auto
      next
        case (Inr u)
        then have "run_state (run_migrations run fs) v = (x, w')" using Cons.prems el Some y by simp
        from Cons.IH [OF this] obtain ns where ns: "applied_from run (w_db v) ns (w_db w')"
          "set (map fst ns) \<subseteq> de_name ` set (filter eligible fs)"
          "x = Inr () \<Longrightarrow> de_name ` set (filter eligible fs) \<subseteq> set (migrations (w_db w'))" by blast
        have "set (migrations (w_db v)) \<subseteq> set (migrations (w_db w'))"
          using applied_log [OF ns(1) assms(2)] by simp
        then show ?thesis
          using applied_trans [OF ns(1) ms(1)] ms(2,3) ns(2,3) True Inr by (intro exI [of _ "ms @ ns"]) auto
      qed
    qed
  qed
qed

end
