(* ===== verification/GatewayDemo.thy ===== *)
theory GatewayDemo
  imports GatewayPipeline GatewayMigrate Demo
begin

text \<open>The gateway's configuration, world and requests the witnesses use, and the routing of a request to its
  handler.\<close>

section \<open>Routing\<close>

lemma run_CORS:
  "rq_method r \<noteq> ''OPTIONS'' \<Longrightarrow>
   run_state (CORS next r) w = (let (rs, w') = run_state (next r) w in (rs\<lparr>rs_headers := cors_headers @ rs_headers rs\<rparr>, w'))"
  by (simp add: CORS_def split: prod.split)

lemma run_CORS_cases:
  assumes "run_state (CORS next r) w = (rs, w')" and "rq_method r \<noteq> ''OPTIONS''"
  obtains q where "run_state (next r) w = (q, w')" "rs_status q = rs_status rs" "rs_body q = rs_body rs"
proof -
  obtain q v where q: "run_state (next r) w = (q, v)" by force
  then have "rs = q\<lparr>rs_headers := cors_headers @ rs_headers q\<rparr>" "v = w'"
    using assms by (auto simp: run_CORS)
  then show ?thesis using that q by simp
qed

lemma machine_Router:
  "machine_handler L s rt = Some h \<Longrightarrow> gw_Router L s rt r = CORS (RequireAPIKey L (gs_cfg s) h) r"
  by (simp add: gw_Router_def)

lemma collect_handler: "collect_route rt \<Longrightarrow> machine_handler L s rt = Some (RateLimit (gs_limiter s) (handleCollect L))"
  by (auto simp: collect_route_def machine_handler_def)

section \<open>The demonstration world\<close>

definition demo_gw_key :: key_row where
  "demo_gw_key = demo_key\<lparr>k_label := Some ''ci''\<rparr>"

definition demo_gw_db :: db where
  "demo_gw_db = empty_db\<lparr>agents := [demo_agent], api_keys := [demo_gw_key]\<rparr>"

definition demo_gw_world :: world where
  "demo_gw_world = demo_world\<lparr>w_db := demo_gw_db, w_clock := (\<lambda>n. int (min n 1000))\<rparr>"

definition demo_gw_config :: gw_config where
  "demo_gw_config =
     \<lparr>gc_port = 8080, gc_dsn = ''d'', gc_nats = ''n'', gc_oidc_issuer = [], gc_oidc_client = [], gc_oidc_secret = [],
      gc_jwt_secret = demo_secret, gc_salt = demo_salt, gc_collector = [], gc_registry = [], gc_dev_token = [],
      gc_migrate = False, gc_rps = 50, gc_burst = 100\<rparr>"

definition demo_gw :: gw_server where
  "demo_gw = NewServer demo_gw_config []"

definition demo_caller :: gw_agent where
  "demo_caller = \<lparr>ga_id = 1, ga_name = ''crawler'', ga_slug = ''crawler-0'', ga_description = ''d'', ga_type = ''custom'',
     ga_status = ''active'', ga_email = ''c@example.org'', ga_created = 0\<rparr>"

definition demo_post :: "(string \<times> string) list \<Rightarrow> string \<Rightarrow> request" where
  "demo_post hdrs body = \<lparr>rq_method = ''POST'', rq_headers = (''Authorization'', ''SignalYard key'') # hdrs, rq_params = [],
     rq_query = [], rq_body = body\<rparr>"

definition demo_request :: collect_request where
  "demo_request = \<lparr>cq_category = ''orders'', cq_timestamp = 5, cq_payload = Some [(''k'', JStr ''v'')], cq_source = []\<rparr>"

lemma demo_gw_inv: "db_inv (w_db demo_gw_world)"
  by (simp add: demo_gw_world_def demo_world_def demo_gw_db_def empty_db_def db_inv_defs versions_ok_def cat_rows_def
      demo_agent_def demo_gw_key_def demo_key_def unique_by_def)

lemma demo_gw_healthy: "healthy demo_gw_world"
  by (simp add: healthy_def demo_gw_world_def demo_world_def)

lemma demo_gw_simps:
  "w_db demo_gw_world = demo_gw_db" "w_tick demo_gw_world = 100" "w_clock demo_gw_world n = int (min n 1000)"
  "w_uuid demo_gw_world n = word_of_nat n" "m_buckets (w_mem demo_gw_world) a = None" "w_streams demo_gw_world = []"
  "w_random demo_gw_world n = show_nat n"
  by (simp_all add: demo_gw_world_def demo_world_def fresh_memory_def)

lemma demo_clock: "mono_clock demo_gw_world"
  by (auto simp: mono_clock_def demo_gw_simps)

lemma demo_token: "gw_extractToken (demo_post hdrs body) = ''key''"
  by (rule bearer_token) (auto simp: demo_post_def sget_def is_space_def)

lemma demo_agent_of: "agent_of demo_gw_db 1 = Some demo_caller"
  by (simp add: agent_of_def demo_gw_db_def empty_db_def demo_agent_def scanAgent_def demo_caller_def)

lemma demo_caller_of: "caller_of demo_libs demo_gw_config demo_gw_db t ''key'' = Some demo_caller"
proof -
  have "key_of demo_libs demo_gw_config demo_gw_db ''key'' = Some demo_gw_key"
    by (simp add: key_of_def demo_gw_db_def demo_gw_key_def demo_key_def demo_gw_config_def)
  then show ?thesis
    using demo_agent_of by (simp add: caller_of_def demo_gw_key_def demo_key_def)
qed

lemma demo_decode: "decode_struct demo_libs (collect_fields demo_libs) ''collect'' = Some demo_request"
  by code_simp

lemma demo_cfg [simp]: "gs_cfg demo_gw = demo_gw_config" "limiter_ok (gs_limiter demo_gw)" "lm_burst (gs_limiter demo_gw) = 100"
  "lm_rps (gs_limiter demo_gw) = 50"
  by (simp_all add: demo_gw_def NewServer_def newRateLimiter_ok) (simp_all add: newRateLimiter_def demo_gw_config_def)

section \<open>A collect request that is accepted\<close>

lemma collect_accepted:
  assumes w: "healthy w" and clock: "mono_clock w" and rt: "collect_route rt" and m: "rq_method r \<noteq> ''OPTIONS''"
    and caller: "caller_of L (gs_cfg s) (w_db w) (w_clock w (Suc (w_tick w))) (gw_extractToken r) = Some agent"
    and lm: "limiter_ok (gs_limiter s)" "1 \<le> lm_burst (gs_limiter s)"
    and bucket: "may_call (gs_limiter s) (w_now w) (m_buckets (w_mem w) (ga_id agent))"
    and req: "decode_struct L (collect_fields L) (rq_body r) = Some req"
    and ok: "cq_category req \<noteq> []" "cq_timestamp req \<noteq> zero_time" "cq_payload req \<noteq> None"
    and times: "rfc3339_time (cq_timestamp req)" "\<And>n. rfc3339_time (w_clock w n)"
    and new: "(header r ''Idempotency-Key'', ga_id agent) \<notin> (\<lambda>i. (i_key i, i_agent i)) ` set (idempotency_keys (w_db w))"
  shows "\<exists>event. rs_status (fst (run_state (gw_Router L s rt r) w)) = 201 \<and>
    rs_body (fst (run_state (gw_Router L s rt r) w)) = JsonBody (accepted_body event)"
proof -
  obtain v where v: "run_state (RequireAPIKey L (gs_cfg s) (RateLimit (gs_limiter s) (handleCollect L)) r) w =
      run_state (RateLimit (gs_limiter s) (handleCollect L) agent r) v" "touched w v"
    using run_RequireAPIKey [OF w caller] by blast
  note t = touched_same [OF v(2)]
  have bk: "m_buckets (w_mem v) (ga_id agent) = m_buckets (w_mem w) (ga_id agent)" using v(2) by (simp add: touched_def)
  obtain okay b where b: "allow_bucket (gs_limiter s) (w_now v) (m_buckets (w_mem w) (ga_id agent)) = (okay, b)" by force
  have okay: okay
    using may_call_allowed [OF lm bucket w_now_mono [OF t(8) clock]] b by simp
  let ?v2 = "tick (v\<lparr>w_mem := (w_mem v)\<lparr>m_buckets := (m_buckets (w_mem v))(ga_id agent \<mapsto> b)\<rparr>\<rparr>)"
  have "healthy ?v2" using w healthy_same_env [OF t(8)] by simp
  moreover have "rfc3339_time (w_clock ?v2 n)" for n using times(2) t(8) by (simp add: same_env_def)
  moreover have "(header r ''Idempotency-Key'', ga_id agent) \<notin> (\<lambda>i. (i_key i, i_agent i)) ` set (idempotency_keys (w_db ?v2))"
    using new t(2) by simp
  ultimately obtain event where e: "fst (run_state (handleCollect L agent r) ?v2) = WriteJSON 201 (accepted_body event)"
    using run_handleCollect_new [of ?v2, OF _ req ok times(1)] by blast
  have "run_state (allow (gs_limiter s) (ga_id agent)) v = (True, ?v2)"
    using b okay bk by (simp add: run_allow w_now_def)
  then have "run_state (RateLimit (gs_limiter s) (handleCollect L) agent r) v = run_state (handleCollect L agent r) ?v2"
    by (simp add: RateLimit_def)
  then show ?thesis
    using e v(1) unfolding machine_Router [OF collect_handler [OF rt]] run_CORS [OF m]
    by (auto split: prod.split)
qed

lemma demo_collect_accepted:
  assumes "header r ''Idempotency-Key'' = k" and r: "r = demo_post hdrs ''collect''"
  shows "rs_status (fst (run_state (gw_Router demo_libs demo_gw GPostCollect r) demo_gw_world)) = 201"
proof -
  have "\<exists>event. rs_status (fst (run_state (gw_Router demo_libs demo_gw GPostCollect r) demo_gw_world)) = 201 \<and>
      rs_body (fst (run_state (gw_Router demo_libs demo_gw GPostCollect r) demo_gw_world)) = JsonBody (accepted_body event)"
  proof (rule collect_accepted [OF demo_gw_healthy demo_clock, where agent = demo_caller and req = demo_request])
    show "caller_of demo_libs (gs_cfg demo_gw) (w_db demo_gw_world) t (gw_extractToken r) = Some demo_caller" for t
      by (simp add: r demo_token demo_caller_of demo_gw_simps)
    show "decode_struct demo_libs (collect_fields demo_libs) (rq_body r) = Some demo_request"
      by (simp add: r demo_post_def demo_decode)
    show "rfc3339_time (w_clock demo_gw_world n)" for n
      by (simp add: demo_gw_simps rfc3339_time_def min_def)
  qed (simp_all add: r demo_post_def collect_route_def may_call_def demo_gw_simps demo_request_def rfc3339_time_def zero_time_def
      demo_gw_db_def empty_db_def)
  then show ?thesis by blast
qed

end
