(* ===== verification/GatewayProps.thy ===== *)
theory GatewayProps
  imports GatewayDemo
begin

text \<open>The properties of the gateway, each with its witness.\<close>

section \<open>Machine callers\<close>

text \<open>C8. Machine authentication is \<open>caller_of\<close>: unless a request's token is an unrevoked, unexpired key of a
  registered agent or, when it is no key at all, a verified agent JWT, a machine route answers 401 or 500
  and changes nothing but the clock, whatever fails; and in a healthy world a request with such a token
  runs the handler for exactly that agent, having written no more than the key's last use.\<close>

theorem machine_auth_exact:
  assumes "caller_of L cfg (w_db w) (w_clock w (Suc (w_tick w))) (gw_extractToken r) = c"
  shows "(c = None \<longrightarrow> (\<exists>rs w'. run_state (RequireAPIKey L cfg h r) w = (rs, w') \<and> rs_status rs \<in> {401, 500} \<and>
      unchanged w w' \<and> w_mem w' = w_mem w)) \<and>
    (\<forall>agent. c = Some agent \<and> healthy w \<longrightarrow>
      (\<exists>v. run_state (RequireAPIKey L cfg h r) w = run_state (h agent r) v \<and> touched w v))"
proof (intro conjI allI impI)
  assume none: "c = None"
  obtain rs w' where run: "run_state (RequireAPIKey L cfg h r) w = (rs, w')" by force
  then show "\<exists>rs w'. run_state (RequireAPIKey L cfg h r) w = (rs, w') \<and> rs_status rs \<in> {401, 500} \<and>
      unchanged w w' \<and> w_mem w' = w_mem w"
    by (cases rule: RequireAPIKey_cases) (use assms none run in auto)
next
  fix agent assume "c = Some agent \<and> healthy w"
  then show "\<exists>v. run_state (RequireAPIKey L cfg h r) w = run_state (h agent r) v \<and> touched w v"
    using run_RequireAPIKey [of w L cfg r agent h] assms by simp
qed

theorem machine_auth_exact_witness:
  "\<exists>v. run_state (RequireAPIKey demo_libs demo_gw_config handleMCPGetManifest (demo_post [] [])) demo_gw_world =
     run_state (handleMCPGetManifest demo_caller (demo_post [] [])) v \<and> touched demo_gw_world v"
  using machine_auth_exact [OF refl, of demo_libs demo_gw_config demo_gw_world "demo_post [] []" handleMCPGetManifest]
    demo_gw_healthy demo_caller_of by (simp add: demo_token demo_gw_simps)

text \<open>C25. Issuing and revoking keys is privileged: unless the token of the request is the development token or a
  verified session whose role is admin or approver, both routes answer 401 or 403 and change nothing.\<close>

theorem key_routes_guarded:
  assumes run: "run_state (gw_Router L s rt r) w = (rs, w')" and rt: "rt \<in> {GPostKeys, GDeleteKeyOf}"
    and m: "rq_method r \<noteq> ''OPTIONS''"
    and dev: "gc_dev_token (gs_cfg s) = [] \<or> gw_extractToken r \<noteq> gc_dev_token (gs_cfg s)"
    and role: "\<And>t claims. l_jwt_parse L (gc_jwt_secret (gs_cfg s)) t (gw_extractToken r) = Some claims \<Longrightarrow>
      claim_string claims ''role'' \<notin> {''admin'', ''approver''}"
  shows "rs_status rs \<in> {401, 403} \<and> unchanged w w' \<and> w_mem w' = w_mem w"
proof -
  obtain h where h: "gw_Router L s rt r = CORS (RequireSession L (gs_cfg s) (gw_RequireRole [''admin'', ''approver''] h)) r"
    using rt by (auto simp: gw_Router_def machine_handler_def session_handler_def)
  obtain q where q: "run_state (RequireSession L (gs_cfg s) (gw_RequireRole [''admin'', ''approver''] h) r) w = (q, w')"
    "rs_status q = rs_status rs"
    using run_CORS_cases run m unfolding h by metis
  have "rs_status q \<in> {401, 403} \<and> (w' = w \<or> w' = tick w)"
    using q(1) dev role [of "w_clock w (w_tick w)"]
    by (auto simp: RequireSession_def Let_def gw_RequireRole_def session_user_def zero_user_def run_simps
        split: if_splits option.splits)
  then show ?thesis using q(2) by (auto simp: unchanged_def)
qed

theorem key_routes_guarded_witness:
  "rs_status (fst (run_state (gw_Router demo_libs demo_gw GPostKeys (demo_post [] ''newkey'')) demo_gw_world)) \<in> {401, 403}"
proof -
  have jwt: "l_jwt_parse demo_libs secret t ''key'' = None" for secret t
    by (simp add: demo_libs_def demo_jwt_parse_def)
  have m: "rq_method (demo_post [] ''newkey'') \<noteq> ''OPTIONS''" by (simp add: demo_post_def)
  show ?thesis
    using key_routes_guarded [OF surjective_pairing _ m, of GPostKeys demo_gw demo_libs demo_gw_world]
    by (simp add: demo_token jwt demo_gw_config_def)
qed

section \<open>Collecting events\<close>

text \<open>C3. An accepted event is published once: a 201 on a collect route had an authenticated caller and a request
  that decodes to a category, a time and a payload, and appends exactly one message to the streams, on
  \<open>events.ingest.\<close> and the category, which the normalizer decodes to an envelope with the event id of the
  answer, the caller's id and slug, and the category, source, time and payload of the request. Any
  answer but 201 or 503 publishes nothing.\<close>

theorem collect_publishes_once:
  assumes run: "run_state (gw_Router L s rt r) w = (rs, w')" and rt: "collect_route rt"
    and m: "rq_method r \<noteq> ''OPTIONS''" and tm: "time_laws L"
  shows "(rs_status rs = 201 \<longrightarrow> (\<exists>agent (req :: collect_request) e.
      caller_of L (gs_cfg s) (w_db w) (w_clock w (Suc (w_tick w))) (gw_extractToken r) = Some agent \<and>
      decode_struct L (collect_fields L) (rq_body r) = Some req \<and>
      w_streams w' = w_streams w @ [(''events.ingest.'' @ cq_category req, JsonBody (j_envelope L e))] \<and>
      message_envelope L (JsonBody (j_envelope L e)) = Some e \<and> rs_body rs = JsonBody (accepted_body (en_event e)) \<and>
      en_agent e = l_uuid_string L (ga_id agent) \<and> en_slug e = ga_slug agent \<and> en_category e = cq_category req \<and>
      en_source e = cq_source req \<and> en_timestamp e = cq_timestamp req \<and> en_payload e = cq_payload req \<and>
      cq_category req \<noteq> [] \<and> cq_payload req \<noteq> None)) \<and>
    (rs_status rs \<notin> {201, 503} \<longrightarrow> w_streams w' = w_streams w)"
proof -
  obtain q where q: "run_state (RequireAPIKey L (gs_cfg s) (RateLimit (gs_limiter s) (handleCollect L)) r) w = (q, w')"
    "rs_status q = rs_status rs" "rs_body q = rs_body rs"
    using run_CORS_cases run m unfolding machine_Router [OF collect_handler [OF rt]] by metis
  from q(1) show ?thesis
  proof (cases rule: RequireAPIKey_cases)
    case denied
    then show ?thesis using q(2) by (auto simp: unchanged_def)
  next
    case (ran agent v)
    obtain ok v2 where v2: "run_state (allow (gs_limiter s) (ga_id agent)) v = (ok, v2)" by force
    have str: "w_streams v2 = w_streams w"
      using v2 ran(3) by (auto simp: run_allow touched_def split: prod.splits)
    show ?thesis
    proof (cases ok)
      case False
      then have "q = WriteError 429 ''rate limit exceeded''" "w' = v2" using ran(2) v2 by (auto simp: RateLimit_def)
      then show ?thesis using q(2) str by simp
    next
      case True
      then have "run_state (handleCollect L agent r) v2 = (q, w')" using ran(2) v2 by (simp add: RateLimit_def)
      then show ?thesis
      proof (cases rule: handleCollect_cases)
        case (fresh v3)
        have v3: "w_streams v3 = w_streams w" using fresh(1) str by auto
        from fresh(2) show ?thesis
        proof (cases rule: collect_new_cases)
          case (accepted req data env v4)
          have dec: "message_envelope L (JsonBody data) = Some (as_envelope env)" "data = j_envelope L (as_envelope env)"
            using message_ingest [OF tm accepted(6)] j_ingest_envelope(1) [OF accepted(6)] by simp_all
          have "w_streams w' = w_streams w @ [(''events.ingest.'' @ cq_category req, JsonBody data)]"
            by (simp add: accepted(8,9) save_response_frame v3)
          then show ?thesis
            using ran(1) accepted(1-4,7) dec q(2,3)
            by (auto simp: accepted(5) as_envelope_def collect_envelope_def intro!: exI [of _ "as_envelope env"])
        qed (use q(2) v3 in auto)
      qed (use q(2) str in auto)
    qed
  qed
qed

theorem collect_publishes_once_witness:
  "\<exists>e. w_streams (snd (run_state (gw_Router demo_libs demo_gw GPostCollect (demo_post [] ''collect'')) demo_gw_world)) =
      [(''events.ingest.orders'', JsonBody (j_envelope demo_libs e))] \<and> en_slug e = ''crawler-0''"
proof -
  let ?r = "demo_post [] ''collect''"
  have m: "rq_method ?r \<noteq> ''OPTIONS''" by (simp add: demo_post_def)
  have body: "rq_body ?r = ''collect''" by (simp add: demo_post_def)
  have "rs_status (fst (run_state (gw_Router demo_libs demo_gw GPostCollect ?r) demo_gw_world)) = 201"
    by (rule demo_collect_accepted) (rule refl)+
  with collect_publishes_once [OF surjective_pairing, of GPostCollect ?r demo_libs demo_gw demo_gw_world] m demo_laws(2)
  show ?thesis
    by (auto simp: collect_route_def body demo_decode demo_request_def demo_token demo_caller_of demo_gw_simps demo_caller_def)
qed





text \<open>C9. The rate limit holds over any run: whatever requests the gateway serves from the start of an agent's
  bucket, and whatever fails, the messages put on the ingest stream in that agent's name are at most the
  burst plus the refill of the time that has passed.\<close>

theorem published_rate_bounded:
  assumes "run_state (gw_serve L s qs) w = (rss, w')" and "s = NewServer cfg doc" and "uuid_laws L"
    and "mono_clock w" and "m_buckets (w_mem w) a = None"
  shows "of_nat (published_for L a w') \<le> of_nat (published_for L a w) +
    (if gc_burst cfg \<le> 0 then 100 else gc_burst cfg) +
    seconds (w_now w' - w_now w) * (if gc_rps cfg \<le> 0 then 50 else gc_rps cfg)"
proof -
  have "limiter_ok (gs_limiter s)" by (simp add: assms(2) NewServer_def newRateLimiter_ok)
  from published_bound [OF assms(1) this assms(3-5)] show ?thesis
    by (simp only: assms(2) NewServer_def gw_server.simps newRateLimiter_def limiter.simps)
qed

theorem published_rate_bounded_witness:
  "of_nat (published_for demo_libs 1 (snd (run_state (gw_serve demo_libs demo_gw [(GPostCollect, demo_post [] ''collect'')]) demo_gw_world)))
     \<le> (100 :: rat) + seconds (w_now (snd (run_state (gw_serve demo_libs demo_gw [(GPostCollect, demo_post [] ''collect'')]) demo_gw_world)) - 100) * 50"
  using published_rate_bounded [OF surjective_pairing demo_gw_def demo_laws(1) demo_clock, of 1 "[(GPostCollect, demo_post [] ''collect'')]"]
  by (simp add: demo_gw_simps demo_gw_config_def published_for_def [of _ _ demo_gw_world] w_now_def [of demo_gw_world])

end
