(* ===== verification/LifecycleProps.thy ===== *)
theory LifecycleProps
  imports GatewayDemo
begin

text \<open>The properties of keys, users, queries and migrations of the gateway, each with its witness.\<close>

section \<open>Keys\<close>




text \<open>C16. Revocation is final: once revoking a key was answered 200, and whatever the gateway has served since,
  whatever failed, no request with the key's token has a caller, at any time.\<close>

theorem revocation_is_final:
  assumes run: "run_state (handleDeleteAPIKey L usr r) w = (rs, w1)" and ok: "rs_status rs = 200"
    and inv: "db_inv (w_db w)" and k: "k \<in> set (api_keys (w_db w))" "l_uuid_parse L (url_param r ''key_id'') = Some (k_id k)"
    and later: "run_state (gw_serve L s qs) w1 = (rss, w2)"
    and token: "k_hash k = HashToken L (gc_salt (gs_cfg s)) token"
  shows "caller_of L (gs_cfg s) (w_db w2) t token = None"
proof -
  have i1: "keeps db_inv (handleDeleteAPIKey L usr r)" "obeys cred_rel (handleDeleteAPIKey L usr r)"
    by (auto simp: handleDeleteAPIKey_def intro!: ginv.gw_intros gcred.gw_intros)
  have inv2: "db_inv (w_db w2)" using keeps_run [OF ginv.gw_serve later keeps_run [OF i1(1) run inv]] .
  obtain k1 where k1: "k1 \<in> set (api_keys (w_db w1))" "same_key k k1"
    using obeys_run [OF i1(2) run] k(1) by (auto simp: cred_rel_def credentials_kept_def)
  have "k_revoked k1 \<noteq> None"
    using handleDeleteAPIKey_ok [OF run ok] k1 k(2) by (auto simp: same_key_def)
  moreover obtain k2 where k2: "k2 \<in> set (api_keys (w_db w2))" "same_key k1 k2"
    using obeys_run [OF gcred.gw_serve later] k1(1) by (auto simp: cred_rel_def credentials_kept_def)
  ultimately have "k_revoked k2 \<noteq> None" "k_hash k2 = k_hash k" using k1(2) by (auto simp: same_key_def)
  then show ?thesis
    using inv2 k2(1) token by (intro caller_of_revoked [of _ k2]) (auto simp: db_inv_def wf_db_def)
qed

definition demo_delete :: request where
  "demo_delete = \<lparr>rq_method = ''DELETE'', rq_headers = [], rq_params = [(''key_id'', demo_uuid_string 2)], rq_query = [],
     rq_body = []\<rparr>"

theorem revocation_is_final_witness:
  "caller_of demo_libs demo_gw_config (w_db (snd (run_state (handleDeleteAPIKey demo_libs zero_user demo_delete) demo_gw_world))) 7 ''key'' = None"
proof -
  let ?w1 = "snd (run_state (handleDeleteAPIKey demo_libs zero_user demo_delete) demo_gw_world)"
  have parse: "l_uuid_parse demo_libs (url_param demo_delete ''key_id'') = Some 2"
    by (simp add: demo_delete_def sget_def demo_libs_def demo_uuid)
  have "rs_status (fst (run_state (handleDeleteAPIKey demo_libs zero_user demo_delete) demo_gw_world)) = 200"
    using demo_gw_healthy parse
    by (simp add: handleDeleteAPIKey_def run_simps demo_gw_simps RevokeAPIKey_def demo_gw_db_def empty_db_def count_where_def
        demo_gw_key_def demo_key_def)
  then show ?thesis
    using revocation_is_final [OF surjective_pairing _ demo_gw_inv, of demo_libs zero_user demo_delete demo_gw_key demo_gw "[]"
        "[]" ?w1 "''key''"] parse
    by (simp add: demo_gw_simps demo_gw_db_def empty_db_def demo_gw_key_def demo_key_def demo_gw_config_def)
qed

section \<open>The credentials over any run\<close>

text \<open>C13. Whatever requests the gateway serves, in whatever order and whatever fails, the database constraints keep
  holding, no key is dropped, moved to another agent, rehashed, extended or unrevoked, no user is dropped or changes
  email, subject or role, new users are viewers and new agents pending, stored idempotent responses stay, and the tables
  of the other services do not change.\<close>

theorem gateway_keeps_credentials:
  assumes "run_state (gw_serve L s qs) w = (rss, w')" and "db_inv (w_db w)"
  shows "db_inv (w_db w') \<and> credentials_kept (w_db w) (w_db w')"
  using keeps_run [OF ginv.gw_serve assms] obeys_run [OF gcred.gw_serve assms(1)] by (simp add: cred_rel_def)

theorem gateway_keeps_credentials_witness:
  "credentials_kept demo_gw_db (w_db (snd (run_state (gw_serve demo_libs demo_gw [(GPostCollect, demo_post [] ''collect'')]) demo_gw_world)))"
  using gateway_keeps_credentials [OF surjective_pairing demo_gw_inv, THEN conjunct2] unfolding demo_gw_simps .

section \<open>Queries\<close>

text \<open>C32. A query answers with the newest events in range: at most 1000 of them, newest first, each with the
  category, time and payload of a stored event of the category and between the times asked for; and a
  stored event in range is missing only when the answer is full, of events at least as new.\<close>

theorem query_newest_in_range:
  assumes "QueryEvents category start stop limit u t d = (Inr es, d')"
  shows "\<exists>ps. list_all2 (\<lambda>p e. gv_id e = e_id (fst p) \<and> gv_category e = snd p \<and> gv_timestamp e = e_occurred (fst p) \<and>
        gv_payload e = e_payload (fst p)) ps es \<and> d' = d \<and> length es \<le> 1000 \<and>
    sorted_wrt (\<lambda>a b. e_occurred (fst b) \<le> e_occurred (fst a)) ps \<and>
    (\<forall>p \<in> set ps. p \<in> set (joined_events d) \<and> in_range category start stop p) \<and>
    (\<forall>p \<in> set (joined_events d). in_range category start stop p \<longrightarrow> p \<in> set ps \<or>
       (length es = query_limit limit \<and> (\<forall>q \<in> set ps. e_occurred (fst p) \<le> e_occurred (fst q))))"
proof -
  obtain ps where ps: "list_all2 (\<lambda>p e. scanEvent p = Inr e) ps es" "length ps \<le> query_limit limit"
    "set ps \<subseteq> set (filter (in_range category start stop) (joined_events d))"
    "sorted_wrt (\<lambda>a b. e_occurred (fst b) \<le> e_occurred (fst a)) ps"
    "\<forall>p \<in> set (filter (in_range category start stop) (joined_events d)). p \<in> set ps \<or>
       (length ps = query_limit limit \<and> (\<forall>q \<in> set ps. e_occurred (fst p) \<le> e_occurred (fst q)))"
    using QueryEvents_rows [OF assms] by blast
  have len: "length ps = length es" using ps(1) by (rule list_all2_lengthD)
  have "d' = d" using assms by (simp add: QueryEvents_def)
  moreover have "length es \<le> 1000" using ps(2) len query_limit_bounds(2) [of limit] by simp
  moreover have "list_all2 (\<lambda>p e. gv_id e = e_id (fst p) \<and> gv_category e = snd p \<and> gv_timestamp e = e_occurred (fst p) \<and>
      gv_payload e = e_payload (fst p)) ps es"
    using ps(1) by (rule list_all2_mono) (simp add: scanEvent_fields)
  ultimately show ?thesis
    using ps(3-5) unfolding set_filter len by (intro exI [of _ ps]) blast
qed

definition demo_stored_event :: event_row where
  "demo_stored_event = \<lparr>e_id = 60, e_agent = None, e_category = 61, e_schema = None, e_source = Some ''api'', e_payload = [],
     e_occurred = 9, e_created = 9\<rparr>"

definition demo_query_db :: db where
  "demo_query_db = empty_db\<lparr>events := [demo_stored_event], categories := [\<lparr>c_id = 61, c_name = ''orders'',
     c_description = None, c_created = 0, c_updated = 0\<rparr>]\<rparr>"

theorem query_newest_in_range_witness:
  "\<exists>es. fst (QueryEvents ''orders'' zero_time 10 5 0 0 demo_query_db) = Inr es \<and> length es \<le> 1000"
proof -
  have "\<not> isl (fst (QueryEvents ''orders'' zero_time 10 5 0 0 demo_query_db))"
    by (simp add: QueryEvents_def demo_query_db_def empty_db_def joined_events_def demo_stored_event_def in_range_def query_limit_def
        zero_time_def scanEvent_def)
  then obtain es d' where run: "QueryEvents ''orders'' zero_time 10 5 0 0 demo_query_db = (Inr es, d')"
    by (cases "QueryEvents ''orders'' zero_time 10 5 0 0 demo_query_db"; cases "fst (QueryEvents ''orders'' zero_time 10 5 0 0 demo_query_db)") auto
  show ?thesis using query_newest_in_range [OF run] run by auto
qed

section \<open>Migrations\<close>




section \<open>Slugs\<close>

definition slug_char :: "char \<Rightarrow> bool" where
  "slug_char c \<longleftrightarrow> (let n = of_char c :: nat in (97 \<le> n \<and> n \<le> 122) \<or> (48 \<le> n \<and> n \<le> 57))"

abbreviation no_dashes :: "char \<Rightarrow> char \<Rightarrow> bool" where
  "no_dashes a b \<equiv> \<not> (a = CHR ''-'' \<and> b = CHR ''-'')"

definition slug_base :: "string \<Rightarrow> bool" where
  "slug_base s \<longleftrightarrow> s \<noteq> [] \<and> slug_char (hd s) \<and> list_all (\<lambda>c. slug_char c \<or> c = CHR ''-'') s \<and> successively no_dashes s"

lemma slug_char_dash [simp]: "\<not> slug_char (CHR ''-'')"
  by (simp add: slug_char_def)

lemma slug_char_lower: "65 \<le> (of_char c :: nat) \<Longrightarrow> (of_char c :: nat) \<le> 90 \<Longrightarrow> slug_char (char_of ((of_char c :: nat) + 32))"
  by (simp add: slug_char_def)

lemma successively_dashes: "successively (\<lambda>x y. no_dashes y x) xs = successively no_dashes xs"
  by (rule successively_cong) auto

text \<open>The loop keeps its output, read backwards, a base or empty.\<close>

lemma slug_chars_base:
  assumes "out = [] \<or> slug_base (rev out)" and "lastDash \<longleftrightarrow> out \<noteq> [] \<and> hd out = CHR ''-''"
  shows "slug_chars out lastDash s = [] \<or> slug_base (slug_chars out lastDash s)"
  using assms
proof (induction s arbitrary: out lastDash)
  case Nil
  then show ?case by simp
next
  case (Cons c s)
  have add: "slug_base (rev (x # out))" if x: "slug_char x \<or> (x = CHR ''-'' \<and> out \<noteq> [] \<and> \<not> lastDash)" for x
  proof (cases "out = []")
    case True
    then show ?thesis using x by (auto simp: slug_base_def)
  next
    case False
    have "no_dashes (hd out) x" using x Cons.prems(2) by auto
    then show ?thesis
      using False Cons.prems(1) x
      by (auto simp: slug_base_def successively_append_iff last_rev hd_append)
  qed
  have dash: "slug_char x \<Longrightarrow> x \<noteq> CHR ''-''" for x by auto
  let ?n = "of_char c :: nat"
  consider (keep) "slug_char c" | (low) "\<not> slug_char c" "65 \<le> ?n \<and> ?n \<le> 90"
    | (sep) "\<not> slug_char c" "\<not> (65 \<le> ?n \<and> ?n \<le> 90)" by blast
  then show ?case
  proof cases
    case keep
    then show ?thesis
      using Cons.IH [of "c # out" False] add [of c] dash [of c] by (simp add: slug_char_def Let_def)
  next
    case low
    then show ?thesis
      using Cons.IH [of "char_of (?n + 32) # out" False] add [of "char_of (?n + 32)"] slug_char_lower [of c] dash
      by (simp add: slug_char_def Let_def)
  next
    case sep
    then have "slug_chars out lastDash (c # s) =
        (if \<not> lastDash \<and> out \<noteq> [] then slug_chars (CHR ''-'' # out) True s else slug_chars out lastDash s)"
      by (auto simp: slug_char_def Let_def)
    then show ?thesis
      using Cons.IH [of "CHR ''-'' # out" True] add [of "CHR ''-''"] Cons.IH [OF Cons.prems] by auto
  qed
qed

text \<open>C40. A slug is safe in a URL, whatever the name: a base of lower-case ASCII letters, digits and single dashes that
  starts with a letter or digit, then a dash and the first eight bytes of the fresh UUID.\<close>

theorem slug_well_formed:
  "\<exists>base. slug_base base \<and>
     fst (run_state (slugify L name) w) = base @ ''-'' @ take 8 (l_uuid_string L (w_uuid w (w_tick w)))"
proof -
  let ?s = "slug_chars [] False name"
  have "slug_base ''agent''" by (simp add: slug_base_def slug_char_def)
  moreover have "?s = [] \<or> slug_base ?s" by (rule slug_chars_base) simp_all
  ultimately have "slug_base (if ?s = [] then ''agent'' else ?s)" by auto
  then show ?thesis
    by (intro exI [of _ "if ?s = [] then ''agent'' else ?s"]) (simp add: slugify_def run_simps)
qed

end
