(* ===== verification/PipelineProps.thy ===== *)
theory PipelineProps
  imports GatewayDemo NormDemo WebhookProps
begin

text \<open>Properties that span the services, from a producer through the ingest stream to the normalizer.\<close>

text \<open>The message of an accepted event, and what it carries of the request.\<close>

lemma collect_message:
  assumes run: "run_state (handleCollect L agent r) w = (rs, w')" and ok: "rs_status rs = 201" and tm: "time_laws L"
  obtains (accepted) req and e :: envelope where "decode_struct L (collect_fields L) (rq_body r) = Some req"
    "message_envelope L (snd (last (w_streams w'))) = Some e" "en_agent e = l_uuid_string L (ga_id agent)"
    "en_slug e = ga_slug agent" "en_category e = cq_category req" "en_source e = cq_source req"
    "en_timestamp e = cq_timestamp req" "en_payload e = cq_payload req" "cq_payload req \<noteq> None"
    "rs_body rs = JsonBody (accepted_body (en_event e))" "en_event e \<in> range (l_uuid_string L)"
  using run
proof (cases rule: handleCollect_cases)
  case (fresh v0)
  from fresh(2) show ?thesis
  proof (cases rule: collect_new_cases)
    case (accepted req data env v1)
    have "snd (last (w_streams w')) = JsonBody data" by (simp add: accepted(8,9) save_response_frame)
    then have "message_envelope L (snd (last (w_streams w'))) = Some (as_envelope env)"
      using message_ingest [OF tm accepted(6)] by simp
    then show ?thesis
      using accepted(1,4,7) by (intro that [of req "as_envelope env"]) (simp_all add: accepted(5) as_envelope_def collect_envelope_def)
  qed (use ok in auto)
qed (use ok in auto)

text \<open>C11. From a collected event to its record: the message a 201 collect leaves on the stream, once the normalizer
  acknowledges it, in whatever world it arrives, has become rows of the events table with the caller, payload,
  time, source and category of the request, one per storing destination of a schema the payload meets, or a
  row of the quarantine under its event id, with the whole envelope when it is new there.\<close>

theorem collected_event_settles:
  assumes collect: "run_state (handleCollect L agent r) w = (rs, w')" "rs_status rs = 201" and tm: "time_laws L"
    and ingest: "run_state (handleIngest L cfg (snd (last (w_streams w')))) v = (Ack, v')"
  shows "\<exists>(req :: collect_request) e. decode_struct L (collect_fields L) (rq_body r) = Some req \<and>
    en_agent e = l_uuid_string L (ga_id agent) \<and> en_slug e = ga_slug agent \<and> en_category e = cq_category req \<and>
    en_source e = cq_source req \<and> en_timestamp e = cq_timestamp req \<and> en_payload e = cq_payload req \<and>
    rs_body rs = JsonBody (accepted_body (en_event e)) \<and> settled_as L e (w_db v) (w_db v')"
  using collect tm
proof (cases rule: collect_message)
  case (accepted req e)
  have "settled_as L e (w_db v) (w_db v')" using ingest accepted(2) by (rule acked_settled)
  with accepted show ?thesis by blast
qed

text \<open>The normalizer's world \<open>demo_lost_world\<close> quarantines what it gets.\<close>

lemma demo_lost_acks:
  assumes msg: "message_envelope demo_libs data = Some e" and event: "l_uuid_parse demo_libs (en_event e) = Some q"
    and agent: "l_uuid_parse demo_libs (en_agent e) \<in> {None, Some 1}"
  shows "fst (run_state (handleIngest demo_libs demo_norm_config data) demo_lost_world) = Ack"
proof -
  let ?w = "demo_lost_world"
  have mem: "m_cache (w_mem ?w) c = None" "w_reply ?w = (\<lambda>_. Reply 404 NoBody)" for c
    by (simp_all add: demo_lost_world_def demo_world_def fresh_memory_def)
  have up: "fst (upsertQuarantine q (l_uuid_parse demo_libs (en_agent e)) s raw rs u t (w_db ?w)) = Inr ()" for s raw rs u t
    using agent by (auto simp: upsertQuarantine_def demo_lost_world_def demo_norm_db_def demo_db_def demo_agent_def)
  show ?thesis
    using demo_norm_healthy(2) up
    by (simp add: handleIngest_def msg Process_def GetSchema_def fetchSchema_def run_bump run_simps mem
      into_quarantine_def quarantine_def Quarantine_def event split: prod.split)
qed

lemma demo_collected:
  "rs_status (fst (run_state (handleCollect demo_libs demo_caller (demo_post [] ''collect'')) demo_gw_world)) = 201"
proof -
  have dec: "decode_struct demo_libs (collect_fields demo_libs) (rq_body (demo_post [] ''collect'')) = Some demo_request"
    by (simp add: demo_post_def demo_decode)
  have times: "rfc3339_time (w_clock demo_gw_world n)" for n by (simp add: demo_gw_simps rfc3339_time_def min_def)
  have "\<exists>event. fst (run_state (handleCollect demo_libs demo_caller (demo_post [] ''collect'')) demo_gw_world) =
      WriteJSON 201 (accepted_body event)"
    by (rule run_handleCollect_new [OF demo_gw_healthy dec _ _ _ _ times])
      (simp_all add: demo_request_def zero_time_def rfc3339_time_def demo_gw_simps demo_gw_db_def empty_db_def)
  then show ?thesis by auto
qed

theorem collected_event_settles_witness:
  "\<exists>rs w' v'. run_state (handleCollect demo_libs demo_caller (demo_post [] ''collect'')) demo_gw_world = (rs, w') \<and>
     run_state (handleIngest demo_libs demo_norm_config (snd (last (w_streams w')))) demo_lost_world = (Ack, v') \<and>
     (\<exists>e :: envelope. en_category e = ''orders'' \<and> settled_as demo_libs e (w_db demo_lost_world) (w_db v'))"
proof -
  let ?r = "demo_post [] ''collect''"
  obtain rs w' where run: "run_state (handleCollect demo_libs demo_caller ?r) demo_gw_world = (rs, w')" by force
  have dec: "decode_struct demo_libs (collect_fields demo_libs) (rq_body ?r) = Some demo_request"
    by (simp add: demo_post_def demo_decode)
  have ok: "rs_status rs = 201" using demo_collected run by simp
  have ack: "fst (run_state (handleIngest demo_libs demo_norm_config (snd (last (w_streams w')))) demo_lost_world) = Ack"
    using run ok demo_laws(2)
  proof (cases rule: collect_message)
    case (accepted req e)
    have "l_uuid_parse demo_libs (l_uuid_string demo_libs u) = Some u" for u using demo_laws(1) by (simp add: uuid_laws_def)
    then show ?thesis
      using accepted(2,3,11) by (auto intro!: demo_lost_acks simp: demo_caller_def)
  qed
  then obtain v' where v': "run_state (handleIngest demo_libs demo_norm_config (snd (last (w_streams w')))) demo_lost_world = (Ack, v')"
    by (metis prod.collapse)
  from collected_event_settles [OF run ok demo_laws(2) v'] dec
  have "\<exists>e. en_category e = ''orders'' \<and> settled_as demo_libs e (w_db demo_lost_world) (w_db v')"
    by (auto simp: demo_request_def)
  with run v' show ?thesis by blast
qed

text \<open>The message of an accepted webhook.\<close>

lemma handleWebhook_forwarded:
  assumes run: "run_state (handleWebhook L s tool r) w = (rs, w')" and ok: "rs_status rs = 202"
  obtains raw env where "received_as L tool r raw env" "we_timestamp env = w_clock w (w_tick w)"
    "env = (wh_normalize tool r raw (w_clock w (w_tick w)))\<lparr>we_event := l_uuid_string L (w_uuid w (Suc (w_tick w)))\<rparr>"
    "w_streams w' = w_streams w @ [(''events.ingest.'' @ we_category env, JsonBody (j_wh_envelope L env))]"
  using run
proof (cases rule: handleWebhook_cases)
  case (recorded raw env did v y v2 z)
  have "w_streams v = w_streams w" using RecordDelivery_ok [OF recorded(4)] by auto
  moreover have y: "\<not> isl y" using recorded(7) ok by auto
  moreover have "w_streams w' = w_streams v2" using recorded(6) y sql_streams by force
  moreover have "we_timestamp env = w_clock w (w_tick w)" by (simp add: recorded(3) wh_normalize_def Let_def)
  ultimately show ?thesis using forward_ok [OF recorded(5)] that [OF recorded(2) _ recorded(3)] by simp
qed (use ok in auto)

text \<open>C26. From a webhook to its record: the message a 202 webhook leaves on the stream, once the normalizer
  acknowledges it, in whatever world it arrives, has become rows of the events table with the normalized payload
  under the tool's category, one per storing destination of a schema the payload meets, or a row of the
  quarantine.\<close>

theorem webhook_event_settles:
  assumes hook: "run_state (wh_Router L s (WPostWebhook tool) r) w = (rs, w')" "rs_status rs = 202" and tm: "time_laws L"
    and clock: "rfc3339_time (w_clock w (w_tick w))"
    and ingest: "run_state (handleIngest L cfg (snd (last (w_streams w')))) v = (Ack, v')"
  shows "\<exists>raw env. received_as L (tool_name tool) r raw env \<and> we_timestamp env = w_clock w (w_tick w) \<and>
    settled_as L (of_webhook env) (w_db v) (w_db v')"
proof -
  have run: "run_state (handleWebhook L s (tool_name tool) r) w = (rs, w')" using hook(1) by (simp add: wh_Router_def)
  obtain raw env where env: "received_as L (tool_name tool) r raw env" "we_timestamp env = w_clock w (w_tick w)"
    "w_streams w' = w_streams w @ [(''events.ingest.'' @ we_category env, JsonBody (j_wh_envelope L env))]"
    using handleWebhook_forwarded [OF run hook(2)] by metis
  have "message_envelope L (snd (last (w_streams w'))) = Some (of_webhook env)"
    using message_webhook [OF tm, of env] clock env(2,3) by simp
  from acked_settled [OF ingest this] env(1,2) show ?thesis by blast
qed

theorem webhook_event_settles_witness:
  "\<exists>(env :: wh_envelope) (v' :: world). settled_as demo_libs (of_webhook env) (w_db demo_lost_world) (w_db v') \<and> we_timestamp env = 100"
proof -
  let ?run = "run_state (wh_Router demo_libs demo_wh (WPostWebhook MarbleJar) demo_signed) demo_wh_world"
  obtain rs w' where run: "?run = (rs, w')" by force
  have ok: "rs_status rs = 202" using demo_accepted run by simp
  have now: "w_clock demo_wh_world (w_tick demo_wh_world) = 100" by (simp add: demo_wh_world_def demo_world_def)
  have rfc: "rfc3339_time 100" by (simp add: rfc3339_time_def)
  have hw: "run_state (handleWebhook demo_libs demo_wh (tool_name MarbleJar) demo_signed) demo_wh_world = (rs, w')"
    using run by (simp add: wh_Router_def)
  obtain raw env where env: "we_timestamp env = 100"
    "env = (wh_normalize (tool_name MarbleJar) demo_signed raw 100)\<lparr>we_event := l_uuid_string demo_libs (w_uuid demo_wh_world (Suc (w_tick demo_wh_world)))\<rparr>"
    "w_streams w' = w_streams demo_wh_world @ [(''events.ingest.'' @ we_category env, JsonBody (j_wh_envelope demo_libs env))]"
    using handleWebhook_forwarded [OF hw ok] unfolding now by metis
  have "message_envelope demo_libs (snd (last (w_streams w'))) = Some (of_webhook env)"
    using message_webhook [OF demo_laws(2), of env] rfc env(1,3) by simp
  moreover have "l_uuid_parse demo_libs (en_event (of_webhook env)) = Some (w_uuid demo_wh_world (Suc (w_tick demo_wh_world)))"
    using demo_laws(1) by (subst env(2)) (simp add: of_webhook_def uuid_laws_def)
  moreover have "en_agent (of_webhook env) = []"
    by (subst env(2)) (simp add: of_webhook_def wh_normalize_def Let_def)
  then have "l_uuid_parse demo_libs (en_agent (of_webhook env)) = None"
    by (simp add: demo_libs_def demo_uuid_parse_def)
  ultimately have "fst (run_state (handleIngest demo_libs demo_norm_config (snd (last (w_streams w')))) demo_lost_world) = Ack"
    by (intro demo_lost_acks) auto
  then obtain v' where v': "run_state (handleIngest demo_libs demo_norm_config (snd (last (w_streams w')))) demo_lost_world = (Ack, v')"
    by (metis prod.collapse)
  from webhook_event_settles [OF run ok demo_laws(2) _ v'] rfc now show ?thesis by auto
qed

end
