(* ===== verification/Redelivery.thy ===== *)
theory Redelivery
  imports NormReplay
begin

text \<open>
  The consumer's loop (\<open>Worker.Run\<close> in \<open>internal/normalizer/worker.go\<close>). The consumers are created with explicit
  acknowledgement and no limit on deliveries, so JetStream delivers a message again until it is acknowledged:
  \<open>redeliver\<close> is that loop for one message and \<open>None\<close> means that it never ends. The lemmas say when it
  ends, and for which messages it does not.
\<close>

partial_function (option) redeliver :: "libs \<Rightarrow> norm_config \<Rightarrow> payload \<Rightarrow> world \<Rightarrow> world option" where
  "redeliver L cfg data w =
     (if fst (run_state (handleIngest L cfg data) w) = Ack
      then Some (snd (run_state (handleIngest L cfg data) w))
      else redeliver L cfg data (snd (run_state (handleIngest L cfg data) w)))"

lemma redeliver_ack: "run_state (handleIngest L cfg data) w = (Ack, w') \<Longrightarrow> redeliver L cfg data w = Some w'"
  by (subst redeliver.simps) simp

lemma redeliver_nak:
  "run_state (handleIngest L cfg data) w = (d, w') \<Longrightarrow> d \<noteq> Ack \<Longrightarrow> redeliver L cfg data w = redeliver L cfg data w'"
  by (subst redeliver.simps) simp

section \<open>One delivery\<close>

text \<open>What \<open>Process\<close> does once the lookup has answered.\<close>

definition after_lookup :: "libs \<Rightarrow> norm_config \<Rightarrow> envelope \<Rightarrow> (lookup_error + registry_schema) \<Rightarrow> (proc_error + proc_result) io" where
  "after_lookup L cfg e x =
     (case x of
        Inl err \<Rightarrow>
          if err = ErrSchemaNotFound then into_quarantine L e ''unknown_category''
          else ret (Inl (SchemaLookupError err))
      | Inr schema \<Rightarrow>
          (case validatePayload L (sch_json schema) (en_payload e) of
             Inl _ \<Rightarrow> ret (Inl ValidateError)
           | Inr (Some reason) \<Rightarrow> do {
               _ \<leftarrow> bump (\<lambda>c. c\<lparr>ct_failed := ct_failed c + 1\<rparr>);
               into_quarantine L e (''schema_validation_failed: '' @ reason)
             }
           | Inr None \<Rightarrow> do {
               y \<leftarrow> routeAll L cfg e (destinations (routing_of L (sch_routing schema)));
               (case y of
                  Inl err \<Rightarrow> ret (Inl err)
                | Inr _ \<Rightarrow> do {
                    _ \<leftarrow> bump (\<lambda>c. c\<lparr>ct_routed := ct_routed c + 1\<rparr>);
                    ret (Inr Routed)
                  })
             }))"

abbreviation counted_in :: "world \<Rightarrow> world" where
  "counted_in w \<equiv> w\<lparr>w_mem := (w_mem w)\<lparr>m_counts := (m_counts (w_mem w))\<lparr>ct_processed := ct_processed (m_counts (w_mem w)) + 1\<rparr>\<rparr>\<rparr>"

lemma Process_run:
  "run_state (GetSchema L (nc_registry cfg) (en_category e)) (counted_in w) = (x, v) \<Longrightarrow>
   run_state (Process L cfg e) w = run_state (after_lookup L cfg e x) v"
  by (simp add: Process_def after_lookup_def run_bump)

lemma handleIngest_run:
  assumes "message_envelope L data = Some e" and "run_state (Process L cfg e) w = (x, w')"
  shows "run_state (handleIngest L cfg data) w = (if isl x then Nak (5 * 10 ^ 9) else Ack, w')"
  using assms by (cases x) (simp_all add: handleIngest_def)

lemma GetSchema_ticks: "run_state (GetSchema L cl c) w = (x, v) \<Longrightarrow> w_tick w < w_tick v"
  by (auto simp: GetSchema_def fetchSchema_def run_simps split: option.splits reply.splits if_splits)

section \<open>What a delivery leaves alone\<close>

definition same_cache :: "world \<Rightarrow> world \<Rightarrow> bool" where
  "same_cache w w' \<longleftrightarrow> m_cache (w_mem w') = m_cache (w_mem w)"

interpretation sc: run_relation same_cache
  by unfold_locales (auto simp: same_cache_def)

lemma same_cacheI: "obeys same_memory m \<Longrightarrow> obeys same_cache m"
  by (simp add: obeys_def same_memory_def same_cache_def)

lemma same_cache_bump: "obeys same_cache (bump f)"
  by (rule obeysI) (simp add: run_bump same_cache_def)

lemmas same_cache_intros = sc.obeys_control same_cache_bump same_memory_effects [THEN same_cacheI]

lemma same_cache_routeAll: "obeys same_cache (routeAll L cfg e ds)"
proof (induction ds)
  case (Cons dest ds)
  have "obeys same_cache (route L cfg dest e)"
    unfolding route_def insert_route_def InsertEvent_def pushLoki_def by (intro same_cache_intros)
  with Cons show ?case by (auto intro!: same_cache_intros)
qed (simp add: sc.obeys_ret)

lemma same_cache_after: "obeys same_cache (after_lookup L cfg e x)"
  unfolding after_lookup_def into_quarantine_def quarantine_def Quarantine_def
  by (intro same_cache_intros same_cache_routeAll)

text \<open>The ids still to be drawn stay fresh.\<close>

definition fresh_rel :: "nat \<Rightarrow> world \<Rightarrow> world \<Rightarrow> bool" where
  "fresh_rel M w w' \<longleftrightarrow> same_env w w' \<and> same_actors (w_db w) (w_db w') \<and> (fresh_events M w \<longrightarrow> fresh_events M w')"

interpretation frs: run_relation "fresh_rel M" for M
  by unfold_locales (auto simp: fresh_rel_def intro: env.refl_R env.trans_R same_actors_trans)

lemma fresh_frame:
  assumes "obeys same_env m" and "\<And>w. w_db (snd (run_state m w)) = w_db w"
  shows "obeys (fresh_rel M) m"
proof (rule obeysI)
  fix w :: world
  have "same_env w (snd (run_state m w))" using assms(1) by (rule obeysD)
  then show "fresh_rel M w (snd (run_state m w))"
    by (auto simp: fresh_rel_def assms(2) intro: fresh_events_later)
qed

lemma fresh_sql:
  assumes actors: "\<And>u t d. same_actors d (snd (f u t d))"
    and ids: "\<And>u t d. \<exists>rs. events (snd (f u t d)) = events d @ rs \<and> e_id ` set rs \<subseteq> {u}"
  shows "obeys (fresh_rel M) (sql f)"
proof (rule obeysI)
  fix w :: world
  let ?d = "snd (f (w_uuid w (w_tick w)) (w_clock w (w_tick w)) (w_db w))"
  have quiet: "fresh_rel M w (tick w)"
    by (auto simp: fresh_rel_def same_env_def intro: fresh_events_later [of M w "tick w"])
  have wrote: "fresh_rel M w (tick (w\<lparr>w_db := ?d\<rparr>))"
  proof -
    obtain rs where rs: "events ?d = events (w_db w) @ rs" "e_id ` set rs \<subseteq> {w_uuid w (w_tick w)}"
      using ids by blast
    have "fresh_events M (tick (w\<lparr>w_db := ?d\<rparr>))" if fr: "fresh_events M w"
    proof -
      have "w_uuid w n \<notin> e_id ` set (events ?d)" if n: "n \<in> {Suc (w_tick w)..<M}" for n
      proof -
        have "w_uuid w n \<noteq> w_uuid w (w_tick w)"
          using fr n inj_onD [of "w_uuid w" "{w_tick w..<M}" n "w_tick w"] by (auto simp: fresh_events_def)
        moreover have "w_uuid w n \<notin> e_id ` set (events (w_db w))" using fr n by (simp add: fresh_events_def)
        ultimately show ?thesis using rs by auto
      qed
      moreover have "inj_on (w_uuid w) {Suc (w_tick w)..<M}"
        using fr by (auto simp: fresh_events_def elim!: inj_on_subset)
      ultimately show ?thesis by (simp add: fresh_events_def)
    qed
    with actors show ?thesis by (simp add: fresh_rel_def same_env_def)
  qed
  show "fresh_rel M w (snd (run_state (sql f) w))"
    by (cases rule: sql_cases [of f w]) (simp_all only: snd_conv quiet wrote)
qed

lemma fresh_statements:
  "obeys (fresh_rel M) (sql (resolveCategory n))" "obeys (fresh_rel M) (sql (QuarantinedByCategory n))"
  "obeys (fresh_rel M) (sql (insertEventRow a c sid e))" "obeys (fresh_rel M) (sql (upsertQuarantine q ag s raw rs))"
  "obeys (fresh_rel M) (sql (MarkReplayed q))" "obeys (fresh_rel M) (sql (BumpAttempts q rs))"
  by (rule fresh_sql; simp add: resolveCategory_def QuarantinedByCategory_def insertEventRow_def upsertQuarantine_def
      MarkReplayed_def BumpAttempts_def split: option.split)+

lemma fresh_effects:
  "obeys (fresh_rel M) (publish sj p)" "obeys (fresh_rel M) (http_call url p)" "obeys (fresh_rel M) now"
  "obeys (fresh_rel M) new_uuid" "obeys (fresh_rel M) (remember m)"
  by (rule fresh_frame, rule same_env_effects,
      simp add: publish_def http_call_def now_def new_uuid_def remember_def Let_def split: outcome.split)+

interpretation wfresh: worker_relation "fresh_rel M" for M
  by unfold_locales (rule fresh_statements fresh_effects)+

text \<open>How long routing takes, whatever fails.\<close>

lemma sql_ticks: "run_state (sql f) w = (x, v) \<Longrightarrow> w_tick v = Suc (w_tick w)"
  by (cases rule: sql_cases [of f w]) auto

lemma InsertEvent_ticks: "run_state (InsertEvent L e) w = (x, v) \<Longrightarrow> w_tick v \<le> w_tick w + 2"
  by (cases "run_state (sql (resolveCategory (en_category e))) w")
    (auto simp: InsertEvent_def split: sum.splits dest!: sql_ticks)

lemma routeAll_ticks:
  "run_state (routeAll L cfg e ds) w = (x, v) \<Longrightarrow> list_all (local_dest cfg) ds \<Longrightarrow>
   w_tick v \<le> w_tick w + 2 * length (filter storing ds)"
proof (induction ds arbitrary: w)
  case (Cons dest ds)
  obtain y u where y: "run_state (route L cfg dest e) w = (y, u)" by force
  have "w_tick u \<le> w_tick w + (if storing dest then 2 else 0)"
  proof (cases "storing dest")
    case True
    then have "run_state (insert_route L e) w = (y, u)" using y by (auto simp: route_def storing_def split: if_splits)
    moreover obtain z s where z: "run_state (InsertEvent L e) w = (z, s)" by force
    ultimately have "u = s" by (simp add: insert_route_def)
    with InsertEvent_ticks [OF z] True show ?thesis by simp
  next
    case False
    then show ?thesis
      using y Cons.prems(2) by (auto simp: route_def storing_def local_dest_def pushLoki_def split: if_splits)
  qed
  moreover have "w_tick v \<le> w_tick u + 2 * length (filter storing ds)"
    using Cons.prems y Cons.IH [of u] by (cases y) (auto simp: env.refl_R)
  ultimately show ?case by (cases "storing dest") simp_all
qed simp

section \<open>A message that is stored in the end\<close>

text \<open>The registry, when it answers, answers with the schema \<open>sc\<close>, and the cache holds nothing else.\<close>

definition steady :: "libs \<Rightarrow> string \<Rightarrow> registry_schema \<Rightarrow> world \<Rightarrow> bool" where
  "steady L c sc w \<longleftrightarrow>
     (\<forall>n. w_reply w n = NoReply \<or>
        (\<exists>body. w_reply w n = Reply 200 body \<and> decode_reply L schema_fields body = Some sc)) \<and>
     (\<forall>k. m_cache (w_mem w) c = Some k \<longrightarrow> cs_schema k = sc)"

lemma steady_later:
  "steady L c sc w \<Longrightarrow> same_env w w' \<Longrightarrow> m_cache (w_mem w') = m_cache (w_mem w) \<Longrightarrow> steady L c sc w'"
  by (simp add: steady_def same_env_def)

lemma fetchSchema_steady:
  assumes st: "steady L c sc w" and run: "run_state (fetchSchema L cl c) w = (x, v)"
  shows "steady L c sc v" and "x = Inr sc \<or> x = Inl Unreachable"
proof -
  have "w_reply w (w_tick w) = NoReply \<or>
      (\<exists>body. w_reply w (w_tick w) = Reply 200 body \<and> decode_reply L schema_fields body = Some sc)"
    using st by (simp add: steady_def)
  then have "steady L c sc v \<and> (x = Inr sc \<or> x = Inl Unreachable)"
  proof (elim disjE exE conjE)
    assume "w_reply w (w_tick w) = NoReply"
    then show ?thesis
      using st run by (cases "m_cache (w_mem w) c") (auto simp: fetchSchema_def run_simps steady_def)
  next
    fix body assume "w_reply w (w_tick w) = Reply 200 body" "decode_reply L schema_fields body = Some sc"
    then show ?thesis
      using st run by (auto simp: fetchSchema_def run_simps steady_def)
  qed
  then show "steady L c sc v" and "x = Inr sc \<or> x = Inl Unreachable" by simp_all
qed

lemma GetSchema_steady:
  assumes st: "steady L c sc w" and run: "run_state (GetSchema L cl c) w = (x, v)"
  shows "steady L c sc v \<and> (x = Inr sc \<or> x = Inl Unreachable)"
proof (cases "m_cache (w_mem w) c")
  case None
  then show ?thesis using fetchSchema_steady [OF st] run by (simp add: GetSchema_def run_simps)
next
  case (Some k)
  have t: "steady L c sc (tick w)" using st by (simp add: steady_def)
  have k: "cs_schema k = sc" using st Some by (simp add: steady_def)
  show ?thesis
  proof (cases "w_clock w (w_tick w) - cs_fetched k < rc_ttl")
    case True
    then show ?thesis using run Some k t by (auto simp: GetSchema_def run_simps)
  next
    case False
    then show ?thesis using fetchSchema_steady [OF t] run Some by (simp add: GetSchema_def run_simps)
  qed
qed

lemma delivery_step:
  assumes msg: "message_envelope L data = Some e" "en_category e = c" "en_payload e = Some p"
    and valid: "validatePayload L (sch_json sc) (Some p) = Inr None" and st: "steady L c sc w"
    and run: "run_state (handleIngest L cfg data) w = (d, w')"
  shows "fresh_rel M w w'" and "steady L c sc w'" and "w_tick w < w_tick w'"
    and "list_all (local_dest cfg) (destinations (routing_of L (sch_routing sc))) \<Longrightarrow>
      w_tick w' \<le> w_tick w + 3 + 2 * stored_copies L sc"
    and "d = Ack \<Longrightarrow> \<exists>rs. events (w_db w') = events (w_db w) @ rs \<and> length rs = stored_copies L sc \<and>
      list_all (event_for L e (w_db w)) rs"
proof -
  show "fresh_rel M w w'" using wfresh.consumers(1) run by (rule obeys_run)
  obtain x v where x: "run_state (GetSchema L (nc_registry cfg) c) (counted_in w) = (x, v)" by force
  obtain y v2 where y: "run_state (after_lookup L cfg e x) v = (y, v2)" by force
  have proc: "run_state (Process L cfg e) w = (y, v2)" using Process_run [of L cfg e w x v] x y msg(2) by simp
  have "(d, w') = (if isl y then Nak (5 * 10 ^ 9) else Ack, v2)"
    using handleIngest_run [OF msg(1) proc] unfolding run .
  then have w': "w' = v2" and d: "d = (if isl y then Nak (5 * 10 ^ 9) else Ack)" by simp_all
  have v: "steady L c sc v" "x = Inr sc \<or> x = Inl Unreachable" "w_tick w < w_tick v" "w_db v = w_db w"
  proof -
    have "steady L c sc (counted_in w)" using st by (simp add: steady_def)
    from GetSchema_steady [OF this x] show "steady L c sc v" "x = Inr sc \<or> x = Inl Unreachable" by simp_all
    show "w_tick w < w_tick v" "w_db v = w_db w"
      using GetSchema_ticks [OF x] GetSchema_frame [OF x] by simp_all
  qed
  have env: "same_env v v2"
    unfolding after_lookup_def
    by (rule obeys_run [OF _ y [unfolded after_lookup_def]])
      (intro env.obeys_control wenv.bump wenv.into_quarantine wenv.routeAll)
  have cache: "same_cache v v2" using same_cache_after y by (rule obeys_run)
  show "steady L c sc w'"
    using steady_later [OF v(1) env] cache by (simp add: w' same_cache_def)
  show "w_tick w < w_tick w'" using v(3) env by (simp add: w' same_env_def)
  have v3: "w_tick v \<le> w_tick w + 3"
    using x by (auto simp: GetSchema_def fetchSchema_def run_simps split: option.splits reply.splits if_splits)
  show "w_tick w' \<le> w_tick w + 3 + 2 * stored_copies L sc"
    if loc: "list_all (local_dest cfg) (destinations (routing_of L (sch_routing sc)))"
  proof (cases x)
    case (Inl err)
    then show ?thesis using y v(2) v3 by (auto simp: after_lookup_def w')
  next
    case (Inr sc')
    then have x': "x = Inr sc" using v(2) by auto
    obtain z s where z: "run_state (routeAll L cfg e (destinations (routing_of L (sch_routing sc)))) v = (z, s)" by force
    have "w_tick v2 = w_tick s"
      using y z valid msg(3) by (cases z) (auto simp: x' after_lookup_def run_bump)
    with routeAll_ticks [OF z loc] v3 show ?thesis by (simp add: w' stored_copies_def)
  qed
  assume "d = Ack"
  then have ok: "\<not> isl y" using d by (auto split: if_splits)
  with y v(2) have x': "x = Inr sc" by (auto simp: after_lookup_def)
  obtain z v3 where z: "run_state (routeAll L cfg e (destinations (routing_of L (sch_routing sc)))) v = (z, v3)" by force
  have z': "z = Inr ()" "w_db v2 = w_db v3"
    using y ok z valid msg(3) by (cases z; auto simp: x' after_lookup_def run_bump)+
  obtain rs where "w_db v3 = (w_db v)\<lparr>events := events (w_db v) @ rs\<rparr>" "length rs = stored_copies L sc"
    "list_all (event_for L e (w_db v)) rs"
    using routeAll_ok [OF z [unfolded z'(1)]] by (auto simp: stored_copies_def)
  then show "\<exists>rs. events (w_db w') = events (w_db w) @ rs \<and> length rs = stored_copies L sc \<and>
      list_all (event_for L e (w_db w)) rs"
    using z'(2) v(4) by (intro exI [of _ rs]) (simp add: w')
qed

lemma event_for_actors: "same_actors d d' \<Longrightarrow> event_for L e d' = event_for L e d"
  by (simp add: same_actors_def event_for_def fun_eq_iff)

text \<open>Once the outside has recovered the next delivery succeeds.\<close>

lemma delivery_after_recovery:
  assumes msg: "message_envelope L data = Some e" "en_category e = c" "en_payload e = Some p"
    and valid: "validatePayload L (sch_json sc) (Some p) = Inr None" and st: "steady L c sc w"
    and known: "known_agent L (w_db w) e" "has_active (w_db w) c" "fresh_events M w"
    and M: "w_tick w + 3 + 2 * stored_copies L sc \<le> M"
    and loc: "list_all (local_dest cfg) (destinations (routing_of L (sch_routing sc)))"
    and up: "\<forall>n \<ge> w_tick w. w_fault w n = Done \<and> w_reply w n \<noteq> NoReply"
  shows "fst (run_state (handleIngest L cfg data) w) = Ack"
proof -
  have "registry_says L c sc w" using st up unfolding steady_def registry_says_def by metis
  then have "replay_ready L c sc M w"
    using known up by (simp add: replay_ready_def healthy_def)
  from run_Process [OF this msg(2,3) valid known(1) loc M] obtain v
    where "run_state (Process L cfg e) w = (Inr Routed, v)" by blast
  from handleIngest_run [OF msg(1) this] show ?thesis by simp
qed

lemma redelivery_ends:
  assumes msg: "message_envelope L data = Some e" "en_category e = c" "en_payload e = Some p"
    and valid: "validatePayload L (sch_json sc) (Some p) = Inr None"
    and loc: "list_all (local_dest cfg) (destinations (routing_of L (sch_routing sc)))"
    and M: "N + 2 * (3 + 2 * stored_copies L sc) \<le> M"
    and "steady L c sc w" and "known_agent L (w_db w) e" and "has_active (w_db w) c" and "fresh_events M w"
    and "w_tick w \<le> N + 3 + 2 * stored_copies L sc"
    and "\<forall>n \<ge> N. w_fault w n = Done \<and> w_reply w n \<noteq> NoReply"
  shows "\<exists>w' rs. redeliver L cfg data w = Some w' \<and> suffix rs (events (w_db w')) \<and> length rs = stored_copies L sc \<and>
    list_all (event_for L e (w_db w')) rs"
  using assms(7-)
proof (induction "N - w_tick w" arbitrary: w rule: less_induct)
  case less
  obtain d v where run: "run_state (handleIngest L cfg data) w = (d, v)" by force
  note step = delivery_step [OF msg valid less.prems(1) run]
  have env: "same_env w v" and act: "same_actors (w_db w) (w_db v)" and un: "fresh_events M v"
    using step(1) [of M] less.prems(4) by (simp_all add: fresh_rel_def)
  show ?case
  proof (cases d)
    case Ack
    then obtain rs where "events (w_db v) = events (w_db w) @ rs" "length rs = stored_copies L sc"
      "list_all (event_for L e (w_db w)) rs" using step(5) by blast
    moreover have "redeliver L cfg data w = Some v" using run Ack by (intro redeliver_ack) simp
    moreover have "suffix rs (events (w_db w) @ rs)" by (simp add: suffix_def)
    ultimately show ?thesis using event_for_actors [OF act, of L e] by (intro exI [of _ v] exI [of _ rs]) simp
  next
    case (Nak t)
    have early: "w_tick w < N"
    proof (rule ccontr)
      assume "\<not> w_tick w < N"
      then have up: "\<forall>n \<ge> w_tick w. w_fault w n = Done \<and> w_reply w n \<noteq> NoReply" using less.prems(6) by simp
      have "w_tick w + 3 + 2 * stored_copies L sc \<le> M" using less.prems(5) M by simp
      from delivery_after_recovery [OF msg valid less.prems(1,2,3,4) this loc up] show False using run Nak by simp
    qed
    then have "N - w_tick v < N - w_tick w" using step(3) by simp
    moreover have "known_agent L (w_db v) e" "has_active (w_db v) c"
      using less.prems(2,3) by (simp_all add: same_actors_keep [OF act])
    moreover have "\<forall>n \<ge> N. w_fault v n = Done \<and> w_reply v n \<noteq> NoReply"
      using less.prems(6) env by (simp add: same_env_def)
    moreover have "w_tick v \<le> N + 3 + 2 * stored_copies L sc" using step(4) [OF loc] early by simp
    ultimately have "\<exists>w' rs. redeliver L cfg data v = Some w' \<and> suffix rs (events (w_db w')) \<and>
        length rs = stored_copies L sc \<and> list_all (event_for L e (w_db w')) rs"
      using less.hyps step(2) un by blast
    then show ?thesis using redeliver_nak [OF run] Nak by simp
  qed
qed

section \<open>A message that is never acknowledged\<close>

text \<open>The sender of \<open>e\<close> is no agent of the database, its event id is not quarantined, and every schema the
  registry or the cache gives for its category has a destination that stores.\<close>

definition hopeless :: "libs \<Rightarrow> envelope \<Rightarrow> world \<Rightarrow> bool" where
  "hopeless L e w \<longleftrightarrow>
     \<not> known_agent L (w_db w) e \<and>
     (\<exists>u. l_uuid_parse L (en_event e) = Some u \<and> u \<notin> q_id ` set (quarantine_events (w_db w))) \<and>
     (\<forall>n body sc. w_reply w n = Reply 200 body \<longrightarrow> decode_reply L schema_fields body = Some sc \<longrightarrow> stored_copies L sc \<noteq> 0) \<and>
     (\<forall>k. m_cache (w_mem w) (en_category e) = Some k \<longrightarrow> stored_copies L (cs_schema k) \<noteq> 0)"

lemma hopeless_later:
  "hopeless L e w \<Longrightarrow> same_env w w' \<Longrightarrow> w_db w' = w_db w \<Longrightarrow> m_cache (w_mem w') = m_cache (w_mem w) \<Longrightarrow> hopeless L e w'"
  by (simp add: hopeless_def same_env_def)

lemma GetSchema_storing:
  assumes h: "hopeless L e w" and run: "run_state (GetSchema L cl (en_category e)) w = (x, v)"
  shows "hopeless L e v" and "x = Inr sc \<Longrightarrow> stored_copies L sc \<noteq> 0"
proof -
  let ?c = "en_category e"
  have fetch: "hopeless L e v \<and> (x = Inr sc \<longrightarrow> stored_copies L sc \<noteq> 0)"
    if h: "hopeless L e u" and run: "run_state (fetchSchema L cl ?c) u = (x, v)" for u
  proof (cases "w_reply u (w_tick u)")
    case NoReply
    then show ?thesis
      using h run by (cases "m_cache (w_mem u) ?c") (auto simp: fetchSchema_def run_simps hopeless_def)
  next
    case (Reply status body)
    have "stored_copies L sc' \<noteq> 0" if "status = 200" "decode_reply L schema_fields body = Some sc'" for sc'
      using h Reply that unfolding hopeless_def by blast
    then show ?thesis
      using h run Reply
      by (cases "decode_reply L schema_fields body") (auto simp: fetchSchema_def run_simps hopeless_def split: if_splits)
  qed
  have "hopeless L e v \<and> (x = Inr sc \<longrightarrow> stored_copies L sc \<noteq> 0)"
  proof (cases "m_cache (w_mem w) ?c")
    case None
    then show ?thesis using fetch [OF h] run by (simp add: GetSchema_def run_simps)
  next
    case (Some k)
    have k: "stored_copies L (cs_schema k) \<noteq> 0" using h Some by (simp add: hopeless_def)
    have t: "hopeless L e (tick w)" using h by (simp add: hopeless_def)
    show ?thesis
    proof (cases "w_clock w (w_tick w) - cs_fetched k < rc_ttl")
      case True
      then show ?thesis using run Some k t by (auto simp: GetSchema_def run_simps)
    next
      case False
      then show ?thesis using fetch [OF t] run Some by (simp add: GetSchema_def run_simps)
    qed
  qed
  then show "hopeless L e v" and "x = Inr sc \<Longrightarrow> stored_copies L sc \<noteq> 0" by simp_all
qed

lemma rejected_sql:
  assumes "\<And>u t. \<exists>err. f u t (w_db w) = (Inl err, w_db w)" and "run_state (sql f) w = (x, v)"
  shows "isl x" and "w_db v = w_db w"
proof -
  obtain err where "f (w_uuid w (w_tick w)) (w_clock w (w_tick w)) (w_db w) = (Inl err, w_db w)" using assms(1) by blast
  with assms(2) show "isl x" and "w_db v = w_db w"
    by (cases rule: sql_cases [of f w]; auto)+
qed

lemma unknown_agent:
  "\<not> known_agent L d e \<Longrightarrow> \<exists>a. l_uuid_parse L (en_agent e) = Some a \<and> a \<notin> a_id ` set (agents d)"
  by (auto simp: known_agent_def split: option.splits)

lemma InsertEvent_hopeless:
  assumes no: "\<not> known_agent L (w_db w) e" and run: "run_state (InsertEvent L e) w = (x, v)"
  shows "isl x \<and> w_db v = w_db w"
proof -
  obtain y u where y: "run_state (sql (resolveCategory (en_category e))) w = (y, u)" by force
  have u: "w_db u = w_db w"
    using obeys_run [OF unchanged_sql y] by (simp add: reads_def resolveCategory_def unchanged_def)
  show ?thesis
  proof (cases y)
    case (Inl err)
    then show ?thesis using run y u by (auto simp: InsertEvent_def)
  next
    case (Inr p)
    obtain cat sid where p: "p = (cat, sid)" by (cases p)
    have ins: "run_state (sql (insertEventRow (l_uuid_parse L (en_agent e)) cat sid e)) u = (x, v)"
      using run y Inr p by (simp add: InsertEvent_def)
    obtain a where a: "l_uuid_parse L (en_agent e) = Some a" "a \<notin> a_id ` set (agents (w_db u))"
      using unknown_agent [OF no] u by auto
    have "\<exists>err. insertEventRow (l_uuid_parse L (en_agent e)) cat sid e u' t (w_db u) = (Inl err, w_db u)" for u' t
      using a by (auto simp: insertEventRow_def split: option.split)
    from rejected_sql [OF this ins] show ?thesis using u by simp
  qed
qed

lemma Quarantine_hopeless:
  assumes no: "\<not> known_agent L (w_db w) e"
    and q: "l_uuid_parse L (en_event e) = Some u" "u \<notin> q_id ` set (quarantine_events (w_db w))"
    and run: "run_state (Quarantine L e reason) w = (x, v)"
  shows "isl x \<and> w_db v = w_db w"
proof -
  obtain a where a: "l_uuid_parse L (en_agent e) = Some a" "a \<notin> a_id ` set (agents (w_db w))"
    using unknown_agent [OF no] by auto
  have "run_state (sql (upsertQuarantine u (Some a) (en_source e) (j_envelope L e) reason)) w = (x, v)"
    using run q a by (simp add: Quarantine_def)
  moreover have "\<exists>err. upsertQuarantine u (Some a) (en_source e) (j_envelope L e) reason u' t (w_db w) = (Inl err, w_db w)" for u' t
    using a q by (simp add: upsertQuarantine_def)
  ultimately show ?thesis using rejected_sql by metis
qed

lemma routeAll_hopeless:
  assumes "\<not> known_agent L (w_db w) e" and "filter storing ds \<noteq> []"
    and "run_state (routeAll L cfg e ds) w = (x, v)"
  shows "isl x \<and> w_db v = w_db w"
  using assms
proof (induction ds arbitrary: w)
  case (Cons dest ds)
  obtain y u where y: "run_state (route L cfg dest e) w = (y, u)" by force
  show ?case
  proof (cases "storing dest")
    case True
    then have "run_state (insert_route L e) w = (y, u)" using y by (auto simp: route_def storing_def split: if_splits)
    moreover obtain z s where z: "run_state (InsertEvent L e) w = (z, s)" by force
    ultimately have "y = (case z of Inl _ \<Rightarrow> Inl () | Inr _ \<Rightarrow> Inr ())" "u = s" by (simp_all add: insert_route_def)
    with InsertEvent_hopeless [OF Cons.prems(1) z] have "isl y" "w_db u = w_db w" by (cases z; simp)+
    then show ?thesis using Cons.prems(3) y by (cases y) auto
  next
    case False
    then have u: "w_db u = w_db w"
      using y pushLoki_frame [of L cfg e w y u] by (auto simp: route_def storing_def split: if_splits)
    show ?thesis
    proof (cases y)
      case (Inl a)
      then show ?thesis using Cons.prems(3) y u by auto
    next
      case (Inr b)
      then have "run_state (routeAll L cfg e ds) u = (x, v)" using Cons.prems(3) y by simp
      from Cons.IH [OF _ _ this] show ?thesis using Cons.prems(1,2) False u by simp
    qed
  qed
qed simp

lemma delivery_hopeless:
  assumes msg: "message_envelope L data = Some e" and h: "hopeless L e w"
    and run: "run_state (handleIngest L cfg data) w = (d, w')"
  shows "d \<noteq> Ack" and "hopeless L e w'" and "w_db w' = w_db w"
proof -
  obtain x v where x: "run_state (GetSchema L (nc_registry cfg) (en_category e)) (counted_in w) = (x, v)" by force
  obtain y v2 where y: "run_state (after_lookup L cfg e x) v = (y, v2)" by force
  have h1: "hopeless L e (counted_in w)" using h by (simp add: hopeless_def)
  note v = GetSchema_storing [OF h1 x]
  have db: "w_db v = w_db w" using GetSchema_frame [OF x] by simp
  obtain u where q: "l_uuid_parse L (en_event e) = Some u" "u \<notin> q_id ` set (quarantine_events (w_db v))"
    and no: "\<not> known_agent L (w_db v) e"
    using v(1) unfolding hopeless_def by blast
  have quar: "isl z \<and> w_db v' = w_db v"
    if "run_state (into_quarantine L e reason) s = (z, v')" "w_db s = w_db v" for s z v' reason
  proof -
    obtain a s' where a: "run_state (Quarantine L e reason) s = (a, s')" by force
    have "isl a \<and> w_db s' = w_db s" using Quarantine_hopeless [OF _ q(1) _ a] no q(2) that(2) by simp
    then show ?thesis using that a by (cases a) (auto simp: into_quarantine_def quarantine_def)
  qed
  have fin: "isl y \<and> w_db v2 = w_db v"
  proof (cases x)
    case (Inl err)
    then show ?thesis using y quar [of _ v y v2] by (auto simp: after_lookup_def split: if_splits)
  next
    case (Inr sc)
    have st: "filter storing (destinations (routing_of L (sch_routing sc))) \<noteq> []"
      using v(2) [OF Inr] by (simp add: stored_copies_def)
    show ?thesis
    proof (cases "validatePayload L (sch_json sc) (en_payload e)")
      case (Inl a)
      then show ?thesis using y Inr by (auto simp: after_lookup_def)
    next
      case (Inr o')
      show ?thesis
      proof (cases o')
        case None
        obtain z s where z: "run_state (routeAll L cfg e (destinations (routing_of L (sch_routing sc)))) v = (z, s)" by force
        show ?thesis
          using routeAll_hopeless [OF no st z] y z \<open>x = Inr sc\<close> Inr None by (cases z) (auto simp: after_lookup_def)
      next
        case (Some reason)
        then show ?thesis
          using y \<open>x = Inr sc\<close> Inr quar [of "''schema_validation_failed: '' @ reason"] by (auto simp: after_lookup_def run_bump)
      qed
    qed
  qed
  have proc: "run_state (Process L cfg e) w = (y, v2)" using Process_run [OF x] y by simp
  have "(d, w') = (if isl y then Nak (5 * 10 ^ 9) else Ack, v2)"
    using handleIngest_run [OF msg proc] unfolding run .
  then have w': "w' = v2" and d: "d \<noteq> Ack" using fin by simp_all
  have env: "same_env v v2"
    unfolding after_lookup_def
    by (rule obeys_run [OF _ y [unfolded after_lookup_def]])
      (intro env.obeys_control wenv.bump wenv.into_quarantine wenv.routeAll)
  have "m_cache (w_mem v2) = m_cache (w_mem v)"
    using obeys_run [OF same_cache_after y] by (simp add: same_cache_def)
  then show "hopeless L e w'" using hopeless_later [OF v(1) env] fin by (simp add: w')
  show "d \<noteq> Ack" by (rule d)
  show "w_db w' = w_db w" using fin db by (simp add: w')
qed

lemma hopeless_never_ends:
  assumes msg: "message_envelope L data = Some e" and "hopeless L e w"
  shows "redeliver L cfg data w = None"
proof (rule ccontr)
  assume "redeliver L cfg data w \<noteq> None"
  then obtain w' where ret: "redeliver L cfg data w = Some w'" by blast
  have "message_envelope L data = Some e \<longrightarrow> \<not> hopeless L e w"
  proof (rule redeliver.raw_induct [where P = "\<lambda>L cfg data w _. message_envelope L data = Some e \<longrightarrow> \<not> hopeless L e w", OF _ ret])
    fix f L cfg data w w'
    assume IH: "\<And>L cfg data w w'. f L cfg data w = Some w' \<Longrightarrow> message_envelope L data = Some e \<longrightarrow> \<not> hopeless L e w"
      and eq: "(if fst (run_state (handleIngest L cfg data) w) = Ack
        then Some (snd (run_state (handleIngest L cfg data) w))
        else f L cfg data (snd (run_state (handleIngest L cfg data) w))) = Some (w' :: world)"
    show "message_envelope L data = Some e \<longrightarrow> \<not> hopeless L e w"
    proof (intro impI notI)
      assume msg: "message_envelope L data = Some e" and h: "hopeless L e w"
      note step = delivery_hopeless [OF msg h surjective_pairing]
      have "f L cfg data (snd (run_state (handleIngest L cfg data) w)) = Some w'" using eq step(1) by simp
      from IH [OF this] msg step(2) show False by blast
    qed
  qed
  with assms show False by blast
qed

end
