(* ===== verification/RedeliveryProps.thy ===== *)
theory RedeliveryProps
  imports Redelivery NormDemo
begin

text \<open>The properties of redelivery: which messages are acknowledged in the end and which never are, each
  with its witness.\<close>

text \<open>C7. Redelivery ends: a message whose event fits the schema the registry has for its category, from a
  known agent, is acknowledged after finitely many deliveries however long the database, the broker and
  the registry fail, provided they recover at some tick \<open>N\<close>; its rows, one per storing destination, are
  then the last in the events table.\<close>

theorem redelivery_terminates:
  assumes "message_envelope L data = Some e" and "en_category e = c" and "en_payload e = Some p"
    and "validatePayload L (sch_json sc) (Some p) = Inr None"
    and "list_all (local_dest cfg) (destinations (routing_of L (sch_routing sc)))"
    and "steady L c sc w" and "known_agent L (w_db w) e" and "has_active (w_db w) c"
    and "w_tick w \<le> N" and "fresh_events (N + 2 * (3 + 2 * stored_copies L sc)) w"
    and "\<forall>n \<ge> N. w_fault w n = Done \<and> w_reply w n \<noteq> NoReply"
  shows "\<exists>w' rs. redeliver L cfg data w = Some w' \<and> suffix rs (events (w_db w')) \<and>
    length rs = stored_copies L sc \<and> list_all (event_for L e (w_db w')) rs"
  using assms by (intro redelivery_ends [OF assms(1-5) order_refl]) simp_all

definition demo_outage_world :: world where
  "demo_outage_world = demo_norm_world
     \<lparr>w_fault := (\<lambda>n. if n < 105 then Unacked else Done),
      w_reply := (\<lambda>n. if n < 110 then NoReply else Reply 200 (RawBody ''schema''))\<rparr>"

lemma demo_outage_simps: "w_db demo_outage_world = w_db demo_norm_world" "w_tick demo_outage_world = 100"
  "w_uuid demo_outage_world = w_uuid demo_norm_world"
  by (simp_all add: demo_outage_world_def demo_norm_world_def demo_world_def)

lemma demo_valid: "validatePayload demo_libs (sch_json demo_registry_schema) (Some [(''k'', JStr ''v'')]) = Inr None"
  by (simp add: validatePayload_def demo_libs_def)

lemma demo_outage_fresh: "fresh_events 1000 demo_outage_world"
  using demo_fresh by (simp add: fresh_events_def demo_outage_simps) (simp add: demo_norm_world_def demo_world_def)

text \<open>The outage ends at tick 110.\<close>

lemma demo_outage:
  "steady demo_libs ''orders'' demo_registry_schema demo_outage_world"
  "has_active (w_db demo_outage_world) ''orders''"
  "fresh_events (110 + 2 * (3 + 2 * stored_copies demo_libs demo_registry_schema)) demo_outage_world"
  "w_tick demo_outage_world \<le> 110"
  "\<forall>n \<ge> 110. w_fault demo_outage_world n = Done \<and> w_reply demo_outage_world n \<noteq> NoReply"
proof -
  show "steady demo_libs ''orders'' demo_registry_schema demo_outage_world"
    by (simp add: steady_def demo_outage_world_def demo_norm_world_def demo_world_def fresh_memory_def demo_reply)
  show "fresh_events (110 + 2 * (3 + 2 * stored_copies demo_libs demo_registry_schema)) demo_outage_world"
    by (rule fresh_events_mono [OF demo_outage_fresh]) (simp add: demo_copies)
qed (use demo_norm_active in \<open>simp_all add: demo_outage_world_def demo_norm_world_def demo_world_def\<close>)

theorem redelivery_terminates_witness:
  "\<exists>w'. redeliver demo_libs demo_norm_config demo_message demo_outage_world = Some w' \<and> events (w_db w') \<noteq> []"
proof -
  have e: "en_category demo_envelope = ''orders''" "en_payload demo_envelope = Some [(''k'', JStr ''v'')]"
    by (simp_all add: demo_envelope_def)
  have k: "known_agent demo_libs (w_db demo_outage_world) demo_envelope"
    using demo_known by (simp add: demo_outage_simps)
  from redelivery_terminates [OF demo_envelope_decodes e demo_valid demo_copies(2) demo_outage(1) k demo_outage(2,4,3,5)]
  obtain w' rs where "redeliver demo_libs demo_norm_config demo_message demo_outage_world = Some w'"
    "suffix rs (events (w_db w'))" "length rs = 1" by (auto simp: demo_copies(1))
  then show ?thesis by (auto simp: suffix_def)
qed

text \<open>C37. A message nobody acknowledges: an event from an agent that is not (or no longer) in the database is
  delivered for ever, whatever fails or recovers, as long as every schema the registry or the cache gives
  for its category stores events and its event id is not in the quarantine. It can neither be stored nor
  quarantined, since both tables refer to the agent, and there is no limit on deliveries.\<close>

theorem orphaned_message_never_acked:
  assumes "message_envelope L data = Some e" and "hopeless L e w"
  shows "redeliver L cfg data w = None \<and> fst (run_state (handleIngest L cfg data) w) \<noteq> Ack"
  using hopeless_never_ends [OF assms] delivery_hopeless(1) [OF assms surjective_pairing] by simp

definition demo_orphan_world :: world where
  "demo_orphan_world = demo_norm_world\<lparr>w_db := demo_norm_db\<lparr>agents := [], api_keys := [], quarantine_events := []\<rparr>\<rparr>"

theorem orphaned_message_never_acked_witness:
  "redeliver demo_libs demo_norm_config demo_message demo_orphan_world = None \<and> healthy demo_orphan_world"
proof -
  have ids: "l_uuid_parse demo_libs (en_agent demo_envelope) = Some 1"
    "l_uuid_parse demo_libs (en_event demo_envelope) = Some 30"
    by (simp_all add: demo_envelope_def demo_libs_def demo_uuid)
  have "hopeless demo_libs demo_envelope demo_orphan_world"
    by (simp add: hopeless_def known_agent_def ids demo_reply demo_copies(1))
      (simp add: demo_orphan_world_def demo_norm_world_def demo_world_def fresh_memory_def demo_reply demo_copies(1))
  from orphaned_message_never_acked [OF demo_envelope_decodes this]
  show ?thesis by (simp add: healthy_def demo_orphan_world_def demo_norm_world_def demo_world_def)
qed

end
