(* ===== verification/JourneyProps.thy ===== *)
theory JourneyProps
  imports PipelineProps RedeliveryProps
begin

text \<open>An event's whole way: accepted by the gateway, delivered by the stream until it is acknowledged, and in the
  events table in the end.\<close>

text \<open>The row of an event \<open>agent\<close> has sent.\<close>

definition row_of_request :: "gw_agent \<Rightarrow> collect_request \<Rightarrow> db \<Rightarrow> event_row \<Rightarrow> bool" where
  "row_of_request agent req d row \<longleftrightarrow> cq_payload req = Some (e_payload row) \<and> e_occurred row = cq_timestamp req \<and>
     e_source row = Some (cq_source req) \<and> e_agent row = Some (ga_id agent) \<and>
     (\<exists>c \<in> set (categories d). c_id c = e_category row \<and> c_name c = cq_category req) \<and>
     (\<exists>s \<in> set (schemas d). e_schema row = Some (s_id s) \<and> s_category s = e_category row \<and> s_active s)"

text \<open>C10. An accepted event is recorded: when the gateway answered 201, the registry's schema for the category
  accepts the payload, and the agent and an active schema are in the normalizer's database, then however
  long the database, the broker and the registry fail, provided they recover at some tick \<open>N\<close>, the message
  is acknowledged after finitely many deliveries and the events table ends with its rows, one per storing
  destination, each with the sending agent, the payload, time, source and category of the request and an
  active schema of the category.\<close>

theorem accepted_event_recorded:
  assumes "run_state (handleCollect L agent r) w = (rs, w')" and "rs_status rs = 201"
    and "time_laws L" and "uuid_laws L" and req: "decode_struct L (collect_fields L) (rq_body r) = Some req"
    and valid: "validatePayload L (sch_json sc) (cq_payload req) = Inr None"
    and loc: "list_all (local_dest cfg) (destinations (routing_of L (sch_routing sc)))"
    and agent: "ga_id agent \<in> a_id ` set (agents (w_db v))"
    and world: "steady L (cq_category req) sc v" "has_active (w_db v) (cq_category req)"
      "fresh_events (N + 2 * (3 + 2 * stored_copies L sc)) v" "w_tick v \<le> N"
      "\<forall>n \<ge> N. w_fault v n = Done \<and> w_reply v n \<noteq> NoReply"
  shows "\<exists>v' rows. redeliver L cfg (snd (last (w_streams w'))) v = Some v' \<and> suffix rows (events (w_db v')) \<and>
    length rows = stored_copies L sc \<and> list_all (row_of_request agent req (w_db v')) rows"
proof -
  from collect_message [OF assms(1,2,3)] req obtain e
    where e: "message_envelope L (snd (last (w_streams w'))) = Some e" "en_agent e = l_uuid_string L (ga_id agent)"
      "en_category e = cq_category req" "en_source e = cq_source req" "en_timestamp e = cq_timestamp req"
      "en_payload e = cq_payload req" "cq_payload req \<noteq> None" by (metis option.inject)
  then obtain p where p: "en_payload e = Some p" by auto
  have known: "known_agent L (w_db v) e" using agent assms(4) by (simp add: known_agent_def e(2) uuid_laws_def)
  have "event_for L e d = row_of_request agent req d" for d 
    using assms(4) by (intro ext) (simp add: event_for_def row_of_request_def e uuid_laws_def)
  with redelivery_ends [OF e(1,3) p _ loc order_refl world(1) known world(2,3) _ world(5)] valid p world(4) e(6)
  show ?thesis by simp
qed

theorem accepted_event_recorded_witness:
  "\<exists>rs w' v'. run_state (handleCollect demo_libs demo_caller (demo_post [] ''collect'')) demo_gw_world = (rs, w') \<and>
     redeliver demo_libs demo_norm_config (snd (last (w_streams w'))) demo_outage_world = Some v' \<and>
     (\<exists>row \<in> set (events (w_db v')). row_of_request demo_caller demo_request (w_db v') row)"
proof -
  let ?r = "demo_post [] ''collect''"
  obtain rs w' where run: "run_state (handleCollect demo_libs demo_caller ?r) demo_gw_world = (rs, w')" by force
  have dec: "decode_struct demo_libs (collect_fields demo_libs) (rq_body ?r) = Some demo_request"
    by (simp add: demo_post_def demo_decode)
  have ok: "rs_status rs = 201" using demo_collected run by simp
  have q: "cq_category demo_request = ''orders''" "cq_payload demo_request = Some [(''k'', JStr ''v'')]"
    by (simp_all add: demo_request_def)
  have agent: "ga_id demo_caller \<in> a_id ` set (agents (w_db demo_outage_world))"
    by (simp add: demo_caller_def demo_outage_simps demo_norm_world_def demo_norm_db_def demo_db_def demo_agent_def)
  obtain v' rows where v': "redeliver demo_libs demo_norm_config (snd (last (w_streams w'))) demo_outage_world = Some v'"
    "suffix rows (events (w_db v'))" "length rows = 1" "list_all (row_of_request demo_caller demo_request (w_db v')) rows"
    using accepted_event_recorded [OF run ok demo_laws(2,1) dec _ demo_copies(2) agent, of 110] demo_valid demo_outage
    by (auto simp: q demo_copies(1))
  then have "hd rows \<in> set (events (w_db v'))" by (cases rows) (auto simp: suffix_def)
  moreover have "row_of_request demo_caller demo_request (w_db v') (hd rows)" using v'(3,4) by (cases rows) auto
  ultimately show ?thesis using run v'(1) by blast
qed

end
