(* ===== verification/Connect.thy ===== *)
theory Connect
  imports RegistryGit Config GatewayStore
begin

text \<open>
  What a service acquires when it starts: the tracer (\<open>internal/platform/telemetry.go\<close>), the connection pool
  (\<open>NewStore\<close> in the four \<open>store.go\<close>), the NATS connection with its stream (\<open>internal/coreapi/publisher.go\<close>,
  \<open>internal/registry/events.go\<close>, \<open>internal/webhook/server.go\<close>), the consumers of the normalizer
  (\<open>internal/normalizer/worker.go\<close>) and the schema repository (\<open>internal/registry/git.go\<close>).

  Each acquisition is an act of the process that the world lets succeed or fail; the log \<open>w_acts\<close> has those that
  succeeded, in order. An error is returned early, as in the code.
\<close>

datatype setup_error =
    ConfigError config_error
  | TelemetryError
  | ConnectPostgres
  | PingPostgres
  | MigrationsDir
  | MigrationError startup_error
  | SeedError db_error
  | ConnectNats
  | NoJetStream
  | NoStream string
  | NoConsumer string
  | NotSubscribed string
  | TempDirError
  | SshKeyUnreadable
  | SshKeyUnparsable
  | NoLocalRepo string
  | NotCloned
  | ServerError
  | ShutdownError

type_synonym 'a start = "(setup_error + 'a) io"

text \<open>\<open>if err != nil { return err }\<close>; one act with its error; and \<open>defer\<close>.\<close>

definition and_then :: "'a start \<Rightarrow> ('a \<Rightarrow> 'b start) \<Rightarrow> 'b start" where
  "and_then m k = do {
     x \<leftarrow> m;
     (case x of Inl e \<Rightarrow> ret (Inl e) | Inr a \<Rightarrow> k a)
   }"

lemma and_then_assoc: "and_then (and_then m f) g = and_then m (\<lambda>x. and_then (f x) g)"
  by (rule state.expand) (auto simp: and_then_def split_beta fun_eq_iff split: sum.split)

lemma and_then_bind: "and_then (State_Monad.bind m f) k = State_Monad.bind m (\<lambda>x. and_then (f x) k)"
  by (simp add: and_then_def)

lemma and_then_ret: "and_then (ret (Inr a)) k = k a"
  by (simp add: and_then_def)

definition attempt :: "process_act \<Rightarrow> setup_error \<Rightarrow> unit start" where
  "attempt a err = do {
     x \<leftarrow> perform a;
     ret (case x of Inl _ \<Rightarrow> Inl err | Inr _ \<Rightarrow> Inr ())
   }"

definition deferred :: "unit io \<Rightarrow> 'a io \<Rightarrow> 'a io" where
  "deferred cleanup body = do {
     x \<leftarrow> body;
     _ \<leftarrow> cleanup;
     ret x
   }"

text \<open>An act whose failure gives back what was acquired before.\<close>

definition attempt_or :: "process_act \<Rightarrow> setup_error \<Rightarrow> process_act \<Rightarrow> unit start" where
  "attempt_or a err undo = do {
     x \<leftarrow> perform a;
     (case x of Inl _ \<Rightarrow> do { _ \<leftarrow> logged undo; ret (Inl err) } | Inr _ \<Rightarrow> ret (Inr ()))
   }"

text \<open>What the host gives a process: the environment, directory listings, the name of a fresh temporary
  directory, and the root of the worktree of a repository (none for a bare one), which go-git finds.\<close>

record host =
  h_env :: env
  h_dir :: "string \<Rightarrow> dir_entry list option"
  h_temp :: string
  h_worktree :: "string \<Rightarrow> string option"

section \<open>Telemetry\<close>

text \<open>The result is the shutdown function.\<close>

definition SetupTelemetry :: "env \<Rightarrow> string \<Rightarrow> unit io start" where
  "SetupTelemetry env serviceName =
     (let endpoint = env ''OTEL_EXPORTER_OTLP_ENDPOINT'' in
      if endpoint = [] then ret (Inr (ret ()))
      else and_then (attempt (NewExporter endpoint) TelemetryError) (\<lambda>_.
        and_then (attempt (MergeResource serviceName) TelemetryError) (\<lambda>_. do {
          _ \<leftarrow> logged InstallTracer;
          ret (Inr (logged ShutdownTracer))
        })))"

section \<open>The connection pool\<close>

definition open_pool :: "string \<Rightarrow> unit start" where
  "open_pool dsn = and_then (attempt (OpenPool dsn) ConnectPostgres) (\<lambda>_. attempt_or PingPool PingPostgres ClosePool)"

definition gw_NewStore :: "string \<Rightarrow> unit start" where
  "gw_NewStore dsn = open_pool dsn"

definition reg_NewStore :: "string \<Rightarrow> unit start" where
  "reg_NewStore dsn = open_pool dsn"

definition nz_NewStore :: "string \<Rightarrow> unit start" where
  "nz_NewStore dsn = open_pool dsn"

definition wh_NewStore :: "string \<Rightarrow> unit start" where
  "wh_NewStore dsn = open_pool dsn"

definition Close :: "unit io" where
  "Close = logged ClosePool"

section \<open>NATS\<close>

definition connect_jetstream :: "string \<Rightarrow> string \<Rightarrow> unit start" where
  "connect_jetstream url client =
     and_then (attempt (DialNats url client) ConnectNats) (\<lambda>_. attempt_or NewJetStream NoJetStream CloseNats)"

definition NewNATSPublisher :: "string \<Rightarrow> unit start" where
  "NewNATSPublisher url =
     and_then (connect_jetstream url ''core-api-gateway'') (\<lambda>_.
       attempt_or (EnsureStream ''ingest'' [''events.>'']) (NoStream ''ingest'') CloseNats)"

definition NewNATSEventPublisher :: "string \<Rightarrow> unit start" where
  "NewNATSEventPublisher url =
     and_then (connect_jetstream url ''schema-registry'') (\<lambda>_.
       attempt_or (EnsureStream ''schema_events'' [''schema.>'']) (NoStream ''schema_events'') CloseNats)"

text \<open>\<open>Run\<close> until the consumers deliver, and from the cancelled context to its return.\<close>

definition start_consumers :: "string \<Rightarrow> unit start" where
  "start_consumers quarantineStream =
     and_then (attempt (EnsureStream quarantineStream [''quarantine.>'']) (NoStream quarantineStream)) (\<lambda>_.
     and_then (attempt (EnsureConsumer ''ingest'' ''normalizer'' ''events.ingest.>'') (NoConsumer ''normalizer'')) (\<lambda>_.
     and_then (attempt (EnsureConsumer ''schema_events'' ''normalizer-approvals'' ''schema.approved'')
         (NoConsumer ''normalizer-approvals'')) (\<lambda>_.
     and_then (attempt (Subscribe ''normalizer'') (NotSubscribed ''normalizer'')) (\<lambda>_.
       attempt (Subscribe ''normalizer-approvals'') (NotSubscribed ''normalizer-approvals'')))))"

definition stop_consumers :: "unit io" where
  "stop_consumers = do {
     _ \<leftarrow> logged (StopConsumer ''normalizer'');
     _ \<leftarrow> logged (StopConsumer ''normalizer-approvals'');
     logged DrainNats
   }"

section \<open>The schema repository\<close>

definition is_local :: "string \<Rightarrow> bool" where
  "is_local url \<longleftrightarrow> \<not> has_sub ''://'' url \<and> \<not> has_prefix url ''git@''"

definition opened :: "host \<Rightarrow> string \<Rightarrow> bool \<Rightarrow> go_git" where
  "opened h dir remote =
     (case h_worktree h dir of
        None \<Rightarrow> \<lparr>gg_root = [], gg_bare = True, gg_remote = remote\<rparr>
      | Some tree \<Rightarrow> \<lparr>gg_root = tree, gg_bare = False, gg_remote = remote\<rparr>)"

definition NewGoGit :: "host \<Rightarrow> string \<Rightarrow> string \<Rightarrow> string \<Rightarrow> go_git start" where
  "NewGoGit h repoURL sshKeyPath dir =
     and_then
       (if dir = [] then and_then (attempt MakeTempDir TempDirError) (\<lambda>_. ret (Inr (h_temp h))) else ret (Inr dir))
       (\<lambda>workDir.
     and_then
       (if sshKeyPath \<noteq> [] \<and> has_prefix repoURL ''git@''
        then and_then (attempt (LoadKey sshKeyPath) SshKeyUnreadable) (\<lambda>_. attempt ParseKey SshKeyUnparsable)
        else ret (Inr ()))
       (\<lambda>_.
     if is_local repoURL
     then and_then (attempt (OpenRepo repoURL) (NoLocalRepo repoURL)) (\<lambda>_. ret (Inr (opened h repoURL False)))
     else and_then (attempt (CloneRepo repoURL workDir) NotCloned) (\<lambda>_. ret (Inr (opened h workDir True)))))"

definition NewGitCommitter :: "host \<Rightarrow> rg_config_env \<Rightarrow> git_committer start" where
  "NewGitCommitter h cfg =
     (if rgc_git_url cfg = [] then ret (Inr NoopGit)
      else and_then (NewGoGit h (rgc_git_url cfg) (rgc_git_key cfg) (rgc_git_dir cfg)) (\<lambda>g. ret (Inr (GoGit g))))"

end
