(* ===== verification/Startup.thy ===== *)
theory Startup
  imports Connect GatewayApi RegistryApi NormApi Webhook
begin

text \<open>
  The four processes, from \<open>run\<close> of \<open>cmd/core-api-gateway/main.go\<close>, \<open>cmd/schema-registry/main.go\<close>,
  \<open>cmd/normalizer-router/main.go\<close> and \<open>cmd/webhook-adapter/main.go\<close>: configuration, telemetry, pool, the service's own
  preparations, NATS, then requests until the process is told to stop.

  The requests a process serves and how it is stopped are arguments. A process starts with its memory empty. The
  normalizer listens for HTTP while its worker is still subscribing (\<open>early\<close> requests); after a signal the
  worker stops its consumers beside the shutdown of the HTTP server, which nothing waits for (\<open>drained\<close>: it
  came so far).
\<close>

text \<open>Why serving ends: a signal, \<open>ErrServerClosed\<close>, or any other error of the server.\<close>

datatype stop = BySignal | ByServerClosed | ByServerError

definition listen_and_serve :: "int \<Rightarrow> 'a io \<Rightarrow> stop \<Rightarrow> unit start" where
  "listen_and_serve port serving stop =
     and_then (attempt (Listen port) ServerError) (\<lambda>_. do {
       _ \<leftarrow> serving;
       if stop = ByServerError then ret (Inl ServerError) else attempt ShutdownHttp ShutdownError
     })"

definition NewTokenAuth :: "bytes \<Rightarrow> bytes \<Rightarrow> string \<Rightarrow> token_auth" where
  "NewTokenAuth hecSalt jwtSecret devAdminToken =
     \<lparr>ta_hec_salt = hecSalt, ta_jwt_secret = jwtSecret, ta_dev_admin_token = devAdminToken\<rparr>"

section \<open>The gateway\<close>

definition gw_migrate :: "(bytes \<Rightarrow> unit stmt) \<Rightarrow> host \<Rightarrow> gw_config \<Rightarrow> unit start" where
  "gw_migrate script h cfg =
     (if \<not> gc_migrate cfg then ret (Inr ())
      else (case h_dir h (envOr (h_env h) ''MIGRATIONS_DIR'' ''migrations'') of
          None \<Rightarrow> ret (Inl MigrationsDir)
        | Some entries \<Rightarrow> do {
            x \<leftarrow> run_migrations script entries;
            ret (case x of Inl e \<Rightarrow> Inl (MigrationError e) | Inr _ \<Rightarrow> Inr ())
          }))"

definition gw_run ::
  "libs \<Rightarrow> (bytes \<Rightarrow> unit stmt) \<Rightarrow> bytes \<Rightarrow> host \<Rightarrow> (gw_route \<times> request) list \<Rightarrow> stop \<Rightarrow> unit start" where
  "gw_run L script openapi h qs stop =
     (case gw_LoadConfig L (h_env h) of
        Inl e \<Rightarrow> ret (Inl (ConfigError e))
      | Inr cfg \<Rightarrow>
          and_then (SetupTelemetry (h_env h) ''core_api_gateway'') (\<lambda>telemetryShutdown.
          deferred telemetryShutdown (
          and_then (gw_NewStore (gc_dsn cfg)) (\<lambda>_.
          deferred Close (
          and_then (gw_migrate script h cfg) (\<lambda>_.
          and_then (NewNATSPublisher (gc_nats cfg)) (\<lambda>_. do {
            _ \<leftarrow> remember (\<lambda>m. m\<lparr>m_buckets := (\<lambda>_. None), m_metrics := newMetrics\<rparr>);
            listen_and_serve (gc_port cfg) (gw_serve L (NewServer cfg openapi) qs) stop
          })))))))"

section \<open>The registry\<close>

definition reg_NewServer :: "git_committer \<Rightarrow> token_auth \<Rightarrow> reg_server" where
  "reg_NewServer g auth = \<lparr>rg_git = g, rg_auth = auth\<rparr>"

definition reg_run :: "libs \<Rightarrow> host \<Rightarrow> (reg_route \<times> request) list \<Rightarrow> stop \<Rightarrow> unit start" where
  "reg_run L h qs stop =
     (case rg_LoadConfig (h_env h) of
        Inl e \<Rightarrow> ret (Inl (ConfigError e))
      | Inr cfg \<Rightarrow>
          and_then (SetupTelemetry (h_env h) ''schema_registry_service'') (\<lambda>telemetryShutdown.
          deferred telemetryShutdown (
          and_then (reg_NewStore (rgc_dsn cfg)) (\<lambda>_.
          deferred Close (
          and_then (NewGitCommitter h cfg) (\<lambda>gitBackend.
          and_then (NewNATSEventPublisher (rgc_nats cfg)) (\<lambda>_.
            (let auth = NewTokenAuth (rgc_salt cfg) (rgc_jwt_secret cfg) (rgc_dev_token cfg);
                 srv = reg_NewServer gitBackend auth in
             listen_and_serve (rgc_port cfg) (reg_serve L srv qs) stop))))))))"

section \<open>The normalizer\<close>

definition NewRegistryClient :: "string \<Rightarrow> string \<Rightarrow> registry_client io" where
  "NewRegistryClient baseURL token = do {
     _ \<leftarrow> remember (\<lambda>m. m\<lparr>m_cache := (\<lambda>_. None)\<rparr>);
     ret \<lparr>rc_url = baseURL, rc_token = token\<rparr>
   }"

definition NewWorker :: "nz_config_env \<Rightarrow> registry_client \<Rightarrow> string \<Rightarrow> norm_config start" where
  "NewWorker cfg registry natsURL =
     and_then (connect_jetstream natsURL ''normalizer-router'') (\<lambda>_. do {
       t \<leftarrow> now;
       _ \<leftarrow> remember (\<lambda>m. m\<lparr>m_counts := \<lparr>ct_processed = 0, ct_routed = 0, ct_failed = 0, ct_quarantined = 0,
                 ct_replayed = 0, ct_started = t\<rparr>\<rparr>);
       ret (Inr \<lparr>nc_registry = registry, nc_loki = nzc_loki cfg\<rparr>)
     })"

definition nz_NewServer :: "norm_config \<Rightarrow> token_auth \<Rightarrow> norm_server io" where
  "nz_NewServer worker auth = do {
     _ \<leftarrow> remember (\<lambda>m. m\<lparr>m_norm_metrics := newNormalizerMetrics\<rparr>);
     ret \<lparr>nz_config = worker, nz_auth = auth\<rparr>
   }"

definition nz_listen_and_serve ::
  "libs \<Rightarrow> nz_config_env \<Rightarrow> norm_server \<Rightarrow> (norm_route \<times> request) list \<Rightarrow> norm_input list \<Rightarrow> stop \<Rightarrow> bool \<Rightarrow> unit start" where
  "nz_listen_and_serve L cfg srv early inputs stop drained =
     and_then (attempt (Listen (nzc_port cfg)) ServerError) (\<lambda>_. do {
       _ \<leftarrow> norm_serve L srv (map (\<lambda>(rt, r). NormHttp rt r) early);
       and_then (start_consumers (nzc_stream cfg)) (\<lambda>_. do {
         _ \<leftarrow> norm_serve L srv inputs;
         if stop = ByServerError then ret (Inl ServerError)
         else do {
           _ \<leftarrow> (if stop = BySignal \<and> drained then stop_consumers else ret ());
           attempt ShutdownHttp ShutdownError
         }
       })
     })"

definition nz_run ::
  "libs \<Rightarrow> host \<Rightarrow> (norm_route \<times> request) list \<Rightarrow> norm_input list \<Rightarrow> stop \<Rightarrow> bool \<Rightarrow> unit start" where
  "nz_run L h early inputs stop drained =
     (case nz_LoadConfig (h_env h) of
        Inl e \<Rightarrow> ret (Inl (ConfigError e))
      | Inr cfg \<Rightarrow>
          and_then (SetupTelemetry (h_env h) ''normalizer_router'') (\<lambda>telemetryShutdown.
          deferred telemetryShutdown (
          and_then (nz_NewStore (nzc_dsn cfg)) (\<lambda>_.
          deferred Close (do {
            registry \<leftarrow> NewRegistryClient (nzc_registry cfg) (nzc_registry_token cfg);
            and_then (NewWorker cfg registry (nzc_nats cfg)) (\<lambda>worker.
              (let auth = NewTokenAuth (nzc_salt cfg) (nzc_jwt_secret cfg) (nzc_dev_token cfg) in do {
                 srv \<leftarrow> nz_NewServer worker auth;
                 nz_listen_and_serve L cfg srv early inputs stop drained
               }))
          })))))"

section \<open>The webhook adapter\<close>

definition wh_NewServer :: "wh_config \<Rightarrow> token_auth \<Rightarrow> wh_server start" where
  "wh_NewServer cfg auth =
     and_then (connect_jetstream (wc_nats cfg) ''webhook-adapter'') (\<lambda>_.
     and_then (attempt_or (EnsureStream ''webhooks'' [''webhooks.>'']) (NoStream ''webhooks'') CloseNats) (\<lambda>_. do {
       _ \<leftarrow> remember (\<lambda>m. m\<lparr>m_hook_metrics := newWebhookMetrics\<rparr>);
       ret (Inr \<lparr>wh_cfg = cfg, wh_auth = auth\<rparr>)
     }))"

definition tool_secrets :: "wh_config \<Rightarrow> (string \<times> bytes) list" where
  "tool_secrets cfg =
     [(''github'', wc_github cfg), (''jira'', wc_jira cfg), (''pagerduty'', wc_pagerduty cfg),
      (''marble-jar'', wc_marble_jar cfg)]"

text \<open>\<open>ord\<close> is the order in which Go happens to iterate over the map of secrets.\<close>

definition wh_run ::
  "libs \<Rightarrow> ((string \<times> bytes) list \<Rightarrow> (string \<times> bytes) list) \<Rightarrow> host \<Rightarrow> (wh_route \<times> request) list \<Rightarrow> stop \<Rightarrow> unit start" where
  "wh_run L ord h qs stop =
     (case wh_LoadConfig (h_env h) of
        Inl e \<Rightarrow> ret (Inl (ConfigError e))
      | Inr cfg \<Rightarrow>
          and_then (SetupTelemetry (h_env h) ''webhook_adapter_service'') (\<lambda>telemetryShutdown.
          deferred telemetryShutdown (
          and_then (wh_NewStore (wc_dsn cfg)) (\<lambda>_.
          deferred Close (do {
            seeded \<leftarrow> SeedSources L (ord (tool_secrets cfg));
            (case seeded of
               Inl e \<Rightarrow> ret (Inl (SeedError e))
             | Inr _ \<Rightarrow>
                 (let auth = NewTokenAuth (wc_salt cfg) (wc_jwt_secret cfg) (wc_dev_token cfg) in
                  and_then (wh_NewServer cfg auth) (\<lambda>srv.
                    listen_and_serve (wc_port cfg) (wh_serve L srv qs) stop)))
          })))))"

end
