(* ===== verification/StartupLaws.thy ===== *)
theory StartupLaws
  imports Startup
begin

text \<open>
  What a process does to its surroundings. \<open>emits m Q\<close>: run in any world, \<open>m\<close> appends acts \<open>as\<close> to the log and
  returns \<open>x\<close> with \<open>Q x as\<close>; its rules follow the combinators of \<open>Connect\<close>. Serving requests is silent.

  The abstract specification of a process is a plan: its acts in order, each with what the process owes back
  when it ends right after that act. \<open>outcomes\<close> lists what a run may then leave in the log.
\<close>

section \<open>Silent programs\<close>

definition quiet :: "world \<Rightarrow> world \<Rightarrow> bool" where
  "quiet w w' \<longleftrightarrow> w_acts w' = w_acts w"

interpretation qt: run_relation quiet
  by unfold_locales (auto simp: quiet_def)

lemma quiet_effects:
  "obeys quiet (sql f)" "obeys quiet tx_begin" "obeys quiet (tx_sql g d)" "obeys quiet (tx_commit d)"
  "obeys quiet (publish s p)" "obeys quiet (git_call a)" "obeys quiet (http_call s p)" "obeys quiet now"
  "obeys quiet new_uuid" "obeys quiet (random_bytes n)" "obeys quiet (remember m)"
  by (auto intro!: obeysI split: prod.splits outcome.splits
      simp: sql_def tx_begin_def tx_sql_def tx_commit_def publish_def git_call_def http_call_def now_def
        new_uuid_def random_bytes_def quiet_def Let_def remember_def)

lemmas quiet_intros = qt.obeys_control quiet_effects

interpretation gquiet: gateway_relation quiet
  by unfold_locales (rule quiet_effects)+

interpretation wquiet: service_relation quiet
  by unfold_locales (rule quiet_effects)+

interpretation aquiet: adapter_relation quiet
  by unfold_locales (rule quiet_effects)+

lemma quiet_git_calls: "obeys quiet (git_calls as)"
  by (induction as) (auto intro!: quiet_intros)

lemma quiet_CommitSchema: "obeys quiet (CommitSchema L g n v raw routing msg)"
proof -
  have "obeys quiet (commit_hash L)" by (simp add: obeys_def commit_hash_def quiet_def)
  then show ?thesis
    unfolding CommitSchema_def GoGit_CommitSchema_def Let_def
    by (cases g; cases "safeCategory n") (auto intro!: quiet_intros quiet_git_calls)
qed

lemma quiet_CreateSchemaVersion: "obeys quiet (CreateSchemaVersion n body routing by sha)"
  unfolding CreateSchemaVersion_def by (intro quiet_intros)

interpretation rquiet: registry_relation quiet
  by unfold_locales (rule quiet_effects quiet_CommitSchema quiet_CreateSchemaVersion)+

lemma quiet_SeedSources: "obeys quiet (SeedSources L ss)"
  by (induction L ss rule: SeedSources.induct) (auto intro!: quiet_intros)

lemma quiet_Migrate: "obeys quiet (Migrate name script)"
  unfolding Migrate_def by (intro quiet_intros)

lemma quiet_run_migrations: "obeys quiet (run_migrations run fs)"
  by (induction fs) (auto split: option.split intro!: quiet_intros quiet_Migrate)

lemma quiet_gw_migrate: "obeys quiet (gw_migrate script h cfg)"
  unfolding gw_migrate_def by (intro quiet_intros quiet_run_migrations)

lemma quiet_NewRegistryClient: "obeys quiet (NewRegistryClient url token)"
  unfolding NewRegistryClient_def by (intro quiet_intros)

section \<open>What a program emits\<close>

definition emits :: "'a io \<Rightarrow> ('a \<Rightarrow> process_act list \<Rightarrow> bool) \<Rightarrow> bool" where
  "emits m Q \<longleftrightarrow> (\<forall>w. \<exists>as. w_acts (snd (run_state m w)) = w_acts w @ as \<and> Q (fst (run_state m w)) as)"

lemma emits_run:
  assumes "emits m Q" and "run_state m w = (x, w')"
  obtains as where "w_acts w' = w_acts w @ as" "Q x as"
  using assms unfolding emits_def by (metis fst_conv snd_conv)

lemma emits_mono: "emits m P \<Longrightarrow> (\<And>x as. P x as \<Longrightarrow> Q x as) \<Longrightarrow> emits m Q"
  unfolding emits_def by metis

lemma emits_ret: "Q x [] \<Longrightarrow> emits (ret x) Q"
  by (simp add: emits_def)

lemma emits_quiet: "obeys quiet m \<Longrightarrow> (\<And>x. Q x []) \<Longrightarrow> emits m Q"
  by (simp add: emits_def obeys_def quiet_def)

lemma emits_logged: "Q () [a] \<Longrightarrow> emits (logged a) Q"
  by (simp add: emits_def logged_def)

lemma emits_perform: "Q (Inr ()) [a] \<Longrightarrow> Q (Inl Unavailable) [] \<Longrightarrow> emits (perform a) Q"
  by (simp add: emits_def perform_def split: outcome.split)

lemma emits_bind: "emits m (\<lambda>x as. emits (k x) (\<lambda>y bs. Q y (as @ bs))) \<Longrightarrow> emits (State_Monad.bind m k) Q"
  unfolding emits_def by (auto simp: split_beta) (metis append.assoc)

lemma emits_if: "(b \<Longrightarrow> emits m Q) \<Longrightarrow> (\<not> b \<Longrightarrow> emits n Q) \<Longrightarrow> emits (if b then m else n) Q"
  by simp

lemma emits_attempt: "Q (Inr ()) [a] \<Longrightarrow> Q (Inl err) [] \<Longrightarrow> emits (attempt a err) Q"
  unfolding attempt_def by (intro emits_bind emits_perform emits_ret) simp_all

lemma emits_attempt_or: "Q (Inr ()) [a] \<Longrightarrow> Q (Inl err) [undo] \<Longrightarrow> emits (attempt_or a err undo) Q"
  unfolding attempt_or_def
  by (intro emits_bind emits_perform) (simp_all, (intro emits_ret emits_bind emits_logged, simp)+)

lemma emits_and_then:
  "emits m (\<lambda>x as. case x of Inl e \<Rightarrow> Q (Inl e) as | Inr a \<Rightarrow> emits (k a) (\<lambda>y bs. Q y (as @ bs))) \<Longrightarrow>
   emits (and_then m k) Q"
  unfolding and_then_def
  by (rule emits_bind, erule emits_mono) (auto split: sum.splits intro: emits_ret)

lemma emits_quiet_bind: "obeys quiet m \<Longrightarrow> (\<And>x. emits (k x) Q) \<Longrightarrow> emits (State_Monad.bind m k) Q"
  by (rule emits_bind, erule emits_quiet) simp

lemma emits_quiet_then:
  "obeys quiet m \<Longrightarrow> (\<And>e. Q (Inl e) []) \<Longrightarrow> (\<And>a. emits (k a) Q) \<Longrightarrow> emits (and_then m k) Q"
  by (rule emits_and_then, erule emits_quiet) (simp split: sum.split)

lemma emits_deferred:
  "emits body (\<lambda>x as. emits cleanup (\<lambda>_ bs. Q x (as @ bs))) \<Longrightarrow> emits (deferred cleanup body) Q"
  unfolding deferred_def emits_def by (auto simp: split_beta) (metis append.assoc)

section \<open>The parts of a start\<close>

lemmas emits_simps = emits_ret emits_attempt emits_attempt_or emits_logged

lemma emits_open_pool:
  "Q (Inl ConnectPostgres) [] \<Longrightarrow> Q (Inl PingPostgres) [OpenPool dsn, ClosePool] \<Longrightarrow>
   Q (Inr ()) [OpenPool dsn, PingPool] \<Longrightarrow> emits (open_pool dsn) Q"
  unfolding open_pool_def by (intro emits_and_then emits_attempt) (simp_all add: emits_simps)

lemma emits_connect:
  "Q (Inl ConnectNats) [] \<Longrightarrow> Q (Inl NoJetStream) [DialNats url c, CloseNats] \<Longrightarrow>
   Q (Inr ()) [DialNats url c, NewJetStream] \<Longrightarrow> emits (connect_jetstream url c) Q"
  unfolding connect_jetstream_def by (intro emits_and_then emits_attempt) (simp_all add: emits_simps)

text \<open>Dialling and ensuring one stream, the connection given back when either fails.\<close>

lemma emits_stream:
  assumes "Q (Inl ConnectNats) []" and "Q (Inl NoJetStream) [DialNats url c, CloseNats]"
    and "Q (Inl (NoStream n)) [DialNats url c, NewJetStream, CloseNats]"
    and "Q (Inr ()) [DialNats url c, NewJetStream, EnsureStream n sj]"
  shows "emits (and_then (connect_jetstream url c) (\<lambda>_. attempt_or (EnsureStream n sj) (NoStream n) CloseNats)) Q"
  using assms by (intro emits_and_then emits_connect) (simp_all add: emits_simps)

lemma emits_listen:
  "obeys quiet serving \<Longrightarrow> Q (Inl ServerError) [] \<Longrightarrow> Q (Inl ServerError) [Listen port] \<Longrightarrow>
   Q (Inl ShutdownError) [Listen port] \<Longrightarrow> Q (Inr ()) [Listen port, ShutdownHttp] \<Longrightarrow>
   emits (listen_and_serve port serving stop) Q"
  unfolding listen_and_serve_def
  by (intro emits_and_then emits_attempt) (auto intro!: emits_bind emits_quiet [of serving] emits_ret emits_attempt)

section \<open>Plans\<close>

type_synonym plan = "(process_act \<times> process_act list) list"

fun follows :: "process_act list \<Rightarrow> plan \<Rightarrow> bool \<Rightarrow> process_act list \<Rightarrow> bool" where
  "follows owed [] ok as \<longleftrightarrow> ok \<and> as = owed"
| "follows owed ((a, d) # ps) ok as \<longleftrightarrow>
     (\<not> ok \<and> as = owed) \<or> (case as of [] \<Rightarrow> False | b # bs \<Rightarrow> b = a \<and> follows d ps ok bs)"

text \<open>Everything a plan owes is also owed to what surrounds it.\<close>

definition owing :: "process_act list \<Rightarrow> plan \<Rightarrow> plan" where
  "owing t ps = map (\<lambda>(a, d). (a, d @ t)) ps"

lemma owing_simps [simp]: "owing t [] = []" "owing t ((a, d) # ps) = (a, d @ t) # owing t ps"
  by (simp_all add: owing_def)

lemma follows_owing: "follows owed ps ok as \<Longrightarrow> follows (owed @ t) (owing t ps) ok (as @ t)"
  by (induction owed ps ok as rule: follows.induct) (auto split: list.splits)

lemma follows_append:
  "follows owed ps True as \<Longrightarrow> follows [] qs ok bs \<Longrightarrow> (ps \<noteq> [] \<Longrightarrow> snd (last ps) = []) \<Longrightarrow> (ps = [] \<Longrightarrow> owed = []) \<Longrightarrow>
   follows owed (ps @ qs) ok (as @ bs)"
  by (induction owed ps True as rule: follows.induct) (auto split: list.splits if_splits)

text \<open>What a plan says of the log: it is a prefix of the acts, then what is owed after its last act.\<close>

lemma follows_prefix:
  "follows owed ps ok as \<Longrightarrow> \<exists>n \<le> length ps. as = map fst (take n ps) @ (if n = 0 then owed else snd (ps ! (n - 1))) \<and>
     (ok \<longrightarrow> n = length ps)"
proof (induction owed ps ok as rule: follows.induct)
  case (2 owed a d ps ok as)
  show ?case
  proof (cases "\<not> ok \<and> as = owed")
    case True
    then show ?thesis by (intro exI [of _ 0]) simp
  next
    case False
    then obtain bs where as: "as = a # bs" and f: "follows d ps ok bs"
      using 2(2) by (auto split: list.splits)
    from "2.IH" [OF as f [unfolded as]] f as
    obtain n where "n \<le> length ps" "bs = map fst (take n ps) @ (if n = 0 then d else snd (ps ! (n - 1)))" "ok \<longrightarrow> n = length ps"
      by (auto simp: as)
    then show ?thesis using as by (intro exI [of _ "Suc n"]) (auto simp: nth_Cons split: nat.split)
  qed
qed auto

abbreviation does :: "plan \<Rightarrow> unit start \<Rightarrow> bool" where
  "does ps m \<equiv> emits m (\<lambda>x as. follows [] ps (x = Inr ()) as)"

lemma follows_failed: "follows owed ps False as \<Longrightarrow> follows owed (ps @ qs) False as"
  by (induction owed ps False as rule: follows.induct) (auto split: list.splits)

lemma does_seq:
  fixes m :: "'a start"
  assumes m: "emits m (\<lambda>x as. follows [] ps (\<not> isl x) as)" and k: "\<And>x. does qs (k x)"
    and free: "list_all (\<lambda>p. snd p = []) ps"
  shows "does (ps @ qs) (and_then m k)"
proof (rule emits_and_then, rule emits_mono [OF m])
  fix x :: "setup_error + 'a" and as
  assume f: "follows [] ps (\<not> isl x) as"
  have "snd (last ps) = []" if "ps \<noteq> []" using free that by (simp add: list_all_iff)
  then have "emits (k a) (\<lambda>y bs. follows [] (ps @ qs) (y = Inr ()) (as @ bs))" if "x = Inr a" for a
    using f that by (intro emits_mono [OF k]) (simp add: follows_append)
  then show "case x of Inl e \<Rightarrow> follows [] (ps @ qs) (Inl e = Inr ()) as
    | Inr a \<Rightarrow> emits (k a) (\<lambda>y bs. follows [] (ps @ qs) (y = Inr ()) (as @ bs))"
    using f by (cases x) (simp_all add: follows_failed)
qed

lemma does_deferred:
  "does ps body \<Longrightarrow> emits (deferred (logged a) body) (\<lambda>x as. follows [a] (owing [a] ps) (x = Inr ()) as)"
  by (rule emits_deferred, erule emits_mono)
    (auto intro!: emits_logged dest: follows_owing [where t = "[a]"])

text \<open>The two outer layers of every process: tracing when an endpoint is configured, then the pool.\<close>

definition traced :: "env \<Rightarrow> string \<Rightarrow> plan \<Rightarrow> plan" where
  "traced env name ps =
     (if env ''OTEL_EXPORTER_OTLP_ENDPOINT'' = [] then ps
      else [(NewExporter (env ''OTEL_EXPORTER_OTLP_ENDPOINT''), []), (MergeResource name, []),
        (InstallTracer, [ShutdownTracer])] @ owing [ShutdownTracer] ps)"

definition pooled :: "string \<Rightarrow> plan \<Rightarrow> plan" where
  "pooled dsn ps = [(OpenPool dsn, [ClosePool]), (PingPool, [ClosePool])] @ owing [ClosePool] ps"

lemma does_traced:
  assumes "does ps body"
  shows "does (traced env name ps) (and_then (SetupTelemetry env name) (\<lambda>shutdown. deferred shutdown body))"
proof (cases "env ''OTEL_EXPORTER_OTLP_ENDPOINT'' = []")
  case True
  have "emits (deferred (ret ()) body) (\<lambda>x as. follows [] ps (x = Inr ()) as)"
    by (rule emits_deferred, rule emits_mono [OF assms]) (auto intro: emits_ret)
  then show ?thesis
    using True by (auto simp: SetupTelemetry_def traced_def Let_def intro!: emits_and_then emits_ret)
next
  case False
  then show ?thesis
    using does_deferred [OF assms, of ShutdownTracer]
    by (auto simp: SetupTelemetry_def traced_def intro!: emits_and_then emits_attempt emits_bind emits_logged emits_ret)
qed

lemma does_pooled:
  assumes "does ps body"
  shows "does (pooled dsn ps) (and_then (open_pool dsn) (\<lambda>_. deferred Close body))"
  using does_deferred [OF assms, of ClosePool] unfolding Close_def
  by (intro emits_and_then emits_open_pool) (simp_all add: pooled_def)

text \<open>A NATS connection with its stream, and serving HTTP.\<close>

definition streamed :: "string \<Rightarrow> string \<Rightarrow> string \<Rightarrow> string list \<Rightarrow> plan" where
  "streamed url client stream subjects =
     [(DialNats url client, [CloseNats]), (NewJetStream, [CloseNats]), (EnsureStream stream subjects, [])]"

definition served :: "int \<Rightarrow> plan" where
  "served port = [(Listen port, []), (ShutdownHttp, [])]"

lemma does_served: "obeys quiet serving \<Longrightarrow> does (served port) (listen_and_serve port serving stop)"
  by (rule emits_listen) (simp_all add: served_def)

lemma does_streamed:
  assumes "does ps (k ())"
  shows "does (streamed url c n sj @ ps)
    (and_then (and_then (connect_jetstream url c) (\<lambda>_. attempt_or (EnsureStream n sj) (NoStream n) CloseNats)) k)"
  using assms by (intro emits_and_then [of "and_then _ _"] emits_stream) (simp_all add: streamed_def)

section \<open>The plans of the four processes\<close>

definition gw_plan :: "env \<Rightarrow> gw_config \<Rightarrow> plan" where
  "gw_plan env cfg = traced env ''core_api_gateway'' (pooled (gc_dsn cfg)
     (streamed (gc_nats cfg) ''core-api-gateway'' ''ingest'' [''events.>''] @ served (gc_port cfg)))"

definition repo_plan :: "host \<Rightarrow> rg_config_env \<Rightarrow> plan" where
  "repo_plan h cfg =
     (let url = rgc_git_url cfg; dir = rgc_git_dir cfg; key = rgc_git_key cfg in
      map (\<lambda>a. (a, [])) (if url = [] then [] else
        (if dir = [] then [MakeTempDir] else []) @
        (if key \<noteq> [] \<and> has_prefix url ''git@'' then [LoadKey key, ParseKey] else []) @
        [if is_local url then OpenRepo url else CloneRepo url (if dir = [] then h_temp h else dir)]))"

definition reg_plan :: "host \<Rightarrow> rg_config_env \<Rightarrow> plan" where
  "reg_plan h cfg = traced (h_env h) ''schema_registry_service'' (pooled (rgc_dsn cfg)
     (repo_plan h cfg @ streamed (rgc_nats cfg) ''schema-registry'' ''schema_events'' [''schema.>''] @
      served (rgc_port cfg)))"

definition wh_plan :: "env \<Rightarrow> wh_config \<Rightarrow> plan" where
  "wh_plan env cfg = traced env ''webhook_adapter_service'' (pooled (wc_dsn cfg)
     (streamed (wc_nats cfg) ''webhook-adapter'' ''webhooks'' [''webhooks.>''] @ served (wc_port cfg)))"

lemma emits_repo:
  "rgc_git_url cfg \<noteq> [] \<Longrightarrow> emits (NewGoGit h (rgc_git_url cfg) (rgc_git_key cfg) (rgc_git_dir cfg))
    (\<lambda>x as. follows [] (repo_plan h cfg) (\<not> isl x) as)"
  unfolding NewGoGit_def repo_plan_def Let_def
  by (intro emits_and_then emits_if emits_ret emits_attempt)
    (auto intro!: emits_and_then emits_attempt emits_ret)

lemma does_gw_run: "gw_LoadConfig L (h_env h) = Inr cfg \<Longrightarrow> does (gw_plan (h_env h) cfg) (gw_run L script openapi h qs stop)"
proof -
  assume cfg: "gw_LoadConfig L (h_env h) = Inr cfg"
  let ?last = "do {
      _ \<leftarrow> remember (\<lambda>m. m\<lparr>m_buckets := (\<lambda>_. None), m_metrics := newMetrics\<rparr>);
      listen_and_serve (gc_port cfg) (gw_serve L (NewServer cfg openapi) qs) stop
    }"
  have last: "does (served (gc_port cfg)) ?last"
    by (intro emits_quiet_bind quiet_effects does_served gquiet.gw_serve)
  have "does (streamed (gc_nats cfg) ''core-api-gateway'' ''ingest'' [''events.>''] @ served (gc_port cfg))
    (and_then (gw_migrate script h cfg) (\<lambda>_. and_then (NewNATSPublisher (gc_nats cfg)) (\<lambda>_. ?last)))"
    unfolding NewNATSPublisher_def
    by (intro emits_quiet_then quiet_gw_migrate does_streamed last) (simp add: streamed_def)
  then show ?thesis
    unfolding gw_run_def gw_plan_def cfg gw_NewStore_def sum.case by (intro does_traced does_pooled)
qed

lemma does_reg_run: "rg_LoadConfig (h_env h) = Inr cfg \<Longrightarrow> does (reg_plan h cfg) (reg_run L h qs stop)"
proof -
  assume cfg: "rg_LoadConfig (h_env h) = Inr cfg"
  have free: "list_all (\<lambda>p. snd p = []) (repo_plan h cfg)"
    by (simp add: repo_plan_def Let_def list_all_iff)
  have repo: "emits (NewGitCommitter h cfg) (\<lambda>x as. follows [] (repo_plan h cfg) (\<not> isl x) as)"
  proof (cases "rgc_git_url cfg = []")
    case True
    then show ?thesis by (simp add: NewGitCommitter_def repo_plan_def emits_ret)
  next
    case False
    then show ?thesis
      by (auto simp: NewGitCommitter_def intro!: emits_and_then emits_mono [OF emits_repo] emits_ret split: sum.split)
  qed
  show ?thesis
    unfolding reg_run_def reg_plan_def cfg reg_NewStore_def sum.case NewNATSEventPublisher_def Let_def
    by (intro does_traced does_pooled does_seq [OF repo _ free] does_streamed does_served rquiet.reg_serve)
qed

lemma does_wh_run: "wh_LoadConfig (h_env h) = Inr cfg \<Longrightarrow> does (wh_plan (h_env h) cfg) (wh_run L ord h qs stop)"
proof -
  assume cfg: "wh_LoadConfig (h_env h) = Inr cfg"
  let ?auth = "NewTokenAuth (wc_salt cfg) (wc_jwt_secret cfg) (wc_dev_token cfg)"
  let ?serve = "\<lambda>srv. listen_and_serve (wc_port cfg) (wh_serve L srv qs) stop"
  let ?ps = "streamed (wc_nats cfg) ''webhook-adapter'' ''webhooks'' [''webhooks.>''] @ served (wc_port cfg)"
  have "does ?ps (and_then (wh_NewServer cfg ?auth) ?serve)"
    unfolding wh_NewServer_def and_then_assoc and_then_bind and_then_ret
    by (intro does_streamed [unfolded and_then_assoc] emits_quiet_bind quiet_effects does_served aquiet.wh_serve)
  then have "does ?ps (do {
      seeded \<leftarrow> SeedSources L (ord (tool_secrets cfg));
      (case seeded of Inl e \<Rightarrow> ret (Inl (SeedError e)) | Inr _ \<Rightarrow> and_then (wh_NewServer cfg ?auth) ?serve)
    })"
    by (intro emits_quiet_bind quiet_SeedSources) (auto split: sum.split intro!: emits_ret simp: streamed_def)
  then show ?thesis
    unfolding wh_run_def wh_plan_def cfg wh_NewStore_def sum.case Let_def by (intro does_traced does_pooled)
qed

text \<open>The worker's part of the normalizer's plan.\<close>

definition worker_plan :: "nz_config_env \<Rightarrow> bool \<Rightarrow> plan" where
  "worker_plan cfg stops = map (\<lambda>a. (a, []))
     ([Listen (nzc_port cfg), EnsureStream (nzc_stream cfg) [''quarantine.>''],
       EnsureConsumer ''ingest'' ''normalizer'' ''events.ingest.>'',
       EnsureConsumer ''schema_events'' ''normalizer-approvals'' ''schema.approved'',
       Subscribe ''normalizer'', Subscribe ''normalizer-approvals''] @
      (if stops then [StopConsumer ''normalizer'', StopConsumer ''normalizer-approvals'', DrainNats] else []) @
      [ShutdownHttp])"

definition nz_plan :: "env \<Rightarrow> nz_config_env \<Rightarrow> bool \<Rightarrow> plan" where
  "nz_plan env cfg stops = traced env ''normalizer_router'' (pooled (nzc_dsn cfg)
     ([(DialNats (nzc_nats cfg) ''normalizer-router'', [CloseNats]), (NewJetStream, [])] @ worker_plan cfg stops))"

lemma emits_consumers:
  "emits (start_consumers qs) (\<lambda>x as. follows [] (map (\<lambda>a. (a, [])) [EnsureStream qs [''quarantine.>''],
     EnsureConsumer ''ingest'' ''normalizer'' ''events.ingest.>'',
     EnsureConsumer ''schema_events'' ''normalizer-approvals'' ''schema.approved'',
     Subscribe ''normalizer'', Subscribe ''normalizer-approvals'']) (\<not> isl x) as)"
  unfolding start_consumers_def by (intro emits_and_then emits_attempt) (auto intro!: emits_and_then emits_attempt)

lemma emits_stop: "Q () [StopConsumer ''normalizer'', StopConsumer ''normalizer-approvals'', DrainNats] \<Longrightarrow> emits stop_consumers Q"
  unfolding stop_consumers_def by (intro emits_bind emits_logged) simp

lemma does_worker:
  "does (worker_plan cfg (stop = BySignal \<and> drained)) (nz_listen_and_serve L cfg srv early inputs stop drained)"
proof -
  let ?stops = "stop = BySignal \<and> drained"
  let ?last = "map (\<lambda>a. (a, [])) ((if ?stops then [StopConsumer ''normalizer'', StopConsumer ''normalizer-approvals'', DrainNats]
    else []) @ [ShutdownHttp])"
  let ?tail = "do {
      _ \<leftarrow> norm_serve L srv inputs;
      if stop = ByServerError then ret (Inl ServerError)
      else do {
        _ \<leftarrow> (if ?stops then stop_consumers else ret ());
        attempt ShutdownHttp ShutdownError
      }
    }"
  have stop: "emits (if ?stops then stop_consumers else ret ())
      (\<lambda>_ as. as = (if ?stops then [StopConsumer ''normalizer'', StopConsumer ''normalizer-approvals'', DrainNats] else []))"
    by (auto intro!: emits_stop emits_ret)
  have tail: "does ?last ?tail"
    by (intro emits_quiet_bind wquiet.norm_serve emits_if emits_ret emits_bind emits_mono [OF stop])
      (auto intro!: emits_attempt)
  have "does (map (\<lambda>a. (a, [])) [EnsureStream (nzc_stream cfg) [''quarantine.>''],
     EnsureConsumer ''ingest'' ''normalizer'' ''events.ingest.>'',
     EnsureConsumer ''schema_events'' ''normalizer-approvals'' ''schema.approved'',
     Subscribe ''normalizer'', Subscribe ''normalizer-approvals''] @ ?last)
    (do {
      _ \<leftarrow> norm_serve L srv (map (\<lambda>(rt, r). NormHttp rt r) early);
      and_then (start_consumers (nzc_stream cfg)) (\<lambda>_. ?tail)
    })" (is "does ?ps ?m")
    by (intro emits_quiet_bind wquiet.norm_serve does_seq emits_consumers tail) simp
  then have "does ((Listen (nzc_port cfg), []) # ?ps)
      (and_then (attempt (Listen (nzc_port cfg)) ServerError) (\<lambda>_. ?m))"
    by (intro emits_and_then emits_attempt) simp_all
  then show ?thesis by (simp add: nz_listen_and_serve_def worker_plan_def)
qed

lemma does_nz_run:
  "nz_LoadConfig (h_env h) = Inr cfg \<Longrightarrow>
   does (nz_plan (h_env h) cfg (stop = BySignal \<and> drained)) (nz_run L h early inputs stop drained)"
proof -
  assume cfg: "nz_LoadConfig (h_env h) = Inr cfg"
  let ?serve = "\<lambda>worker. do {
      srv \<leftarrow> nz_NewServer worker (NewTokenAuth (nzc_salt cfg) (nzc_jwt_secret cfg) (nzc_dev_token cfg));
      nz_listen_and_serve L cfg srv early inputs stop drained
    }"
  let ?stops = "stop = BySignal \<and> drained"
  let ?ps = "[(DialNats (nzc_nats cfg) ''normalizer-router'', [CloseNats]), (NewJetStream, [])] @ worker_plan cfg ?stops"
  have fresh: "emits (do {
        t \<leftarrow> now;
        _ \<leftarrow> remember (m t);
        ret (Inr c)
      }) Q" if "Q (Inr c) []" for m c and Q :: "setup_error + norm_config \<Rightarrow> process_act list \<Rightarrow> bool"
    by (intro emits_quiet_bind quiet_effects emits_ret that)
  have does_server: "does (worker_plan cfg ?stops) (?serve worker)" for worker
    unfolding nz_NewServer_def by (intro emits_quiet_bind quiet_intros does_worker)
  have "does ?ps (and_then (NewWorker cfg registry (nzc_nats cfg)) ?serve)" for registry
    unfolding NewWorker_def
    by (intro emits_and_then emits_connect) (simp_all, rule fresh, simp add: does_server)
  then have "does ?ps (do {
      registry \<leftarrow> NewRegistryClient (nzc_registry cfg) (nzc_registry_token cfg);
      and_then (NewWorker cfg registry (nzc_nats cfg)) ?serve
    })"
    by (intro emits_quiet_bind quiet_NewRegistryClient)
  then show ?thesis
    unfolding nz_run_def nz_plan_def cfg nz_NewStore_def sum.case Let_def by (intro does_traced does_pooled)
qed

end
