(* ===== verification/DbOrder.thy ===== *)
theory DbOrder
  imports Effects
begin

text \<open>
  Relations between the databases before and after a run. A preorder on databases that every statement of a
  service respects is respected by the service, since only statements and commits write the database.
\<close>

definition db_rel :: "(db \<Rightarrow> db \<Rightarrow> bool) \<Rightarrow> world \<Rightarrow> world \<Rightarrow> bool" where
  "db_rel S w w' \<longleftrightarrow> S (w_db w) (w_db w')"

locale db_preorder =
  fixes S :: "db \<Rightarrow> db \<Rightarrow> bool"
  assumes refl_S: "S d d"
    and trans_S: "S d e \<Longrightarrow> S e f \<Longrightarrow> S d f"
begin

lemma obeys_statement: "(\<And>u t d. S d (snd (f u t d))) \<Longrightarrow> obeys (db_rel S) (sql f)"
  by (rule obeysI)
    (auto simp: sql_def db_rel_def refl_S split: prod.splits outcome.splits, (metis snd_conv)+)

lemma obeys_read: "reads f \<Longrightarrow> obeys (db_rel S) (sql f)"
  by (rule obeys_statement) (simp add: reads_def refl_S)

lemma same_db: "w_db w' = w_db w \<Longrightarrow> db_rel S w w'"
  by (simp add: db_rel_def refl_S)

lemma obeys_outside:
  "obeys (db_rel S) (publish s p)" "obeys (db_rel S) (http_call s p)" "obeys (db_rel S) now"
  "obeys (db_rel S) new_uuid" "obeys (db_rel S) (random_bytes n)" "obeys (db_rel S) (remember m)"
  "obeys (db_rel S) (perform a)" "obeys (db_rel S) (logged a)" "obeys (db_rel S) (git_call g)"
  by (auto intro!: obeysI same_db split: outcome.splits
      simp: publish_def http_call_def now_def new_uuid_def random_bytes_def remember_def perform_def logged_def
        git_call_def Let_def)

end

sublocale db_preorder \<subseteq> run_relation "db_rel S"
  by unfold_locales (auto simp: db_rel_def intro: refl_S trans_S)

text \<open>Some part of the database stays as it is.\<close>

definition same_on :: "(db \<Rightarrow> 'a) \<Rightarrow> db \<Rightarrow> db \<Rightarrow> bool" where
  "same_on f d d' \<longleftrightarrow> f d' = f d"

interpretation same: db_preorder "same_on f" for f
  by unfold_locales (auto simp: same_on_def)

text \<open>Every row of a table is still there, as far as \<open>S\<close> says.\<close>

definition rows_kept :: "('r \<Rightarrow> 'r \<Rightarrow> bool) \<Rightarrow> 'r list \<Rightarrow> 'r list \<Rightarrow> bool" where
  "rows_kept S xs ys \<longleftrightarrow> (\<forall>x \<in> set xs. \<exists>y \<in> set ys. S x y)"

lemma rows_kept_superset: "(\<And>x. S x x) \<Longrightarrow> set xs \<subseteq> set ys \<Longrightarrow> rows_kept S xs ys"
  unfolding rows_kept_def by blast

lemma rows_kept_trans:
  "(\<And>x y z. S x y \<Longrightarrow> S y z \<Longrightarrow> S x z) \<Longrightarrow> rows_kept S xs ys \<Longrightarrow> rows_kept S ys zs \<Longrightarrow> rows_kept S xs zs"
  unfolding rows_kept_def by meson

lemma rows_kept_upd: "(\<And>x. S x x) \<Longrightarrow> (\<And>x. S x (f x)) \<Longrightarrow> rows_kept S xs (upd_where P f xs)"
  unfolding rows_kept_def
proof
  fix x assume "\<And>x. S x x" "\<And>x. S x (f x)" "x \<in> set xs"
  then show "\<exists>y \<in> set (upd_where P f xs). S x y"
    by (intro bexI [of _ "if P x then f x else x"]) (auto simp: in_upd_where)
qed

end
