(* ===== verification/StartupState.thy ===== *)
theory StartupState
  imports StartupLaws DbOrder GatewayLaws GatewayMigrate WebhookOutcome "HOL-Library.Multiset"
begin

text \<open>
  What a process has done to the database by the time it listens. \<open>ensures P m Q\<close>: run in a world with \<open>P\<close>, \<open>m\<close>
  returns \<open>x\<close> in a world with \<open>Q x\<close>.
\<close>

definition ensures :: "(world \<Rightarrow> bool) \<Rightarrow> 'a io \<Rightarrow> ('a \<Rightarrow> world \<Rightarrow> bool) \<Rightarrow> bool" where
  "ensures P m Q \<longleftrightarrow> (\<forall>w. P w \<longrightarrow> Q (fst (run_state m w)) (snd (run_state m w)))"

lemma ensuresD: "ensures P m Q \<Longrightarrow> run_state m w = (x, w') \<Longrightarrow> P w \<Longrightarrow> Q x w'"
  unfolding ensures_def by (metis fst_conv snd_conv)

lemma ensures_mono:
  "ensures P m Q \<Longrightarrow> (\<And>w. P' w \<Longrightarrow> P w) \<Longrightarrow> (\<And>x w. Q x w \<Longrightarrow> Q' x w) \<Longrightarrow> ensures P' m Q'"
  by (simp add: ensures_def)

lemma ensures_ret: "(\<And>w. P w \<Longrightarrow> Q x w) \<Longrightarrow> ensures P (ret x) Q"
  by (simp add: ensures_def)

lemma ensures_bind: "ensures P m R \<Longrightarrow> (\<And>x. ensures (R x) (k x) Q) \<Longrightarrow> ensures P (State_Monad.bind m k) Q"
  by (simp add: ensures_def split_beta)

lemma ensures_and_then:
  "ensures P m R \<Longrightarrow> (\<And>a. ensures (R (Inr a)) (k a) Q) \<Longrightarrow> (\<And>e w. R (Inl e) w \<Longrightarrow> Q (Inl e) w) \<Longrightarrow>
   ensures P (and_then m k) Q"
  unfolding and_then_def by (erule ensures_bind) (auto split: sum.split intro: ensures_ret)

lemma ensures_deferred:
  "ensures P body R \<Longrightarrow> (\<And>x. ensures (R x) cleanup (\<lambda>_. Q x)) \<Longrightarrow> ensures P (deferred cleanup body) Q"
  by (simp add: deferred_def ensures_def split_beta)

lemma ensures_attempt:
  "(\<And>w. P w \<Longrightarrow> Q (Inr ()) (tick (w\<lparr>w_acts := w_acts w @ [a]\<rparr>))) \<Longrightarrow> (\<And>w. P w \<Longrightarrow> Q (Inl err) (tick w)) \<Longrightarrow>
   ensures P (attempt a err) Q"
  by (simp add: ensures_def attempt_def perform_def split: outcome.split)

text \<open>A run under a relation.\<close>

lemma ensures_obeys: "obeys R m \<Longrightarrow> (\<And>w w'. P w \<Longrightarrow> R w w' \<Longrightarrow> Q w') \<Longrightarrow> ensures P m (\<lambda>_. Q)"
  by (simp add: ensures_def obeys_def)

section \<open>Listening\<close>

text \<open>\<open>hushed p\<close>: the run neither writes the database nor listens on port \<open>p\<close>.\<close>

definition hushed :: "int \<Rightarrow> world \<Rightarrow> world \<Rightarrow> bool" where
  "hushed p w w' \<longleftrightarrow> w_db w' = w_db w \<and> (Listen p \<in> set (w_acts w') \<longrightarrow> Listen p \<in> set (w_acts w))"

interpretation hu: run_relation "hushed p" for p
  by unfold_locales (auto simp: hushed_def)

lemma hushed_acts: "a \<noteq> Listen p \<Longrightarrow> obeys (hushed p) (perform a)" "a \<noteq> Listen p \<Longrightarrow> obeys (hushed p) (logged a)"
  by (auto intro!: obeysI simp: perform_def logged_def hushed_def split: outcome.split)

lemma hushed_effects: "obeys (hushed p) (remember m)" "obeys (hushed p) now"
  by (auto intro!: obeysI simp: remember_def now_def hushed_def)

lemma hushed_combinators:
  "obeys (hushed p) m \<Longrightarrow> (\<And>x. obeys (hushed p) (k x)) \<Longrightarrow> obeys (hushed p) (and_then m k)"
  "a \<noteq> Listen p \<Longrightarrow> obeys (hushed p) (attempt a err)"
  "a \<noteq> Listen p \<Longrightarrow> u \<noteq> Listen p \<Longrightarrow> obeys (hushed p) (attempt_or a err u)"
  unfolding and_then_def attempt_def attempt_or_def by (intro hu.obeys_control hushed_acts; simp)+

lemma hushed_parts:
  "obeys (hushed p) (SetupTelemetry env n)" "obeys (hushed p) (open_pool dsn)" "obeys (hushed p) Close"
  "obeys (hushed p) (connect_jetstream url c)" "obeys (hushed p) (NewNATSPublisher url)"
  unfolding SetupTelemetry_def open_pool_def Close_def connect_jetstream_def NewNATSPublisher_def Let_def
  by (intro hu.obeys_control hushed_combinators hushed_acts; simp)+

text \<open>The frame of a process: before it listens nothing is claimed, afterwards \<open>G\<close> holds of the database.\<close>

definition when_heard :: "int \<Rightarrow> (db \<Rightarrow> bool) \<Rightarrow> world \<Rightarrow> bool" where
  "when_heard p G w \<longleftrightarrow> (Listen p \<in> set (w_acts w) \<longrightarrow> G (w_db w))"

abbreviation unheard :: "int \<Rightarrow> world \<Rightarrow> bool" where
  "unheard p w \<equiv> Listen p \<notin> set (w_acts w)"

lemma heard_hushed: "when_heard p G w \<Longrightarrow> hushed p w w' \<Longrightarrow> when_heard p G w'"
  by (auto simp: when_heard_def hushed_def)

lemma process_frame:
  assumes "ensures (\<lambda>w. unheard p w \<and> D (w_db w)) body (\<lambda>_. when_heard p G)"
  shows "ensures (\<lambda>w. unheard p w \<and> D (w_db w)) (and_then (SetupTelemetry env n) (\<lambda>shutdown. deferred shutdown
    (and_then (open_pool dsn) (\<lambda>_. deferred Close body)))) (\<lambda>_. when_heard p G)"
proof -
  let ?P = "\<lambda>w. unheard p w \<and> D (w_db w)"
  have pool: "ensures ?P (and_then (open_pool dsn) (\<lambda>_. deferred Close body)) (\<lambda>_. when_heard p G)"
    by (rule ensures_and_then [where R = "\<lambda>_. ?P"])
      (auto intro!: ensures_obeys [OF hushed_parts(2)] ensures_deferred [OF assms] ensures_obeys [OF hushed_parts(3)]
        intro: heard_hushed simp: hushed_def when_heard_def)
  let ?hush = "\<lambda>x :: setup_error + unit io. case x of Inl _ \<Rightarrow> True | Inr m \<Rightarrow> obeys (hushed p) m"
  have tel: "ensures ?P (SetupTelemetry env n) (\<lambda>x w. ?P w \<and> ?hush x)"
    unfolding SetupTelemetry_def Let_def
    by (auto simp: ensures_def and_then_def attempt_def perform_def logged_def hu.obeys_ret hushed_acts split: outcome.split
        intro!: hushed_acts(2) [unfolded logged_def])
  show ?thesis
  proof (rule ensures_and_then [OF tel])
    fix shutdown :: "unit io"
    show "ensures (\<lambda>w. ?P w \<and> ?hush (Inr shutdown))
        (deferred shutdown (and_then (open_pool dsn) (\<lambda>_. deferred Close body))) (\<lambda>_. when_heard p G)"
    proof (cases "obeys (hushed p) shutdown")
      case True
      have "ensures (when_heard p G) shutdown (\<lambda>_. when_heard p G)"
        by (rule ensures_obeys [OF True heard_hushed])
      then show ?thesis
        by (intro ensures_deferred [OF ensures_mono [OF pool, where Q' = "\<lambda>_. when_heard p G"]]) simp_all
    qed (simp add: ensures_def)
  qed (simp add: when_heard_def)
qed

text \<open>Once \<open>G\<close> holds it holds whatever is served, as long as the requests keep it.\<close>

lemma serving_frame:
  assumes "ensures (\<lambda>w. G (w_db w)) serving (\<lambda>_ w. G (w_db w))"
  shows "ensures (\<lambda>w. G (w_db w)) (listen_and_serve port serving stop) (\<lambda>_. when_heard port G)"
proof -
  let ?G = "\<lambda>w. G (w_db w)"
  have last: "ensures ?G (if stop = ByServerError then ret (Inl ServerError) else attempt ShutdownHttp ShutdownError) (\<lambda>_. ?G)"
    by (auto intro!: ensures_ret ensures_attempt)
  have "ensures ?G (listen_and_serve port serving stop) (\<lambda>_. ?G)"
    unfolding listen_and_serve_def
    by (rule ensures_and_then [OF ensures_attempt [where Q = "\<lambda>_. ?G"]], simp_all only: ensures_bind [OF assms last])
      simp_all
  then show ?thesis by (rule ensures_mono) (auto simp: when_heard_def)
qed

section \<open>The gateway\<close>

definition migrated :: "host \<Rightarrow> gw_config \<Rightarrow> db \<Rightarrow> bool" where
  "migrated h cfg d \<longleftrightarrow> (gc_migrate cfg \<longrightarrow>
     (case h_dir h (envOr (h_env h) ''MIGRATIONS_DIR'' ''migrations'') of
        None \<Rightarrow> False
      | Some entries \<Rightarrow> de_name ` set (filter eligible entries) \<subseteq> set (migrations d)))"

lemma gw_migrate_ensures:
  assumes "leaves_log script"
  shows "ensures (unheard p) (gw_migrate script h cfg)
    (\<lambda>x w. unheard p w \<and> (x = Inr () \<longrightarrow> migrated h cfg (w_db w)))"
  unfolding ensures_def
proof (intro allI impI conjI)
  fix w assume un: "unheard p w"
  obtain x w' where run: "run_state (gw_migrate script h cfg) w = (x, w')" by force
  show "unheard p (snd (run_state (gw_migrate script h cfg) w))"
    using un obeys_run [OF quiet_gw_migrate run] by (simp add: run quiet_def)
  assume ok: "fst (run_state (gw_migrate script h cfg) w) = Inr ()"
  show "migrated h cfg (w_db (snd (run_state (gw_migrate script h cfg) w)))"
  proof (cases "gc_migrate cfg")
    case True
    let ?dir = "h_dir h (envOr (h_env h) ''MIGRATIONS_DIR'' ''migrations'')"
    obtain entries where dir: "?dir = Some entries"
      using True ok by (cases ?dir) (auto simp: gw_migrate_def)
    obtain y v where y: "run_state (run_migrations script entries) w = (y, v)" by force
    have "y = Inr ()" "w' = v"
      using run ok True dir y by (auto simp: gw_migrate_def split: sum.splits)
    then show ?thesis
      using run_migrations_applied [OF y assms] by (auto simp: migrated_def dir run)
  qed (simp add: migrated_def)
qed

lemma migrated_frame:
  assumes "obeys R m" and "\<And>w w'. R w w' \<Longrightarrow> migrations (w_db w') = migrations (w_db w)"
  shows "ensures (\<lambda>w. migrated h cfg (w_db w)) m (\<lambda>_ w. migrated h cfg (w_db w))"
  using assms(1) by (rule ensures_obeys) (auto simp: migrated_def dest!: assms(2) split: option.splits)

lemma gw_run_migrated:
  assumes cfg: "gw_LoadConfig L (h_env h) = Inr cfg" and script: "leaves_log script"
  shows "ensures (unheard (gc_port cfg)) (gw_run L script openapi h qs stop)
    (\<lambda>_. when_heard (gc_port cfg) (migrated h cfg))"
proof -
  let ?p = "gc_port cfg" and ?G = "migrated h cfg"
  have serve: "ensures (\<lambda>w. ?G (w_db w)) (gw_serve L srv qs) (\<lambda>_ w. ?G (w_db w))" for srv
    by (rule migrated_frame [OF gcred.gw_serve]) (simp add: cred_rel_def credentials_kept_def others_untouched_def)
  have last: "ensures (\<lambda>w. ?G (w_db w)) (do {
      _ \<leftarrow> remember m;
      listen_and_serve ?p (gw_serve L srv qs) stop
    }) (\<lambda>_. when_heard ?p ?G)" for m srv
    by (rule ensures_bind [OF migrated_frame [OF hushed_effects(1)] serving_frame [OF serve]])
      (auto simp: hushed_def)
  have "ensures (\<lambda>w. unheard ?p w \<and> ?G (w_db w))
      (and_then (NewNATSPublisher (gc_nats cfg)) (\<lambda>_. do {
        _ \<leftarrow> remember m;
        listen_and_serve ?p (gw_serve L srv qs) stop
      })) (\<lambda>_. when_heard ?p ?G)" for m srv
    by (rule ensures_and_then [where R = "\<lambda>_ w. unheard ?p w \<and> ?G (w_db w)"])
      (auto intro!: ensures_obeys [OF hushed_parts(5)] intro: ensures_mono [OF last] simp: hushed_def when_heard_def)
  then have "ensures (unheard ?p) (and_then (gw_migrate script h cfg) (\<lambda>_.
      and_then (NewNATSPublisher (gc_nats cfg)) (\<lambda>_. do {
        _ \<leftarrow> remember m;
        listen_and_serve ?p (gw_serve L srv qs) stop
      }))) (\<lambda>_. when_heard ?p ?G)" for m srv
    by (intro ensures_and_then [OF gw_migrate_ensures [OF script]]) (auto simp: when_heard_def elim: ensures_mono)
  note start = this
  show ?thesis
    unfolding gw_run_def cfg sum.case gw_NewStore_def
    by (rule process_frame [where D = "\<lambda>_. True", simplified, OF start])
qed

section \<open>The webhook adapter\<close>

text \<open>The endpoint of a source is named after it, as \<open>SeedSources\<close> creates them.\<close>

definition named_sources :: "db \<Rightarrow> bool" where
  "named_sources d \<longleftrightarrow> (\<forall>s \<in> set (webhook_sources d). ws_path s = ''/webhooks/'' @ ws_name s)"

definition has_source :: "libs \<Rightarrow> db \<Rightarrow> string \<times> bytes \<Rightarrow> bool" where
  "has_source L d ts \<longleftrightarrow> (\<exists>s \<in> set (webhook_sources d). ws_name s = fst ts \<and>
     ws_path s = ''/webhooks/'' @ fst ts \<and> ws_secret_hash s = Some (hex_encode (l_sha256 L (snd ts))))"

definition seeded :: "libs \<Rightarrow> (string \<times> bytes) list \<Rightarrow> db \<Rightarrow> bool" where
  "seeded L ts d \<longleftrightarrow> named_sources d \<and> list_all (has_source L d) ts"

lemma upsertSource_named: "named_sources d \<Longrightarrow> named_sources (snd (upsertSource L tool secret u t d))"
  by (auto simp: upsertSource_def named_sources_def Let_def in_upd_where)

lemma upsertSource_has:
  assumes "named_sources d" and "upsertSource L tool secret u t d = (Inr (), d')"
  shows "has_source L d' (tool, secret)"
proof (cases "''/webhooks/'' @ tool \<in> ws_path ` set (webhook_sources d)")
  case True
  then obtain s where s: "s \<in> set (webhook_sources d)" "ws_path s = ''/webhooks/'' @ tool" by auto
  with assms(1) have "ws_name s = tool" by (auto simp: named_sources_def)
  let ?set = "\<lambda>s. s\<lparr>ws_secret_hash := Some (hex_encode (l_sha256 L secret))\<rparr>"
  have "?set s \<in> set (upd_where (\<lambda>s. ws_path s = ''/webhooks/'' @ tool) ?set (webhook_sources d))"
    using s by (auto simp: in_upd_where intro!: bexI [of _ s])
  moreover have "webhook_sources d' = upd_where (\<lambda>s. ws_path s = ''/webhooks/'' @ tool) ?set (webhook_sources d)"
    using assms(2) True by (auto simp: upsertSource_def Let_def)
  ultimately show ?thesis
    using s(2) \<open>ws_name s = tool\<close> by (auto simp: has_source_def intro!: bexI [of _ "?set s"])
next
  case False
  then show ?thesis using assms(2) by (auto simp: upsertSource_def has_source_def Let_def split: if_splits)
qed

lemma upsertSource_other:
  assumes "has_source L d ts" and "fst ts \<noteq> tool"
  shows "has_source L (snd (upsertSource L tool secret u t d)) ts"
proof -
  obtain s where s: "s \<in> set (webhook_sources d)" "ws_name s = fst ts" "ws_path s = ''/webhooks/'' @ fst ts"
    "ws_secret_hash s = Some (hex_encode (l_sha256 L (snd ts)))"
    using assms(1) by (auto simp: has_source_def)
  then show ?thesis
    using assms(2) by (auto simp: upsertSource_def has_source_def Let_def in_upd_where intro!: bexI [of _ s])
qed

lemma seed_step:
  assumes run: "run_state (sql (upsertSource L tool secret)) w = (x, w')" and ok: "seeded L ts (w_db w)"
    and new: "tool \<notin> fst ` set ts"
  shows "seeded L ts (w_db w')" and "x = Inr () \<Longrightarrow> seeded L ((tool, secret) # ts) (w_db w')"
proof -
  have keep: "seeded L ts (snd (upsertSource L tool secret u t (w_db w)))" for u t
    using ok new by (auto simp: seeded_def list_all_iff intro: upsertSource_named upsertSource_other)
  then show kept: "seeded L ts (w_db w')"
    using run ok by (cases rule: sql_cases [of "upsertSource L tool secret" w]) auto
  assume "x = Inr ()"
  with sql_Inr [of "upsertSource L tool secret" w "()" w'] run ok
  have "has_source L (w_db w') (tool, secret)" by (auto simp: seeded_def intro: upsertSource_has)
  with kept show "seeded L ((tool, secret) # ts) (w_db w')" by (simp add: seeded_def)
qed

lemma SeedSources_seeded:
  "run_state (SeedSources L ss) w = (x, w') \<Longrightarrow> seeded L ts (w_db w) \<Longrightarrow> distinct (map fst (ts @ ss)) \<Longrightarrow>
   x = Inr () \<Longrightarrow> seeded L (rev ss @ ts) (w_db w')"
proof (induction ss arbitrary: ts w)
  case (Cons s ss)
  obtain tool secret where s: "s = (tool, secret)" by force
  obtain y v where y: "run_state (sql (upsertSource L tool secret)) w = (y, v)" by force
  have ok: "y = Inr ()" "run_state (SeedSources L ss) v = (x, w')"
    using Cons.prems(1,4) y by (auto simp: s split: sum.splits)
  have "seeded L ((tool, secret) # ts) (w_db v)"
    using seed_step(2) [OF y Cons.prems(2) _ ok(1)] Cons.prems(3) by (auto simp: s)
  from Cons.IH [OF ok(2) this _ Cons.prems(4)] show ?case using Cons.prems(3) by (auto simp: s)
qed simp

text \<open>The adapter's requests write only its deliveries.\<close>

abbreviation but_deliveries :: "db \<Rightarrow> db" where
  "but_deliveries d \<equiv> d\<lparr>deliveries := []\<rparr>"

lemma deliveries_only: "(\<And>u t d. but_deliveries (snd (f u t d)) = but_deliveries d) \<Longrightarrow>
   obeys (db_rel (same_on but_deliveries)) (sql f)"
  by (rule same.obeys_statement) (simp add: same_on_def)

interpretation aframe: adapter_relation "db_rel (same_on but_deliveries)"
  by unfold_locales
    (rule same.obeys_outside | (rule same.obeys_read, rule reads_webhook reads_select_live_key) |
      (rule deliveries_only, simp add: insertDelivery_def MarkForwarded_def MarkFailed_def))+

lemma but_deliveries_same:
  "but_deliveries d' = but_deliveries d \<Longrightarrow> webhook_sources d' = webhook_sources d \<and> events d' = events d \<and>
   quarantine_events d' = quarantine_events d \<and> users d' = users d \<and> proposals d' = proposals d \<and> audit_log d' = audit_log d"
  by (cases d; cases d') simp

lemma SeedSources_ensures:
  assumes "distinct (map fst ts)"
  shows "ensures (\<lambda>w. unheard p w \<and> named_sources (w_db w)) (SeedSources L ts)
    (\<lambda>x w. unheard p w \<and> (x = Inr () \<longrightarrow> seeded L ts (w_db w)))"
  unfolding ensures_def
proof (intro allI impI)
  fix w assume pre: "unheard p w \<and> named_sources (w_db w)"
  obtain x w' where run: "run_state (SeedSources L ts) w = (x, w')" by force
  have "unheard p w'" using pre obeys_run [OF quiet_SeedSources run] by (simp add: quiet_def)
  moreover have "seeded L (rev ts @ []) (w_db w')" if "x = Inr ()"
    using SeedSources_seeded [OF run _ _ that, of "[]"] pre assms by (simp add: seeded_def)
  ultimately show "(\<lambda>x w. unheard p w \<and> (x = Inr () \<longrightarrow> seeded L ts (w_db w)))
      (fst (run_state (SeedSources L ts) w)) (snd (run_state (SeedSources L ts) w))"
    by (auto simp: run seeded_def list_all_iff)
qed

lemma seeded_frame:
  assumes "obeys R m" and "\<And>w w'. R w w' \<Longrightarrow> webhook_sources (w_db w') = webhook_sources (w_db w)"
  shows "ensures (\<lambda>w. seeded L ts (w_db w)) m (\<lambda>_ w. seeded L ts (w_db w))"
  using assms(1) by (rule ensures_obeys)
    (auto simp: seeded_def named_sources_def has_source_def [abs_def] dest!: assms(2))

lemma tool_secrets_distinct: "distinct (map fst (tool_secrets cfg))"
  by (simp add: tool_secrets_def)

lemma wh_run_seeded:
  assumes cfg: "wh_LoadConfig (h_env h) = Inr cfg" and ord: "mset (ord (tool_secrets cfg)) = mset (tool_secrets cfg)"
  shows "ensures (\<lambda>w. unheard (wc_port cfg) w \<and> named_sources (w_db w)) (wh_run L ord h qs stop)
    (\<lambda>_. when_heard (wc_port cfg) (seeded L (tool_secrets cfg)))"
proof -
  let ?p = "wc_port cfg" and ?G = "seeded L (tool_secrets cfg)"
  let ?auth = "NewTokenAuth (wc_salt cfg) (wc_jwt_secret cfg) (wc_dev_token cfg)"
  let ?ts = "ord (tool_secrets cfg)"
  have "mset (map fst ?ts) = mset (map fst (tool_secrets cfg))" using ord by (metis mset_map)
  then have perm: "set ?ts = set (tool_secrets cfg)" "distinct (map fst ?ts)"
    using ord tool_secrets_distinct [of cfg] by (metis set_mset_mset, metis mset_eq_imp_distinct_iff)
  then have same: "seeded L ?ts = ?G" by (simp add: fun_eq_iff seeded_def list_all_iff)
  have "obeys (hushed ?p) (wh_NewServer cfg ?auth)"
    unfolding wh_NewServer_def by (intro hushed_combinators hushed_parts hushed_effects hu.obeys_bind hu.obeys_ret; simp)
  then have new: "ensures (\<lambda>w. unheard ?p w \<and> ?G (w_db w)) (wh_NewServer cfg ?auth) (\<lambda>_ w. unheard ?p w \<and> ?G (w_db w))"
    by (rule ensures_obeys) (auto simp: hushed_def)
  have "ensures (\<lambda>w. ?G (w_db w)) (wh_serve L srv qs) (\<lambda>_ w. ?G (w_db w))" for srv
    by (rule seeded_frame [OF aframe.wh_serve]) (auto simp: db_rel_def same_on_def dest: but_deliveries_same)
  then have serve: "ensures (\<lambda>w. unheard ?p w \<and> ?G (w_db w)) (listen_and_serve ?p (wh_serve L srv qs) stop)
      (\<lambda>_. when_heard ?p ?G)" for srv
    by (rule ensures_mono [OF serving_frame]) simp_all
  have "ensures (\<lambda>w. unheard ?p w \<and> ?G (w_db w)) (and_then (wh_NewServer cfg ?auth) (\<lambda>srv.
      listen_and_serve ?p (wh_serve L srv qs) stop)) (\<lambda>_. when_heard ?p ?G)"
    by (rule ensures_and_then [OF new serve]) (simp add: when_heard_def)
  then have "ensures (\<lambda>w. unheard ?p w \<and> named_sources (w_db w)) (do {
      x \<leftarrow> SeedSources L ?ts;
      (case x of Inl e \<Rightarrow> ret (Inl (SeedError e)) | Inr _ \<Rightarrow>
        and_then (wh_NewServer cfg ?auth) (\<lambda>srv. listen_and_serve ?p (wh_serve L srv qs) stop))
    }) (\<lambda>_. when_heard ?p ?G)"
    by (intro ensures_bind [OF SeedSources_ensures [OF perm(2)]])
      (auto intro!: ensures_ret elim: ensures_mono simp: when_heard_def same split: sum.split)
  then show ?thesis
    unfolding wh_run_def cfg sum.case wh_NewStore_def Let_def by (rule process_frame)
qed

end
