(* ===== verification/StartupProps.thy ===== *)
theory StartupProps
  imports StartupState WebhookProps
begin

text \<open>The properties of the processes from start to stop, each with its witness.\<close>

text \<open>C6. Processes follow their plans: whatever fails, whatever is served and however it is stopped, the acts of
  a process (tracer, pool, schema repository, NATS, listening, consumers, shutdown) are a prefix of its plan
  in order, followed by exactly what it owes back at that point: an opened pool is closed and an installed
  tracer shut down, in this order and once, a connection whose stream cannot be ensured is closed, and
  \<open>run\<close> returns without error only when the whole plan is done. In particular a process listens only after
  everything before it succeeded. With an invalid configuration it does nothing.\<close>

theorem processes_follow_plans:
  "(case gw_LoadConfig L (h_env h) of
      Inl e \<Rightarrow> gw_run L script openapi h gqs stop = ret (Inl (ConfigError e))
    | Inr cfg \<Rightarrow> does (gw_plan (h_env h) cfg) (gw_run L script openapi h gqs stop)) \<and>
   (case rg_LoadConfig (h_env h) of
      Inl e \<Rightarrow> reg_run L h rqs stop = ret (Inl (ConfigError e))
    | Inr cfg \<Rightarrow> does (reg_plan h cfg) (reg_run L h rqs stop)) \<and>
   (case nz_LoadConfig (h_env h) of
      Inl e \<Rightarrow> nz_run L h early inputs stop drained = ret (Inl (ConfigError e))
    | Inr cfg \<Rightarrow> does (nz_plan (h_env h) cfg (stop = BySignal \<and> drained)) (nz_run L h early inputs stop drained)) \<and>
   (case wh_LoadConfig (h_env h) of
      Inl e \<Rightarrow> wh_run L ord h wqs stop = ret (Inl (ConfigError e))
    | Inr cfg \<Rightarrow> does (wh_plan (h_env h) cfg) (wh_run L ord h wqs stop))"
proof (intro conjI)
  show "case gw_LoadConfig L (h_env h) of
      Inl e \<Rightarrow> gw_run L script openapi h gqs stop = ret (Inl (ConfigError e))
    | Inr cfg \<Rightarrow> does (gw_plan (h_env h) cfg) (gw_run L script openapi h gqs stop)"
    by (cases "gw_LoadConfig L (h_env h)") (simp_all add: does_gw_run, simp add: gw_run_def)
  show "case rg_LoadConfig (h_env h) of
      Inl e \<Rightarrow> reg_run L h rqs stop = ret (Inl (ConfigError e))
    | Inr cfg \<Rightarrow> does (reg_plan h cfg) (reg_run L h rqs stop)"
    by (cases "rg_LoadConfig (h_env h)") (simp_all add: does_reg_run, simp add: reg_run_def)
  show "case nz_LoadConfig (h_env h) of
      Inl e \<Rightarrow> nz_run L h early inputs stop drained = ret (Inl (ConfigError e))
    | Inr cfg \<Rightarrow> does (nz_plan (h_env h) cfg (stop = BySignal \<and> drained)) (nz_run L h early inputs stop drained)"
    by (cases "nz_LoadConfig (h_env h)") (simp_all add: does_nz_run, simp add: nz_run_def)
  show "case wh_LoadConfig (h_env h) of
      Inl e \<Rightarrow> wh_run L ord h wqs stop = ret (Inl (ConfigError e))
    | Inr cfg \<Rightarrow> does (wh_plan (h_env h) cfg) (wh_run L ord h wqs stop)"
    by (cases "wh_LoadConfig (h_env h)") (simp_all add: does_wh_run, simp add: wh_run_def)
qed

text \<open>C18. A gateway that listens has migrated: when \<open>RUN_MIGRATIONS\<close> is true and the process got as far as
  listening on its port, whatever happens afterwards, the migrations directory could be read and every
  \<open>.sql\<close> file in it is recorded as applied.\<close>

theorem listening_gateway_migrated:
  assumes "gw_LoadConfig L (h_env h) = Inr cfg" and "leaves_log script"
    and "run_state (gw_run L script openapi h qs stop) w = (x, w')"
    and "Listen (gc_port cfg) \<notin> set (w_acts w)" and "Listen (gc_port cfg) \<in> set (w_acts w')"
  shows "migrated h cfg (w_db w')"
  using ensuresD [OF gw_run_migrated [OF assms(1,2)] assms(3,4)] assms(5) by (simp add: when_heard_def)

definition demo_env :: "(string \<times> string) list \<Rightarrow> env" where
  "demo_env vs key = (case map_of vs key of None \<Rightarrow> [] | Some v \<Rightarrow> v)"

definition demo_host :: host where
  "demo_host = \<lparr>h_env = demo_env [(''POSTGRES_DSN'', ''d''), (''NATS_URL'', ''n''), (''JWT_SIGNING_SECRET'', ''s3cret''),
       (''HEC_TOKEN_SALT'', ''salt''), (''RUN_MIGRATIONS'', ''true''), (''MARBLE_JAR_WEBHOOK_SECRET'', ''wh'')],
     h_dir = (\<lambda>dir. if dir = ''migrations'' then Some
       [\<lparr>de_name = ''0001_init.sql'', de_dir = False, de_text = Some ''create''\<rparr>] else None),
     h_temp = ''tmp'', h_worktree = Some\<rparr>"

definition demo_create_script :: "bytes \<Rightarrow> unit stmt" where
  "demo_create_script text u t d = (Inr (), d)"

lemma demo_gw_config: "\<exists>cfg. gw_LoadConfig demo_libs (h_env demo_host) = Inr cfg \<and> gc_port cfg = 8080 \<and> gc_migrate cfg"
  by (simp add: gw_LoadConfig_def env_float_def env_int_def demo_host_def demo_env_def)

lemma demo_world_facts: "healthy demo_world" "w_acts demo_world = []" "migrations (w_db demo_world) = []"
  by (simp_all add: healthy_def demo_world_def demo_db_def empty_db_def)

lemma demo_gw_listens:
  "gw_LoadConfig demo_libs (h_env demo_host) = Inr cfg \<Longrightarrow>
   Listen (gc_port cfg) \<in> set (w_acts (snd (run_state (gw_run demo_libs demo_create_script [] demo_host [] BySignal) demo_world)))"
  using demo_world_facts
  by (simp add: gw_run_def SetupTelemetry_def gw_NewStore_def open_pool_def Close_def and_then_def attempt_def attempt_or_def
      deferred_def run_simps gw_migrate_def envOr_def demo_host_def demo_env_def gw_LoadConfig_def env_float_def env_int_def
      Migrate_def create_migrations_table_def migration_applied_def record_migration_def demo_create_script_def suffix_def
      NewNATSPublisher_def connect_jetstream_def listen_and_serve_def)

theorem listening_gateway_migrated_witness:
  "''0001_init.sql'' \<in> set (migrations (w_db (snd (run_state (gw_run demo_libs demo_create_script [] demo_host [] BySignal) demo_world))))"
proof -
  obtain cfg where cfg: "gw_LoadConfig demo_libs (h_env demo_host) = Inr cfg" "gc_migrate cfg"
    using demo_gw_config by blast
  have "leaves_log demo_create_script" by (simp add: leaves_log_def demo_create_script_def)
  from listening_gateway_migrated [OF cfg(1) this surjective_pairing _ demo_gw_listens [OF cfg(1)]]
  show ?thesis using cfg(2) demo_world_facts
    by (simp add: migrated_def demo_host_def demo_env_def envOr_def eligible_def suffix_def)
qed

text \<open>C21. An adapter that listens has its sources: when the process got as far as listening, in whatever order
  Go iterates over the map of secrets and whatever happens afterwards, each of the four tools has a source at
  its endpoint with the hash of the configured secret.\<close>

theorem listening_adapter_has_sources:
  assumes "wh_LoadConfig (h_env h) = Inr cfg" and "mset (ord (tool_secrets cfg)) = mset (tool_secrets cfg)"
    and "run_state (wh_run L ord h qs stop) w = (x, w')" and "named_sources (w_db w)"
    and "Listen (wc_port cfg) \<notin> set (w_acts w)" and "Listen (wc_port cfg) \<in> set (w_acts w')"
    and "tool \<in> set wh_tools"
  shows "has_source L (w_db w') (tool, secretFor cfg tool)"
proof -
  have "seeded L (tool_secrets cfg) (w_db w')"
    using ensuresD [OF wh_run_seeded [where ord = ord, OF assms(1,2)] assms(3)] assms(4-6) by (simp add: when_heard_def)
  then show ?thesis
    using assms(7) by (auto simp: seeded_def tool_secrets_def wh_tools_def secretFor_def)
qed

lemma demo_wh_loaded: "\<exists>cfg. wh_LoadConfig (h_env demo_host) = Inr cfg \<and> secretFor cfg ''marble-jar'' = ''wh''"
  by (simp add: wh_LoadConfig_def env_int_def demo_host_def demo_env_def secretFor_def)

lemma demo_sources: "webhook_sources (w_db demo_world) = []" "w_tick demo_world = 100" "w_uuid demo_world n = word_of_nat n"
  by (simp_all add: demo_world_def demo_db_def empty_db_def)

lemma demo_wh_listens:
  "wh_LoadConfig (h_env demo_host) = Inr cfg \<Longrightarrow>
   Listen (wc_port cfg) \<in> set (w_acts (snd (run_state (wh_run demo_libs rev demo_host [] ByServerClosed) demo_world)))"
  using demo_world_facts
  by (simp add: wh_run_def SetupTelemetry_def wh_NewStore_def open_pool_def Close_def and_then_def attempt_def attempt_or_def
      deferred_def run_simps demo_host_def demo_env_def wh_LoadConfig_def env_int_def
      tool_secrets_def upsertSource_def demo_sources Let_def upd_where_def
      wh_NewServer_def connect_jetstream_def listen_and_serve_def)

theorem listening_adapter_has_sources_witness:
  "\<exists>s \<in> set (webhook_sources (w_db (snd (run_state (wh_run demo_libs rev demo_host [] ByServerClosed) demo_world)))).
     ws_name s = ''marble-jar'' \<and> ws_secret_hash s = Some (hex_encode ''wh'')"
proof -
  obtain cfg where cfg: "wh_LoadConfig (h_env demo_host) = Inr cfg" "secretFor cfg ''marble-jar'' = ''wh''"
    using demo_wh_loaded by blast
  have pre: "mset (rev (tool_secrets cfg)) = mset (tool_secrets cfg)" "named_sources (w_db demo_world)"
    "Listen (wc_port cfg) \<notin> set (w_acts demo_world)" "''marble-jar'' \<in> set wh_tools"
    by (simp_all add: named_sources_def demo_sources demo_world_facts wh_tools_def)
  from listening_adapter_has_sources [OF cfg(1) pre(1) surjective_pairing pre(2,3) demo_wh_listens [OF cfg(1)] pre(4)]
  show ?thesis by (auto simp: has_source_def cfg(2) demo_libs_def)
qed

text \<open>C22. Signed webhooks get through: in a healthy world, with a source for the tool, a body that is a JSON object and
  carries the tool's signature is answered 202; exactly one delivery is added, marked forwarded, with the
  payload and the event as it was published.\<close>

theorem signed_webhook_accepted:
  assumes "healthy w" and "has_source L (w_db w) (tool_name t, secret)" and "rq_body r \<noteq> []"
    and "verifySignature L (tool_name t) r (take max_body (rq_body r)) (secretFor (wh_cfg s) (tool_name t))"
    and "l_json_parse L (take max_body (rq_body r)) = Some (JObj ms)"
    and "w_uuid w (w_tick w + 3) \<notin> d_id ` set (deliveries (w_db w))"
    and "run_state (wh_Router L s (WPostWebhook t) r) w = (rs, w')"
  shows "rs_status rs = 202 \<and> (\<exists>row env. received_as L (tool_name t) r (Some ms) env \<and>
    deliveries (w_db w') = deliveries (w_db w) @ [row] \<and> d_status row = Some 202 \<and>
    d_body row = delivery_body (Some ms) (j_wh_envelope L env) \<and>
    w_streams w' = w_streams w @ [(''events.ingest.'' @ we_category env, JsonBody (j_wh_envelope L env))])"
proof -
  let ?tool = "tool_name t" and ?db = "w_db w" and ?u = "w_uuid w (w_tick w + 3)"
  let ?env = "(wh_normalize ?tool r (Some ms) (w_clock w (w_tick w)))\<lparr>we_event := l_uuid_string L (w_uuid w (Suc (w_tick w)))\<rparr>"
  have "find (\<lambda>s. ws_name s = ?tool) (webhook_sources ?db) \<noteq> None"
    using assms(2) by (auto simp: has_source_def find_None_iff)
  then obtain src where find: "find (\<lambda>s. ws_name s = ?tool) (webhook_sources ?db) = Some src" by auto
  then have known: "src \<in> set (webhook_sources ?db)" by (auto simp: find_Some_iff)
  let ?row = "\<lparr>d_id = ?u, d_source = ws_id src, d_status = None, d_headers = kept_headers r,
    d_body = delivery_body (Some ms) (j_wh_envelope L ?env), d_sig_valid = Some True, d_error = None,
    d_created = w_clock w (w_tick w + 3)\<rparr>"
  have body: "take max_body (rq_body r) \<noteq> []" "dec_map None (JObj ms) = Some (Some ms)"
    using assms(3) by (simp_all add: max_body_def)
  have marked: "upd_where (\<lambda>r. d_id r = ?u) (\<lambda>r. r\<lparr>d_status := Some 202, d_error := None\<rparr>) (deliveries ?db @ [?row]) =
      deliveries ?db @ [?row\<lparr>d_status := Some 202\<rparr>]"
    using assms(6) by (auto simp: upd_where_def image_iff intro!: map_idI)
  have src: "sourceID ?tool u i d = (Inr (ws_id src), d)" if "d = ?db" for u i d
    using find that by (simp add: sourceID_def)
  have ins: "insertDelivery (ws_id src) True (delivery_body (Some ms) (j_wh_envelope L ?env)) (kept_headers r) ?u
      (w_clock w (w_tick w + 3)) ?db = (Inr ?u, ?db\<lparr>deliveries := deliveries ?db @ [?row]\<rparr>)"
    using known assms(6) by (simp add: insertDelivery_def)
  have run: "rs_status rs = 202" "w_db w' = ?db\<lparr>deliveries := deliveries ?db @ [?row\<lparr>d_status := Some 202\<rparr>]\<rparr>"
    "w_streams w' = w_streams w @ [(''events.ingest.'' @ we_category ?env, JsonBody (j_wh_envelope L ?env))]"
    using assms(7,1,4,5) body ins marked
    by (auto simp: wh_Router_def handleWebhook_def Let_def run_simps RecordDelivery_def src forward_def MarkForwarded_def
        run_count_delivery numeral_3_eq_3)
  moreover have "received_as L ?tool r (Some ms) ?env"
    using assms(5) body(2) by (auto simp: received_as_def)
  ultimately show ?thesis by (intro conjI exI [of _ "?row\<lparr>d_status := Some 202\<rparr>"] exI [of _ ?env]) simp_all
qed

definition demo_hook_world :: world where
  "demo_hook_world = demo_wh_world\<lparr>w_db := demo_db\<lparr>webhook_sources :=
     [demo_source\<lparr>ws_secret_hash := Some (hex_encode (l_sha256 demo_libs ''wh''))\<rparr>], deliveries := [demo_delivery]\<rparr>\<rparr>"

theorem signed_webhook_accepted_witness:
  "rs_status (fst (run_state (wh_Router demo_libs demo_wh (WPostWebhook MarbleJar) demo_signed) demo_hook_world)) = 202"
proof -
  have world: "healthy demo_hook_world" "has_source demo_libs (w_db demo_hook_world) (tool_name MarbleJar, ''wh'')"
    "w_uuid demo_hook_world (w_tick demo_hook_world + 3) \<notin> d_id ` set (deliveries (w_db demo_hook_world))"
    by (simp_all add: healthy_def demo_hook_world_def demo_wh_world_def demo_world_def has_source_def demo_source_def
        tool_name_def demo_delivery_def)
  have body: "rq_body demo_signed = ''{}''" "take max_body ''{}'' = ''{}''" "l_json_parse demo_libs ''{}'' = Some (JObj [])"
    by (simp_all add: demo_signed_def demo_hook_def max_body_def demo_libs_def demo_texts_def)
  have "verifySignature demo_libs (tool_name MarbleJar) demo_signed (take max_body (rq_body demo_signed))
      (secretFor (wh_cfg demo_wh) (tool_name MarbleJar))"
    by (simp add: body demo_wh_def demo_wh_config_def secretFor_def tool_name_def verifySignature_iff signed_for_def)
      (simp add: demo_signed_def demo_hook_def sget_def hmacSHA256_def)
  from signed_webhook_accepted [OF world(1,2) _ this _ world(3) surjective_pairing, of "[]"]
  show ?thesis by (simp add: body)
qed

end
