(* ===== verification/System.thy ===== *)
theory System
  imports StartupState RegistryReview NormApi
begin

text \<open>
  The platform: the four services on one database, taking turns. \<open>history_kept\<close> is what none of them may undo: stored
  events, quarantined envelopes, users and their roles, review decisions and the audit log, webhook deliveries
  and sources. Each service is shown to keep it, from the relations proved for it before and from frames
  that say which tables it leaves alone.
\<close>

definition same_event :: "event_row \<Rightarrow> event_row \<Rightarrow> bool" where
  "same_event e e' \<longleftrightarrow> e_id e' = e_id e \<and> e_category e' = e_category e \<and> e_source e' = e_source e \<and>
     e_payload e' = e_payload e \<and> e_occurred e' = e_occurred e \<and> e_created e' = e_created e"

definition same_delivery :: "delivery_row \<Rightarrow> delivery_row \<Rightarrow> bool" where
  "same_delivery r r' \<longleftrightarrow> d_id r' = d_id r \<and> d_source r' = d_source r \<and> d_body r' = d_body r \<and>
     d_headers r' = d_headers r \<and> d_created r' = d_created r \<and> d_sig_valid r' = d_sig_valid r"

definition same_source :: "source_row \<Rightarrow> source_row \<Rightarrow> bool" where
  "same_source s s' \<longleftrightarrow> ws_id s' = ws_id s \<and> ws_name s' = ws_name s \<and> ws_path s' = ws_path s"

definition roles_kept :: "user_row list \<Rightarrow> user_row list \<Rightarrow> bool" where
  "roles_kept us us' \<longleftrightarrow> rows_kept same_user us us' \<and>
     (\<forall>u' \<in> set us'. (\<exists>u \<in> set us. same_user u u') \<or> u_role u' = ''viewer'')"

definition history_kept :: "db \<Rightarrow> db \<Rightarrow> bool" where
  "history_kept d d' \<longleftrightarrow> rows_kept same_event (events d) (events d') \<and> quarantine_kept d d' \<and>
     roles_kept (users d) (users d') \<and> trail d d' \<and> rows_kept same_delivery (deliveries d) (deliveries d') \<and>
     rows_kept same_source (webhook_sources d) (webhook_sources d')"

lemma same_rows_refl [simp]: "same_event e e" "same_delivery r r" "same_source s s"
  by (simp_all add: same_event_def same_delivery_def same_source_def)

lemma rows_kept_refl [simp]:
  "rows_kept same_event es es" "rows_kept same_delivery rs rs" "rows_kept same_source ss ss" "roles_kept us us"
  by (auto simp: roles_kept_def intro: rows_kept_superset same_user_refl)

lemma roles_kept_trans:
  assumes a: "roles_kept us vs" and b: "roles_kept vs ws"
  shows "roles_kept us ws"
  unfolding roles_kept_def
proof (intro conjI ballI)
  show "rows_kept same_user us ws"
    using a b by (auto simp: roles_kept_def intro: rows_kept_trans [where S = same_user] same_user_trans)
  fix u' assume u': "u' \<in> set ws"
  show "(\<exists>u \<in> set us. same_user u u') \<or> u_role u' = ''viewer''"
  proof (rule disjCI)
    assume no: "u_role u' \<noteq> ''viewer''"
    then obtain v where v: "v \<in> set vs" "same_user v u'" using b u' unfolding roles_kept_def by blast
    with no have "u_role v \<noteq> ''viewer''" by (simp add: same_user_def)
    then obtain u where "u \<in> set us" "same_user u v" using a v(1) unfolding roles_kept_def by blast
    then show "\<exists>u \<in> set us. same_user u u'" using v(2) same_user_trans by blast
  qed
qed

interpretation hist: db_preorder history_kept
proof
  show "history_kept d d" for d by (simp add: history_kept_def)
  have tr: "rows_kept same_event xs ys \<Longrightarrow> rows_kept same_event ys zs \<Longrightarrow> rows_kept same_event xs zs" for xs ys zs
    by (rule rows_kept_trans [where S = same_event]) (simp_all add: same_event_def)
  have dr: "rows_kept same_delivery xs ys \<Longrightarrow> rows_kept same_delivery ys zs \<Longrightarrow> rows_kept same_delivery xs zs" for xs ys zs
    by (rule rows_kept_trans [where S = same_delivery]) (simp_all add: same_delivery_def)
  have sr: "rows_kept same_source xs ys \<Longrightarrow> rows_kept same_source ys zs \<Longrightarrow> rows_kept same_source xs zs" for xs ys zs
    by (rule rows_kept_trans [where S = same_source]) (simp_all add: same_source_def)
  show "history_kept d e \<Longrightarrow> history_kept e f \<Longrightarrow> history_kept d f" for d e f
    unfolding history_kept_def
    by (elim conjE, intro conjI)
      (erule (1) tr, erule (1) quarantine_kept_trans, erule (1) roles_kept_trans, erule (1) trail_trans, erule (1) dr, erule (1) sr)
qed

section \<open>The gateway, the normalizer and the adapter\<close>

lemma credentials_history: "credentials_kept d d' \<Longrightarrow> history_kept d d'"
proof -
  assume c: "credentials_kept d d'"
  then have "roles_kept (users d) (users d')" by (simp add: credentials_kept_def roles_kept_def rows_kept_def)
  moreover have "others_untouched d d'" using c by (simp add: credentials_kept_def)
  ultimately show ?thesis by (simp add: history_kept_def others_untouched_def trail_same quarantine_kept_same)
qed

lemma gateway_history: "obeys (db_rel history_kept) (gw_Router L s rt r)"
proof (rule obeysI)
  fix w
  have "cred_rel w (snd (run_state (gw_Router L s rt r) w))" using gcred.gw_Router by (rule obeysD)
  then show "db_rel history_kept w (snd (run_state (gw_Router L s rt r) w))"
    by (simp add: cred_rel_def db_rel_def credentials_history)
qed

text \<open>The normalizer leaves users, sources and deliveries alone.\<close>

abbreviation norm_frame :: "db \<Rightarrow> user_row list \<times> source_row list \<times> delivery_row list" where
  "norm_frame d \<equiv> (users d, webhook_sources d, deliveries d)"

lemma norm_frame_sql: "(\<And>u t d. norm_frame (snd (f u t d)) = norm_frame d) \<Longrightarrow> obeys (db_rel (same_on norm_frame)) (sql f)"
  by (rule same.obeys_statement) (simp add: same_on_def)

interpretation nframe: service_relation "db_rel (same_on norm_frame)"
  by unfold_locales
    (rule same.obeys_outside | (rule same.obeys_read, rule reads_norm reads_select_live_key) |
      (rule norm_frame_sql, simp add: insertEventRow_def upsertQuarantine_def MarkReplayed_def BumpAttempts_def split: option.split))+

lemma normalizer_history: "obeys (db_rel history_kept) (norm_step L s i)"
proof (rule obeysI)
  fix w
  let ?w = "snd (run_state (norm_step L s i) w)"
  have "db_rel (same_on norm_frame) w ?w" "events_kept w ?w" "trail_rel w ?w"
    using obeysD [OF nframe.norm_step] obeysD [OF skept.norm_step] obeysD [OF strail.norm_step] by blast+
  moreover from this(2) have "rows_kept same_event (events (w_db w)) (events (w_db ?w))"
    by (intro rows_kept_superset set_mono_prefix) (simp_all add: events_kept_def)
  ultimately show "db_rel history_kept w ?w"
    by (simp add: db_rel_def same_on_def events_kept_def trail_rel_def history_kept_def)
qed

lemma adapter_history: "obeys (db_rel history_kept) (wh_Router L s rt r)"
proof (rule obeysI)
  fix w
  let ?w = "snd (run_state (wh_Router L s rt r) w)"
  have "db_rel (same_on but_deliveries) w ?w" "deliveries_kept w ?w"
    using obeysD [OF aframe.wh_Router] obeysD [OF akept.wh_Router] by blast+
  moreover from this(2) have "rows_kept same_delivery (deliveries (w_db w)) (deliveries (w_db ?w))"
    by (simp add: deliveries_kept_def rows_kept_def same_delivery_def)
  ultimately show "db_rel history_kept w ?w"
    by (auto simp: db_rel_def same_on_def history_kept_def trail_same quarantine_kept_same dest!: but_deliveries_same)
qed

section \<open>The registry\<close>

text \<open>The registry may clear the schema of an event (\<open>DeleteCategory\<close>) and its agent (\<open>DeleteAgent\<close>), nothing else.\<close>

definition reg_frame :: "db \<Rightarrow> db \<Rightarrow> bool" where
  "reg_frame d d' \<longleftrightarrow> rows_kept same_event (events d) (events d') \<and> quarantine_kept d d' \<and> norm_frame d' = norm_frame d"

interpretation rf: db_preorder reg_frame
proof
  show "reg_frame d d" for d by (simp add: reg_frame_def)
  have "rows_kept same_event xs ys \<Longrightarrow> rows_kept same_event ys zs \<Longrightarrow> rows_kept same_event xs zs" for xs ys zs
    by (rule rows_kept_trans [where S = same_event]) (simp_all add: same_event_def)
  then show "reg_frame d e \<Longrightarrow> reg_frame e f \<Longrightarrow> reg_frame d f" for d e f
    unfolding reg_frame_def using quarantine_kept_trans by (metis (no_types, lifting))
qed

lemma reg_frame_other: "same_other_tables d d' \<Longrightarrow> reg_frame d d'"
  by (simp add: reg_frame_def same_other_tables_def quarantine_kept_same)

lemma reg_frame_writes:
  "reg_frame d (snd (SetSchemaGitSHA sid sha u t d))" "reg_frame d (snd (insertProposal q n by patch routing conf u t d))"
  "reg_frame d (snd (FinalizeProposal p st by nts rs u t d))" "reg_frame d (snd (AuditLog p usr act nts u t d))"
  "reg_frame d (snd (insertAgent n slug desc caps u t d))" "reg_frame d (snd (UpdateAgent a nm st' caps' u t d))"
  by (simp_all add: reg_frame_def SetSchemaGitSHA_def insertProposal_def FinalizeProposal_def AuditLog_def insertAgent_def
      UpdateAgent_def Let_def quarantine_kept_same)

lemma reg_frame_deletes: "reg_frame d (snd (DeleteCategory n u t d))" "reg_frame d (snd (DeleteAgent a u t d))"
proof -
  have ev: "rows_kept same_event es (upd_where P (\<lambda>e. e\<lparr>e_schema := None\<rparr>) es)"
    "rows_kept same_event es (upd_where P (\<lambda>e. e\<lparr>e_agent := None\<rparr>) es)" for P es
    by (intro rows_kept_upd; simp add: same_event_def)+
  have "quarantine_kept d (d\<lparr>quarantine_events := upd_where P (\<lambda>q. q\<lparr>q_agent := None\<rparr>) (quarantine_events d)\<rparr>)" for P
    by (rule quarantine_kept_upd) simp_all
  then have qu: "quarantine_kept d d'" if "quarantine_events d' = upd_where P (\<lambda>q. q\<lparr>q_agent := None\<rparr>) (quarantine_events d)"
    for P d' using that by (simp add: quarantine_kept_def)
  show "reg_frame d (snd (DeleteCategory n u t d))"
    by (simp add: reg_frame_def DeleteCategory_def Let_def ev quarantine_kept_same)
  show "reg_frame d (snd (DeleteAgent a u t d))"
    by (auto simp: reg_frame_def DeleteAgent_def ev intro!: qu)
qed

lemma reg_frame_version: "obeys (db_rel reg_frame) (CreateSchemaVersion n body routing by sha)"
proof (rule obeysI)
  fix w
  obtain r w' where run: "run_state (CreateSchemaVersion n body routing by sha) w = (r, w')" by force
  have "reg_frame (w_db w) (w_db w')"
    using CreateSchemaVersion_outcomes [OF run] schema_tx_other_tables reg_frame_other rf.refl_S by metis
  then show "db_rel reg_frame w (snd (run_state (CreateSchemaVersion n body routing by sha) w))"
    using run by (simp add: db_rel_def)
qed

lemma reg_frame_commit: "obeys (db_rel reg_frame) (CommitSchema L g n v raw routing msg)"
  using CommitSchema_db by (auto intro!: obeysI rf.same_db) (metis prod.collapse)

interpretation rframe: registry_relation "db_rel reg_frame"
  by unfold_locales
    (rule rf.obeys_outside reg_frame_version reg_frame_commit | (rule rf.obeys_read, rule reads_registry reads_select_live_key) |
      (rule rf.obeys_statement, rule reg_frame_writes reg_frame_deletes))+

lemma registry_history: "obeys (db_rel history_kept) (reg_Router L s rt r)"
proof (rule obeysI)
  fix w
  let ?w = "snd (run_state (reg_Router L s rt r) w)"
  have "db_rel reg_frame w ?w" "trail_rel w ?w"
    using obeysD [OF rframe.reg_Router] obeysD [OF rtrail.reg_Router] by blast+
  then show "db_rel history_kept w ?w"
    by (simp add: db_rel_def reg_frame_def trail_rel_def history_kept_def)
qed

section \<open>The start of the adapter\<close>

lemma upsertSource_history: "history_kept d (snd (upsertSource L tool secret u t d))"
proof -
  have "rows_kept same_source ss (upd_where P (\<lambda>s. s\<lparr>ws_secret_hash := h\<rparr>) ss)" for P h ss
    by (rule rows_kept_upd) (simp_all add: same_source_def)
  moreover have "rows_kept same_source ss (ss @ [s])" for ss s
    by (rule rows_kept_superset) auto
  ultimately show ?thesis
    by (simp add: upsertSource_def Let_def history_kept_def trail_same quarantine_kept_same)
qed

lemma upsertSource_inv: "db_inv d \<Longrightarrow> db_inv (snd (upsertSource L tool secret u t d))"
  unfolding upsertSource_def Let_def db_inv_defs
  by (auto simp: unique_by_upd_where image_upd_where image_iff)

lemma upsertSource_deliveries: "deliveries (snd (upsertSource L tool secret u t d)) = deliveries d"
  by (simp add: upsertSource_def Let_def)

lemma SeedSources_obeys:
  assumes "run_relation R" and "\<And>tool secret. obeys R (sql (upsertSource L tool secret))"
  shows "obeys R (SeedSources L ts)"
proof (induction ts)
  case (Cons t ts)
  then show ?case by (cases t) (auto intro!: run_relation.obeys_control [OF assms(1)] assms(2))
qed (simp add: run_relation.obeys_ret [OF assms(1)])

section \<open>Runs of the platform\<close>

record platform =
  pf_gateway :: gw_server
  pf_registry :: reg_server
  pf_normalizer :: norm_server
  pf_adapter :: wh_server

text \<open>One service after the other handles a request or a message, in any order and with any failures; in between an
  adapter may start, and anything but the database may change: time passes, messages arrive or expire,
  processes lose their memory.\<close>

inductive platform_run :: "libs \<Rightarrow> platform \<Rightarrow> world \<Rightarrow> world \<Rightarrow> bool" for L P where
  start: "platform_run L P w w"
| gateway: "platform_run L P w v \<Longrightarrow> run_state (gw_Router L (pf_gateway P) grt r) v = (x, v') \<Longrightarrow> platform_run L P w v'"
| registry: "platform_run L P w v \<Longrightarrow> run_state (reg_Router L (pf_registry P) rrt r) v = (x, v') \<Longrightarrow> platform_run L P w v'"
| normalizer: "platform_run L P w v \<Longrightarrow> run_state (norm_step L (pf_normalizer P) i) v = (y, v') \<Longrightarrow> platform_run L P w v'"
| adapter: "platform_run L P w v \<Longrightarrow> run_state (wh_Router L (pf_adapter P) wrt r) v = (x, v') \<Longrightarrow> platform_run L P w v'"
| seeding: "platform_run L P w v \<Longrightarrow> run_state (SeedSources L ts) v = (z, v') \<Longrightarrow> platform_run L P w v'"
| outside: "platform_run L P w v \<Longrightarrow> w_db v' = w_db v \<Longrightarrow> platform_run L P w v'"

text \<open>A relation every service obeys holds between the ends of every run.\<close>

lemma platform_run_obeys:
  assumes "platform_run L P w w'" and R: "run_relation R"
    and "\<And>s rt r. obeys R (gw_Router L s rt r)" "\<And>s rt r. obeys R (reg_Router L s rt r)"
      "\<And>s i. obeys R (norm_step L s i)" "\<And>s rt r. obeys R (wh_Router L s rt r)" "\<And>ts. obeys R (SeedSources L ts)"
    and "\<And>u v. w_db v = w_db u \<Longrightarrow> R u v"
  shows "R w w'"
  using assms(1)
proof (induction rule: platform_run.induct)
  case (start w)
  show ?case by (rule run_relation.refl_R [OF R])
next
  case gateway
  then show ?case using run_relation.trans_R [OF R] obeys_run [OF assms(3)] by metis
next
  case registry
  then show ?case using run_relation.trans_R [OF R] obeys_run [OF assms(4)] by metis
next
  case normalizer
  then show ?case using run_relation.trans_R [OF R] obeys_run [OF assms(5)] by metis
next
  case adapter
  then show ?case using run_relation.trans_R [OF R] obeys_run [OF assms(6)] by metis
next
  case seeding
  then show ?case using run_relation.trans_R [OF R] obeys_run [OF assms(7)] by metis
next
  case outside
  then show ?case using run_relation.trans_R [OF R] assms(8) by metis
qed

lemma platform_history: "platform_run L P w w' \<Longrightarrow> history_kept (w_db w) (w_db w')"
proof -
  assume run: "platform_run L P w w'"
  have "db_rel history_kept w w'"
    by (rule platform_run_obeys [OF run hist.run_relation_axioms gateway_history registry_history normalizer_history
        adapter_history SeedSources_obeys [OF hist.run_relation_axioms hist.obeys_statement [OF upsertSource_history]]
        hist.same_db])
  then show ?thesis by (simp add: db_rel_def)
qed

text \<open>Services that do not write deliveries keep forwarded ones forwarded, given that they keep the constraints.\<close>

lemma fwd_frame:
  assumes "keeps db_inv m" and "obeys R m" and "\<And>w w'. R w w' \<Longrightarrow> deliveries (w_db w') = deliveries (w_db w)"
  shows "obeys fwd_rel m"
proof (rule obeysI)
  fix w
  have "deliveries (w_db (snd (run_state m w))) = deliveries (w_db w)" using obeysD [OF assms(2)] by (rule assms(3))
  then show "fwd_rel w (snd (run_state m w))"
    using keepsD [OF assms(1), of w] by (auto simp: fwd_rel_def)
qed

lemma platform_forwarded: "platform_run L P w w' \<Longrightarrow> fwd_rel w w'"
proof -
  assume run: "platform_run L P w w'"
  have g: "obeys fwd_rel (gw_Router L s rt r)" for s rt r
    by (rule fwd_frame [OF ginv.gw_Router gcred.gw_Router])
      (simp add: cred_rel_def credentials_kept_def others_untouched_def)
  have r: "obeys fwd_rel (reg_Router L s rt r)" for s rt r
    by (rule fwd_frame [OF rinv.reg_Router rframe.reg_Router]) (simp add: db_rel_def reg_frame_def)
  have n: "obeys fwd_rel (norm_step L s i)" for s i
    by (rule fwd_frame [OF sinv.norm_step nframe.norm_step]) (simp add: db_rel_def same_on_def)
  have "obeys fwd_rel (sql (upsertSource L tool secret))" for tool secret
    by (rule fwd_sql, erule upsertSource_inv) (auto simp: upsertSource_deliveries)
  then have s: "obeys fwd_rel (SeedSources L ts)" for ts
    by (rule SeedSources_obeys [OF fr.run_relation_axioms])
  show ?thesis
    by (rule platform_run_obeys [OF run fr.run_relation_axioms g r n fwd_Router s fwd_same_db])
qed

end
