(* ===== verification/SystemProps.thy ===== *)
theory SystemProps
  imports System GatewayDemo WebhookProps
begin

text \<open>Properties of the platform as a whole, each with its witness.\<close>

section \<open>What the services cannot undo\<close>




section \<open>Subjects\<close>

text \<open>Which messages a stream or consumer takes is NATS's business. Documented: a filter without wildcards takes just its
  own subject, and \<open>p.>\<close> takes the subjects with further tokens after \<open>p\<close>.\<close>

definition literal :: "string \<Rightarrow> bool" where
  "literal p \<longleftrightarrow> CHR ''*'' \<notin> set p \<and> CHR ''>'' \<notin> set p"

definition valid_subject :: "string \<Rightarrow> bool" where
  "valid_subject s \<longleftrightarrow> literal s \<and> CHR '' '' \<notin> set s \<and> list_all (\<lambda>t. t \<noteq> []) (split_at (CHR ''.'') s)"

definition subject_laws :: "(string \<Rightarrow> string \<Rightarrow> bool) \<Rightarrow> bool" where
  "subject_laws matches \<longleftrightarrow> (\<forall>p s. valid_subject p \<longrightarrow> valid_subject s \<longrightarrow>
     (matches p s \<longleftrightarrow> s = p) \<and> (matches (p @ ''.>'') s \<longleftrightarrow> (\<exists>t. t \<noteq> [] \<and> s = p @ ''.'' @ t)))"

text \<open>The filters a process gives its consumers, and the kind of an OTLP route.\<close>

definition consumer_filters :: "process_act list \<Rightarrow> string list" where
  "consumer_filters as = [f. EnsureConsumer _ _ f \<leftarrow> as]"

lemma nz_plan_filters:
  "consumer_filters (map fst (nz_plan env cfg stops)) = [''events.ingest.>'', ''schema.approved'']"
  by (cases stops) (simp_all add: nz_plan_def traced_def pooled_def worker_plan_def consumer_filters_def)

lemma otlp_subjects:
  assumes "subject_laws matches" and "otlp_kind rt = Some kind"
  shows "matches ''events.>'' (''events.otlp.'' @ kind)" "\<not> matches ''events.ingest.>'' (''events.otlp.'' @ kind)"
    "\<not> matches ''schema.approved'' (''events.otlp.'' @ kind)"
proof -
  have valid: "valid_subject (''events.otlp.'' @ kind)" "valid_subject ''events''" "valid_subject ''events.ingest''"
    "valid_subject ''schema.approved''"
    using assms(2) by (auto simp: otlp_kind_def valid_subject_def literal_def split: gw_route.splits)
  have law: "matches p s \<longleftrightarrow> s = p" "matches (p @ ''.>'') s \<longleftrightarrow> (\<exists>t. t \<noteq> [] \<and> s = p @ ''.'' @ t)"
    if "valid_subject p" "valid_subject s" for p s
    using assms(1) that unfolding subject_laws_def by blast+
  show "matches ''events.>'' (''events.otlp.'' @ kind)" using law(2) [OF valid(2,1)] by simp
  show "\<not> matches ''events.ingest.>'' (''events.otlp.'' @ kind)" using law(2) [OF valid(3,1)] by simp
  show "\<not> matches ''schema.approved'' (''events.otlp.'' @ kind)" using law(1) [OF valid(4,1)] by simp
qed

text \<open>C38. OTLP payloads reach no consumer: a request to an OTLP route that is answered 201 or 502 has put its body on the
  ingest stream, but under a subject that no consumer of the normalizer, on any path through its start,
  takes. So nothing of the platform parses it.\<close>

theorem otlp_never_consumed:
  assumes "subject_laws matches" and "otlp_kind rt = Some kind" and "rq_method r \<noteq> ''OPTIONS''"
    and "run_state (gw_Router L s rt r) w = (rs, w')" and "rs_status rs \<in> {201, 502}"
  shows "w_streams w' = w_streams w @ [(''events.otlp.'' @ kind, RawBody (take otlp_limit (rq_body r)))] \<and>
    matches ''events.>'' (''events.otlp.'' @ kind) \<and>
    (\<forall>f. f \<in> set (consumer_filters (map fst (nz_plan env cfg stops))) \<longrightarrow> \<not> matches f (''events.otlp.'' @ kind))"
proof -
  note h = otlp_handler [OF assms(2)]
  obtain q where q: "run_state (RequireAPIKey L (gs_cfg s) (handleOTLP s kind) r) w = (q, w')" "rs_status q = rs_status rs"
    using run_CORS_cases assms(3,4) unfolding machine_Router [OF h] by metis
  from q(1) have "w_streams w' = w_streams w @ [(''events.otlp.'' @ kind, RawBody (take otlp_limit (rq_body r)))]"
  proof (cases rule: RequireAPIKey_cases)
    case denied
    then show ?thesis using assms(5) q(2) by auto
  next
    case (ran agent v)
    have "w_streams v = w_streams w" using ran(3) by (simp add: touched_def)
    then show ?thesis using ran(2) assms(5) q(2)
      by (auto simp: handleOTLP_def Let_def publish_def forwardOTLP_def http_call_def run_count_ingested split: if_splits outcome.splits reply.splits)
  qed
  with otlp_subjects [OF assms(1,2)] show ?thesis by (auto simp: nz_plan_filters)
qed

definition demo_matches :: "string \<Rightarrow> string \<Rightarrow> bool" where
  "demo_matches p s =
     (case rev p of
        c # d # q \<Rightarrow> if c = CHR ''>'' \<and> d = CHR ''.'' then prefix (rev q @ ''.'') s \<and> Suc (length q) < length s else s = p
      | _ \<Rightarrow> s = p)"

lemma demo_subject_laws: "subject_laws demo_matches"
proof -
  have lit: "demo_matches p s \<longleftrightarrow> s = p" if p: "valid_subject p" for p s
  proof -
    have "c \<noteq> CHR ''>''" if "rev p = c # d # q" for c d q
      using p arg_cong [OF that, of set] by (auto simp: valid_subject_def literal_def)
    then show ?thesis by (auto simp: demo_matches_def split: list.splits)
  qed
  have wild: "demo_matches (p @ ''.>'') s \<longleftrightarrow> (\<exists>t. t \<noteq> [] \<and> s = p @ ''.'' @ t)" for p s
    by (auto simp: demo_matches_def prefix_def)
  show ?thesis using lit wild by (simp add: subject_laws_def)
qed

theorem otlp_never_consumed_witness:
  "w_streams (snd (run_state (gw_Router demo_libs demo_gw GPostTraces (demo_post [] ''spans'')) demo_gw_world)) =
     [(''events.otlp.traces'', RawBody ''spans'')]"
proof -
  let ?r = "demo_post [] ''spans''"
  let ?run = "run_state (gw_Router demo_libs demo_gw GPostTraces ?r) demo_gw_world"
  have h: "machine_handler demo_libs demo_gw GPostTraces = Some (handleOTLP demo_gw ''traces'')"
    by (simp add: machine_handler_def)
  have "caller_of demo_libs (gs_cfg demo_gw) (w_db demo_gw_world) t (gw_extractToken ?r) = Some demo_caller" for t
    by (simp add: demo_token demo_caller_of demo_gw_simps)
  from run_RequireAPIKey [OF demo_gw_healthy this] obtain v where v:
    "run_state (RequireAPIKey demo_libs (gs_cfg demo_gw) (handleOTLP demo_gw ''traces'') ?r) demo_gw_world =
       run_state (handleOTLP demo_gw ''traces'' demo_caller ?r) v" "touched demo_gw_world v" by blast
  have "healthy v" using demo_gw_healthy healthy_same_env touched_same(8) [OF v(2)] by blast
  then have "rs_status (fst (run_state (handleOTLP demo_gw ''traces'' demo_caller ?r) v)) = 201"
    by (simp add: handleOTLP_def Let_def demo_post_def otlp_limit_def run_simps demo_gw_config_def sget_def)
  moreover obtain q v2 where q: "run_state (handleOTLP demo_gw ''traces'' demo_caller ?r) v = (q, v2)" by force
  ultimately have "rs_status q = 201" by simp
  then have st: "rs_status (fst ?run) \<in> {201, 502}"
    using v(1) q unfolding machine_Router [OF h] by (simp add: run_CORS demo_post_def)
  have "w_streams demo_gw_world = []" by (simp add: demo_gw_world_def demo_world_def)
  then show ?thesis
    using otlp_never_consumed [OF demo_subject_laws _ _ surjective_pairing st, of "''traces''"]
    by (simp add: otlp_kind_def demo_post_def otlp_limit_def)
qed

end
