(* ===== verification/MetricsLaws.thy ===== *)
theory MetricsLaws
  imports GatewayDemo NormApi
begin

text \<open>
  What the prometheus counters count. A gateway counter moves with the answers of the routes that put events on
  the stream, whatever fails in between; the counters of requests and of processed events are registered but
  nothing ever moves them.
\<close>

section \<open>Accounts of a run\<close>

text \<open>\<open>T w n w'\<close> says that \<open>n\<close> has been booked between two worlds. Booking request by request books the
  requests of a run.\<close>

locale ledger =
  fixes T :: "world \<Rightarrow> nat \<Rightarrow> world \<Rightarrow> bool"
  assumes none: "T w 0 w"
    and add: "T u m v \<Longrightarrow> T v n w \<Longrightarrow> T u (m + n) w"
begin

lemma gw_serve:
  assumes step: "\<And>rt r v rs v'. run_state (gw_Router L s rt r) v = (rs, v') \<Longrightarrow> T v (of_bool (P ((rt, r), rs))) v'"
    and run: "run_state (gw_serve L s qs) w = (rss, w')"
  shows "T w (length (filter P (zip qs rss))) w'"
  using run
proof (induction qs arbitrary: w rss)
  case (Cons q qs)
  obtain rt r where q: "q = (rt, r)" by force
  obtain rs v where rs: "run_state (gw_Router L s rt r) w = (rs, v)" by force
  obtain rss' where rest: "run_state (gw_serve L s qs) v = (rss', w')" "rss = rs # rss'"
    using Cons.prems rs by (cases "run_state (gw_serve L s qs) v") (auto simp: q)
  show ?case
    using add [OF step [OF rs] Cons.IH [OF rest(1)]] by (cases "P ((rt, r), rs)") (simp_all add: q rest(2))
qed (simp add: none)

lemma wh_serve:
  assumes step: "\<And>rt r v rs v'. run_state (wh_Router L s rt r) v = (rs, v') \<Longrightarrow> T v (of_bool (P ((rt, r), rs))) v'"
    and run: "run_state (wh_serve L s qs) w = (rss, w')"
  shows "T w (length (filter P (zip qs rss))) w'"
  using run
proof (induction qs arbitrary: w rss)
  case (Cons q qs)
  obtain rt r where q: "q = (rt, r)" by force
  obtain rs v where rs: "run_state (wh_Router L s rt r) w = (rs, v)" by force
  obtain rss' where rest: "run_state (wh_serve L s qs) v = (rss', w')" "rss = rs # rss'"
    using Cons.prems rs by (cases "run_state (wh_serve L s qs) v") (auto simp: q)
  show ?case
    using add [OF step [OF rs] Cons.IH [OF rest(1)]] by (cases "P ((rt, r), rs)") (simp_all add: q rest(2))
qed (simp add: none)

end

section \<open>The gateway\<close>

text \<open>What a request that is answered 201 is counted as.\<close>

definition ingest_label :: "libs \<Rightarrow> gw_route \<Rightarrow> request \<Rightarrow> (string \<times> string) option" where
  "ingest_label L rt r =
     (if collect_route rt
      then map_option (\<lambda>req. (cq_category req, ''event'')) (decode_struct L (collect_fields L) (rq_body r))
      else map_option (\<lambda>kind. (''otlp_'' @ kind, ''otlp'')) (otlp_kind rt))"

definition counted_answer :: "libs \<Rightarrow> gw_route \<Rightarrow> request \<Rightarrow> response \<Rightarrow> metrics \<Rightarrow> metrics" where
  "counted_answer L rt r rs m =
     (if rs_status rs = 201 then case ingest_label L rt r of None \<Rightarrow> m | Some (c, k) \<Rightarrow> ingested c k m else m)"

definition same_metrics :: "world \<Rightarrow> world \<Rightarrow> bool" where
  "same_metrics w w' \<longleftrightarrow> m_metrics (w_mem w') = m_metrics (w_mem w)"

interpretation sme: run_relation same_metrics
  by unfold_locales (auto simp: same_metrics_def)

lemma same_metricsI: "obeys same_memory m \<Longrightarrow> obeys same_metrics m"
  by (simp add: obeys_def same_metrics_def same_memory_def)

interpretation gmet: gateway_core same_metrics
  by unfold_locales (rule same_metricsI, rule same_memory_effects)+

lemma collect_new_metrics:
  assumes run: "run_state (collect_new L agent r) w = (rs, w')" and rt: "collect_route rt"
  shows "m_metrics (w_mem w') = counted_answer L rt r rs (m_metrics (w_mem w))"
  using run
proof (cases rule: collect_new_cases)
  case (accepted req data env v)
  then show ?thesis using rt by (simp add: counted_answer_def ingest_label_def save_response_frame)
qed (simp_all add: counted_answer_def)

lemma handleCollect_metrics:
  assumes run: "run_state (handleCollect L agent r) w = (rs, w')" and rt: "collect_route rt"
  shows "m_metrics (w_mem w') = counted_answer L rt r rs (m_metrics (w_mem w))"
  using run
proof (cases rule: handleCollect_cases)
  case (fresh v)
  then show ?thesis using collect_new_metrics [OF fresh(2) rt] by auto
qed (simp_all add: counted_answer_def)

lemma RateLimit_metrics:
  assumes run: "run_state (RateLimit lm (handleCollect L) agent r) w = (rs, w')" and rt: "collect_route rt"
  shows "m_metrics (w_mem w') = counted_answer L rt r rs (m_metrics (w_mem w))"
proof -
  obtain ok v where v: "run_state (allow lm (ga_id agent)) w = (ok, v)" by force
  have m: "m_metrics (w_mem v) = m_metrics (w_mem w)" using v by (auto simp: run_allow split: prod.splits)
  show ?thesis
  proof (cases ok)
    case True
    then have "run_state (handleCollect L agent r) v = (rs, w')" using run v by (simp add: RateLimit_def)
    from handleCollect_metrics [OF this rt] m show ?thesis by simp
  next
    case False
    then show ?thesis using run v m by (auto simp: RateLimit_def counted_answer_def)
  qed
qed

lemma handleOTLP_metrics:
  assumes run: "run_state (handleOTLP s kind agent r) w = (rs, w')" and rt: "otlp_kind rt = Some kind"
  shows "m_metrics (w_mem w') = counted_answer L rt r rs (m_metrics (w_mem w))"
proof -
  have "\<not> collect_route rt" using rt by (auto simp: collect_route_def otlp_kind_def)
  then show ?thesis
    using run rt
    by (auto simp: handleOTLP_def Let_def publish_def forwardOTLP_def http_call_def run_count_ingested counted_answer_def
        ingest_label_def split: if_splits outcome.splits reply.splits)
qed

text \<open>Behind the guard of the machine routes.\<close>

lemma guarded_metrics:
  assumes run: "run_state (CORS (RequireAPIKey L cfg h) r) w = (rs, w')"
    and h: "\<And>agent v q v'. run_state (h agent r) v = (q, v') \<Longrightarrow>
      m_metrics (w_mem v') = counted_answer L rt r q (m_metrics (w_mem v))"
  shows "m_metrics (w_mem w') = counted_answer L rt r rs (m_metrics (w_mem w))"
proof (cases "rq_method r = ''OPTIONS''")
  case True
  then show ?thesis using run by (auto simp: CORS_def counted_answer_def)
next
  case False
  obtain q where q: "run_state (RequireAPIKey L cfg h r) w = (q, w')" "rs_status q = rs_status rs"
    using run_CORS_cases [OF run False] by metis
  have "m_metrics (w_mem w') = counted_answer L rt r q (m_metrics (w_mem w))"
    using q(1)
  proof (cases rule: RequireAPIKey_cases)
    case denied
    then show ?thesis by (auto simp: counted_answer_def)
  next
    case (ran agent v)
    then show ?thesis using h [OF ran(2)] by (simp add: touched_def)
  qed
  then show ?thesis by (simp add: counted_answer_def q(2))
qed

lemma Router_metrics:
  assumes run: "run_state (gw_Router L s rt r) w = (rs, w')"
  shows "m_metrics (w_mem w') = counted_answer L rt r rs (m_metrics (w_mem w))"
proof -
  consider (collect) "collect_route rt" | (otlp) kind where "otlp_kind rt = Some kind"
    | (plain) "\<not> collect_route rt" "otlp_kind rt = None" by blast
  then show ?thesis
  proof cases
    case collect
    from run [unfolded machine_Router [OF collect_handler [OF collect]]] RateLimit_metrics [OF _ collect]
    show ?thesis by (rule guarded_metrics)
  next
    case otlp
    from run [unfolded machine_Router [OF otlp_handler [OF otlp]]] handleOTLP_metrics [OF _ otlp]
    show ?thesis by (rule guarded_metrics)
  next
    case plain
    then have "same_metrics w w'" using obeys_run [OF gmet.plain_routes run] by (simp add: otlp_route_def)
    then show ?thesis using plain by (simp add: same_metrics_def counted_answer_def ingest_label_def)
  qed
qed

text \<open>The requests of a run that are counted under a label.\<close>

definition counts_as :: "libs \<Rightarrow> string \<Rightarrow> string \<Rightarrow> (gw_route \<times> request) \<times> response \<Rightarrow> bool" where
  "counts_as L c k = (\<lambda>((rt, r), rs). rs_status rs = 201 \<and> ingest_label L rt r = Some (c, k))"

lemma count_answer:
  "count_of (ingestedEvents (counted_answer L rt r rs m)) [c, k] =
     count_of (ingestedEvents m) [c, k] + of_bool (counts_as L c k ((rt, r), rs))"
  by (auto simp: counted_answer_def counts_as_def ingested_def split: option.split)

lemma requests_uncounted: "httpRequests (counted_answer L rt r rs m) = httpRequests m"
  by (simp add: counted_answer_def ingested_def split: option.split)

interpretation ingest_book: ledger "\<lambda>w n w'. count_of (ingestedEvents (m_metrics (w_mem w'))) ls =
    count_of (ingestedEvents (m_metrics (w_mem w))) ls + n \<and> httpRequests (m_metrics (w_mem w')) = httpRequests (m_metrics (w_mem w))"
  for ls
  by unfold_locales simp_all

lemma serve_metrics:
  "run_state (gw_serve L s qs) w = (rss, w') \<Longrightarrow>
   count_of (ingestedEvents (m_metrics (w_mem w'))) [c, k] =
      count_of (ingestedEvents (m_metrics (w_mem w))) [c, k] + length (filter (counts_as L c k) (zip qs rss)) \<and>
   httpRequests (m_metrics (w_mem w')) = httpRequests (m_metrics (w_mem w))"
  by (rule ingest_book.gw_serve) (simp_all add: Router_metrics count_answer requests_uncounted)

text \<open>Every event counted is on the stream.\<close>

definition on_subject :: "string \<Rightarrow> world \<Rightarrow> nat" where
  "on_subject subject w = length (filter (\<lambda>m. fst m = subject) (w_streams w))"

lemma on_subject_grows: "grows w w' \<Longrightarrow> on_subject subject w \<le> on_subject subject w'"
  by (auto simp: grows_def prefix_def on_subject_def)

lemma handleCollect_201:
  assumes run: "run_state (handleCollect L agent r) w = (rs, w')" and ok: "rs_status rs = 201"
  shows "\<exists>req data. decode_struct L (collect_fields L) (rq_body r) = Some req \<and>
    w_streams w' = w_streams w @ [(''events.ingest.'' @ cq_category req, JsonBody data)]"
  using run
proof (cases rule: handleCollect_cases)
  case (fresh v)
  from fresh(2) show ?thesis
  proof (cases rule: collect_new_cases)
    case (accepted req data env v2)
    have "w_streams v = w_streams w" using fresh(1) by auto
    then show ?thesis using accepted(1) by (simp add: accepted(8,9) save_response_frame)
  qed (use ok in auto)
qed (use ok in auto)

lemma Router_201:
  assumes run: "run_state (gw_Router L s rt r) w = (rs, w')" and rt: "collect_route rt" and ok: "rs_status rs = 201"
  shows "\<exists>req data. decode_struct L (collect_fields L) (rq_body r) = Some req \<and>
    w_streams w' = w_streams w @ [(''events.ingest.'' @ cq_category req, JsonBody data)]"
proof -
  have m: "rq_method r \<noteq> ''OPTIONS''" using run ok by (auto simp: gw_Router_def CORS_def split: if_splits)
  obtain q where q: "run_state (RequireAPIKey L (gs_cfg s) (RateLimit (gs_limiter s) (handleCollect L)) r) w = (q, w')"
    "rs_status q = 201"
    using run_CORS_cases run m ok unfolding machine_Router [OF collect_handler [OF rt]] by metis
  from q(1) show ?thesis
  proof (cases rule: RequireAPIKey_cases)
    case denied
    then show ?thesis using q(2) by auto
  next
    case (ran agent v)
    obtain b v2 where v2: "run_state (allow (gs_limiter s) (ga_id agent)) v = (b, v2)" by force
    have "w_streams v2 = w_streams w" using v2 ran(3) by (auto simp: run_allow touched_def split: prod.splits)
    moreover have "run_state (handleCollect L agent r) v2 = (q, w')"
      using ran(2) v2 q(2) by (cases b) (auto simp: RateLimit_def)
    ultimately show ?thesis using handleCollect_201 q(2) by metis
  qed
qed

lemma counted_on_stream:
  assumes run: "run_state (gw_Router L s rt r) w = (rs, w')"
  shows "on_subject (''events.ingest.'' @ c) w + of_bool (counts_as L c ''event'' ((rt, r), rs)) \<le>
    on_subject (''events.ingest.'' @ c) w'"
proof (cases "counts_as L c ''event'' ((rt, r), rs)")
  case True
  then have ok: "collect_route rt" "rs_status rs = 201"
    by (auto simp: counts_as_def ingest_label_def split: if_splits)
  from Router_201 [OF run ok] True show ?thesis
    by (auto simp: counts_as_def ingest_label_def ok(1) on_subject_def)
next
  case False
  then show ?thesis using on_subject_grows [OF obeys_run [OF ggrow.gw_Router run]] by simp
qed

interpretation stream_book: ledger "\<lambda>w n w'. on_subject subject w + n \<le> on_subject subject w'" for subject
  by unfold_locales simp_all

lemma serve_on_stream:
  "run_state (gw_serve L s qs) w = (rss, w') \<Longrightarrow>
   on_subject (''events.ingest.'' @ c) w + length (filter (counts_as L c ''event'') (zip qs rss)) \<le>
   on_subject (''events.ingest.'' @ c) w'"
  by (rule stream_book.gw_serve) (rule counted_on_stream)

section \<open>The webhook adapter\<close>

text \<open>What a webhook is counted as, by its answer.\<close>

definition outcome_label :: "nat \<Rightarrow> string option" where
  "outcome_label status =
     (if status = 401 then Some ''bad_signature'' else if status = 502 then Some ''forward_failed''
      else if status = 202 then Some ''forwarded'' else None)"

definition same_deliveries :: "world \<Rightarrow> world \<Rightarrow> bool" where
  "same_deliveries w w' \<longleftrightarrow> m_hook_metrics (w_mem w') = m_hook_metrics (w_mem w)"

interpretation sdl: run_relation same_deliveries
  by unfold_locales (auto simp: same_deliveries_def)

lemma same_deliveriesI: "obeys same_memory m \<Longrightarrow> obeys same_deliveries m"
  by (simp add: obeys_def same_deliveries_def same_memory_def)

lemmas same_deliveries_intros = sdl.obeys_control same_memory_effects [THEN same_deliveriesI]

lemma handleWebhook_metrics:
  assumes run: "run_state (handleWebhook L s tool r) w = (rs, w')"
  shows "m_hook_metrics (w_mem w') =
    (case outcome_label (rs_status rs) of None \<Rightarrow> m_hook_metrics (w_mem w) | Some out \<Rightarrow> delivered tool out (m_hook_metrics (w_mem w)))"
proof -
  have rec: "obeys same_deliveries (RecordDelivery tool True raw n hdrs)" for raw n hdrs
    unfolding RecordDelivery_def by (intro same_deliveries_intros)
  have fwd: "obeys same_deliveries (forward c n)" "obeys same_deliveries (deadLetter L tool did n)"
    "obeys same_deliveries (sql f)" for c n did and f :: "unit stmt"
    unfolding forward_def deadLetter_def by (intro same_deliveries_intros)+
  show ?thesis
    using run
  proof (cases rule: handleWebhook_cases)
    case (unrecorded raw n e)
    then show ?thesis using obeys_run [OF rec unrecorded(2)] by (simp add: same_deliveries_def outcome_label_def)
  next
    case (recorded raw env did v y v2 z)
    have "same_deliveries (tick (tick w)) v2" using obeys_run [OF rec recorded(4)] obeys_run [OF fwd(1) recorded(5)] by (rule sdl.trans_R)
    then have v2: "m_hook_metrics (w_mem v2) = m_hook_metrics (w_mem w)" by (simp add: same_deliveries_def)
    show ?thesis
    proof (cases "isl y")
      case True
      then obtain v3 where v3: "run_state (sql (MarkFailed did (l_publish_error L))) v2 = (z, v3)" "rs_status rs = 502"
        "w' = with_count tool ''forward_failed'' (snd (run_state (deadLetter L tool did (j_wh_envelope L env)) v3))"
        using recorded(7) by blast
      then show ?thesis
        using obeys_run [OF fwd(3) v3(1)] obeysD [OF fwd(2), where w = v3] v2
        by (simp add: same_deliveries_def outcome_label_def)
    next
      case False
      then obtain v3 where v3: "run_state (sql (MarkForwarded did)) v2 = (z, v3)" "rs_status rs = 202"
        "w' = with_count tool ''forwarded'' v3" using recorded(6) by blast
      then show ?thesis using obeys_run [OF fwd(3) v3(1)] v2 by (simp add: same_deliveries_def outcome_label_def)
    qed
  qed (simp_all add: outcome_label_def)
qed

text \<open>The requests of a run that are counted under a tool and an outcome.\<close>

definition hooked_as :: "string \<Rightarrow> string \<Rightarrow> (wh_route \<times> request) \<times> response \<Rightarrow> bool" where
  "hooked_as tool out = (\<lambda>((rt, r), rs).
     (case rt of WPostWebhook t \<Rightarrow> tool_name t = tool \<and> outcome_label (rs_status rs) = Some out | _ \<Rightarrow> False))"

lemma wh_Router_metrics:
  assumes run: "run_state (wh_Router L s rt r) w = (rs, w')"
  shows "count_of (wm_deliveries (m_hook_metrics (w_mem w'))) [tool, out] =
    count_of (wm_deliveries (m_hook_metrics (w_mem w))) [tool, out] + of_bool (hooked_as tool out ((rt, r), rs))"
proof (cases "\<exists>t. rt = WPostWebhook t")
  case True
  then obtain t where t: "rt = WPostWebhook t" by blast
  then have "run_state (handleWebhook L s (tool_name t) r) w = (rs, w')" using run by (simp add: wh_Router_def)
  from handleWebhook_metrics [OF this] show ?thesis
    by (auto simp: hooked_as_def t delivered_def split: option.split)
next
  case False
  have h: "obeys same_deliveries (handleListDeliveries L i r)" "obeys same_deliveries (handleGetDelivery L i r)"
    "obeys same_deliveries (handleRetryDelivery L i r)" for i r
    unfolding handleListDeliveries_def handleGetDelivery_def handleRetryDelivery_def forward_def
    by (intro same_deliveries_intros)+
  have "obeys same_deliveries (wh_Router L s rt r)"
    using False
    by (cases rt) (auto simp: wh_Router_def wh_handleMetrics_def intro!: same_deliveries_intros sdl.obeys_Middleware h)
  from obeys_run [OF this run] False show ?thesis by (auto simp: same_deliveries_def hooked_as_def split: wh_route.split)
qed

interpretation hook_book: ledger "\<lambda>w n w'. count_of (wm_deliveries (m_hook_metrics (w_mem w'))) ls =
    count_of (wm_deliveries (m_hook_metrics (w_mem w))) ls + n" for ls
  by unfold_locales simp_all

lemma wh_serve_metrics:
  "run_state (wh_serve L s qs) w = (rss, w') \<Longrightarrow>
   count_of (wm_deliveries (m_hook_metrics (w_mem w'))) [tool, out] =
     count_of (wm_deliveries (m_hook_metrics (w_mem w))) [tool, out] + length (filter (hooked_as tool out) (zip qs rss))"
  by (rule hook_book.wh_serve) (rule wh_Router_metrics)

section \<open>The normalizer\<close>

definition same_processed :: "world \<Rightarrow> world \<Rightarrow> bool" where
  "same_processed w w' \<longleftrightarrow> m_norm_metrics (w_mem w') = m_norm_metrics (w_mem w)"

lemma same_processedI: "obeys same_memory m \<Longrightarrow> obeys same_processed m"
  by (simp add: obeys_def same_processed_def same_memory_def)

interpretation nmet: service_relation same_processed
proof
  show "same_processed w w" for w by (simp add: same_processed_def)
  show "same_processed u v \<Longrightarrow> same_processed v w \<Longrightarrow> same_processed u w" for u v w by (simp add: same_processed_def)
  show "obeys same_processed (remember (\<lambda>m. m\<lparr>m_counts := f (m_counts m)\<rparr>))"
    "obeys same_processed (remember (\<lambda>m. m\<lparr>m_cache := g (m_cache m)\<rparr>))" for f g
    by (rule obeysI, simp add: remember_def same_processed_def)+
qed (rule same_processedI, rule same_memory_effects)+

end
