(* ===== verification/MetricsProps.thy ===== *)
theory MetricsProps
  imports MetricsLaws GatewayProps WebhookProps NormProps
begin

text \<open>The properties of the prometheus counters, each with its witness.\<close>

text \<open>C29. The ingest counter is exact and never ahead of the stream: over any run of the gateway, whatever fails,
  \<open>ingested_events_total\<close> of a category and a kind grows by the number of requests of that label that were
  answered 201, and for events by at most the number of messages that were put on the category's subject.
  The counter of HTTP requests, registered beside it, never moves.\<close>

theorem ingest_counter_exact:
  assumes "run_state (gw_serve L s qs) w = (rss, w')"
  shows "count_of (ingestedEvents (m_metrics (w_mem w'))) [c, k] =
      count_of (ingestedEvents (m_metrics (w_mem w))) [c, k] + length (filter (counts_as L c k) (zip qs rss)) \<and>
    on_subject (''events.ingest.'' @ c) w + length (filter (counts_as L c ''event'') (zip qs rss)) \<le>
      on_subject (''events.ingest.'' @ c) w' \<and>
    httpRequests (m_metrics (w_mem w')) = httpRequests (m_metrics (w_mem w))"
  using serve_metrics [OF assms] serve_on_stream [OF assms] by simp

theorem ingest_counter_exact_witness:
  "count_of (ingestedEvents (m_metrics (w_mem (snd (run_state (gw_serve demo_libs demo_gw
     [(GPostCollect, demo_post [] ''collect'')]) demo_gw_world))))) [''orders'', ''event''] = 1"
proof -
  let ?r = "demo_post [] ''collect''"
  obtain rs v where rs: "run_state (gw_Router demo_libs demo_gw GPostCollect ?r) demo_gw_world = (rs, v)" by force
  have "rs_status rs = 201"
    using demo_collect_accepted [OF refl refl, of "[]"] rs by simp
  then have label: "counts_as demo_libs ''orders'' ''event'' ((GPostCollect, ?r), rs)"
    by (simp add: counts_as_def ingest_label_def collect_route_def demo_post_def demo_decode demo_request_def)
  have run: "run_state (gw_serve demo_libs demo_gw [(GPostCollect, ?r)]) demo_gw_world = ([rs], v)" using rs by simp
  have "m_metrics (w_mem demo_gw_world) = newMetrics"
    by (simp add: demo_gw_world_def demo_world_def fresh_memory_def)
  with ingest_counter_exact [OF run, of "''orders''" "''event''"] label run show ?thesis by (simp add: newMetrics_def)
qed

text \<open>The delivery counter is exact: over any run of the adapter, whatever fails, \<open>deliveries_total\<close> of a tool
  and an outcome grows by the number of the tool's webhooks that were answered 401 (bad signature), 502
  (forward failed) or 202 (forwarded); retries are not counted.\<close>

theorem delivery_counter_exact:
  assumes "run_state (wh_serve L s qs) w = (rss, w')"
  shows "count_of (wm_deliveries (m_hook_metrics (w_mem w'))) [tool, out] =
    count_of (wm_deliveries (m_hook_metrics (w_mem w))) [tool, out] + length (filter (hooked_as tool out) (zip qs rss))"
  using assms by (rule wh_serve_metrics)

theorem delivery_counter_exact_witness:
  "count_of (wm_deliveries (m_hook_metrics (w_mem (snd (run_state (wh_serve demo_libs demo_wh
     [(WPostWebhook MarbleJar, demo_signed)]) demo_wh_world))))) [''marble-jar'', ''forwarded''] = 1"
proof -
  obtain rs v where rs: "run_state (wh_Router demo_libs demo_wh (WPostWebhook MarbleJar) demo_signed) demo_wh_world = (rs, v)" by force
  then have "hooked_as ''marble-jar'' ''forwarded'' ((WPostWebhook MarbleJar, demo_signed), rs)"
    using demo_accepted by (simp add: hooked_as_def outcome_label_def tool_name_def)
  moreover have run: "run_state (wh_serve demo_libs demo_wh [(WPostWebhook MarbleJar, demo_signed)]) demo_wh_world = ([rs], v)"
    using rs by simp
  moreover have "m_hook_metrics (w_mem demo_wh_world) = newWebhookMetrics"
    by (simp add: demo_wh_world_def demo_world_def fresh_memory_def)
  ultimately show ?thesis
    using delivery_counter_exact [OF run, of "''marble-jar''" "''forwarded''"] by (simp add: newWebhookMetrics_def)
qed

text \<open>The counter of processed events stays empty: whatever messages and requests the normalizer serves,
  \<open>events_processed_total\<close> is never incremented, although the service registers and exposes it.\<close>

theorem processed_counter_empty:
  assumes "run_state (norm_serve L s inputs) w = (outs, w')"
  shows "m_norm_metrics (w_mem w') = m_norm_metrics (w_mem w)"
  using obeys_run [OF nmet.norm_serve assms] by (simp add: same_processed_def)

theorem processed_counter_empty_witness:
  "count_of (nm_routed (m_norm_metrics (w_mem (snd (run_state (norm_serve demo_libs demo_norm
     [Ingest demo_message, NormHttp NGetMetrics demo_anonymous]) demo_norm_world))))) [''orders'', ''routed''] = 0"
  unfolding processed_counter_empty [OF surjective_pairing]
  by (simp add: demo_norm_world_def demo_world_def fresh_memory_def newNormalizerMetrics_def)

end
