(* ===== verification/OverlapProps.thy ===== *)
theory OverlapProps
  imports GatewayProps
begin

text \<open>
  Two requests in flight at once. \<open>net/http\<close> runs every handler in a goroutine of its own, so a handler that reads
  and then acts on what it has read can be overtaken in between. \<open>overlapped\<close> runs two such handlers with both
  reads before either act.
\<close>

definition overlapped :: "'a io \<Rightarrow> ('a \<Rightarrow> 'r io) \<Rightarrow> 'b io \<Rightarrow> ('b \<Rightarrow> 's io) \<Rightarrow> ('r \<times> 's) io" where
  "overlapped read1 act1 read2 act2 = do {
     x \<leftarrow> read1;
     y \<leftarrow> read2;
     a \<leftarrow> act1 x;
     b \<leftarrow> act2 y;
     ret (a, b)
   }"

text \<open>\<open>handleCollect\<close> of a request with an idempotency key, split after its lookup.\<close>

definition idem_lookup :: "gw_agent \<Rightarrow> request \<Rightarrow> json res io" where
  "idem_lookup agent r = sql (GetIdempotencyResponse (header r ''Idempotency-Key'') (ga_id agent))"

definition collect_after :: "libs \<Rightarrow> gw_agent \<Rightarrow> request \<Rightarrow> json res \<Rightarrow> response io" where
  "collect_after L agent r x =
     (case x of
        Inr existing \<Rightarrow> ret (write_raw 200 (JsonBody existing))
      | Inl e \<Rightarrow>
          if e = ErrNotFound then collect_new L agent r
          else ret (WriteError 500 ''idempotency lookup failed''))"

lemma handleCollect_split:
  "header r ''Idempotency-Key'' \<noteq> [] \<Longrightarrow>
   handleCollect L agent r = State_Monad.bind (idem_lookup agent r) (collect_after L agent r)"
  by (simp add: handleCollect_def idem_lookup_def collect_after_def [abs_def] Let_def)

text \<open>A request that \<open>collect_new\<close> accepts.\<close>

definition collectable :: "libs \<Rightarrow> request \<Rightarrow> collect_request \<Rightarrow> bool" where
  "collectable L r req \<longleftrightarrow> decode_struct L (collect_fields L) (rq_body r) = Some req \<and> cq_category req \<noteq> [] \<and>
     cq_timestamp req \<noteq> zero_time \<and> cq_payload req \<noteq> None \<and> rfc3339_time (cq_timestamp req)"

lemma collect_new_run:
  assumes w: "healthy w" and req: "collectable L r req" and clock: "\<And>n. rfc3339_time (w_clock w n)" and u: "uuid_laws L"
    and key: "header r ''Idempotency-Key'' \<noteq> []"
  defines "event \<equiv> l_uuid_string L (w_uuid w (w_tick w))"
  shows "\<exists>data w' un t. run_state (collect_new L agent r) w = (WriteJSON 201 (accepted_body event), w') \<and>
    w_streams w' = w_streams w @ [(''events.ingest.'' @ cq_category req, JsonBody data)] \<and> same_env w w' \<and>
    w_tick w' = w_tick w + 4 \<and>
    w_db w' = snd (SaveIdempotencyResponse (header r ''Idempotency-Key'') (ga_id agent) (w_uuid w (w_tick w)) (accepted_body event) un t (w_db w))"
proof -
  let ?env = "collect_envelope L agent req (w_uuid w (w_tick w)) (w_clock w (Suc (w_tick w)))"
  obtain data where data: "j_ingest L ?env = Some data"
    using req clock by (simp add: collectable_def j_ingest_def collect_envelope_def)
  have ev: "ie_event ?env = event" by (simp add: collect_envelope_def event_def)
  have parse: "l_uuid_parse L event = Some (w_uuid w (w_tick w))" using u by (simp add: uuid_laws_def event_def)
  show ?thesis
    using w req data key
    by (simp add: collectable_def collect_new_def Let_def run_simps ev save_response_def parse split: prod.split)
      (auto simp: same_env_def)
qed

text \<open>C12. Concurrent retries are not deduplicated: when two collect requests of an agent with one fresh idempotency
  key are in flight at once, both lookups run before either request is remembered, and then both are answered
  201, under different event ids, and both events go on the stream. Only the first answer is remembered for
  the key. One after the other, the second is answered with the first's response and publishes nothing.\<close>

theorem concurrent_retries_publish_twice:
  assumes "healthy w" and "uuid_laws L" and "\<And>n. rfc3339_time (w_clock w n)" and "inj_on (w_uuid w) {w_tick w..<w_tick w + 10}"
    and "ga_id agent \<in> a_id ` set (agents (w_db w))"
    and key: "header r1 ''Idempotency-Key'' = k" "header r2 ''Idempotency-Key'' = k" "k \<noteq> []"
    and new: "(k, ga_id agent) \<notin> (\<lambda>i. (i_key i, i_agent i)) ` set (idempotency_keys (w_db w))"
    and req: "collectable L r1 req1" "collectable L r2 req2"
    and run: "run_state (overlapped (idem_lookup agent r1) (collect_after L agent r1)
      (idem_lookup agent r2) (collect_after L agent r2)) w = ((rs1, rs2), w')"
  shows "rs_status rs1 = 201 \<and> rs_status rs2 = 201 \<and> rs_body rs1 \<noteq> rs_body rs2 \<and>
    (\<exists>data1 data2. w_streams w' = w_streams w @ [(''events.ingest.'' @ cq_category req1, JsonBody data1),
       (''events.ingest.'' @ cq_category req2, JsonBody data2)]) \<and>
    (\<exists>i. idempotency_keys (w_db w') = idempotency_keys (w_db w) @ [i] \<and> i_key i = k \<and> i_agent i = ga_id agent \<and>
       JsonBody (i_response i) = rs_body rs1)"
proof -
  have miss: "GetIdempotencyResponse k (ga_id agent) u t (w_db w) = (Inl ErrNotFound, w_db w)" for u t
    using new by (auto simp: GetIdempotencyResponse_def find_None_iff image_iff split: option.split)
  let ?w0 = "tick (tick w)"
  have look: "run_state (idem_lookup agent r1) w = (Inl ErrNotFound, tick w)"
    "run_state (idem_lookup agent r2) (tick w) = (Inl ErrNotFound, ?w0)"
    using assms(1) key(1,2) by (simp_all add: idem_lookup_def run_sql miss)
  obtain data1 w1 u1 t1 where 1: "run_state (collect_new L agent r1) ?w0 = (WriteJSON 201 (accepted_body (l_uuid_string L (w_uuid w (w_tick w + 2)))), w1)"
    "w_streams w1 = w_streams w @ [(''events.ingest.'' @ cq_category req1, JsonBody data1)]" "same_env ?w0 w1" "w_tick w1 = w_tick w + 6"
    "w_db w1 = snd (SaveIdempotencyResponse k (ga_id agent) (w_uuid w (w_tick w + 2)) (accepted_body (l_uuid_string L (w_uuid w (w_tick w + 2)))) u1 t1 (w_db w))"
    using collect_new_run [of ?w0, OF _ req(1) _ assms(2)] assms(1,3) key(1,3) by fastforce
  have w1: "healthy w1" "w_uuid w1 = w_uuid w" "\<And>n. rfc3339_time (w_clock w1 n)"
    using healthy_same_env [OF 1(3)] 1(3) assms(1,3) by (simp_all add: same_env_def)
  obtain data2 w2 u2 t2 where 2: "run_state (collect_new L agent r2) w1 = (WriteJSON 201 (accepted_body (l_uuid_string L (w_uuid w (w_tick w + 6)))), w2)"
    "w_streams w2 = w_streams w1 @ [(''events.ingest.'' @ cq_category req2, JsonBody data2)]"
    "w_db w2 = snd (SaveIdempotencyResponse k (ga_id agent) (w_uuid w (w_tick w + 6)) (accepted_body (l_uuid_string L (w_uuid w (w_tick w + 6)))) u2 t2 (w_db w1))"
    using collect_new_run [OF w1(1) req(2) w1(3) assms(2)] key(2,3) 1(4) w1(2) by fastforce
  have out: "rs1 = WriteJSON 201 (accepted_body (l_uuid_string L (w_uuid w (w_tick w + 2))))"
    "rs2 = WriteJSON 201 (accepted_body (l_uuid_string L (w_uuid w (w_tick w + 6))))" "w' = w2"
    using run look 1(1) 2(1) by (simp_all add: overlapped_def collect_after_def)
  have "w_uuid w (w_tick w + 2) \<noteq> w_uuid w (w_tick w + 6)"
    using assms(4) by (auto dest: inj_onD)
  then have "rs_body rs1 \<noteq> rs_body rs2"
    using assms(2) unfolding out accepted_body_def by (auto simp: uuid_laws_def) (metis option.inject)
  moreover have "\<exists>i. idempotency_keys (w_db w') = idempotency_keys (w_db w) @ [i] \<and> i_key i = k \<and> i_agent i = ga_id agent \<and>
      JsonBody (i_response i) = rs_body rs1"
    using new assms(5) unfolding out 2(3) 1(5) by (simp add: SaveIdempotencyResponse_def)
  ultimately show ?thesis using 1(2) 2(2) by (simp add: out)
qed

theorem concurrent_retries_publish_twice_witness:
  "length (w_streams (snd (run_state (overlapped
     (idem_lookup demo_caller (demo_post [(''Idempotency-Key'', ''once'')] ''collect''))
     (collect_after demo_libs demo_caller (demo_post [(''Idempotency-Key'', ''once'')] ''collect''))
     (idem_lookup demo_caller (demo_post [(''Idempotency-Key'', ''once'')] ''collect''))
     (collect_after demo_libs demo_caller (demo_post [(''Idempotency-Key'', ''once'')] ''collect''))) demo_gw_world))) = 2"
proof -
  let ?r = "demo_post [(''Idempotency-Key'', ''once'')] ''collect''"
  have key: "header ?r ''Idempotency-Key'' = ''once''" by (simp add: demo_post_def sget_def)
  have req: "collectable demo_libs ?r demo_request"
    by (simp add: collectable_def demo_post_def demo_decode) (simp add: demo_request_def zero_time_def rfc3339_time_def)
  have world: "rfc3339_time (w_clock demo_gw_world n)" "ga_id demo_caller \<in> a_id ` set (agents (w_db demo_gw_world))"
    "(''once'', ga_id demo_caller) \<notin> (\<lambda>i. (i_key i, i_agent i)) ` set (idempotency_keys (w_db demo_gw_world))" for n
    by (simp_all add: demo_gw_simps rfc3339_time_def min_def demo_caller_def demo_gw_db_def demo_agent_def empty_db_def)
  have inj: "inj_on (w_uuid demo_gw_world) {w_tick demo_gw_world..<w_tick demo_gw_world + 10}"
  proof (rule inj_onI)
    fix m n assume mn: "m \<in> {w_tick demo_gw_world..<w_tick demo_gw_world + 10}" "n \<in> {w_tick demo_gw_world..<w_tick demo_gw_world + 10}"
      and eq: "w_uuid demo_gw_world m = w_uuid demo_gw_world n"
    have "unat (w_uuid demo_gw_world m) = m" "unat (w_uuid demo_gw_world n) = n"
      using mn by (simp_all add: demo_gw_simps unat_of_nat)
    with eq show "m = n" by metis
  qed
  obtain rs1 rs2 w' where run: "run_state (overlapped (idem_lookup demo_caller ?r) (collect_after demo_libs demo_caller ?r)
      (idem_lookup demo_caller ?r) (collect_after demo_libs demo_caller ?r)) demo_gw_world = ((rs1, rs2), w')"
    by (metis prod.collapse)
  from concurrent_retries_publish_twice [OF demo_gw_healthy demo_laws(1) world(1) inj world(2) key key _ world(3) req req run] run
  show ?thesis by (auto simp: demo_gw_simps)
qed

end
