(* ===== verification/TraceContext.thy ===== *)
theory TraceContext
  imports Webhook RegistryApi GatewayApi
begin

text \<open>
  How a trace travels with a message: \<open>natsHeaderCarrier\<close>, \<open>InjectNATS\<close> and \<open>ExtractNATS\<close> of
  \<open>internal/platform/telemetry.go\<close>, and the three publishers that use them. The headers of the NATS client and
  the propagator of OpenTelemetry are parameters: a header map is created, read and written by key, and a
  propagator sets the fields of a context and reads them back. A header that is nil is \<open>None\<close>. Tracing changes
  neither what is published nor how it fails, so the other theories publish without it.
\<close>

record ('c, 'h, 's) tracing =
  tr_new :: 'h
  tr_get :: "'h \<Rightarrow> string \<Rightarrow> string"
  tr_set :: "'h \<Rightarrow> string \<Rightarrow> string \<Rightarrow> 'h"
  tr_keys :: "'h \<Rightarrow> string list"
  tr_fields :: "'c \<Rightarrow> (string \<times> string) list"
  tr_extract :: "'c \<Rightarrow> (string \<Rightarrow> string) \<Rightarrow> 'c"
  tr_span :: "'c \<Rightarrow> 's"

record 'h nats_msg =
  nm_subject :: string
  nm_header :: "'h option"
  nm_data :: payload

definition carrier_Get :: "('c, 'h, 's) tracing \<Rightarrow> 'h \<Rightarrow> string \<Rightarrow> string" where
  "carrier_Get T h key = tr_get T h key"

definition carrier_Set :: "('c, 'h, 's) tracing \<Rightarrow> string \<Rightarrow> string \<Rightarrow> 'h \<Rightarrow> 'h" where
  "carrier_Set T key val h = tr_set T h key val"

definition carrier_Keys :: "('c, 'h, 's) tracing \<Rightarrow> 'h \<Rightarrow> string list" where
  "carrier_Keys T h = tr_keys T h"

definition InjectNATS :: "('c, 'h, 's) tracing \<Rightarrow> 'c \<Rightarrow> 'h nats_msg \<Rightarrow> 'h nats_msg" where
  "InjectNATS T ctx msg =
     (let h = (case nm_header msg of None \<Rightarrow> tr_new T | Some h \<Rightarrow> h) in
      msg\<lparr>nm_header := Some (fold (\<lambda>(key, val). carrier_Set T key val) (tr_fields T ctx) h)\<rparr>)"

definition ExtractNATS :: "('c, 'h, 's) tracing \<Rightarrow> 'c \<Rightarrow> 'h option \<Rightarrow> 'c" where
  "ExtractNATS T ctx hdr = (case hdr of None \<Rightarrow> ctx | Some h \<Rightarrow> tr_extract T ctx (carrier_Get T h))"

text \<open>\<open>js.PublishMsg\<close>: the log of the world keeps the subject and the data of a message.\<close>

definition PublishMsg :: "'h nats_msg \<Rightarrow> unit res io" where
  "PublishMsg msg = publish (nm_subject msg) (nm_data msg)"

definition traced_msg :: "('c, 'h, 's) tracing \<Rightarrow> 'c \<Rightarrow> string \<Rightarrow> payload \<Rightarrow> 'h nats_msg" where
  "traced_msg T ctx subject data = InjectNATS T ctx \<lparr>nm_subject = subject, nm_header = None, nm_data = data\<rparr>"

text \<open>\<open>NATSPublisher.Publish\<close> of the gateway; its span ends with the call.\<close>

definition Publish :: "('c, 'h, 's) tracing \<Rightarrow> 'c \<Rightarrow> string \<Rightarrow> payload \<Rightarrow> unit res io" where
  "Publish T ctx subject data = PublishMsg (traced_msg T ctx subject data)"

section \<open>Tracing leaves the message alone\<close>

lemma InjectNATS_simps [simp]:
  "nm_subject (InjectNATS T ctx msg) = nm_subject msg" "nm_data (InjectNATS T ctx msg) = nm_data msg"
  by (simp_all add: InjectNATS_def Let_def)

lemma PublishMsg_traced [simp]: "PublishMsg (traced_msg T ctx subject data) = publish subject data"
  by (simp add: PublishMsg_def traced_msg_def)

lemma Publish_publish: "Publish T ctx = publish"
  by (simp add: Publish_def fun_eq_iff)

lemma forward_traced: "forward c n = PublishMsg (traced_msg T ctx (''events.ingest.'' @ c) (JsonBody n))"
  by (simp add: forward_def)

section \<open>What the consumer reads\<close>

text \<open>The documented behaviour of the two libraries: a header reads what was set last under a key and the empty
  string otherwise, and a propagator restores the span of a context that has one from its own fields.\<close>

definition tracing_laws :: "('c, 'h, 's) tracing \<Rightarrow> bool" where
  "tracing_laws T \<longleftrightarrow>
     (\<forall>k. tr_get T (tr_new T) k = []) \<and>
     (\<forall>h k v k'. tr_get T (tr_set T h k v) k' = (if k' = k then v else tr_get T h k')) \<and>
     (\<forall>ctx. distinct (map fst (tr_fields T ctx))) \<and>
     (\<forall>base ctx. tr_fields T ctx \<noteq> [] \<longrightarrow> tr_span T (tr_extract T base (sget (tr_fields T ctx))) = tr_span T ctx)"

lemma get_after_sets:
  assumes "tracing_laws T" and "distinct (map fst kvs)"
  shows "tr_get T (fold (\<lambda>(key, val). carrier_Set T key val) kvs h) k =
    (case map_of kvs k of None \<Rightarrow> tr_get T h k | Some v \<Rightarrow> v)"
  using assms(2)
proof (induction kvs arbitrary: h)
  case (Cons kv kvs)
  obtain a b where kv: "kv = (a, b)" by force
  have "a \<notin> dom (map_of kvs)" using Cons.prems by (simp add: kv dom_map_of_conv_image_fst)
  then have "map_of kvs a = None" by auto
  with Cons show ?case
    using assms(1) by (auto simp: kv carrier_Set_def tracing_laws_def split: option.split)
qed simp

lemma extract_traced:
  assumes "tracing_laws T"
  shows "ExtractNATS T base (nm_header (traced_msg T ctx subject data)) = tr_extract T base (sget (tr_fields T ctx))"
proof -
  have "distinct (map fst (tr_fields T ctx))" using assms by (simp add: tracing_laws_def)
  then have "carrier_Get T (fold (\<lambda>(key, val). carrier_Set T key val) (tr_fields T ctx) (tr_new T)) = sget (tr_fields T ctx)"
    using assms get_after_sets [OF assms, of "tr_fields T ctx" "tr_new T"]
    by (auto simp: fun_eq_iff carrier_Get_def sget_def tracing_laws_def split: option.split)
  then show ?thesis by (simp add: ExtractNATS_def traced_msg_def InjectNATS_def Let_def)
qed

text \<open>C34. A trace reaches the consumer: the message a publisher sends for a context with a span has the subject and
  the data it was given, and the context its consumer extracts from the message's headers has that span,
  whatever context the consumer starts from; without headers the consumer's context stays as it is.\<close>

theorem trace_reaches_consumer:
  assumes "tracing_laws T" and "tr_fields T ctx \<noteq> []"
  shows "tr_span T (ExtractNATS T base (nm_header (traced_msg T ctx subject data))) = tr_span T ctx \<and>
    Publish T ctx subject data = publish subject data \<and> ExtractNATS T base None = base"
  using assms by (simp add: extract_traced tracing_laws_def Publish_publish) (simp add: ExtractNATS_def)

text \<open>A context is the text of its \<open>traceparent\<close>, empty when there is none, and a header a list of entries.\<close>

definition demo_tracing :: "(string, (string \<times> string) list, string) tracing" where
  "demo_tracing =
     \<lparr>tr_new = [], tr_get = sget, tr_set = (\<lambda>h k v. (k, v) # h), tr_keys = map fst,
      tr_fields = (\<lambda>ctx. if ctx = [] then [] else [(''traceparent'', ctx)]),
      tr_extract = (\<lambda>base get. if get ''traceparent'' = [] then base else get ''traceparent''), tr_span = (\<lambda>ctx. ctx)\<rparr>"

theorem trace_reaches_consumer_witness:
  "tr_span demo_tracing (ExtractNATS demo_tracing ''00-other'' (nm_header (traced_msg demo_tracing ''00-abc'' ''schema.approved'' NoBody))) = ''00-abc''"
proof -
  have "tracing_laws demo_tracing"
    by (simp add: tracing_laws_def demo_tracing_def sget_def)
  moreover have "tr_fields demo_tracing ''00-abc'' \<noteq> []" by (simp add: demo_tracing_def)
  ultimately show ?thesis
    using trace_reaches_consumer [of demo_tracing "''00-abc''" "''00-other''"] by (simp add: demo_tracing_def)
qed

end
