(* ===== verification/Spec2Isabelle.thy ===== *)
theory Spec2Isabelle
  imports RegistryProps PlatformProps NormProps WebhookProps GatewayProps LifecycleProps PipelineProps RedeliveryProps
    JourneyProps StartupProps SystemProps MetricsProps OverlapProps TraceContext
begin

text \<open>
  A model of Signal Yard, an event ingestion platform of four Go services that share one Postgres database
  and one JetStream server, and the theorems that make it correct.

  The services. Agents and people reach the gateway (\<open>internal/coreapi\<close>): agents register, people issue API
  keys, agents send events, which go on the ingest stream. The webhook adapter (\<open>internal/webhook\<close>) turns
  signed payloads of other tools into events on the same stream. The normalizer (\<open>internal/normalizer\<close>)
  consumes the stream: it looks up the schema of an event's category in the registry, validates the
  payload and stores it, or quarantines the event. The registry (\<open>internal/registry\<close>) keeps versioned
  schemas and the review of proposals for new ones; an approval is announced on a stream, and the
  normalizer then replays what it had quarantined. \<open>internal/platform\<close> holds what the last three share:
  the identity behind a token, the role guard, CORS and JSON responses.

  How the model is built.

  \<open>Prelude\<close> has the scalar types (a UUID is a 128-bit word, a time is an integer of nanoseconds since the
  Unix epoch, a string is its UTF-8 bytes) and tables as lists of rows with the effect of the SQL verbs.
  \<open>GoLib\<close> models what the code uses of Go's standard library, JSON decoding into structs included, and
  the record \<open>libs\<close> of everything outside \<open>src/\<close> that is called as a function (HMAC, SHA-256, UUID and time
  syntax, JWT, JSON-schema validation, YAML, OIDC); a definition that uses one takes \<open>libs\<close> as its
  argument, and a theorem that needs a law of one names it (\<open>uuid_laws\<close>: a printed UUID parses back;
  \<open>time_laws\<close>: a printed time of a four-digit year parses back). \<open>Tables\<close> is the database of
  \<open>migrations/*.sql\<close>: a record per table and the keys and references it declares. \<open>Metrics\<close> is the
  prometheus counters the services register (\<open>metrics.go\<close>, \<open>server.go\<close>), \<open>Memory\<close> all that they keep in
  memory. \<open>Effects\<close> is the world and the state monad over it: SQL statements and transactions, publishing, HTTP calls, git, the clock, fresh UUIDs, random bytes. Each interaction reads
  from the world whether it works, has no effect, or takes effect and loses its acknowledgement, so a
  theorem about every world covers every pattern of failures; \<open>healthy\<close> is a world in which nothing
  fails. The locale \<open>run_relation\<close> is the contract of a relation between the worlds before and after a
  run; its interpretations (\<open>inv\<close>, \<open>grow\<close>, \<open>env\<close>, \<open>ro\<close>, \<open>sm\<close>) are invariants of the database, growth of the
  streams, the unchanged outside, read-only runs and unchanged memory. Each service then has a locale
  that extends it with the service's own statements (\<open>worker_relation\<close> and \<open>service_relation\<close>,
  \<open>adapter_relation\<close>, \<open>gateway_core\<close>, \<open>gateway_base\<close> and \<open>gateway_relation\<close>), proves once that every handler and any sequence
  of requests obeys such a relation, and is interpreted for each invariant below.

  The components, one theory or a few each:

  platform (\<open>auth.go\<close>, \<open>httpx.go\<close>, \<open>cors.go\<close>): \<open>Platform\<close>; properties in \<open>PlatformProps\<close>.

  configuration (\<open>config.go\<close> of the four services): \<open>Config\<close>, with what a loaded configuration guarantees.

  registry: \<open>RegistryStore\<close> (\<open>store.go\<close>), \<open>RegistryLaws\<close> (the database invariant \<open>db_inv\<close>, the contract
  \<open>schema_store\<close> of the versioned store and its interpretation), \<open>RegistryGit\<close> (\<open>git.go\<close>, paths included),
  \<open>RegistryApi\<close> (\<open>handlers.go\<close>, \<open>server.go\<close>, \<open>events.go\<close>), \<open>RegistryReview\<close> (what a review does in any world);
  \<open>RegistryProps\<close>.

  normalizer: \<open>SchemaCache\<close> (\<open>registry_client.go\<close>), \<open>NormStore\<close> (\<open>store.go\<close>), \<open>NormWorker\<close> (\<open>worker.go\<close>),
  \<open>NormApi\<close> (\<open>server.go\<close> and the service as one reactor over messages and requests), \<open>NormOutcome\<close>,
  \<open>NormReplay\<close> and \<open>NormCounts\<close> (outcomes, replay, counters); \<open>NormProps\<close>.

  webhook adapter: \<open>WebhookSign\<close> (\<open>verify.go\<close>), \<open>Webhook\<close> (\<open>normalize.go\<close>, \<open>store.go\<close>, \<open>server.go\<close>),
  \<open>WebhookOutcome\<close>; \<open>WebhookProps\<close>.

  gateway: \<open>GatewayStore\<close> (\<open>store.go\<close> and the migration loop of \<open>run\<close>), \<open>RateLimit\<close>
  (\<open>rate.go\<close>), \<open>GatewayAuth\<close> (\<open>auth.go\<close>), \<open>GatewayManifest\<close> (\<open>manifest.go\<close>), \<open>GatewayApi\<close> (\<open>handlers.go\<close>,
  \<open>server.go\<close>, \<open>openapi.go\<close>), \<open>GatewayLaws\<close> (what every run keeps), \<open>GatewayOutcome\<close>, \<open>GatewayCollect\<close>,
  \<open>GatewayKeys\<close>, \<open>GatewayRate\<close> and \<open>GatewayMigrate\<close> (outcomes); \<open>GatewayProps\<close>, \<open>LifecycleProps\<close>.

  processes: \<open>Connect\<close> (telemetry, connection pools, NATS connections with their streams and consumers, the schema
  repository: \<open>telemetry.go\<close>, \<open>publisher.go\<close>, \<open>events.go\<close>, \<open>git.go\<close>, \<open>worker.go\<close>, \<open>NewStore\<close> of the four stores), \<open>Startup\<close>
  (\<open>run\<close> of the four \<open>cmd/*/main.go\<close>, with what it defers), \<open>StartupLaws\<close> (plans: what a process does to its
  surroundings, and what it owes back), \<open>StartupState\<close> (what holds of the database once it listens);
  \<open>StartupProps\<close>.

  across services: \<open>GatewayPipeline\<close>, \<open>PipelineProps\<close> (from a producer to the record), \<open>Redelivery\<close>, \<open>RedeliveryProps\<close>
  (JetStream delivering a message until it is acknowledged), \<open>JourneyProps\<close> (an accepted event's whole way), \<open>DbOrder\<close> (preorders on the database), \<open>System\<close> and
  \<open>SystemProps\<close> (the four services taking turns on one database, and the subjects of their messages).

  observation and concurrency: \<open>MetricsLaws\<close> and \<open>MetricsProps\<close> (what the counters count; the locale \<open>ledger\<close>
  books a run request by request), \<open>TraceContext\<close> (\<open>natsHeaderCarrier\<close>, \<open>InjectNATS\<close>, \<open>ExtractNATS\<close> of \<open>telemetry.go\<close>
  and the publisher's \<open>Publish\<close>), \<open>OverlapProps\<close> (two handlers in flight at once).

  \<open>DemoLibs\<close>, \<open>Demo\<close>, \<open>NormDemo\<close> and \<open>GatewayDemo\<close> are the concrete worlds the witnesses evaluate.

  What the theorems show. For each service, that every operation keeps the declared constraints of the whole
  database and what the service promises over time, whatever is requested and whatever fails: schema
  versions stay 1..n with the last one active, decisions of reviews and the audit log stand, stored
  events and quarantined envelopes are never lost, forwarded deliveries stay forwarded, keys stay
  revoked and roles stay as they are. For the operations, what each answer means: what an approval, a
  rejection, an acknowledged message, a webhook's answer, a collect request and an issued key have done
  when they report success, and that they succeed in a healthy world. For the guards, that nothing
  changes unless the caller holds the credential: \<open>caller_of\<close> and the locale contracts are the abstract
  specifications the code refines. For the rate limiter, a bound on what an agent gets onto the stream
  over any run. For the composition, that what the gateway and the adapter publish decodes at the
  normalizer and ends in the events table or in the quarantine. For redelivery, that a fitting message is
  acknowledged after finitely many deliveries once the outside recovers, and which message never is; with the
  composition, that an accepted event whose payload fits is recorded as it was requested. For the
  platform, that no order of requests, failures and restarts of the services undoes its history. For the
  processes, that every path through \<open>run\<close> follows a plan and gives back what it acquired, and that a process
  listens only when it is ready. The theorems \<open>approve_race_orphan\<close>, \<open>redelivery_stores_again\<close>,
  \<open>concurrent_retries_publish_twice\<close>, \<open>processed_counter_empty\<close>, \<open>unparseable_only_counted\<close>,
  \<open>orphaned_message_never_acked\<close> and \<open>otlp_never_consumed\<close> state behaviour that is not what the code's comments and documents promise.

  Bounds. There is no fuel: every loop of the code runs over a finite list, and redelivery, which may go on for
  ever, is a partial function whose result \<open>None\<close> means that it does. Times, counters and \<open>INTEGER\<close> columns
  are unbounded integers; \<open>strconv.Atoi\<close> and JSON integers are cut at 64 bits; request bodies are cut
  where the code cuts them.

  What is not modelled. Concurrency within a service: requests and messages are handled one after another,
  except where a theorem interleaves two reviews or two retries; \<open>TouchAPIKey\<close> runs before the handler instead of
  beside it, and the worker of the normalizer subscribes and stops in a fixed order with respect to the HTTP
  server it runs beside. What Postgres, NATS, git and the OTLP collector do: an act on one of them succeeds or
  fails as the world says, and only its place in the log \<open>w_acts\<close> is kept. Logging, spans, and the
  headers of a message once it is on a stream: \<open>TraceContext\<close> follows them from a publisher to its consumer, the
  other theories publish without them. Headers of outgoing HTTP requests. Failures of reading a request body, of
  \<open>rand.Read\<close> and of HS256 signing. The order of
  members in JSON objects and the rounding of JSON numbers and of \<open>float64\<close> arithmetic. The columns no
  query names, indexes, and the microsecond rounding of stored times. The text of the embedded OpenAPI document.
\<close>

end
